(* ===== verification/Prelude.thy ===== *)
theory Prelude
  imports Main "HOL-Library.AList" "HOL-Library.List_Lexorder" "HOL-Library.Char_ord"
    "HOL-Library.Multiset"
begin

text \<open>
  The prelude of the development: the pieces of Python's language and standard library that
  every component uses. A \<open>str\<close> is a list of ASCII characters (\<open>string\<close>), a \<open>dict\<close> is an
  association list in insertion order (\<^theory_text>\<open>AList.update\<close> keeps a key where it is and
  appends a new one, as CPython does), an optional value is an \<open>option\<close>, a raised exception is
  the left side of a sum. Case mapping and white space follow Python on ASCII text; text outside
  ASCII is outside the model.
\<close>

named_theorems str_simps \<open>evaluation rules of the string operations\<close>
named_theorems dict_simps \<open>rules about association lists used as dictionaries\<close>

section \<open>Optional values\<close>

text \<open>\<open>a or b\<close> where \<open>a\<close> is an optional value that is true whenever it is present.\<close>

definition or_else :: "'a option \<Rightarrow> 'a option \<Rightarrow> 'a option" where
  "or_else a b = (case a of None \<Rightarrow> b | Some x \<Rightarrow> Some x)"

text \<open>\<open>bool(s)\<close> and \<open>s or t\<close> for an optional string: None and the empty string are false.\<close>

definition truthy_str :: "string option \<Rightarrow> bool" where
  "truthy_str s = (case s of None \<Rightarrow> False | Some t \<Rightarrow> t \<noteq> [])"

definition or_str :: "string option \<Rightarrow> string \<Rightarrow> string" where
  "or_str s t = (case s of None \<Rightarrow> t | Some u \<Rightarrow> (if u = [] then t else u))"

definition or_int :: "int option \<Rightarrow> int \<Rightarrow> int" where
  "or_int n d = (case n of None \<Rightarrow> d | Some k \<Rightarrow> (if k = 0 then d else k))"

lemma or_else_simps [simp]:
  "or_else None b = b" "or_else (Some x) b = Some x"
  by (simp_all add: or_else_def)

lemma or_else_None_right [simp]: "or_else a None = a"
  by (cases a) auto

lemma or_else_None_iff [simp]: "or_else a b = None \<longleftrightarrow> a = None \<and> b = None"
  by (cases a) auto

lemma truthy_str_simps [simp]:
  "truthy_str None = False" "truthy_str (Some t) = (t \<noteq> [])"
  by (simp_all add: truthy_str_def)

lemma truthy_strE:
  assumes "truthy_str s" obtains t where "s = Some t" "t \<noteq> []"
  using assms by (cases s) auto

lemma or_str_simps [simp]:
  "or_str None t = t" "or_str (Some []) t = t" "u \<noteq> [] \<Longrightarrow> or_str (Some u) t = u"
  by (simp_all add: or_str_def)

lemma or_str_truthy: "truthy_str s \<Longrightarrow> or_str s t = the s"
  by (cases s) auto

lemma or_str_falsy: "\<not> truthy_str s \<Longrightarrow> or_str s t = t"
  by (cases s) auto

lemma or_int_nonneg: "0 \<le> d \<Longrightarrow> (\<And>k. n = Some k \<Longrightarrow> 0 \<le> k) \<Longrightarrow> 0 \<le> or_int n d"
  by (auto simp: or_int_def split: option.split)

section \<open>Results\<close>

text \<open>The exceptions the code raises or catches; the text is the message.\<close>

datatype pyexc =
    ValueError string
  | TypeError string
  | KeyError string
  | RuntimeError string
  | ImportError string
  | OperationalError string
  | OSError string
  | EOFError
  | ValidationError
  | OtherError string

text \<open>Sequencing: the first exception ends the computation.\<close>

definition ebind :: "'e + 'a \<Rightarrow> ('a \<Rightarrow> 'e + 'b) \<Rightarrow> 'e + 'b" where
  "ebind r f = (case r of Inl e \<Rightarrow> Inl e | Inr x \<Rightarrow> f x)"

fun efold :: "('x \<Rightarrow> 's \<Rightarrow> 'e + 's) \<Rightarrow> 'x list \<Rightarrow> 's \<Rightarrow> 'e + 's" where
  "efold f [] s = Inr s"
| "efold f (x # xs) s = ebind (f x s) (efold f xs)"

lemma ebind_simps [simp]: "ebind (Inl e) f = Inl e" "ebind (Inr x) f = f x"
  by (simp_all add: ebind_def)

lemma ebind_Inr_iff: "ebind r f = Inr y \<longleftrightarrow> (\<exists>x. r = Inr x \<and> f x = Inr y)"
  by (cases r) auto

section \<open>Dictionaries\<close>

type_synonym ('k, 'v) pydict = "('k \<times> 'v) list"

abbreviation dget :: "('k, 'v) pydict \<Rightarrow> 'k \<Rightarrow> 'v option" where
  "dget d k \<equiv> map_of d k"

abbreviation dset :: "'k \<Rightarrow> 'v \<Rightarrow> ('k, 'v) pydict \<Rightarrow> ('k, 'v) pydict" where
  "dset k v d \<equiv> AList.update k v d"

abbreviation dpop :: "'k \<Rightarrow> ('k, 'v) pydict \<Rightarrow> ('k, 'v) pydict" where
  "dpop k d \<equiv> AList.delete k d"

definition dget_or :: "('k, 'v) pydict \<Rightarrow> 'k \<Rightarrow> 'v \<Rightarrow> 'v" where
  "dget_or d k v = (case dget d k of None \<Rightarrow> v | Some x \<Rightarrow> x)"

definition dkeys :: "('k, 'v) pydict \<Rightarrow> 'k list" where
  "dkeys d = map fst d"

definition dvalues :: "('k, 'v) pydict \<Rightarrow> 'v list" where
  "dvalues d = map snd d"

text \<open>A well-formed dictionary holds each key once.\<close>

definition dict_ok :: "('k, 'v) pydict \<Rightarrow> bool" where
  "dict_ok d = distinct (map fst d)"

lemma dget_dset [simp]: "dget (dset k v d) k' = (if k' = k then Some v else dget d k')"
  by (simp add: update_conv')

lemma dget_dpop [simp]: "dget (dpop k d) k' = (if k' = k then None else dget d k')"
  by (simp add: delete_conv')

lemma dget_or_dset: "dget_or (dset k v d) k' e = (if k' = k then v else dget_or d k' e)"
  by (simp add: dget_or_def)

lemma dget_or_dpop: "dget_or (dpop k d) k' e = (if k' = k then e else dget_or d k' e)"
  by (simp add: dget_or_def)

lemma dict_ok_Nil [simp]: "dict_ok []"
  by (simp add: dict_ok_def)

lemma dict_ok_dset [simp]: "dict_ok d \<Longrightarrow> dict_ok (dset k v d)"
  by (simp add: dict_ok_def distinct_update)

lemma dict_ok_dpop [simp]: "dict_ok d \<Longrightarrow> dict_ok (dpop k d)"
  unfolding dict_ok_def by (rule distinct_delete)

lemma set_keys_dset [simp]: "fst ` set (dset k v d) = insert k (fst ` set d)"
  by (induction d) auto

lemma set_keys_dpop [simp]: "fst ` set (dpop k d) = fst ` set d - {k}"
  by (induction d) auto

lemma dset_new: "k \<notin> fst ` set d \<Longrightarrow> dset k v d = d @ [(k, v)]"
  by (induction d) auto

lemma map_fst_dset:
  "map fst (dset k v d) = (if k \<in> fst ` set d then map fst d else map fst d @ [k])"
  by (induction d) auto

lemmas dict_facts = dget_or_dset dget_or_dpop dset_new map_fst_dset
declare dict_facts [dict_simps]

section \<open>Strings\<close>

definition is_upper :: "char \<Rightarrow> bool" where
  "is_upper c = (65 \<le> (of_char c :: nat) \<and> (of_char c :: nat) \<le> 90)"

definition is_lower :: "char \<Rightarrow> bool" where
  "is_lower c = (97 \<le> (of_char c :: nat) \<and> (of_char c :: nat) \<le> 122)"

definition is_digit :: "char \<Rightarrow> bool" where
  "is_digit c = (48 \<le> (of_char c :: nat) \<and> (of_char c :: nat) \<le> 57)"

definition is_alpha :: "char \<Rightarrow> bool" where
  "is_alpha c = (is_upper c \<or> is_lower c)"

text \<open>\<open>str.isspace\<close> on ASCII: tab to carriage return, the separators 28 to 31, and blank.\<close>

definition is_space :: "char \<Rightarrow> bool" where
  "is_space c = (let n = (of_char c :: nat) in (9 \<le> n \<and> n \<le> 13) \<or> (28 \<le> n \<and> n \<le> 32))"

definition lower_char :: "char \<Rightarrow> char" where
  "lower_char c = (if is_upper c then char_of ((of_char c :: nat) + 32) else c)"

definition upper_char :: "char \<Rightarrow> char" where
  "upper_char c = (if is_lower c then char_of ((of_char c :: nat) - 32) else c)"

definition py_lower :: "string \<Rightarrow> string" where
  "py_lower s = map lower_char s"

definition py_upper :: "string \<Rightarrow> string" where
  "py_upper s = map upper_char s"

definition lstrip_by :: "(char \<Rightarrow> bool) \<Rightarrow> string \<Rightarrow> string" where
  "lstrip_by p s = dropWhile p s"

definition rstrip_by :: "(char \<Rightarrow> bool) \<Rightarrow> string \<Rightarrow> string" where
  "rstrip_by p s = rev (dropWhile p (rev s))"

definition py_strip :: "string \<Rightarrow> string" where
  "py_strip s = rstrip_by is_space (lstrip_by is_space s)"

fun starts_with :: "string \<Rightarrow> string \<Rightarrow> bool" where
  "starts_with [] s = True"
| "starts_with (p # ps) [] = False"
| "starts_with (p # ps) (c # s) = (p = c \<and> starts_with ps s)"

definition ends_with :: "string \<Rightarrow> string \<Rightarrow> bool" where
  "ends_with p s = starts_with (rev p) (rev s)"

text \<open>\<open>pat in text\<close>.\<close>

fun str_in :: "string \<Rightarrow> string \<Rightarrow> bool" where
  "str_in p [] = (p = [])"
| "str_in p (c # s) = (starts_with p (c # s) \<or> str_in p s)"

text \<open>\<open>text.split(c)\<close> for a separator of one character: always at least one part.\<close>

fun split_on :: "char \<Rightarrow> string \<Rightarrow> string list" where
  "split_on c [] = [[]]"
| "split_on c (x # xs) =
     (if x = c then [] # split_on c xs
      else case split_on c xs of [] \<Rightarrow> [[x]] | p # ps \<Rightarrow> (x # p) # ps)"

text \<open>\<open>text.split()\<close>: the maximal runs without white space.\<close>

fun split_ws :: "string \<Rightarrow> string list" where
  "split_ws [] = []"
| "split_ws (x # xs) =
     (if is_space x then split_ws xs
      else case xs of
          [] \<Rightarrow> [[x]]
        | y # _ \<Rightarrow> (if is_space y then [x] # split_ws xs
                   else case split_ws xs of [] \<Rightarrow> [[x]] | p # ps \<Rightarrow> (x # p) # ps))"

text \<open>\<open>text.replace(a, b)\<close> for a separator of one character.\<close>

definition replace_char :: "char \<Rightarrow> string \<Rightarrow> string \<Rightarrow> string" where
  "replace_char a b s = concat (map (\<lambda>c. if c = a then b else [c]) s)"

text \<open>\<open>text.replace(pat, '')\<close> for a non-empty pattern, from left to right.\<close>

function remove_all :: "string \<Rightarrow> string \<Rightarrow> string" where
  "remove_all p [] = []"
| "remove_all p (c # s) =
     (if p \<noteq> [] \<and> starts_with p (c # s) then remove_all p (drop (length p) (c # s))
      else c # remove_all p s)"
  by pat_completeness auto
termination
  by (relation "measure (\<lambda>(p, s). length s)") (auto simp: neq_Nil_conv)

text \<open>\<open>text.partition(c)\<close> up to the separator: head and rest, with the separator dropped.\<close>

definition before :: "char \<Rightarrow> string \<Rightarrow> string" where
  "before c s = takeWhile (\<lambda>x. x \<noteq> c) s"

definition after :: "char \<Rightarrow> string \<Rightarrow> string" where
  "after c s = drop 1 (dropWhile (\<lambda>x. x \<noteq> c) s)"

text \<open>\<open>text.rpartition(c)\<close> when the separator occurs: the part before and after its last occurrence.\<close>

definition rbefore :: "char \<Rightarrow> string \<Rightarrow> string" where
  "rbefore c s = rev (after c (rev s))"

definition rafter :: "char \<Rightarrow> string \<Rightarrow> string" where
  "rafter c s = rev (before c (rev s))"

text \<open>\<open>str(n)\<close> of a natural number.\<close>

fun show_nat :: "nat \<Rightarrow> string" where
  "show_nat n = (if n < 10 then [char_of (n + 48)] else show_nat (n div 10) @ [char_of (n mod 10 + 48)])"

declare show_nat.simps [simp del]

definition show_int :: "int \<Rightarrow> string" where
  "show_int n = (if n < 0 then CHR ''-'' # show_nat (nat (- n)) else show_nat (nat n))"

lemma starts_with_append [simp]: "starts_with p (p @ s)"
  by (induction p) auto

lemma starts_with_iff: "starts_with p s \<longleftrightarrow> (\<exists>t. s = p @ t)"
proof (induction p s rule: starts_with.induct)
  case (3 p ps c s)
  then show ?case by auto
qed auto

lemma str_in_iff: "str_in p s \<longleftrightarrow> (\<exists>u v. s = u @ p @ v)"
proof (induction s)
  case Nil
  then show ?case by simp
next
  case (Cons c s)
  show ?case
  proof
    assume "str_in p (c # s)"
    then consider t where "c # s = p @ t" | u v where "s = u @ p @ v"
      using Cons.IH by (auto simp: starts_with_iff)
    then show "\<exists>u v. c # s = u @ p @ v"
      by cases (metis append_Nil, metis append_Cons)
  next
    assume "\<exists>u v. c # s = u @ p @ v"
    then obtain u v where uv: "c # s = u @ p @ v" by blast
    show "str_in p (c # s)"
    proof (cases u)
      case Nil
      with uv show ?thesis unfolding str_in.simps starts_with_iff by simp
    next
      case (Cons a w)
      with uv Cons.IH show ?thesis by auto
    qed
  qed
qed

lemma str_in_append: "str_in p (u @ p @ v)"
  by (auto simp: str_in_iff)

lemma before_append [simp]: "c \<notin> set u \<Longrightarrow> before c (u @ c # v) = u"
  unfolding before_def by (subst takeWhile_append2) auto

lemma after_append [simp]: "c \<notin> set u \<Longrightarrow> after c (u @ c # v) = v"
  unfolding after_def by (subst dropWhile_append2) auto

lemma before_after: "c \<in> set s \<Longrightarrow> s = before c s @ c # after c s"
proof -
  assume "c \<in> set s"
  then obtain u v where "s = u @ c # v" "c \<notin> set u"
    by (meson split_list_first)
  then show ?thesis by simp
qed

lemma rbefore_append [simp]: "c \<notin> set v \<Longrightarrow> rbefore c (u @ c # v) = u"
  by (simp add: rbefore_def)

lemma rafter_append [simp]: "c \<notin> set v \<Longrightarrow> rafter c (u @ c # v) = v"
  by (simp add: rafter_def)

lemma split_on_nonempty [simp]: "split_on c s \<noteq> []"
  by (induction s) (auto split: list.splits)

lemma split_on_none: "c \<notin> set s \<Longrightarrow> split_on c s = [s]"
  by (induction s) auto

lemma length_py_lower [simp]: "length (py_lower s) = length s"
  by (simp add: py_lower_def)

lemma py_lower_append [simp]: "py_lower (s @ t) = py_lower s @ py_lower t"
  by (simp add: py_lower_def)

lemmas str_defs = is_upper_def is_lower_def is_digit_def is_alpha_def is_space_def
  lower_char_def upper_char_def py_lower_def py_upper_def lstrip_by_def rstrip_by_def
  py_strip_def ends_with_def replace_char_def before_def after_def rbefore_def rafter_def
declare str_defs [str_simps]

section \<open>Lists\<close>

text \<open>\<open>sorted(xs, key=f)\<close> is stable, as \<^const>\<open>sort_key\<close> is; with \<open>reverse=True\<close> Python keeps the
  order of equal elements too.\<close>

definition sort_desc_key :: "('a \<Rightarrow> 'b::linorder) \<Rightarrow> 'a list \<Rightarrow> 'a list" where
  "sort_desc_key f xs = rev (sort_key f (rev xs))"

definition sort_asc_key :: "('a \<Rightarrow> 'b::linorder) \<Rightarrow> 'a list \<Rightarrow> 'a list" where
  "sort_asc_key f xs = sort_key f xs"

lemma set_sort_asc_key [simp]: "set (sort_asc_key f xs) = set xs"
  by (simp add: sort_asc_key_def)

lemma mset_sort_asc_key [simp]: "mset (sort_asc_key f xs) = mset xs"
  by (simp add: sort_asc_key_def)

lemma sorted_sort_asc_key: "sorted (map f (sort_asc_key f xs))"
  by (simp add: sort_asc_key_def)

lemma set_sort_desc_key [simp]: "set (sort_desc_key f xs) = set xs"
  by (simp add: sort_desc_key_def)

lemma length_sort_desc_key [simp]: "length (sort_desc_key f xs) = length xs"
  by (simp add: sort_desc_key_def)

lemma mset_sort_desc_key [simp]: "mset (sort_desc_key f xs) = mset xs"
  by (simp add: sort_desc_key_def)

lemma sorted_sort_desc_key: "sorted (rev (map f (sort_desc_key f xs)))"
  by (simp add: sort_desc_key_def rev_map)

lemma sum_list_filter_split:
  "sum_list (map f (filter P xs)) + sum_list (map f (filter (\<lambda>x. \<not> P x) xs)) =
   (sum_list (map f xs) :: 'b::comm_monoid_add)"
  by (induction xs) (auto simp: ac_simps)

lemma length_filter_split: "length (filter P xs) + length (filter (\<lambda>x. \<not> P x) xs) = length xs"
  by (induction xs) auto

text \<open>Folding a step that keeps a property keeps it.\<close>

lemma fold_invariant: "P s \<Longrightarrow> (\<And>x s. x \<in> set xs \<Longrightarrow> P s \<Longrightarrow> P (f x s)) \<Longrightarrow> P (fold f xs s)"
  by (induction xs arbitrary: s) auto

end
