(* ===== verification/Domain.thy ===== *)
theory Domain
  imports Complex_Main Prelude
begin

text \<open>
  The data the program passes around. \<open>pyval\<close> is a dynamically typed Python value (the payloads
  of Celery events, of backend metadata and of inspector replies); \<open>pydt\<close> is a \<open>datetime\<close>; the
  records are the pydantic models of celery_root/shared/schemas/domain.py, field by field (the
  alias \<open>kwargs_\<close> is the field \<open>kwargs\<close>). Floats are exact rationals: rounding, infinities and NaN
  are outside the model.
\<close>

section \<open>Dates\<close>

text \<open>
  A datetime is its wall clock, in microseconds since 1970-01-01T00:00, and its UTC offset in
  microseconds, None for a naive one.
\<close>

datatype pydt = DT (dt_local: int) (dt_off: "int option")

definition utc_dt :: "int \<Rightarrow> pydt" where
  "utc_dt t = DT t (Some 0)"

text \<open>\<open>value.replace(tzinfo=UTC)\<close> keeps the wall clock.\<close>

definition with_utc :: "pydt \<Rightarrow> pydt" where
  "with_utc d = DT (dt_local d) (Some 0)"

definition is_aware :: "pydt \<Rightarrow> bool" where
  "is_aware d = (dt_off d \<noteq> None)"

text \<open>The instant of an aware datetime; Python compares and subtracts aware datetimes by it.\<close>

definition dt_instant :: "pydt \<Rightarrow> int" where
  "dt_instant d = dt_local d - (case dt_off d of None \<Rightarrow> 0 | Some o' \<Rightarrow> o')"

text \<open>The calendar fields: 1970-01-01 was a Thursday, and \<open>weekday()\<close> counts from Monday = 0.\<close>

definition us_per_second :: int where "us_per_second = 1000000"
definition us_per_hour :: int where "us_per_hour = 3600 * us_per_second"
definition us_per_day :: int where "us_per_day = 24 * us_per_hour"

definition dt_hour :: "pydt \<Rightarrow> nat" where
  "dt_hour d = nat ((dt_local d mod us_per_day) div us_per_hour)"

definition dt_weekday :: "pydt \<Rightarrow> nat" where
  "dt_weekday d = nat ((dt_local d div us_per_day + 3) mod 7)"

lemmas us_defs = us_per_second_def us_per_hour_def us_per_day_def

lemma dt_hour_less: "dt_hour d < 24"
proof -
  have "dt_local d mod us_per_day < 24 * us_per_hour"
    by (simp add: us_defs)
  then have "(dt_local d mod us_per_day) div us_per_hour < 24"
    by (simp add: us_defs)
  then show ?thesis by (simp add: dt_hour_def us_defs nat_less_iff)
qed

lemma dt_weekday_less: "dt_weekday d < 7"
  by (simp add: dt_weekday_def nat_less_iff)

text \<open>\<open>round(x)\<close> of a rational: to the nearest integer, ties to the even one.\<close>

definition round_half_even :: "rat \<Rightarrow> int" where
  "round_half_even x =
     (let f = \<lfloor>x\<rfloor>; r = x - of_int f
      in if r < 1 / 2 then f else if 1 / 2 < r then f + 1 else if even f then f else f + 1)"

text \<open>The years 1 to 9999.\<close>

definition min_local :: int where "min_local = -62135596800000000"
definition max_local :: int where "max_local = 253402300799999999"

text \<open>\<open>datetime.fromtimestamp(x, tz=UTC)\<close>: seconds to microseconds, rounded half to even; outside the
  range of dates it raises.\<close>

definition from_timestamp :: "rat \<Rightarrow> pyexc + pydt" where
  "from_timestamp x = (let t = round_half_even (x * 1000000) in
     if min_local \<le> t \<and> t \<le> max_local then Inr (utc_dt t) else Inl (ValueError ''year is out of range''))"

section \<open>Dynamic values\<close>

datatype pyval =
    PNone
  | PBool bool
  | PInt int
  | PFloat rat
  | PStr string
  | PList "pyval list"
  | PTuple "pyval list"
  | PSet "pyval list"
  | PDict "(pyval \<times> pyval) list"
  | PDatetime pydt
  | PModel string

text \<open>\<open>event.get(key)\<close> with a string key: a missing key reads as None.\<close>

definition pget :: "(pyval \<times> pyval) list \<Rightarrow> string \<Rightarrow> pyval" where
  "pget d k = (case dget d (PStr k) of None \<Rightarrow> PNone | Some v \<Rightarrow> v)"

definition phas :: "(pyval \<times> pyval) list \<Rightarrow> string \<Rightarrow> bool" where
  "phas d k = (dget d (PStr k) \<noteq> None)"

text \<open>\<open>bool(value)\<close>; instances of other classes count as true.\<close>

fun truthy :: "pyval \<Rightarrow> bool" where
  "truthy PNone = False"
| "truthy (PBool b) = b"
| "truthy (PInt n) = (n \<noteq> 0)"
| "truthy (PFloat x) = (x \<noteq> 0)"
| "truthy (PStr s) = (s \<noteq> [])"
| "truthy (PList xs) = (xs \<noteq> [])"
| "truthy (PTuple xs) = (xs \<noteq> [])"
| "truthy (PSet xs) = (xs \<noteq> [])"
| "truthy (PDict d) = (d \<noteq> [])"
| "truthy (PDatetime t) = True"
| "truthy (PModel m) = True"

definition por :: "pyval \<Rightarrow> pyval \<Rightarrow> pyval" where
  "por a b = (if truthy a then a else b)"

text \<open>\<open>isinstance(value, int)\<close>: a bool is an int in Python.\<close>

fun as_int :: "pyval \<Rightarrow> int option" where
  "as_int (PInt n) = Some n"
| "as_int (PBool b) = Some (if b then 1 else 0)"
| "as_int _ = None"

text \<open>\<open>isinstance(value, int | float)\<close> and its numeric value.\<close>

fun as_number :: "pyval \<Rightarrow> rat option" where
  "as_number (PInt n) = Some (of_int n)"
| "as_number (PBool b) = Some (if b then 1 else 0)"
| "as_number (PFloat x) = Some x"
| "as_number _ = None"

text \<open>
  The text conversions of the interpreter that the code calls and whose output format the model
  leaves open: \<open>str(value)\<close> of a value that is not a string, \<open>json.dumps\<close> plain, with
  the listener's \<open>default\<close> and with \<open>default=str\<close> (None when it raises), \<open>json.loads\<close> (None when it raises), \<open>float(text)\<close>, \<open>int(text)\<close> and
  \<open>datetime.fromisoformat\<close> (None when they raise ValueError). Every definition that formats or
  parses takes them as a parameter, so its theorems hold for any of them.
\<close>

record pyrt =
  rt_str :: "pyval \<Rightarrow> string"
  rt_dumps :: "pyval \<Rightarrow> string option"
  rt_dumps_any :: "pyval \<Rightarrow> string option"
  rt_dumps_str :: "pyval \<Rightarrow> string option"
  rt_loads :: "string \<Rightarrow> pyval option"
  rt_float :: "string \<Rightarrow> rat option"
  rt_int :: "string \<Rightarrow> int option"
  rt_iso :: "string \<Rightarrow> pydt option"

definition py_str :: "pyrt \<Rightarrow> pyval \<Rightarrow> string" where
  "py_str rt v = (case v of PStr s \<Rightarrow> s | _ \<Rightarrow> rt_str rt v)"

lemma py_str_PStr [simp]: "py_str rt (PStr s) = s"
  by (simp add: py_str_def)

text \<open>
  What the code relies on of the JSON library for a list of strings: it is printed, and reading
  the text back gives the list again.
\<close>

definition json_list_ok :: "pyrt \<Rightarrow> bool" where
  "json_list_ok rt = (\<forall>xs. \<exists>t. rt_dumps rt (PList (map PStr xs)) = Some t \<and>
     rt_loads rt t = Some (PList (map PStr xs)))"

section \<open>The stored and transmitted records\<close>

record time_range =
  tr_start :: pydt
  tr_end :: pydt

record task_event =
  te_task_id :: string
  te_name :: "string option"
  te_state :: string
  te_timestamp :: pydt
  te_worker :: "string option"
  te_args :: "string option"
  te_kwargs :: "string option"
  te_result :: "string option"
  te_traceback :: "string option"
  te_stamps :: "string option"
  te_runtime :: "rat option"
  te_retries :: "int option"
  te_eta :: "pydt option"
  te_expires :: "pydt option"
  te_parent_id :: "string option"
  te_root_id :: "string option"
  te_group_id :: "string option"
  te_chord_id :: "string option"

record worker_event =
  we_hostname :: string
  we_event :: string
  we_timestamp :: pydt
  we_info :: "(pyval \<times> pyval) list option"
  we_broker_url :: "string option"

record broker_queue_event =
  bq_broker_url :: string
  bq_queue :: string
  bq_messages :: "int option"
  bq_consumers :: "int option"
  bq_timestamp :: pydt

record task =
  tk_task_id :: string
  tk_name :: "string option"
  tk_state :: string
  tk_worker :: "string option"
  tk_received :: "pydt option"
  tk_started :: "pydt option"
  tk_finished :: "pydt option"
  tk_runtime :: "rat option"
  tk_args :: "string option"
  tk_kwargs :: "string option"
  tk_result :: "string option"
  tk_traceback :: "string option"
  tk_stamps :: "string option"
  tk_retries :: "int option"
  tk_parent_id :: "string option"
  tk_root_id :: "string option"
  tk_group_id :: "string option"
  tk_chord_id :: "string option"

record worker =
  wk_hostname :: string
  wk_status :: string
  wk_last_heartbeat :: "pydt option"
  wk_pool_size :: "int option"
  wk_active_tasks :: "int option"
  wk_registered_tasks :: "string list option"
  wk_queues :: "string list option"
  wk_broker_url :: "string option"

record schedule =
  sc_schedule_id :: string
  sc_name :: string
  sc_task :: string
  sc_schedule :: string
  sc_args :: "string option"
  sc_kwargs :: "string option"
  sc_enabled :: bool
  sc_last_run_at :: "pydt option"
  sc_total_run_count :: "int option"
  sc_app :: "string option"

record task_relation =
  rel_root_id :: string
  rel_parent_id :: "string option"
  rel_child_id :: string
  rel_relation :: string

record task_filter =
  tf_task_name :: "string option"
  tf_state :: "string option"
  tf_worker :: "string option"
  tf_time_range :: "time_range option"
  tf_search :: "string option"
  tf_group_id :: "string option"
  tf_root_id :: "string option"

record task_stats =
  st_count :: nat
  st_min_runtime :: "rat option"
  st_max_runtime :: "rat option"
  st_avg_runtime :: "rat option"
  st_p50 :: "rat option"
  st_p95 :: "rat option"
  st_p99 :: "rat option"

record throughput_bucket =
  tb_bucket_start :: pydt
  tb_count :: nat

text \<open>The models with every optional field at its default.\<close>

definition no_filter :: task_filter where
  "no_filter = \<lparr>tf_task_name = None, tf_state = None, tf_worker = None, tf_time_range = None,
     tf_search = None, tf_group_id = None, tf_root_id = None\<rparr>"

definition new_task_event :: "string \<Rightarrow> string option \<Rightarrow> string \<Rightarrow> pydt \<Rightarrow> task_event" where
  "new_task_event i n s t = \<lparr>te_task_id = i, te_name = n, te_state = s, te_timestamp = t,
     te_worker = None, te_args = None, te_kwargs = None, te_result = None, te_traceback = None,
     te_stamps = None, te_runtime = None, te_retries = None, te_eta = None, te_expires = None,
     te_parent_id = None, te_root_id = None, te_group_id = None, te_chord_id = None\<rparr>"

definition empty_stats :: "nat \<Rightarrow> task_stats" where
  "empty_stats n = \<lparr>st_count = n, st_min_runtime = None, st_max_runtime = None,
     st_avg_runtime = None, st_p50 = None, st_p95 = None, st_p99 = None\<rparr>"

text \<open>
  \<open>_coerce_dt\<close>: a naive datetime is read as UTC, an aware one is kept; the same function under
  other names in celery_root/components/beat/controller.py.
\<close>

definition coerce_dt :: "pydt option \<Rightarrow> pydt option" where
  "coerce_dt v = (case v of
       None \<Rightarrow> None
     | Some d \<Rightarrow> Some (if dt_off d = None then with_utc d else d))"

lemma coerce_dt_None_iff [simp]: "coerce_dt v = None \<longleftrightarrow> v = None"
  by (simp add: coerce_dt_def split: option.splits)

lemma coerce_dt_aware: "coerce_dt v = Some d \<Longrightarrow> is_aware d"
  by (auto simp: coerce_dt_def is_aware_def with_utc_def split: option.splits if_splits)

lemma coerce_dt_idem [simp]: "coerce_dt (coerce_dt v) = coerce_dt v"
  by (auto simp: coerce_dt_def with_utc_def split: option.splits)

text \<open>\<open>task.finished or task.started or task.received\<close>, defined alike in the database adapter and
  the views.\<close>

definition task_timestamp :: "task \<Rightarrow> pydt option" where
  "task_timestamp t = or_else (tk_finished t) (or_else (tk_started t) (tk_received t))"

end
