(* ===== verification/Store_Base.thy ===== *)
theory Store_Base
  imports Domain "HOL-Library.Option_ord"
begin

text \<open>
  The SQLite database behind \<open>SQLiteController\<close> (celery_root/core/db/adapters/sqlite): its tables,
  the schema and its migrations, and the SQL the controller's statements rest on. A table is the
  list of its rows in rowid order; an autoincremented id is one more than the largest in use; a
  \<open>DateTime\<close> column keeps the wall clock of what is bound to it and drops the offset; ORDER BY
  puts NULL first when ascending and keeps the rowid order of equal rows; LIKE ignores ASCII case.
\<close>

section \<open>Values and their order\<close>

datatype sql_value = SNull | SNum rat | SText string

fun sql_le :: "sql_value \<Rightarrow> sql_value \<Rightarrow> bool" where
  "sql_le SNull _ = True"
| "sql_le (SNum a) SNull = False"
| "sql_le (SNum a) (SNum b) = (a \<le> b)"
| "sql_le (SNum a) (SText b) = True"
| "sql_le (SText a) (SText b) = (a \<le> b)"
| "sql_le (SText a) _ = False"

instantiation sql_value :: linorder
begin

definition less_eq_sql_value :: "sql_value \<Rightarrow> sql_value \<Rightarrow> bool" where
  "a \<le> b = sql_le a b"

definition less_sql_value :: "sql_value \<Rightarrow> sql_value \<Rightarrow> bool" where
  "a < b = (sql_le a b \<and> \<not> sql_le b a)"

instance
proof
  fix a b c :: sql_value
  show "(a < b) = (a \<le> b \<and> \<not> b \<le> a)"
    by (simp add: less_eq_sql_value_def less_sql_value_def)
  show "a \<le> a"
    by (cases a) (simp_all add: less_eq_sql_value_def)
  show "a \<le> b \<Longrightarrow> b \<le> c \<Longrightarrow> a \<le> c"
    by (cases a; cases b; cases c) (auto simp: less_eq_sql_value_def)
  show "a \<le> b \<Longrightarrow> b \<le> a \<Longrightarrow> a = b"
    by (cases a; cases b) (auto simp: less_eq_sql_value_def)
  show "a \<le> b \<or> b \<le> a"
    by (cases a; cases b) (auto simp: less_eq_sql_value_def)
qed

end

text \<open>Binding a datetime to a \<open>DateTime\<close> column, and the order of such columns.\<close>

definition bind_dt :: "pydt \<Rightarrow> pydt" where
  "bind_dt d = DT (dt_local d) None"

definition sql_of_dt :: "pydt option \<Rightarrow> sql_value" where
  "sql_of_dt v = (case v of None \<Rightarrow> SNull | Some d \<Rightarrow> SNum (of_int (dt_local d)))"

definition sql_of_text :: "string option \<Rightarrow> sql_value" where
  "sql_of_text v = (case v of None \<Rightarrow> SNull | Some t \<Rightarrow> SText t)"

definition sql_of_num :: "rat option \<Rightarrow> sql_value" where
  "sql_of_num v = (case v of None \<Rightarrow> SNull | Some x \<Rightarrow> SNum x)"

lemma sql_value_order [simp]:
  "SNull \<le> v" "SNum a \<le> SNum b \<longleftrightarrow> a \<le> b" "SText s \<le> SText t \<longleftrightarrow> s \<le> t"
  "\<not> SNum a \<le> SNull" "\<not> SText s \<le> SNull" "SNum a \<le> SText t" "\<not> SText s \<le> SNum a"
  by (simp_all add: less_eq_sql_value_def)

lemma bind_dt_local [simp]: "dt_local (bind_dt d) = dt_local d"
  by (simp add: bind_dt_def)

text \<open>\<open>column.between(lo, hi)\<close> is false on NULL.\<close>

definition sql_between :: "pydt option \<Rightarrow> pydt \<Rightarrow> pydt \<Rightarrow> bool" where
  "sql_between v lo hi =
     (case v of None \<Rightarrow> False | Some d \<Rightarrow> dt_local lo \<le> dt_local d \<and> dt_local d \<le> dt_local hi)"

text \<open>\<open>column.like(pattern)\<close>: percent matches any run, underscore any one character.\<close>

fun sql_like :: "string \<Rightarrow> string \<Rightarrow> bool" where
  "sql_like [] t = (t = [])"
| "sql_like (p # ps) [] = (p = CHR ''%'' \<and> sql_like ps [])"
| "sql_like (p # ps) (c # t) =
     (if p = CHR ''%'' then sql_like ps (c # t) \<or> sql_like (p # ps) t
      else (p = CHR ''_'' \<or> lower_char p = lower_char c) \<and> sql_like ps t)"

definition like_column :: "string option \<Rightarrow> string \<Rightarrow> bool" where
  "like_column v pat = (case v of None \<Rightarrow> False | Some t \<Rightarrow> sql_like pat t)"

lemma sql_like_percent: "sql_like ps v \<Longrightarrow> sql_like (CHR ''%'' # ps) (u @ v)"
proof (induction u)
  case Nil
  then show ?case by (cases v) auto
next
  case (Cons c u)
  then show ?case by simp
qed

lemma sql_like_prefix:
  "py_lower p = py_lower s \<Longrightarrow> sql_like qs t \<Longrightarrow> CHR ''%'' \<notin> set p \<Longrightarrow> sql_like (p @ qs) (s @ t)"
proof (induction p arbitrary: s)
  case Nil
  then show ?case by (simp add: py_lower_def)
next
  case (Cons a p)
  then obtain c s' where "s = c # s'" by (cases s) (auto simp: py_lower_def)
  with Cons show ?case by (auto simp: py_lower_def)
qed

lemma sql_like_all: "sql_like ''%'' t"
proof -
  have "sql_like (CHR ''%'' # []) (t @ [])" by (rule sql_like_percent) simp
  then show ?thesis by simp
qed

text \<open>\<open>f'%{needle}%'\<close> finds the needle in any case.\<close>

lemma sql_like_search:
  assumes "str_in (py_lower needle) (py_lower hay)" and "CHR ''%'' \<notin> set needle"
  shows "sql_like (''%'' @ needle @ ''%'') hay"
proof -
  from assms(1) obtain u v where uv: "map lower_char hay = u @ py_lower needle @ v"
    by (auto simp: str_in_iff py_lower_def)
  then obtain u' w' where "hay = u' @ w'" "map lower_char w' = py_lower needle @ v"
    by (metis map_eq_append_conv)
  moreover then obtain s t where "w' = s @ t" "py_lower s = py_lower needle"
    by (metis map_eq_append_conv py_lower_def)
  ultimately have "hay = u' @ (s @ t)" "py_lower needle = py_lower s" by simp_all
  moreover have "sql_like (needle @ ''%'') (s @ t)"
    using calculation(2) sql_like_all assms(2) by (rule sql_like_prefix)
  ultimately show ?thesis using sql_like_percent by auto
qed

section \<open>The tables\<close>

text \<open>Rows of \<open>worker_events\<close> and \<open>workers\<close> keep their JSON columns as text.\<close>

record worker_event_row =
  wer_hostname :: string
  wer_event :: string
  wer_timestamp :: pydt
  wer_info :: "string option"
  wer_broker_url :: "string option"

record worker_row =
  wr_hostname :: string
  wr_status :: string
  wr_last_heartbeat :: "pydt option"
  wr_pool_size :: "int option"
  wr_active_tasks :: "int option"
  wr_registered_tasks :: "string option"
  wr_queues :: "string option"
  wr_broker_url :: "string option"

record db =
  db_schema :: "(string \<times> string list) list"
  db_version :: "int option"
  db_tasks :: "task list"
  db_task_events :: "(int \<times> task_event) list"
  db_task_relations :: "(int \<times> task_relation) list"
  db_worker_events :: "(int \<times> worker_event_row) list"
  db_workers :: "worker_row list"
  db_broker_queue_events :: "(int \<times> broker_queue_event) list"
  db_schedules :: "schedule list"

definition empty_db :: db where
  "empty_db = \<lparr>db_schema = [], db_version = None, db_tasks = [], db_task_events = [],
     db_task_relations = [], db_worker_events = [], db_workers = [], db_broker_queue_events = [],
     db_schedules = []\<rparr>"

definition next_id :: "(int \<times> 'r) list \<Rightarrow> int" where
  "next_id rows = 1 + fold max (map fst rows) 0"

definition insert_auto :: "'r \<Rightarrow> (int \<times> 'r) list \<Rightarrow> (int \<times> 'r) list" where
  "insert_auto r rows = rows @ [(next_id rows, r)]"

text \<open>\<open>INSERT ... ON CONFLICT (key) DO UPDATE\<close>.\<close>

definition upsert_row :: "('r \<Rightarrow> 'k) \<Rightarrow> 'k \<Rightarrow> 'r \<Rightarrow> ('r \<Rightarrow> 'r) \<Rightarrow> 'r list \<Rightarrow> 'r list" where
  "upsert_row key k new upd rows =
     (if k \<in> key ` set rows then map (\<lambda>r. if key r = k then upd r else r) rows
      else rows @ [new])"

text \<open>\<open>SELECT ... WHERE key = k\<close>, the first row.\<close>

definition find_row :: "('r \<Rightarrow> 'k) \<Rightarrow> 'k \<Rightarrow> 'r list \<Rightarrow> 'r option" where
  "find_row key k rows = find (\<lambda>r. key r = k) rows"

lemma find_row_None_iff: "find_row key k rows = None \<longleftrightarrow> k \<notin> key ` set rows"
  by (auto simp: find_row_def find_None_iff)

lemma find_row_SomeD: "find_row key k rows = Some r \<Longrightarrow> r \<in> set rows \<and> key r = k"
  by (auto simp: find_row_def find_Some_iff)

lemma find_row_unique:
  "distinct (map key rows) \<Longrightarrow> r \<in> set rows \<Longrightarrow> find_row key (key r) rows = Some r"
  by (induction rows) (auto simp: find_row_def)

lemma find_row_map:
  "(\<And>r. key (f r) = key r) \<Longrightarrow> find_row key k (map f rows) = map_option f (find_row key k rows)"
  by (induction rows) (auto simp: find_row_def)

lemma find_row_append:
  "find_row key k (xs @ ys) = or_else (find_row key k xs) (find_row key k ys)"
  by (induction xs) (auto simp: find_row_def)

text \<open>What an upsert does to a lookup and to the primary key.\<close>

lemma find_row_upsert:
  assumes "key new = k" and "\<And>r. key (upd r) = key r"
  shows "find_row key k' (upsert_row key k new upd rows) =
    (if k' = k then Some (case find_row key k rows of None \<Rightarrow> new | Some r \<Rightarrow> upd r)
     else find_row key k' rows)"
proof (cases "k \<in> key ` set rows")
  case True
  then obtain r where r: "find_row key k rows = Some r"
    by (cases "find_row key k rows") (auto simp: find_row_None_iff)
  let ?f = "\<lambda>r. if key r = k then upd r else r"
  have "find_row key k' (map ?f rows) = map_option ?f (find_row key k' rows)"
    by (rule find_row_map) (simp add: assms(2))
  also have "\<dots> = (if k' = k then Some (upd r) else find_row key k' rows)"
    using r by (cases "find_row key k' rows") (auto dest: find_row_SomeD)
  finally show ?thesis using True r by (simp add: upsert_row_def)
next
  case False
  then have "find_row key k rows = None" by (simp add: find_row_None_iff)
  with False assms(1) show ?thesis
    by (auto simp: upsert_row_def find_row_append) (auto simp: find_row_def or_else_def split: option.splits)
qed

lemma keys_upsert:
  assumes "key new = k" and "\<And>r. key (upd r) = key r"
  shows "map key (upsert_row key k new upd rows) =
    (if k \<in> key ` set rows then map key rows else map key rows @ [k])"
  using assms by (auto simp: upsert_row_def)

lemma distinct_keys_upsert:
  assumes "key new = k" and "\<And>r. key (upd r) = key r" and "distinct (map key rows)"
  shows "distinct (map key (upsert_row key k new upd rows))"
  using assms by (simp add: keys_upsert)

lemma distinct_keys_filter: "distinct (map key rows) \<Longrightarrow> distinct (map key (filter P rows))"
  by (induction rows) auto

lemma fold_max_ge: "(x::int) \<in> set xs \<Longrightarrow> x \<le> fold max xs a"
proof (induction xs arbitrary: a)
  case (Cons y xs)
  have "b \<le> fold max xs b" for b
    by (induction xs arbitrary: b) (auto, metis max.cobounded2 order_trans)
  with Cons show ?case by (auto, meson max.cobounded1 order_trans)
qed simp

lemma next_id_greater: "i \<in> fst ` set rows \<Longrightarrow> i < next_id rows"
  unfolding next_id_def using fold_max_ge[of i "map fst rows" 0] by auto

text \<open>An id column is strictly increasing in rowid order.\<close>

definition ids_ok :: "(int \<times> 'r) list \<Rightarrow> bool" where
  "ids_ok rows = sorted_wrt (<) (map fst rows)"

lemma ids_ok_Nil [simp]: "ids_ok []"
  by (simp add: ids_ok_def)

lemma ids_ok_insert_auto: "ids_ok rows \<Longrightarrow> ids_ok (insert_auto r rows)"
  by (auto simp: ids_ok_def insert_auto_def sorted_wrt_append intro!: next_id_greater intro: rev_image_eqI)

lemma ids_ok_filter: "ids_ok rows \<Longrightarrow> ids_ok (filter P rows)"
  unfolding ids_ok_def by (induction rows) auto

section \<open>Schema and migrations\<close>

definition schema_version_no :: int where "schema_version_no = 5"

text \<open>\<open>_define_tables\<close>: the tables and their columns.\<close>

definition define_tables :: "(string \<times> string list) list" where
  "define_tables = [
    (''schema_version'', [''version'']),
    (''tasks'', [''task_id'', ''name'', ''state'', ''worker'', ''received'', ''started'',
       ''finished'', ''runtime'', ''args'', ''kwargs'', ''result'', ''traceback'', ''stamps'',
       ''retries'', ''parent_id'', ''root_id'', ''group_id'', ''chord_id'']),
    (''task_events'', [''id'', ''task_id'', ''name'', ''state'', ''timestamp'', ''worker'', ''args'',
       ''kwargs'', ''result'', ''traceback'', ''stamps'', ''runtime'', ''retries'', ''eta'',
       ''expires'', ''parent_id'', ''root_id'', ''group_id'', ''chord_id'']),
    (''task_relations'', [''id'', ''root_id'', ''parent_id'', ''child_id'', ''relation'']),
    (''worker_events'', [''id'', ''hostname'', ''event'', ''timestamp'', ''info'', ''broker_url'']),
    (''workers'', [''hostname'', ''status'', ''last_heartbeat'', ''pool_size'', ''active_tasks'',
       ''registered_tasks'', ''queues'', ''broker_url'']),
    (''broker_queue_events'', [''id'', ''broker_url'', ''queue'', ''messages'', ''consumers'',
       ''timestamp'']),
    (''schedules'', [''schedule_id'', ''name'', ''task'', ''schedule'', ''args'', ''kwargs'',
       ''enabled'', ''last_run_at'', ''total_run_count'', ''app''])]"

text \<open>\<open>MetaData.create_all\<close> creates the missing tables and leaves the others as they are.\<close>

definition create_table :: "string \<times> string list \<Rightarrow> (string \<times> string list) list \<Rightarrow> (string \<times> string list) list" where
  "create_table t schema = (if fst t \<in> fst ` set schema then schema else schema @ [t])"

definition create_all :: "(string \<times> string list) list \<Rightarrow> (string \<times> string list) list" where
  "create_all schema = fold create_table define_tables schema"

text \<open>\<open>ALTER TABLE t ADD COLUMN c\<close> fails on a missing table and on a column that is there.\<close>

definition add_column :: "string \<Rightarrow> string \<Rightarrow> (string \<times> string list) list \<Rightarrow> pyexc + (string \<times> string list) list" where
  "add_column t c schema = (case dget schema t of
       None \<Rightarrow> Inl (OperationalError ''no such table'')
     | Some cols \<Rightarrow> (if c \<in> set cols then Inl (OperationalError ''duplicate column name'')
                     else Inr (dset t (cols @ [c]) schema)))"

definition initialize_db :: "db \<Rightarrow> db" where
  "initialize_db d =
     (let d' = d\<lparr>db_schema := create_all (db_schema d)\<rparr>
      in case db_version d' of
           None \<Rightarrow> d'\<lparr>db_version := Some schema_version_no\<rparr>
         | Some v \<Rightarrow> d')"

definition get_schema_version :: "db \<Rightarrow> int" where
  "get_schema_version d = or_int (db_version d) 0"

text \<open>The statements of \<open>migrate\<close>, one step per version of the program that changed a table.\<close>

definition migrate_schema :: "int \<Rightarrow> int \<Rightarrow> (string \<times> string list) list \<Rightarrow> pyexc + (string \<times> string list) list" where
  "migrate_schema from_version to_version schema =
     ebind (if from_version < 2 \<and> 2 \<le> to_version
            then add_column ''schedules'' ''app'' schema else Inr schema)
     (\<lambda>s2. ebind (if from_version < 3 \<and> 3 \<le> to_version
            then ebind (add_column ''worker_events'' ''broker_url'' s2)
                   (add_column ''workers'' ''broker_url'') else Inr s2)
     (\<lambda>s3. ebind (if from_version < 4 \<and> 4 \<le> to_version
            then ebind (add_column ''tasks'' ''stamps'' s3)
                   (add_column ''task_events'' ''stamps'') else Inr s3)
     (\<lambda>s4. Inr (if from_version < 5 \<and> 5 \<le> to_version
            then create_table (''broker_queue_events'', [''id'', ''broker_url'', ''queue'',
                   ''messages'', ''consumers'', ''timestamp'']) s4 else s4))))"

definition migrate :: "int \<Rightarrow> int \<Rightarrow> db \<Rightarrow> pyexc + db" where
  "migrate from_version to_version d =
     (if from_version = to_version then Inr d
      else ebind (migrate_schema from_version to_version (db_schema d))
             (\<lambda>s. Inr (d\<lparr>db_schema := s, db_version := Some to_version\<rparr>)))"

definition ensure_schema :: "db \<Rightarrow> pyexc + db" where
  "ensure_schema d =
     (let current = get_schema_version d
      in if current \<noteq> schema_version_no then migrate current schema_version_no d else Inr d)"

text \<open>The start-up sequence of \<open>DBManager.run\<close>.\<close>

definition open_store :: "db \<Rightarrow> pyexc + db" where
  "open_store d = ensure_schema (initialize_db d)"

text \<open>The tables as version \<open>v\<close> of the program left them: what the later versions added is missing.\<close>

definition added_in :: "string \<Rightarrow> string \<Rightarrow> int" where
  "added_in t c =
     (if t = ''schedules'' \<and> c = ''app'' then 2
      else if (t = ''worker_events'' \<or> t = ''workers'') \<and> c = ''broker_url'' then 3
      else if (t = ''tasks'' \<or> t = ''task_events'') \<and> c = ''stamps'' then 4
      else if t = ''broker_queue_events'' then 5
      else 1)"

definition tables_of_version :: "int \<Rightarrow> (string \<times> string list) list" where
  "tables_of_version v =
     filter (\<lambda>(t, cols). cols \<noteq> [])
       (map (\<lambda>(t, cols). (t, filter (\<lambda>c. added_in t c \<le> v) cols)) define_tables)"

definition same_schema :: "(string \<times> string list) list \<Rightarrow> (string \<times> string list) list \<Rightarrow> bool" where
  "same_schema s s' =
     (set (map fst s) = set (map fst s') \<and> distinct (map fst s) \<and> distinct (map fst s') \<and>
      list_all (\<lambda>(t, cols). distinct cols \<and>
        (case dget s' t of None \<Rightarrow> False | Some cols' \<Rightarrow> set cols = set cols')) s)"

text \<open>Each released schema, brought up to date.\<close>

definition upgraded :: "int \<Rightarrow> pyexc + (string \<times> string list) list" where
  "upgraded v = migrate_schema v schema_version_no (create_all (tables_of_version v))"

definition upgraded_ok :: "int \<Rightarrow> bool" where
  "upgraded_ok v = (case upgraded v of
       Inl e \<Rightarrow> False
     | Inr s \<Rightarrow> same_schema s define_tables \<and> create_all s = s)"

lemma upgraded_ok_all: "upgraded_ok 1" "upgraded_ok 2" "upgraded_ok 3" "upgraded_ok 4" "upgraded_ok 5"
  by code_simp+

lemma fresh_schema: "same_schema (create_all []) define_tables \<and> create_all (create_all []) = create_all []"
  by code_simp

end
