(* ===== verification/Store_Tasks.thy ===== *)
theory Store_Tasks
  imports Store_Base
begin

text \<open>
  The task side of \<open>SQLiteController\<close>: ingesting task events into the event log and the task
  table, the queries on tasks with their filters, order and paging, and task relations. The rows
  of \<open>tasks\<close> are \<open>task\<close> records whose datetimes are naive, as SQLAlchemy returns them.
\<close>

section \<open>Task states\<close>

definition final_states :: "string list" where
  "final_states = [''SUCCESS'', ''FAILURE'', ''REVOKED'']"

definition is_final :: "string \<Rightarrow> bool" where
  "is_final s = (s \<in> set final_states)"

definition should_preserve_state :: "string \<Rightarrow> string \<Rightarrow> bool" where
  "should_preserve_state existing incoming =
     (if is_final existing \<and> \<not> is_final incoming then True
      else if existing = ''STARTED'' \<and> (incoming = ''PENDING'' \<or> incoming = ''RECEIVED'') then True
      else existing = ''RECEIVED'' \<and> incoming = ''PENDING'')"

definition merge_retries :: "int option \<Rightarrow> int option \<Rightarrow> int option" where
  "merge_retries existing incoming = (case incoming of
       None \<Rightarrow> existing
     | Some n \<Rightarrow> (case existing of None \<Rightarrow> Some n | Some m \<Rightarrow> Some (max m n)))"

section \<open>Ingesting events\<close>

definition blank_task :: "string \<Rightarrow> string \<Rightarrow> task" where
  "blank_task i s = \<lparr>tk_task_id = i, tk_name = None, tk_state = s, tk_worker = None,
     tk_received = None, tk_started = None, tk_finished = None, tk_runtime = None, tk_args = None,
     tk_kwargs = None, tk_result = None, tk_traceback = None, tk_stamps = None, tk_retries = None,
     tk_parent_id = None, tk_root_id = None, tk_group_id = None, tk_chord_id = None\<rparr>"

text \<open>\<open>_event_values\<close>, as the row the \<open>task_events\<close> table keeps.\<close>

definition event_values :: "task_event \<Rightarrow> task_event" where
  "event_values e = e\<lparr>te_timestamp := bind_dt (te_timestamp e),
     te_eta := map_option bind_dt (te_eta e), te_expires := map_option bind_dt (te_expires e)\<rparr>"

text \<open>
  \<open>_task_values_from_event\<close>: the column values of the statement. A column absent from the
  Python dict is None here; the dict never maps a column to None.
\<close>

definition task_updates :: "task_event \<Rightarrow> int option \<Rightarrow> task \<Rightarrow> task" where
  "task_updates e merged_retries values =
     (let values = values\<lparr>tk_name := te_name e, tk_worker := te_worker e, tk_args := te_args e,
            tk_kwargs := te_kwargs e, tk_result := te_result e, tk_traceback := te_traceback e,
            tk_stamps := te_stamps e, tk_runtime := te_runtime e, tk_retries := merged_retries,
            tk_parent_id := te_parent_id e, tk_root_id := te_root_id e,
            tk_group_id := te_group_id e, tk_chord_id := te_chord_id e\<rparr>
      in if te_state e = ''RECEIVED'' \<or> te_state e = ''PENDING''
         then values\<lparr>tk_received := Some (te_timestamp e)\<rparr>
         else if te_state e = ''STARTED'' then values\<lparr>tk_started := Some (te_timestamp e)\<rparr>
         else if is_final (te_state e) then values\<lparr>tk_finished := Some (te_timestamp e)\<rparr>
         else values)"

definition task_values_from_event :: "task_event \<Rightarrow> string option \<Rightarrow> int option \<Rightarrow> task" where
  "task_values_from_event e existing_state existing_retries =
     (let values = blank_task (te_task_id e) (te_state e);
          merged = merge_retries existing_retries (te_retries e)
      in case existing_state of
           None \<Rightarrow> task_updates e merged values
         | Some s \<Rightarrow>
             (if should_preserve_state s (te_state e)
              then values\<lparr>tk_state := s, tk_retries :=
                     (if merged \<noteq> None \<and> merged \<noteq> existing_retries then merged else None)\<rparr>
              else task_updates e merged values))"

text \<open>The inserted row (missing columns are NULL) and the update of an existing one (only the
  columns of the dict are set).\<close>

definition inserted_task :: "task \<Rightarrow> task" where
  "inserted_task v = v\<lparr>tk_received := map_option bind_dt (tk_received v),
     tk_started := map_option bind_dt (tk_started v), tk_finished := map_option bind_dt (tk_finished v)\<rparr>"

definition updated_task :: "task \<Rightarrow> task \<Rightarrow> task" where
  "updated_task v r = r\<lparr>
     tk_name := or_else (tk_name v) (tk_name r),
     tk_state := tk_state v,
     tk_worker := or_else (tk_worker v) (tk_worker r),
     tk_received := or_else (map_option bind_dt (tk_received v)) (tk_received r),
     tk_started := or_else (map_option bind_dt (tk_started v)) (tk_started r),
     tk_finished := or_else (map_option bind_dt (tk_finished v)) (tk_finished r),
     tk_runtime := or_else (tk_runtime v) (tk_runtime r),
     tk_args := or_else (tk_args v) (tk_args r),
     tk_kwargs := or_else (tk_kwargs v) (tk_kwargs r),
     tk_result := or_else (tk_result v) (tk_result r),
     tk_traceback := or_else (tk_traceback v) (tk_traceback r),
     tk_stamps := or_else (tk_stamps v) (tk_stamps r),
     tk_retries := or_else (tk_retries v) (tk_retries r),
     tk_parent_id := or_else (tk_parent_id v) (tk_parent_id r),
     tk_root_id := or_else (tk_root_id v) (tk_root_id r),
     tk_group_id := or_else (tk_group_id v) (tk_group_id r),
     tk_chord_id := or_else (tk_chord_id v) (tk_chord_id r)\<rparr>"

definition get_task_state_and_retries :: "db \<Rightarrow> string \<Rightarrow> string option \<times> int option" where
  "get_task_state_and_retries d i = (case find_row tk_task_id i (db_tasks d) of
       None \<Rightarrow> (None, None)
     | Some r \<Rightarrow> (Some (tk_state r), tk_retries r))"

definition store_task_event :: "task_event \<Rightarrow> db \<Rightarrow> db" where
  "store_task_event e d =
     (let (existing_state, existing_retries) = get_task_state_and_retries d (te_task_id e);
          task_values = task_values_from_event e existing_state existing_retries
      in d\<lparr>db_task_events := insert_auto (event_values e) (db_task_events d),
           db_tasks := upsert_row tk_task_id (te_task_id e) (inserted_task task_values)
             (updated_task task_values) (db_tasks d)\<rparr>)"

section \<open>Queries\<close>

text \<open>\<open>_row_to_task\<close>: the wall clock of a column is read as UTC.\<close>

definition row_to_task :: "task \<Rightarrow> task" where
  "row_to_task r = r\<lparr>tk_received := coerce_dt (tk_received r), tk_started := coerce_dt (tk_started r),
     tk_finished := coerce_dt (tk_finished r)\<rparr>"

text \<open>\<open>_apply_task_filters\<close>: an unset or empty filter does not restrict.\<close>

definition filter_eq :: "string option \<Rightarrow> string option \<Rightarrow> bool" where
  "filter_eq f v = (truthy_str f \<longrightarrow> v = f)"

definition search_matches :: "string \<Rightarrow> task \<Rightarrow> bool" where
  "search_matches s r = (let pattern = ''%'' @ s @ ''%'' in
     like_column (tk_name r) pattern \<or> like_column (Some (tk_task_id r)) pattern \<or>
     like_column (tk_worker r) pattern \<or> like_column (tk_args r) pattern \<or>
     like_column (tk_kwargs r) pattern)"

definition apply_task_filters :: "task_filter \<Rightarrow> task \<Rightarrow> bool" where
  "apply_task_filters f r \<longleftrightarrow>
     filter_eq (tf_task_name f) (tk_name r) \<and>
     filter_eq (tf_state f) (Some (tk_state r)) \<and>
     filter_eq (tf_worker f) (tk_worker r) \<and>
     filter_eq (tf_group_id f) (tk_group_id r) \<and>
     filter_eq (tf_root_id f) (tk_root_id r) \<and>
     (truthy_str (tf_search f) \<longrightarrow> search_matches (the (tf_search f)) r) \<and>
     (case tf_time_range f of
        None \<Rightarrow> True
      | Some tr \<Rightarrow> sql_between (task_timestamp r) (tr_start tr) (tr_end tr))"

definition matching_rows :: "task_filter option \<Rightarrow> db \<Rightarrow> task list" where
  "matching_rows f d = (case f of
       None \<Rightarrow> db_tasks d
     | Some flt \<Rightarrow> filter (apply_task_filters flt) (db_tasks d))"

definition get_tasks :: "task_filter option \<Rightarrow> db \<Rightarrow> task list" where
  "get_tasks f d =
     map row_to_task (sort_desc_key (\<lambda>r. sql_of_dt (task_timestamp r)) (matching_rows f d))"

definition task_sort_column :: "string option \<Rightarrow> task \<Rightarrow> sql_value" where
  "task_sort_column skey r =
     (if skey = Some ''state'' then SText (tk_state r)
      else if skey = Some ''worker'' then sql_of_text (tk_worker r)
      else if skey = Some ''received'' then sql_of_dt (tk_received r)
      else if skey = Some ''started'' then sql_of_dt (tk_started r)
      else if skey = Some ''runtime'' then sql_of_num (tk_runtime r)
      else sql_of_dt (task_timestamp r))"

text \<open>LIMIT and OFFSET: a negative limit is no limit, a negative offset is none.\<close>

definition sql_page :: "int \<Rightarrow> int \<Rightarrow> 'a list \<Rightarrow> 'a list" where
  "sql_page lmt off xs =
     (let rest = drop (nat off) xs in if lmt < 0 then rest else take (nat lmt) rest)"

definition ordered_tasks :: "task_filter option \<Rightarrow> string option \<Rightarrow> string option \<Rightarrow> db \<Rightarrow> task list" where
  "ordered_tasks f skey sdir d =
     (let direction = py_lower (or_str sdir ''desc'')
      in if direction = ''asc'' then sort_asc_key (task_sort_column skey) (matching_rows f d)
         else sort_desc_key (task_sort_column skey) (matching_rows f d))"

definition get_tasks_page ::
    "task_filter option \<Rightarrow> string option \<Rightarrow> string option \<Rightarrow> int \<Rightarrow> int \<Rightarrow> db \<Rightarrow> task list \<times> nat" where
  "get_tasks_page f skey sdir lmt off d =
     (map row_to_task (sql_page lmt off (ordered_tasks f skey sdir d)),
      length (matching_rows f d))"

definition list_task_names :: "db \<Rightarrow> string list" where
  "list_task_names d =
     (let names = remdups (map tk_name (db_tasks d));
          known = concat (map (\<lambda>n. case n of None \<Rightarrow> [] | Some s \<Rightarrow> [s]) names)
      in sort (if None \<in> set names then known @ [''unknown''] else known))"

definition get_task :: "string \<Rightarrow> db \<Rightarrow> task option" where
  "get_task i d = map_option row_to_task (find_row tk_task_id i (db_tasks d))"

definition store_task_relation :: "task_relation \<Rightarrow> db \<Rightarrow> db" where
  "store_task_relation r d = d\<lparr>db_task_relations := insert_auto r (db_task_relations d)\<rparr>"

definition get_task_relations :: "string \<Rightarrow> db \<Rightarrow> task_relation list" where
  "get_task_relations root_id d =
     filter (\<lambda>r. rel_root_id r = root_id) (map snd (db_task_relations d))"

end
