(* ===== verification/Task_Lifecycle.thy ===== *)
theory Task_Lifecycle
  imports Store_Tasks
begin

text \<open>
  What ingesting a stream of task events makes of a task. The contract of a task tracker, a store
  whose state column follows \<open>next_state\<close>, is a locale; the lemmas on event streams (final
  states are kept, the reached state does not depend on the order of delivery) are proved in it
  once and hold for the SQLite adapter by interpretation.
\<close>

section \<open>The state law\<close>

definition next_state :: "string option \<Rightarrow> string \<Rightarrow> string" where
  "next_state existing incoming = (case existing of
       None \<Rightarrow> incoming
     | Some s \<Rightarrow> (if should_preserve_state s incoming then s else incoming))"

text \<open>Of the states of a run that ends in \<open>f\<close>, the furthest one delivered.\<close>

definition furthest :: "string \<Rightarrow> string set \<Rightarrow> string" where
  "furthest f S = (if f \<in> S then f else if ''STARTED'' \<in> S then ''STARTED''
     else if ''RECEIVED'' \<in> S then ''RECEIVED'' else ''PENDING'')"

definition run_states :: "string \<Rightarrow> string set" where
  "run_states f = {''PENDING'', ''RECEIVED'', ''STARTED'', f}"

lemma is_final_simps [simp]:
  "is_final ''SUCCESS''" "is_final ''FAILURE''" "is_final ''REVOKED''"
  "\<not> is_final ''PENDING''" "\<not> is_final ''RECEIVED''" "\<not> is_final ''STARTED''"
  by (simp_all add: is_final_def final_states_def)

lemma is_final_iff: "is_final s \<longleftrightarrow> s = ''SUCCESS'' \<or> s = ''FAILURE'' \<or> s = ''REVOKED''"
  by (auto simp: is_final_def final_states_def)

lemma preserve_final [simp]: "is_final f \<Longrightarrow> should_preserve_state f x = (\<not> is_final x)"
  by (auto simp: should_preserve_state_def)

lemma next_state_final:
  "is_final s \<Longrightarrow> next_state (Some s) x = (if is_final x then x else s)"
  by (simp add: next_state_def)

lemma preserve_simps [simp]:
  "should_preserve_state ''PENDING'' x = False"
  "should_preserve_state ''RECEIVED'' x = (x = ''PENDING'')"
  "should_preserve_state ''STARTED'' x = (x = ''PENDING'' \<or> x = ''RECEIVED'')"
  by (simp_all add: should_preserve_state_def)

lemma next_state_furthest:
  assumes "is_final f" and "x \<in> run_states f"
  shows "next_state (Some (furthest f S)) x = furthest f (insert x S)"
proof -
  have nf: "f \<noteq> ''PENDING''" "f \<noteq> ''RECEIVED''" "f \<noteq> ''STARTED''"
    using assms(1) by auto
  consider "x = f" | "x = ''STARTED''" | "x = ''RECEIVED''" | "x = ''PENDING''"
    using assms(2) unfolding run_states_def by blast
  then show ?thesis
    using nf nf[symmetric] assms(1) by cases (simp_all add: next_state_def furthest_def)
qed

lemma next_state_first:
  "is_final f \<Longrightarrow> x \<in> run_states f \<Longrightarrow> next_state None x = furthest f {x}"
  by (auto simp: next_state_def furthest_def run_states_def)

section \<open>Task trackers\<close>

definition states_delivered :: "('e \<Rightarrow> string) \<Rightarrow> ('e \<Rightarrow> string) \<Rightarrow> string \<Rightarrow> 'e list \<Rightarrow> string set" where
  "states_delivered ev_task ev_state i es = ev_state ` {e \<in> set es. ev_task e = i}"

lemma states_delivered_simps [simp]:
  "states_delivered ev_task ev_state i [] = {}"
  "states_delivered ev_task ev_state i (e # es) =
     (if ev_task e = i then insert (ev_state e) (states_delivered ev_task ev_state i es)
      else states_delivered ev_task ev_state i es)"
  by (auto simp: states_delivered_def)

locale task_tracker =
  fixes ingest :: "'e \<Rightarrow> 'd \<Rightarrow> 'd"
    and state_of :: "'d \<Rightarrow> string \<Rightarrow> string option"
    and ev_task :: "'e \<Rightarrow> string"
    and ev_state :: "'e \<Rightarrow> string"
  assumes state_law: "state_of (ingest e d) i =
    (if i = ev_task e then Some (next_state (state_of d i) (ev_state e)) else state_of d i)"
begin

lemma known_stays: "state_of d i \<noteq> None \<Longrightarrow> state_of (fold ingest es d) i \<noteq> None"
  by (induction es arbitrary: d) (auto simp: state_law)

lemma unknown_iff:
  "state_of (fold ingest es d) i = None \<longleftrightarrow> state_of d i = None \<and> states_delivered ev_task ev_state i es = {}"
  by (induction es arbitrary: d) (auto simp: state_law)

lemma final_absorbing:
  assumes "state_of d i = Some s" and "is_final s"
  shows "\<exists>s'. state_of (fold ingest es d) i = Some s' \<and> is_final s' \<and> s' \<in> insert s (states_delivered ev_task ev_state i es)"
  using assms
proof (induction es arbitrary: d s)
  case (Cons e es)
  define s1 where "s1 = (if ev_task e = i \<and> is_final (ev_state e) then ev_state e else s)"
  have "state_of (ingest e d) i = Some s1" "is_final s1"
    using Cons.prems by (auto simp: state_law next_state_final s1_def)
  from Cons.IH[OF this] show ?case by (auto simp: s1_def split: if_splits)
qed simp

lemma unique_outcome:
  assumes "state_of d i = Some f" and "is_final f" and "\<And>x. x \<in> states_delivered ev_task ev_state i es \<Longrightarrow> is_final x \<Longrightarrow> x = f"
  shows "state_of (fold ingest es d) i = Some f"
  using final_absorbing[OF assms(1,2), of es] assms(3) by auto

lemma run_from:
  assumes "is_final f" and "state_of d i = Some (furthest f S)"
    and "states_delivered ev_task ev_state i es \<subseteq> run_states f"
  shows "state_of (fold ingest es d) i = Some (furthest f (S \<union> states_delivered ev_task ev_state i es))"
  using assms(2,3)
proof (induction es arbitrary: d S)
  case (Cons e es)
  show ?case
  proof (cases "ev_task e = i")
    case True
    with Cons.prems have x: "ev_state e \<in> run_states f" by simp
    then have "state_of (ingest e d) i = Some (furthest f (insert (ev_state e) S))"
      using Cons.prems True assms(1) by (simp add: state_law next_state_furthest)
    from Cons.IH[OF this] x Cons.prems True show ?thesis by simp
  next
    case False
    with Cons show ?thesis by (simp add: state_law)
  qed
qed simp

lemma run_reaches:
  assumes "is_final f" and "state_of d i = None" and "states_delivered ev_task ev_state i es \<subseteq> run_states f"
  shows "state_of (fold ingest es d) i =
    (if states_delivered ev_task ev_state i es = {} then None else Some (furthest f (states_delivered ev_task ev_state i es)))"
  using assms(2,3)
proof (induction es arbitrary: d)
  case (Cons e es)
  show ?case
  proof (cases "ev_task e = i")
    case True
    with Cons.prems have x: "ev_state e \<in> run_states f" by simp
    then have "state_of (ingest e d) i = Some (furthest f {ev_state e})"
      using Cons.prems True assms(1) by (simp add: state_law next_state_first)
    from run_from[OF assms(1) this] x Cons.prems True show ?thesis by simp
  next
    case False
    with Cons show ?thesis by (simp add: state_law)
  qed
qed simp

lemma order_irrelevant:
  assumes "is_final f" and "state_of d i = None" and "states_delivered ev_task ev_state i es \<subseteq> run_states f" and "set es' = set es"
  shows "state_of (fold ingest es' d) i = state_of (fold ingest es d) i"
  using assms run_reaches[OF assms(1,2), of es] run_reaches[OF assms(1,2), of es']
  by (simp add: states_delivered_def)

end

text \<open>A feed of raw events, some of which become events of the tracker.\<close>

locale task_feed = task_tracker ingest state_of ev_task ev_state
  for ingest :: "'e \<Rightarrow> 'd \<Rightarrow> 'd" and state_of :: "'d \<Rightarrow> string \<Rightarrow> string option"
    and ev_task :: "'e \<Rightarrow> string" and ev_state :: "'e \<Rightarrow> string" +
  fixes feed :: "'raw \<Rightarrow> 'd \<Rightarrow> 'd"
    and parse :: "'raw \<Rightarrow> 'e option"
  assumes feed_law: "state_of (feed raw d) i = (case parse raw of
      None \<Rightarrow> state_of d i
    | Some e \<Rightarrow> state_of (ingest e d) i)"
begin

lemma same_state_step: "state_of d i = state_of d' i \<Longrightarrow> state_of (ingest e d) i = state_of (ingest e d') i"
  by (cases "i = ev_task e") (simp_all add: state_law)

lemma same_state_fold:
  "state_of d i = state_of d' i \<Longrightarrow> state_of (fold ingest es d) i = state_of (fold ingest es d') i"
proof (induction es arbitrary: d d')
  case (Cons e es)
  from Cons.IH[OF same_state_step[OF Cons.prems]] show ?case by simp
qed simp

lemma feed_fold: "state_of (fold feed raws d) i = state_of (fold ingest (List.map_filter parse raws) d) i"
proof (induction raws arbitrary: d)
  case (Cons raw raws)
  show ?case
  proof (cases "parse raw")
    case None
    then have "state_of (feed raw d) i = state_of d i" by (simp add: feed_law)
    from same_state_fold[OF this] None Cons show ?thesis by (simp add: map_filter_simps)
  next
    case (Some e)
    then have "state_of (feed raw d) i = state_of (ingest e d) i" by (simp add: feed_law)
    from same_state_fold[OF this] Some Cons show ?thesis by (simp add: map_filter_simps)
  qed
qed (simp add: map_filter_simps)

lemma feed_reaches:
  assumes "is_final f" and "state_of d i = None"
    and "states_delivered ev_task ev_state i (List.map_filter parse raws) \<subseteq> run_states f"
  shows "state_of (fold feed raws d) i =
    (if states_delivered ev_task ev_state i (List.map_filter parse raws) = {} then None
     else Some (furthest f (states_delivered ev_task ev_state i (List.map_filter parse raws))))"
  unfolding feed_fold using assms by (rule run_reaches)

end

section \<open>The SQLite adapter is a task tracker\<close>

definition state_in_store :: "db \<Rightarrow> string \<Rightarrow> string option" where
  "state_in_store d i = map_option tk_state (get_task i d)"

lemma task_values_id [simp]: "tk_task_id (task_values_from_event e s r) = te_task_id e"
  by (simp add: task_values_from_event_def task_updates_def blank_task_def Let_def split: option.splits)

lemma inserted_task_simps [simp]:
  "tk_task_id (inserted_task v) = tk_task_id v" "tk_state (inserted_task v) = tk_state v"
  "tk_retries (inserted_task v) = tk_retries v"
  by (simp_all add: inserted_task_def)

lemma updated_task_simps [simp]:
  "tk_task_id (updated_task v r) = tk_task_id r" "tk_state (updated_task v r) = tk_state v"
  "tk_retries (updated_task v r) = or_else (tk_retries v) (tk_retries r)"
  by (simp_all add: updated_task_def)

lemma row_to_task_simps [simp]:
  "tk_task_id (row_to_task r) = tk_task_id r" "tk_state (row_to_task r) = tk_state r"
  "tk_retries (row_to_task r) = tk_retries r"
  by (simp_all add: row_to_task_def)

lemma task_values_state: "tk_state (task_values_from_event e s r) = next_state s (te_state e)"
  by (simp add: task_values_from_event_def task_updates_def blank_task_def next_state_def Let_def
      split: option.splits)

lemma task_values_retries:
  "or_else (tk_retries (task_values_from_event e s r)) r = merge_retries r (te_retries e)"
  by (auto simp: task_values_from_event_def task_updates_def blank_task_def merge_retries_def Let_def
      or_else_def split: option.splits)

text \<open>The row of the task an event is about, before and after it is stored.\<close>

definition event_row :: "task_event \<Rightarrow> task option \<Rightarrow> task" where
  "event_row e old = (case old of
       None \<Rightarrow> inserted_task (task_values_from_event e None None)
     | Some r \<Rightarrow> updated_task (task_values_from_event e (Some (tk_state r)) (tk_retries r)) r)"

lemma find_row_store_task_event:
  "find_row tk_task_id i (db_tasks (store_task_event e d)) =
     (if i = te_task_id e then Some (event_row e (find_row tk_task_id i (db_tasks d)))
      else find_row tk_task_id i (db_tasks d))"
  by (auto simp: store_task_event_def get_task_state_and_retries_def event_row_def Let_def
      find_row_upsert split: option.splits)

lemma get_task_store_task_event:
  "get_task i (store_task_event e d) =
     (if i = te_task_id e then Some (row_to_task (event_row e (find_row tk_task_id i (db_tasks d))))
      else get_task i d)"
  by (simp add: get_task_def find_row_store_task_event)

lemma event_row_state:
  "tk_state (event_row e old) = next_state (map_option tk_state old) (te_state e)"
  by (simp add: event_row_def task_values_state split: option.split)

lemma event_row_retries:
  "tk_retries (event_row e old) = merge_retries (Option.bind old tk_retries) (te_retries e)"
  using task_values_retries[of e None None]
  by (simp add: event_row_def task_values_retries split: option.split)

interpretation store: task_tracker store_task_event state_in_store te_task_id te_state
proof
  fix e d i
  show "state_in_store (store_task_event e d) i =
    (if i = te_task_id e then Some (next_state (state_in_store d i) (te_state e)) else state_in_store d i)"
    by (simp add: state_in_store_def get_task_def find_row_store_task_event event_row_state
        option.map_comp comp_def)
qed

section \<open>Properties of the event stream\<close>

text \<open>C1: Once a task is in a final state (SUCCESS, FAILURE, REVOKED), no later, duplicate or
  reordered event takes it out of the final states: after any further stream of events of any tasks
  the task is still stored, with its old state or a final state that was delivered for it.\<close>

theorem task_final_absorbing:
  assumes "state_in_store d i = Some s" and "is_final s"
  shows "\<exists>s'. state_in_store (fold store_task_event es d) i = Some s' \<and> is_final s' \<and>
    s' \<in> insert s (states_delivered te_task_id te_state i es)"
  using assms by (rule store.final_absorbing)

text \<open>C2: The lifecycle of a task does not depend on the order, the duplication or the interleaving
  of its events: for a task the store does not know, whose delivered states are among PENDING,
  RECEIVED, STARTED and one final state \<open>f\<close>, the stored state is the furthest of the states
  delivered, and the task is unknown when none was.\<close>

theorem task_run_outcome:
  assumes "is_final f" and "state_in_store d i = None"
    and "states_delivered te_task_id te_state i es \<subseteq> run_states f"
  shows "state_in_store (fold store_task_event es d) i =
    (if states_delivered te_task_id te_state i es = {} then None
     else Some (furthest f (states_delivered te_task_id te_state i es)))"
  using assms by (rule store.run_reaches)

definition late_stream :: "task_event list" where
  "late_stream = [new_task_event ''a'' None ''SUCCESS'' (utc_dt 5),
     new_task_event ''b'' None ''STARTED'' (utc_dt 4),
     new_task_event ''a'' (Some ''app.add'') ''RECEIVED'' (utc_dt 1),
     new_task_event ''a'' None ''STARTED'' (utc_dt 2)]"

lemma late_stream_states:
  "states_delivered te_task_id te_state ''a'' late_stream = {''SUCCESS'', ''STARTED'', ''RECEIVED''}"
  by (auto simp: late_stream_def new_task_event_def)

lemma task_final_absorbing_witness:
  "is_final (the (state_in_store (fold store_task_event late_stream
     (store_task_event (new_task_event ''a'' None ''FAILURE'' (utc_dt 0)) empty_db)) ''a''))"
proof -
  have "state_in_store (store_task_event (new_task_event ''a'' None ''FAILURE'' (utc_dt 0)) empty_db)
      ''a'' = Some ''FAILURE''"
    by code_simp
  from task_final_absorbing[OF this, of late_stream] show ?thesis by auto
qed

lemma task_run_outcome_witness:
  "state_in_store (fold store_task_event late_stream empty_db) ''a'' = Some ''SUCCESS''"
proof -
  have "state_in_store empty_db ''a'' = None" by code_simp
  moreover have "states_delivered te_task_id te_state ''a'' late_stream \<subseteq> run_states ''SUCCESS''"
    by (simp add: late_stream_states run_states_def)
  ultimately have "state_in_store (fold store_task_event late_stream empty_db) ''a'' =
      Some (furthest ''SUCCESS'' {''SUCCESS'', ''STARTED'', ''RECEIVED''})"
    using task_run_outcome[of "''SUCCESS''" empty_db "''a''" late_stream]
    unfolding late_stream_states by simp
  then show ?thesis by (simp add: furthest_def)
qed

section \<open>Retries\<close>

definition retries_in_store :: "db \<Rightarrow> string \<Rightarrow> int option" where
  "retries_in_store d i = Option.bind (get_task i d) tk_retries"

definition retries_delivered :: "string \<Rightarrow> task_event list \<Rightarrow> int set" where
  "retries_delivered i es = {n. \<exists>e \<in> set es. te_task_id e = i \<and> te_retries e = Some n}"

definition greatest_of :: "int set \<Rightarrow> int option" where
  "greatest_of S = (if S = {} then None else Some (Max S))"

lemma finite_retries_delivered [simp]: "finite (retries_delivered i es)"
proof -
  have "retries_delivered i es \<subseteq> the ` te_retries ` set es"
    unfolding retries_delivered_def by force
  then show ?thesis by (rule finite_subset) simp
qed

lemma retries_delivered_simps [simp]:
  "retries_delivered i [] = {}"
  "retries_delivered i (e # es) =
     (if te_task_id e = i then set_option (te_retries e) \<union> retries_delivered i es
      else retries_delivered i es)"
  by (auto simp: retries_delivered_def)

lemma greatest_of_merge:
  "finite S \<Longrightarrow> greatest_of (set_option (merge_retries a b) \<union> S) =
     greatest_of (set_option a \<union> (set_option b \<union> S))"
  by (cases "S = {}") (auto simp: greatest_of_def merge_retries_def split: option.split)

lemma greatest_of_option [simp]: "greatest_of (set_option a) = a"
  by (cases a) (auto simp: greatest_of_def)

lemma retries_store_task_event:
  "retries_in_store (store_task_event e d) i =
     (if i = te_task_id e then merge_retries (retries_in_store d i) (te_retries e)
      else retries_in_store d i)"
  by (cases "find_row tk_task_id i (db_tasks d)")
     (auto simp: retries_in_store_def get_task_def find_row_store_task_event event_row_retries)

text \<open>The retry counter of a task is the greatest value any of its events has carried, in
  whatever order they came and whether or not the event was allowed to change the state: it never
  decreases and no retry is lost.\<close>

theorem task_retries_max:
  "retries_in_store (fold store_task_event es d) i =
     greatest_of (set_option (retries_in_store d i) \<union> retries_delivered i es)"
  by (induction es arbitrary: d) (simp_all add: retries_store_task_event greatest_of_merge)

section \<open>Columns\<close>

lemma row_to_task_idem [simp]: "row_to_task (row_to_task r) = row_to_task r"
  by (simp add: row_to_task_def)

lemma preserved_values:
  "should_preserve_state s (te_state e) \<Longrightarrow> updated_task (task_values_from_event e (Some s) n) r =
     r\<lparr>tk_state := s, tk_retries := or_else (if merge_retries n (te_retries e) \<noteq> None \<and>
        merge_retries n (te_retries e) \<noteq> n then merge_retries n (te_retries e) else None) (tk_retries r)\<rparr>"
  by (simp add: task_values_from_event_def updated_task_def blank_task_def Let_def)

text \<open>An event that is too late to change the state (see \<open>_should_preserve_state\<close>) changes nothing
  of the task but the retry counter: no timestamp, result or other column is overwritten.\<close>

theorem late_event_only_retries:
  assumes "get_task (te_task_id e) d = Some t" and "should_preserve_state (tk_state t) (te_state e)"
  shows "get_task (te_task_id e) (store_task_event e d) =
    Some (t\<lparr>tk_retries := merge_retries (tk_retries t) (te_retries e)\<rparr>)"
proof -
  from assms(1) obtain r where r: "find_row tk_task_id (te_task_id e) (db_tasks d) = Some r"
    and t: "t = row_to_task r"
    by (auto simp: get_task_def)
  have "should_preserve_state (tk_state r) (te_state e)" using assms(2) t by simp
  from preserved_values[OF this, of "tk_retries r" r] show ?thesis
    by (auto simp: get_task_store_task_event r t event_row_def row_to_task_def merge_retries_def
        or_else_def split: option.splits)
qed

lemma late_event_only_retries_witness:
  "get_task ''a'' (store_task_event (new_task_event ''a'' (Some ''late'') ''STARTED'' (utc_dt 9))
     (store_task_event (new_task_event ''a'' None ''SUCCESS'' (utc_dt 5)) empty_db)) =
   Some ((blank_task ''a'' ''SUCCESS'')\<lparr>tk_finished := Some (utc_dt 5)\<rparr>)"
proof -
  let ?e = "new_task_event ''a'' (Some ''late'') ''STARTED'' (utc_dt 9)"
  have id: "te_task_id ?e = ''a''" by (simp add: new_task_event_def)
  have "get_task ''a'' (store_task_event (new_task_event ''a'' None ''SUCCESS'' (utc_dt 5)) empty_db) =
      Some ((blank_task ''a'' ''SUCCESS'')\<lparr>tk_finished := Some (utc_dt 5)\<rparr>)"
    by code_simp
  moreover have "should_preserve_state ''SUCCESS'' (te_state ?e)"
    by (simp add: new_task_event_def)
  ultimately show ?thesis
    using late_event_only_retries[of ?e _ "(blank_task ''a'' ''SUCCESS'')\<lparr>tk_finished := Some (utc_dt 5)\<rparr>",
        unfolded id]
    by (simp add: blank_task_def new_task_event_def merge_retries_def)
qed

text \<open>Which columns of a task are known.\<close>

definition known_columns :: "task \<Rightarrow> bool list" where
  "known_columns t = [tk_name t \<noteq> None, tk_worker t \<noteq> None, tk_received t \<noteq> None,
     tk_started t \<noteq> None, tk_finished t \<noteq> None, tk_runtime t \<noteq> None, tk_args t \<noteq> None,
     tk_kwargs t \<noteq> None, tk_result t \<noteq> None, tk_traceback t \<noteq> None, tk_stamps t \<noteq> None,
     tk_retries t \<noteq> None, tk_parent_id t \<noteq> None, tk_root_id t \<noteq> None, tk_group_id t \<noteq> None,
     tk_chord_id t \<noteq> None]"

definition keeps_known :: "task \<Rightarrow> task \<Rightarrow> bool" where
  "keeps_known t t' = list_all2 (\<le>) (known_columns t) (known_columns t')"

lemma keeps_known_refl [simp]: "keeps_known t t"
  by (simp add: keeps_known_def list_all2_refl)

lemma keeps_known_trans: "keeps_known a b \<Longrightarrow> keeps_known b c \<Longrightarrow> keeps_known a c"
  unfolding keeps_known_def
  by (rule list_all2_trans[of "(\<le>)" "(\<le>)"]) (auto intro: order_trans)

lemma keeps_known_updated: "keeps_known (row_to_task r) (row_to_task (updated_task v r))"
  by (simp add: keeps_known_def known_columns_def row_to_task_def updated_task_def)

lemma keeps_known_step:
  "get_task i d = Some t \<Longrightarrow> \<exists>t'. get_task i (store_task_event e d) = Some t' \<and> keeps_known t t'"
  by (auto simp: get_task_def find_row_store_task_event event_row_def intro: keeps_known_updated)

text \<open>What is known of a task stays known: no stream of events deletes the task or sets a column
  that has a value back to NULL.\<close>

theorem task_columns_kept:
  assumes "get_task i d = Some t"
  shows "\<exists>t'. get_task i (fold store_task_event es d) = Some t' \<and> keeps_known t t'"
  using assms
proof (induction es arbitrary: d t)
  case (Cons e es)
  from keeps_known_step[OF Cons.prems] obtain t1
    where t1: "get_task i (store_task_event e d) = Some t1" "keeps_known t t1" by blast
  from Cons.IH[OF t1(1)] t1(2) show ?case by (auto intro: keeps_known_trans)
qed auto

lemma task_columns_kept_witness:
  "\<exists>t'. get_task ''a'' (fold store_task_event late_stream
      (store_task_event (new_task_event ''a'' (Some ''n'') ''RECEIVED'' (utc_dt 5)) empty_db)) = Some t' \<and>
    tk_name t' \<noteq> None \<and> tk_received t' \<noteq> None"
proof -
  have "get_task ''a'' (store_task_event (new_task_event ''a'' (Some ''n'') ''RECEIVED'' (utc_dt 5)) empty_db) =
      Some ((blank_task ''a'' ''RECEIVED'')\<lparr>tk_name := Some ''n'', tk_received := Some (utc_dt 5)\<rparr>)"
    by code_simp
  from task_columns_kept[OF this, of late_stream] obtain t' where
    "get_task ''a'' (fold store_task_event late_stream (store_task_event
       (new_task_event ''a'' (Some ''n'') ''RECEIVED'' (utc_dt 5)) empty_db)) = Some t'" and
    "keeps_known ((blank_task ''a'' ''RECEIVED'')\<lparr>tk_name := Some ''n'', tk_received := Some (utc_dt 5)\<rparr>) t'"
    by blast
  then show ?thesis by (simp add: keeps_known_def known_columns_def)
qed

lemma final_event_finished:
  "is_final (te_state e) \<Longrightarrow> tk_finished (task_values_from_event e None n) = Some (te_timestamp e)"
proof -
  assume f: "is_final (te_state e)"
  then have "te_state e \<noteq> ''RECEIVED''" "te_state e \<noteq> ''PENDING''" "te_state e \<noteq> ''STARTED''"
    by auto
  with f show ?thesis by (simp add: task_values_from_event_def task_updates_def Let_def)
qed

lemma with_utc_aware: "is_aware (with_utc x)"
  by (simp add: is_aware_def with_utc_def)

lemma with_utc_instant:
  "dt_instant (with_utc x) = dt_instant x + (case dt_off x of None \<Rightarrow> 0 | Some off \<Rightarrow> off)"
  by (simp add: dt_instant_def with_utc_def)

text \<open>C21: Timestamps lose their UTC offset in the database: the finish time of an event with a final
  state for a new task is read back as UTC with the wall clock of the event. The instant is kept
  exactly when the event's time was in UTC (or naive); otherwise it is off by the offset.\<close>

theorem finished_time_roundtrip:
  assumes "get_task (te_task_id e) d = None" and "is_final (te_state e)"
  shows "\<exists>t f. get_task (te_task_id e) (store_task_event e d) = Some t \<and> tk_finished t = Some f \<and>
    is_aware f \<and> dt_instant f = dt_instant (te_timestamp e) +
      (case dt_off (te_timestamp e) of None \<Rightarrow> 0 | Some off \<Rightarrow> off)"
proof -
  from assms(1) have "find_row tk_task_id (te_task_id e) (db_tasks d) = None"
    by (simp add: get_task_def)
  then have "get_task (te_task_id e) (store_task_event e d) =
      Some (row_to_task (inserted_task (task_values_from_event e None None)))"
    by (simp add: get_task_store_task_event event_row_def)
  moreover have "tk_finished (row_to_task (inserted_task (task_values_from_event e None None))) =
      Some (with_utc (te_timestamp e))"
    using final_event_finished[OF assms(2)]
    by (simp add: row_to_task_def inserted_task_def coerce_dt_def bind_dt_def with_utc_def)
  ultimately show ?thesis by (auto simp: with_utc_instant with_utc_aware)
qed

lemma finished_time_roundtrip_witness:
  "\<exists>f. Option.bind (get_task ''a'' (store_task_event (new_task_event ''a'' None ''FAILURE''
       (DT 7200 (Some 3600))) empty_db)) tk_finished = Some f \<and> dt_instant f = 7200"
proof -
  let ?e = "new_task_event ''a'' None ''FAILURE'' (DT 7200 (Some 3600))"
  have "get_task (te_task_id ?e) empty_db = None" "is_final (te_state ?e)"
    by code_simp+
  from finished_time_roundtrip[OF this] show ?thesis
    by (auto simp: new_task_event_def dt_instant_def)
qed

end
