(* ===== verification/Store_Workers.thy ===== *)
theory Store_Workers
  imports Store_Base
begin

text \<open>
  The worker side of \<open>SQLiteController\<close>: worker events and the worker table, the latest event
  snapshot, broker queue snapshots, schedules, and the clean-up of old rows.
\<close>

section \<open>Workers\<close>

definition parse_active_tasks :: "pyval \<Rightarrow> int option" where
  "parse_active_tasks v = (case v of PList xs \<Rightarrow> Some (int (length xs)) | _ \<Rightarrow> as_int v)"

definition parse_pool_size :: "pyval \<Rightarrow> int option" where
  "parse_pool_size v = (case v of
       PDict d \<Rightarrow> as_int (por (pget d ''max-concurrency'') (pget d ''max_concurrency''))
     | _ \<Rightarrow> None)"

definition parse_registered_tasks :: "pyrt \<Rightarrow> pyval \<Rightarrow> string list option" where
  "parse_registered_tasks rt v = (case v of PList xs \<Rightarrow> Some (map (py_str rt) xs) | _ \<Rightarrow> None)"

fun queue_entry_name :: "pyrt \<Rightarrow> pyval \<Rightarrow> string option" where
  "queue_entry_name rt (PDict d) =
     (case dget d (PStr ''name'') of None \<Rightarrow> None | Some v \<Rightarrow> Some (py_str rt v))"
| "queue_entry_name rt (PStr s) = Some s"
| "queue_entry_name rt _ = None"

definition parse_queue_names :: "pyrt \<Rightarrow> pyval \<Rightarrow> string list option" where
  "parse_queue_names rt v = (case v of
       PList xs \<Rightarrow> (let names = List.map_filter (queue_entry_name rt) xs
                   in if names = [] then None else Some names)
     | _ \<Rightarrow> None)"

text \<open>\<open>json.dumps\<close> raises TypeError on a value JSON has no form for.\<close>

definition json_dumps :: "pyrt \<Rightarrow> pyval \<Rightarrow> pyexc + string" where
  "json_dumps rt v = (case rt_dumps rt v of
       None \<Rightarrow> Inl (TypeError ''not JSON serializable'')
     | Some t \<Rightarrow> Inr t)"

definition json_dumps_names :: "pyrt \<Rightarrow> string list option \<Rightarrow> pyexc + string option" where
  "json_dumps_names rt names = (case names of
       None \<Rightarrow> Inr None
     | Some xs \<Rightarrow> ebind (json_dumps rt (PList (map PStr xs))) (\<lambda>t. Inr (Some t)))"

definition worker_from_event :: "pyrt \<Rightarrow> worker_event \<Rightarrow> pyexc + worker_row" where
  "worker_from_event rt e =
     (let offline = (we_event e = ''worker-offline'');
          info = (case we_info e of None \<Rightarrow> [] | Some d \<Rightarrow> d)
      in ebind (json_dumps_names rt (parse_registered_tasks rt (pget info ''registered''))) (\<lambda>registered.
         ebind (json_dumps_names rt (parse_queue_names rt (pget info ''queues''))) (\<lambda>queues.
         Inr \<lparr>wr_hostname = we_hostname e,
              wr_status = (if offline then ''OFFLINE'' else ''ONLINE''),
              wr_last_heartbeat = (if offline then None else Some (we_timestamp e)),
              wr_pool_size = parse_pool_size (pget info ''pool''),
              wr_active_tasks = parse_active_tasks (pget info ''active''),
              wr_registered_tasks = registered,
              wr_queues = queues,
              wr_broker_url = we_broker_url e\<rparr>)))"

text \<open>\<open>store_worker_event\<close>: the event is logged and the worker row is written as a whole; only an
  offline event keeps the last heartbeat that is stored.\<close>

definition bound_worker :: "worker_row \<Rightarrow> worker_row" where
  "bound_worker v = v\<lparr>wr_last_heartbeat := map_option bind_dt (wr_last_heartbeat v)\<rparr>"

definition updated_worker :: "worker_event \<Rightarrow> worker_row \<Rightarrow> worker_row \<Rightarrow> worker_row" where
  "updated_worker e v r = (bound_worker v)\<lparr>wr_hostname := wr_hostname r,
     wr_last_heartbeat :=
       (if we_event e = ''worker-offline''
        then or_else (wr_last_heartbeat r) (Some (bind_dt (we_timestamp e)))
        else map_option bind_dt (wr_last_heartbeat v))\<rparr>"

definition store_worker_event :: "pyrt \<Rightarrow> worker_event \<Rightarrow> db \<Rightarrow> pyexc + db" where
  "store_worker_event rt e d =
     ebind (case we_info e of
         None \<Rightarrow> Inr None
       | Some i \<Rightarrow> ebind (json_dumps rt (PDict i)) (\<lambda>t. Inr (Some t))) (\<lambda>info_json.
     ebind (worker_from_event rt e) (\<lambda>v.
       Inr (d\<lparr>db_worker_events := insert_auto \<lparr>wer_hostname = we_hostname e, wer_event = we_event e,
                 wer_timestamp = bind_dt (we_timestamp e), wer_info = info_json,
                 wer_broker_url = we_broker_url e\<rparr> (db_worker_events d),
              db_workers := upsert_row wr_hostname (we_hostname e) (bound_worker v)
                 (updated_worker e v) (db_workers d)\<rparr>)))"

definition parse_json_list :: "pyrt \<Rightarrow> string option \<Rightarrow> string list option" where
  "parse_json_list rt value = (case value of
       None \<Rightarrow> None
     | Some t \<Rightarrow> (case rt_loads rt t of
           Some (PList xs) \<Rightarrow> Some (map (py_str rt) xs)
         | _ \<Rightarrow> None))"

definition row_to_worker :: "pyrt \<Rightarrow> worker_row \<Rightarrow> worker" where
  "row_to_worker rt r = \<lparr>wk_hostname = wr_hostname r, wk_status = wr_status r,
     wk_last_heartbeat = coerce_dt (wr_last_heartbeat r), wk_pool_size = wr_pool_size r,
     wk_active_tasks = wr_active_tasks r,
     wk_registered_tasks = parse_json_list rt (wr_registered_tasks r),
     wk_queues = parse_json_list rt (wr_queues r), wk_broker_url = wr_broker_url r\<rparr>"

definition get_workers :: "pyrt \<Rightarrow> db \<Rightarrow> worker list" where
  "get_workers rt d = map (row_to_worker rt) (db_workers d)"

definition get_worker :: "pyrt \<Rightarrow> string \<Rightarrow> db \<Rightarrow> worker option" where
  "get_worker rt h d = map_option (row_to_worker rt) (find_row wr_hostname h (db_workers d))"

text \<open>\<open>get_worker_event_snapshot\<close>: the newest event, the highest id among equally new ones.\<close>

definition read_info :: "pyrt \<Rightarrow> string option \<Rightarrow> (pyval \<times> pyval) list option" where
  "read_info rt raw = (if truthy_str raw then
       (case rt_loads rt (the raw) of
          None \<Rightarrow> Some [(PStr ''value'', PStr (the raw))]
        | Some (PDict i) \<Rightarrow> Some i
        | Some v \<Rightarrow> Some [(PStr ''value'', v)])
     else None)"

definition newest_first :: "string \<Rightarrow> (int \<times> worker_event_row) list \<Rightarrow> (int \<times> worker_event_row) list" where
  "newest_first h rows = sort_desc_key (\<lambda>r. dt_local (wer_timestamp (snd r)))
     (sort_desc_key fst (filter (\<lambda>r. wer_hostname (snd r) = h) rows))"

definition get_worker_event_snapshot :: "pyrt \<Rightarrow> string \<Rightarrow> db \<Rightarrow> worker_event option" where
  "get_worker_event_snapshot rt h d = (case newest_first h (db_worker_events d) of
       [] \<Rightarrow> None
     | (i, r) # _ \<Rightarrow> Some \<lparr>we_hostname = wer_hostname r, we_event = wer_event r,
         we_timestamp = with_utc (wer_timestamp r), we_info = read_info rt (wer_info r),
         we_broker_url = wer_broker_url r\<rparr>)"

section \<open>Broker queues\<close>

definition store_broker_queue_event :: "broker_queue_event \<Rightarrow> db \<Rightarrow> db" where
  "store_broker_queue_event e d = d\<lparr>db_broker_queue_events :=
     insert_auto (e\<lparr>bq_timestamp := bind_dt (bq_timestamp e)\<rparr>) (db_broker_queue_events d)\<rparr>"

definition queue_rows :: "string \<Rightarrow> string \<Rightarrow> (int \<times> broker_queue_event) list \<Rightarrow> (int \<times> broker_queue_event) list" where
  "queue_rows b q rows = filter (\<lambda>r. bq_broker_url (snd r) = b \<and> bq_queue (snd r) = q) rows"

definition latest_ids :: "string \<Rightarrow> (int \<times> broker_queue_event) list \<Rightarrow> int list" where
  "latest_ids b rows =
     map (\<lambda>q. Max (set (map fst (queue_rows b q rows))))
       (remdups (map (bq_queue \<circ> snd) (filter (\<lambda>r. bq_broker_url (snd r) = b) rows)))"

definition row_to_queue_event :: "broker_queue_event \<Rightarrow> broker_queue_event" where
  "row_to_queue_event r = r\<lparr>bq_timestamp := with_utc (bq_timestamp r)\<rparr>"

definition get_broker_queue_snapshot :: "string \<Rightarrow> db \<Rightarrow> broker_queue_event list" where
  "get_broker_queue_snapshot b d =
     (let latest = latest_ids b (db_broker_queue_events d);
          rows = filter (\<lambda>r. fst r \<in> set latest) (db_broker_queue_events d)
      in sort_asc_key bq_queue (map (row_to_queue_event \<circ> snd) rows))"

section \<open>Schedules\<close>

definition schedule_values :: "schedule \<Rightarrow> schedule" where
  "schedule_values s = s\<lparr>sc_last_run_at := map_option bind_dt (sc_last_run_at s)\<rparr>"

definition row_to_schedule :: "schedule \<Rightarrow> schedule" where
  "row_to_schedule r = r\<lparr>sc_last_run_at := coerce_dt (sc_last_run_at r)\<rparr>"

definition get_schedules :: "db \<Rightarrow> schedule list" where
  "get_schedules d = map row_to_schedule (db_schedules d)"

definition store_schedule :: "schedule \<Rightarrow> db \<Rightarrow> db" where
  "store_schedule s d = d\<lparr>db_schedules := upsert_row sc_schedule_id (sc_schedule_id s)
     (schedule_values s) (\<lambda>r. schedule_values s) (db_schedules d)\<rparr>"

definition delete_schedule :: "string \<Rightarrow> db \<Rightarrow> db" where
  "delete_schedule i d = d\<lparr>db_schedules := filter (\<lambda>s. sc_schedule_id s \<noteq> i) (db_schedules d)\<rparr>"

section \<open>Clean-up\<close>

text \<open>\<open>DELETE ... WHERE column < cutoff\<close>: a NULL is not older than anything.\<close>

definition older :: "pydt option \<Rightarrow> pydt \<Rightarrow> bool" where
  "older v cutoff = (case v of None \<Rightarrow> False | Some t \<Rightarrow> dt_local t < dt_local cutoff)"

definition delete_where :: "('r \<Rightarrow> bool) \<Rightarrow> 'r list \<Rightarrow> 'r list \<times> nat" where
  "delete_where P rows = (filter (\<lambda>r. \<not> P r) rows, length (filter P rows))"

definition cleanup :: "pydt \<Rightarrow> int \<Rightarrow> db \<Rightarrow> nat \<times> db" where
  "cleanup now older_than_days d =
     (let cutoff = DT (dt_local now - older_than_days * us_per_day) (dt_off now);
          (events, n1) = delete_where (\<lambda>r. older (Some (te_timestamp (snd r))) cutoff) (db_task_events d);
          (tasks, n2) = delete_where (\<lambda>r. older (task_timestamp r) cutoff) (db_tasks d);
          (wevents, n3) = delete_where (\<lambda>r. older (Some (wer_timestamp (snd r))) cutoff) (db_worker_events d);
          (queues, n4) = delete_where (\<lambda>r. older (Some (bq_timestamp (snd r))) cutoff) (db_broker_queue_events d);
          (workers, n5) = delete_where (\<lambda>r. wr_last_heartbeat r \<noteq> None \<and> older (wr_last_heartbeat r) cutoff)
            (db_workers d)
      in (n1 + n2 + n3 + n4 + n5,
          d\<lparr>db_task_events := events, db_tasks := tasks, db_worker_events := wevents,
            db_broker_queue_events := queues, db_workers := workers\<rparr>))"

end
