(* ===== verification/Toy_Runtime.thy ===== *)
theory Toy_Runtime
  imports Domain
begin

text \<open>
  A concrete runtime for the witnesses: a text conversion that satisfies what the theorems assume
  of the JSON library. A list of strings is printed as a bracket followed by its items, each
  character marked and each item closed by a comma.
\<close>

fun toy_items :: "string list \<Rightarrow> string" where
  "toy_items [] = []"
| "toy_items (s # ss) = concat (map (\<lambda>c. [CHR ''.'', c]) s) @ CHR '','' # toy_items ss"

fun toy_read :: "string \<Rightarrow> string \<Rightarrow> string list" where
  "toy_read acc [] = []"
| "toy_read acc [c] = (if c = CHR '','' then [rev acc] else [])"
| "toy_read acc (m # c # t) = (if m = CHR '','' then rev acc # toy_read [] (c # t)
     else toy_read (c # acc) t)"

fun str_of :: "pyval \<Rightarrow> string" where
  "str_of (PStr s) = s"
| "str_of _ = []"

fun toy_dumps :: "pyval \<Rightarrow> string option" where
  "toy_dumps (PList xs) = Some (CHR ''['' # toy_items (map str_of xs))"
| "toy_dumps (PDict d) = Some ''{}''"
| "toy_dumps _ = None"

fun toy_loads :: "string \<Rightarrow> pyval option" where
  "toy_loads (c # t) = (if c = CHR ''['' then Some (PList (map PStr (toy_read [] t)))
     else if c = CHR ''{'' then Some (PDict []) else None)"
| "toy_loads [] = None"

definition toy_rt :: pyrt where
  "toy_rt = \<lparr>rt_str = (\<lambda>v. ''?''), rt_dumps = toy_dumps, rt_dumps_any = toy_dumps, rt_dumps_str = toy_dumps,
     rt_loads = toy_loads,
     rt_float = (\<lambda>s. None), rt_int = (\<lambda>s. None), rt_iso = (\<lambda>s. None)\<rparr>"

lemma toy_read_comma: "toy_read acc (CHR '','' # t) = rev acc # toy_read [] t"
  by (cases t) auto

lemma toy_read_item:
  "toy_read acc (concat (map (\<lambda>c. [CHR ''.'', c]) s) @ CHR '','' # t) = (rev acc @ s) # toy_read [] t"
  by (induction s arbitrary: acc) (auto simp: toy_read_comma)

lemma toy_read_items: "toy_read [] (toy_items ss) = ss"
  by (induction ss) (simp_all add: toy_read_item)

lemma toy_json_list_ok: "json_list_ok toy_rt"
  by (simp add: json_list_ok_def toy_rt_def comp_def toy_read_items)

end
