(* ===== verification/Worker_Facts.thy ===== *)
theory Worker_Facts
  imports Store_Workers Toy_Runtime
begin

text \<open>
  What the worker table, the queue snapshots and the clean-up of the SQLite adapter promise: the
  worker row is the last event's view of the worker, the queue snapshot is the last observation of
  every queue, and the clean-up removes exactly the rows older than the cutoff and counts them.
\<close>

section \<open>The worker table\<close>

definition event_info :: "worker_event \<Rightarrow> (pyval \<times> pyval) list" where
  "event_info e = (case we_info e of None \<Rightarrow> [] | Some d \<Rightarrow> d)"

definition event_status :: "worker_event \<Rightarrow> string" where
  "event_status e = (if we_event e = ''worker-offline'' then ''OFFLINE'' else ''ONLINE'')"

lemma json_names_roundtrip:
  assumes "json_list_ok rt" and "json_dumps_names rt names = Inr t"
  shows "parse_json_list rt t = names"
proof (cases names)
  case (Some xs)
  obtain t' where t': "rt_dumps rt (PList (map PStr xs)) = Some t'"
    "rt_loads rt t' = Some (PList (map PStr xs))"
    using assms(1) unfolding json_list_ok_def by blast
  then have "t = Some t'" using assms(2) Some by (simp add: json_dumps_names_def json_dumps_def)
  with t' Some show ?thesis by (simp add: parse_json_list_def comp_def)
qed (use assms(2) in \<open>auto simp: json_dumps_names_def parse_json_list_def\<close>)

text \<open>The worker a stored event leaves behind; \<open>old\<close> is the heartbeat column before it.\<close>

definition worker_view :: "pyrt \<Rightarrow> worker_event \<Rightarrow> pydt option option \<Rightarrow> worker" where
  "worker_view rt e old = \<lparr>wk_hostname = we_hostname e, wk_status = event_status e,
     wk_last_heartbeat =
       (if we_event e = ''worker-offline''
        then (case old of None \<Rightarrow> None | Some hb \<Rightarrow> or_else hb (Some (with_utc (we_timestamp e))))
        else Some (with_utc (we_timestamp e))),
     wk_pool_size = parse_pool_size (pget (event_info e) ''pool''),
     wk_active_tasks = parse_active_tasks (pget (event_info e) ''active''),
     wk_registered_tasks = parse_registered_tasks rt (pget (event_info e) ''registered''),
     wk_queues = parse_queue_names rt (pget (event_info e) ''queues''),
     wk_broker_url = we_broker_url e\<rparr>"

lemma worker_from_event_fields:
  assumes "json_list_ok rt" and "worker_from_event rt e = Inr v"
  shows "wr_hostname v = we_hostname e"
    and "row_to_worker rt v = (worker_view rt e None)\<lparr>wk_last_heartbeat := coerce_dt (wr_last_heartbeat v)\<rparr>"
    and "wr_last_heartbeat v = (if we_event e = ''worker-offline'' then None else Some (we_timestamp e))"
  using assms(2)
  by (auto simp: worker_from_event_def ebind_Inr_iff Let_def row_to_worker_def worker_view_def
      event_status_def event_info_def json_names_roundtrip[OF assms(1)])

lemma coerce_bound [simp]: "coerce_dt (map_option bind_dt v) = map_option with_utc v"
  by (cases v) (simp_all add: coerce_dt_def bind_dt_def with_utc_def)

lemma row_to_worker_heartbeat [simp]:
  "wk_last_heartbeat (row_to_worker rt r) = coerce_dt (wr_last_heartbeat r)"
  by (simp add: row_to_worker_def)

lemma store_worker_event_step:
  assumes "json_list_ok rt" and "store_worker_event rt e d = Inr d'"
  shows "get_worker rt h d' = (if h = we_hostname e
      then Some (worker_view rt e (map_option wk_last_heartbeat (get_worker rt h d)))
      else get_worker rt h d)"
proof -
  obtain v where v: "worker_from_event rt e = Inr v"
    and d': "db_workers d' = upsert_row wr_hostname (we_hostname e) (bound_worker v)
                 (updated_worker e v) (db_workers d)"
    using assms(2) unfolding store_worker_event_def by (auto simp: ebind_Inr_iff)
  note f = worker_from_event_fields[OF assms(1) v]
  have new: "row_to_worker rt (bound_worker v) = worker_view rt e None"
    using f(2,3) by (auto simp: row_to_worker_def bound_worker_def worker_view_def)
  have upd: "wr_hostname r = we_hostname e \<Longrightarrow> row_to_worker rt (updated_worker e v r) =
      worker_view rt e (Some (coerce_dt (wr_last_heartbeat r)))" for r
    using f(2,3)
    by (auto simp: row_to_worker_def bound_worker_def updated_worker_def worker_view_def
        coerce_dt_def bind_dt_def with_utc_def or_else_def split: option.splits)
  have "wr_hostname (bound_worker v) = we_hostname e" "\<And>r. wr_hostname (updated_worker e v r) = wr_hostname r"
    using f(1) by (simp_all add: bound_worker_def updated_worker_def)
  from find_row_upsert[of wr_hostname, OF this] show ?thesis
    by (auto simp: get_worker_def d' new split: option.splits dest!: find_row_SomeD)
       (simp add: upd)
qed

text \<open>The worker table shows the last event of a worker, as a whole: after any accepted stream of
  events, a worker with at least one event has the status, pool size, active tasks, registered
  tasks, queues and broker of its last event alone (absent details are reset, whatever earlier
  events reported), and unless that event was an offline event its heartbeat is the event's time.\<close>

theorem worker_row_last_event:
  assumes "json_list_ok rt" and "efold (store_worker_event rt) es d = Inr d'"
    and "filter (\<lambda>e. we_hostname e = h) es \<noteq> []"
  defines "e \<equiv> last (filter (\<lambda>e. we_hostname e = h) es)"
  shows "\<exists>hb. get_worker rt h d' = Some ((worker_view rt e None)\<lparr>wk_last_heartbeat := hb\<rparr>) \<and>
    (we_event e \<noteq> ''worker-offline'' \<longrightarrow> hb = Some (with_utc (we_timestamp e)))"
  using assms(2,3) unfolding e_def
proof (induction es arbitrary: d)
  case (Cons e es)
  from Cons.prems(1) obtain d1 where d1: "store_worker_event rt e d = Inr d1"
    "efold (store_worker_event rt) es d1 = Inr d'" by (auto simp: ebind_Inr_iff)
  show ?case
  proof (cases "filter (\<lambda>e. we_hostname e = h) es = []")
    case False
    with Cons.IH[OF d1(2)] show ?thesis by (cases "we_hostname e = h") simp_all
  next
    case True
    have rest: "get_worker rt h d' = get_worker rt h d1" using d1(2) True
    proof (induction es arbitrary: d1)
      case (Cons x xs)
      then show ?case
        using store_worker_event_step[OF assms(1), of x d1 _ h]
        by (auto simp: ebind_Inr_iff split: if_splits)
    qed simp
    have "we_hostname e = h" using True Cons.prems(2) by (auto split: if_splits)
    then show ?thesis
      using True rest store_worker_event_step[OF assms(1) d1(1), of h]
      by (auto simp: worker_view_def)
  qed
qed simp

text \<open>Going offline keeps the last heartbeat: an offline event leaves the stored heartbeat of a
  worker as it is, records its own time only for a known worker that had none, and stores none for a
  worker never seen before; every other event moves the heartbeat to its own time.\<close>

theorem worker_heartbeat_step:
  assumes "json_list_ok rt" and "store_worker_event rt e d = Inr d'"
  shows "map_option wk_last_heartbeat (get_worker rt (we_hostname e) d') = Some
    (if we_event e \<noteq> ''worker-offline'' then Some (with_utc (we_timestamp e))
     else case get_worker rt (we_hostname e) d of
         None \<Rightarrow> None
       | Some w \<Rightarrow> or_else (wk_last_heartbeat w) (Some (with_utc (we_timestamp e))))"
  using store_worker_event_step[OF assms, of "we_hostname e"]
  by (simp add: worker_view_def split: option.split)

definition ev_online :: worker_event where
  "ev_online = \<lparr>we_hostname = ''w1'', we_event = ''worker-online'', we_timestamp = utc_dt 10,
     we_info = Some [(PStr ''pool'', PDict [(PStr ''max-concurrency'', PInt 8)])],
     we_broker_url = Some ''redis://r''\<rparr>"

definition ev_heartbeat :: worker_event where
  "ev_heartbeat = \<lparr>we_hostname = ''w1'', we_event = ''worker-heartbeat'', we_timestamp = utc_dt 20,
     we_info = None, we_broker_url = Some ''redis://r''\<rparr>"

definition ev_offline :: worker_event where
  "ev_offline = \<lparr>we_hostname = ''w1'', we_event = ''worker-offline'', we_timestamp = utc_dt 30,
     we_info = None, we_broker_url = None\<rparr>"

definition after_online :: db where
  "after_online = projr (store_worker_event toy_rt ev_online empty_db)"

lemma worker_row_last_event_witness:
  "map_option wk_pool_size (get_worker toy_rt ''w1'' after_online) = Some (Some 8) \<and>
   map_option wk_pool_size (get_worker toy_rt ''w1'' (projr (efold (store_worker_event toy_rt) [ev_online, ev_heartbeat] empty_db)))
     = Some None"
proof
  show "map_option wk_pool_size (get_worker toy_rt ''w1'' after_online) = Some (Some 8)" by code_simp
  let ?d = "projr (efold (store_worker_event toy_rt) [ev_online, ev_heartbeat] empty_db)"
  have ok: "efold (store_worker_event toy_rt) [ev_online, ev_heartbeat] empty_db = Inr ?d" by code_simp
  have last: "filter (\<lambda>e. we_hostname e = ''w1'') [ev_online, ev_heartbeat] = [ev_online, ev_heartbeat]" by code_simp
  from worker_row_last_event[OF toy_json_list_ok ok, of "''w1''", unfolded last]
  obtain hb where "get_worker toy_rt ''w1'' ?d = Some ((worker_view toy_rt ev_heartbeat None)\<lparr>wk_last_heartbeat := hb\<rparr>)"
    by auto
  then have "map_option wk_pool_size (get_worker toy_rt ''w1'' ?d) = Some (wk_pool_size (worker_view toy_rt ev_heartbeat None))"
    by simp
  also have "wk_pool_size (worker_view toy_rt ev_heartbeat None) = None" by code_simp
  finally show "map_option wk_pool_size (get_worker toy_rt ''w1'' ?d) = Some None" .
qed

lemma worker_heartbeat_step_witness:
  "map_option wk_last_heartbeat (get_worker toy_rt (we_hostname ev_offline)
     (projr (store_worker_event toy_rt ev_offline after_online))) = Some (Some (utc_dt 10))"
proof -
  have ok: "store_worker_event toy_rt ev_offline after_online = Inr (projr (store_worker_event toy_rt ev_offline after_online))"
    by code_simp
  show ?thesis
    by (subst worker_heartbeat_step[OF toy_json_list_ok ok]) code_simp
qed

section \<open>Queue snapshots\<close>

lemma queue_rows_nonempty:
  "queue_rows b q rows \<noteq> [] \<longleftrightarrow> q \<in> (bq_queue \<circ> snd) ` set (filter (\<lambda>r. bq_broker_url (snd r) = b) rows)"
  by (auto simp: queue_rows_def filter_empty_conv)

lemma queue_rows_subset: "set (queue_rows b q rows) \<subseteq> set rows"
  by (auto simp: queue_rows_def)

lemma last_is_Max:
  assumes "sorted_wrt (<) (map fst rows)" and "rows \<noteq> []"
  shows "Max (set (map fst rows)) = fst (last rows)"
proof (rule Max_eqI)
  show "fst (last rows) \<in> set (map fst rows)" using assms(2) by simp
  fix y :: 'a assume "y \<in> set (map fst rows)"
  then obtain i where i: "i < length rows" "y = fst (rows ! i)" by (auto simp: in_set_conv_nth)
  show "y \<le> fst (last rows)"
  proof (cases "i = length rows - 1")
    case True
    with i assms(2) show ?thesis by (simp add: last_conv_nth)
  next
    case False
    with i have "i < length rows - 1" by simp
    then have "map fst rows ! i < map fst rows ! (length rows - 1)"
      using sorted_wrt_nth_less[OF assms(1), of i "length rows - 1"] i assms(2) by simp
    with i assms(2) show ?thesis by (simp add: last_conv_nth)
  qed
qed simp

lemma ids_unique: "ids_ok rows \<Longrightarrow> r \<in> set rows \<Longrightarrow> r' \<in> set rows \<Longrightarrow> fst r = fst r' \<Longrightarrow> r = r'"
  unfolding ids_ok_def by (metis (no_types, opaque_lifting) prod.collapse map_of_eq_Some_iff option.inject
      strict_sorted_iff)

lemma latest_id_iff:
  assumes "ids_ok rows" and "r \<in> set rows"
  shows "fst r \<in> set (latest_ids b rows) \<longleftrightarrow>
    bq_broker_url (snd r) = b \<and> r = last (queue_rows b (bq_queue (snd r)) rows)"
proof -
  have max: "Max (set (map fst (queue_rows b q rows))) = fst (last (queue_rows b q rows)) \<and>
      last (queue_rows b q rows) \<in> set (queue_rows b q rows)" if "queue_rows b q rows \<noteq> []" for q
  proof
    have "sorted_wrt (<) (map fst (queue_rows b q rows))"
      using ids_ok_filter[OF assms(1)] by (simp add: queue_rows_def ids_ok_def)
    then show "Max (set (map fst (queue_rows b q rows))) = fst (last (queue_rows b q rows))"
      using that by (rule last_is_Max)
  qed (use that in simp)
  show ?thesis
  proof
    assume "fst r \<in> set (latest_ids b rows)"
    then obtain q where q: "queue_rows b q rows \<noteq> []" "fst r = Max (set (map fst (queue_rows b q rows)))"
      by (auto simp: latest_ids_def queue_rows_nonempty)
    with max[OF q(1)] have "last (queue_rows b q rows) \<in> set rows" "fst r = fst (last (queue_rows b q rows))"
      and in_q: "last (queue_rows b q rows) \<in> set (queue_rows b q rows)"
      using queue_rows_subset[of b q rows] by auto
    then have "r = last (queue_rows b q rows)" using ids_unique assms by blast
    moreover have "bq_broker_url (snd r) = b" "bq_queue (snd r) = q"
      using in_q calculation by (auto simp: queue_rows_def)
    ultimately show "bq_broker_url (snd r) = b \<and> r = last (queue_rows b (bq_queue (snd r)) rows)" by simp
  next
    assume r: "bq_broker_url (snd r) = b \<and> r = last (queue_rows b (bq_queue (snd r)) rows)"
    have ne: "queue_rows b (bq_queue (snd r)) rows \<noteq> []"
      using r assms(2) by (auto simp: queue_rows_def filter_empty_conv)
    then have "bq_queue (snd r) \<in> (bq_queue \<circ> snd) ` set (filter (\<lambda>r. bq_broker_url (snd r) = b) rows)"
      by (simp only: queue_rows_nonempty)
    moreover have "fst r = Max (set (map fst (queue_rows b (bq_queue (snd r)) rows)))"
      using max[OF ne] r by simp
    ultimately show "fst r \<in> set (latest_ids b rows)"
      unfolding latest_ids_def by simp
  qed
qed


lemma snapshot_rows:
  assumes "ids_ok rows"
  shows "set (filter (\<lambda>r. fst r \<in> set (latest_ids b rows)) rows) =
    {last (queue_rows b q rows) | q. queue_rows b q rows \<noteq> []}"
proof (intro set_eqI iffI)
  fix r assume "r \<in> set (filter (\<lambda>r. fst r \<in> set (latest_ids b rows)) rows)"
  then have r: "r \<in> set rows" and id: "fst r \<in> set (latest_ids b rows)" by auto
  then have last: "bq_broker_url (snd r) = b" "r = last (queue_rows b (bq_queue (snd r)) rows)"
    using latest_id_iff[OF assms r, of b] by blast+
  have "queue_rows b (bq_queue (snd r)) rows \<noteq> []"
    using r last(1) by (auto simp: queue_rows_def filter_empty_conv)
  with last(2) show "r \<in> {last (queue_rows b q rows) | q. queue_rows b q rows \<noteq> []}" by blast
next
  fix r assume "r \<in> {last (queue_rows b q rows) | q. queue_rows b q rows \<noteq> []}"
  then obtain q where q: "r = last (queue_rows b q rows)" "queue_rows b q rows \<noteq> []" by blast
  from last_in_set[OF q(2)] have "r \<in> set (queue_rows b q rows)" using q(1) by simp
  then have r: "r \<in> set rows" "bq_broker_url (snd r) = b" "bq_queue (snd r) = q"
    by (auto simp: queue_rows_def)
  with q(1) have "fst r \<in> set (latest_ids b rows)" using latest_id_iff[OF assms r(1)] by simp
  with r(1) show "r \<in> set (filter (\<lambda>r. fst r \<in> set (latest_ids b rows)) rows)" by simp
qed

lemma distinct_map_sort_asc: "distinct (map g (sort_asc_key f xs)) = distinct (map g xs)"
  by (rule mset_eq_imp_distinct_iff) simp

lemma snapshot_queues_distinct:
  assumes "ids_ok rows"
  shows "distinct (map (bq_queue \<circ> snd) (filter (\<lambda>r. fst r \<in> set (latest_ids b rows)) rows))"
proof -
  have "distinct (filter (\<lambda>r. fst r \<in> set (latest_ids b rows)) rows)"
    using assms by (auto simp: ids_ok_def strict_sorted_iff distinct_map)
  moreover have "inj_on (bq_queue \<circ> snd) (set (filter (\<lambda>r. fst r \<in> set (latest_ids b rows)) rows))"
  proof (rule inj_onI)
    fix r r'
    assume r: "r \<in> set (filter (\<lambda>r. fst r \<in> set (latest_ids b rows)) rows)"
      and r': "r' \<in> set (filter (\<lambda>r. fst r \<in> set (latest_ids b rows)) rows)"
      and q: "(bq_queue \<circ> snd) r = (bq_queue \<circ> snd) r'"
    have "r = last (queue_rows b (bq_queue (snd r)) rows)"
      using r latest_id_iff[OF assms, of r b] by simp
    moreover have "r' = last (queue_rows b (bq_queue (snd r')) rows)"
      using r' latest_id_iff[OF assms, of r' b] by simp
    ultimately show "r = r'" using q by simp
  qed
  ultimately show ?thesis by (simp add: distinct_map)
qed

text \<open>C19: The queue snapshot of a broker is exactly the last stored observation of every queue of that
  broker, one per queue, in the order of the queue names; observations of other brokers and older
  observations do not show, whatever timestamps they carry.\<close>

theorem queue_snapshot_latest:
  assumes "ids_ok (db_broker_queue_events d)"
  shows "set (get_broker_queue_snapshot b d) =
      {row_to_queue_event (snd (last (queue_rows b q (db_broker_queue_events d)))) | q.
         queue_rows b q (db_broker_queue_events d) \<noteq> []} \<and>
    sorted (map bq_queue (get_broker_queue_snapshot b d)) \<and>
    distinct (map bq_queue (get_broker_queue_snapshot b d))"
proof (intro conjI)
  let ?rows = "db_broker_queue_events d"
  have "set (get_broker_queue_snapshot b d) = (row_to_queue_event \<circ> snd) `
      set (filter (\<lambda>r. fst r \<in> set (latest_ids b ?rows)) ?rows)"
    by (simp add: get_broker_queue_snapshot_def Let_def)
  also have "\<dots> = {row_to_queue_event (snd (last (queue_rows b q ?rows))) | q. queue_rows b q ?rows \<noteq> []}"
    unfolding snapshot_rows[OF assms] by auto
  finally show "set (get_broker_queue_snapshot b d) = \<dots>" .
  show "sorted (map bq_queue (get_broker_queue_snapshot b d))"
    by (simp add: get_broker_queue_snapshot_def Let_def sorted_sort_asc_key)
  have "bq_queue \<circ> (row_to_queue_event \<circ> snd) = (bq_queue \<circ> snd :: (int \<times> broker_queue_event) \<Rightarrow> string)"
    by (auto simp: row_to_queue_event_def)
  then show "distinct (map bq_queue (get_broker_queue_snapshot b d))"
    using snapshot_queues_distinct[OF assms, of b]
    by (simp add: get_broker_queue_snapshot_def Let_def distinct_map_sort_asc)
qed

definition queue_seen :: "string \<Rightarrow> int \<Rightarrow> int \<Rightarrow> broker_queue_event" where
  "queue_seen q n t = \<lparr>bq_broker_url = ''b'', bq_queue = q, bq_messages = Some n, bq_consumers = None,
     bq_timestamp = utc_dt t\<rparr>"

definition queues_db :: db where
  "queues_db = fold store_broker_queue_event [queue_seen ''q2'' 5 9, queue_seen ''q1'' 1 1, queue_seen ''q2'' 0 2] empty_db"

lemma queue_snapshot_latest_witness:
  "queue_seen ''q2'' 0 2 \<in> set (get_broker_queue_snapshot ''b'' queues_db) \<and>
   sorted (map bq_queue (get_broker_queue_snapshot ''b'' queues_db))"
proof -
  have "ids_ok (db_broker_queue_events queues_db)" by code_simp
  note snap = queue_snapshot_latest[OF this, of "''b''"]
  have "queue_rows ''b'' ''q2'' (db_broker_queue_events queues_db) \<noteq> []" by code_simp
  moreover have "row_to_queue_event (snd (last (queue_rows ''b'' ''q2'' (db_broker_queue_events queues_db)))) =
      queue_seen ''q2'' 0 2"
    by code_simp
  ultimately have "queue_seen ''q2'' 0 2 \<in>
      {row_to_queue_event (snd (last (queue_rows ''b'' q (db_broker_queue_events queues_db)))) | q.
         queue_rows ''b'' q (db_broker_queue_events queues_db) \<noteq> []}"
    by (intro CollectI exI[of _ "''q2''"] conjI) (rule sym)
  with snap show ?thesis by (simp only: simp_thms)
qed

section \<open>Clean-up\<close>

lemma delete_where_split: "snd (delete_where P rows) + length (fst (delete_where P rows)) = length rows"
  using length_filter_split[of P rows] by (simp add: delete_where_def)

definition history_size :: "db \<Rightarrow> nat" where
  "history_size d = length (db_task_events d) + length (db_tasks d) + length (db_worker_events d) +
     length (db_broker_queue_events d) + length (db_workers d)"

text \<open>The clean-up deletes from the five history tables exactly the rows whose time is known and
  lies more than the given number of days before now, keeps the rows with no time, leaves task
  relations, schedules and the schema alone, and returns the number of rows it deleted.\<close>

theorem cleanup_exact:
  "let c = DT (dt_local now - days * us_per_day) (dt_off now); (n, d') = cleanup now days d in
     n + history_size d' = history_size d \<and>
     db_tasks d' = filter (\<lambda>r. \<not> older (task_timestamp r) c) (db_tasks d) \<and>
     db_task_events d' = filter (\<lambda>r. \<not> older (Some (te_timestamp (snd r))) c) (db_task_events d) \<and>
     db_worker_events d' = filter (\<lambda>r. \<not> older (Some (wer_timestamp (snd r))) c) (db_worker_events d) \<and>
     db_broker_queue_events d' =
       filter (\<lambda>r. \<not> older (Some (bq_timestamp (snd r))) c) (db_broker_queue_events d) \<and>
     db_workers d' = filter (\<lambda>r. \<not> older (wr_last_heartbeat r) c) (db_workers d) \<and>
     db_task_relations d' = db_task_relations d \<and> db_schedules d' = db_schedules d \<and>
     db_schema d' = db_schema d \<and> db_version d' = db_version d"
proof -
  define c where "c = DT (dt_local now - days * us_per_day) (dt_off now)"
  have null: "(wr_last_heartbeat r \<noteq> None \<and> older (wr_last_heartbeat r) c) = older (wr_last_heartbeat r) c" for r
    by (simp add: older_def split: option.split)
  show ?thesis
    unfolding cleanup_def Let_def delete_where_def prod.case history_size_def c_def[symmetric] null
    using length_filter_split[of "\<lambda>r. older (Some (te_timestamp (snd r))) c" "db_task_events d"]
      length_filter_split[of "\<lambda>r. older (task_timestamp r) c" "db_tasks d"]
      length_filter_split[of "\<lambda>r. older (Some (wer_timestamp (snd r))) c" "db_worker_events d"]
      length_filter_split[of "\<lambda>r. older (Some (bq_timestamp (snd r))) c" "db_broker_queue_events d"]
      length_filter_split[of "\<lambda>r. older (wr_last_heartbeat r) c" "db_workers d"]
    by simp
qed

end
