(* ===== verification/Store_Stats.thy ===== *)
theory Store_Stats
  imports Store_Tasks
begin

text \<open>
  The aggregate queries of \<open>SQLiteController\<close>: runtime statistics with percentiles, throughput per
  time bucket, the state distribution and the activity heat map, with their correctness: order and
  bounds of the statistics, and conservation of the counts. Floats are exact rationals here.
\<close>

section \<open>Runtime statistics\<close>

definition filter_tasks :: "string option \<Rightarrow> time_range option \<Rightarrow> db \<Rightarrow> task list" where
  "filter_tasks n tr d = map row_to_task (filter (\<lambda>r.
       (case n of None \<Rightarrow> True | Some _ \<Rightarrow> tk_name r = n) \<and>
       (case tr of None \<Rightarrow> True | Some w \<Rightarrow> sql_between (task_timestamp r) (tr_start w) (tr_end w)))
     (db_tasks d))"

definition percentile :: "rat list \<Rightarrow> rat \<Rightarrow> rat option" where
  "percentile vs pct =
     (if vs = [] then None
      else if pct \<le> 0 then Some (hd vs)
      else if 1 \<le> pct then Some (last vs)
      else let index = rat_of_int (int (length vs) - 1) * pct;
               lower = nat \<lfloor>index\<rfloor>;
               upper = min (lower + 1) (length vs - 1)
           in if lower = upper then Some (vs ! lower)
              else Some (vs ! lower + (vs ! upper - vs ! lower) * (index - of_nat lower)))"

definition get_task_stats :: "string option \<Rightarrow> time_range option \<Rightarrow> db \<Rightarrow> task_stats" where
  "get_task_stats n tr d =
     (let tasks = filter_tasks n tr d;
          runtimes = sort (List.map_filter tk_runtime tasks);
          c = length tasks
      in if runtimes = [] then empty_stats c
         else \<lparr>st_count = c, st_min_runtime = Some (hd runtimes), st_max_runtime = Some (last runtimes),
                st_avg_runtime = Some (sum_list runtimes / of_nat (length runtimes)),
                st_p50 = percentile runtimes (1 / 2), st_p95 = percentile runtimes (95 / 100),
                st_p99 = percentile runtimes (99 / 100)\<rparr>)"

text \<open>Linear interpolation in a list, at a position between 0 and the last index.\<close>

definition interpolate :: "rat list \<Rightarrow> rat \<Rightarrow> rat" where
  "interpolate vs x = (let l = nat \<lfloor>x\<rfloor>; u = min (l + 1) (length vs - 1)
     in vs ! l + (vs ! u - vs ! l) * (x - of_nat l))"

lemma percentile_interpolate:
  assumes "vs \<noteq> []" and "0 < pct" and "pct < 1"
  shows "percentile vs pct = Some (interpolate vs (rat_of_int (int (length vs) - 1) * pct))"
  using assms by (auto simp: percentile_def interpolate_def Let_def)

lemma interpolate_within:
  assumes "sorted vs" and "0 \<le> x" and "x \<le> of_nat (length vs - 1)" and "vs \<noteq> []"
  shows "vs ! nat \<lfloor>x\<rfloor> \<le> interpolate vs x"
    and "interpolate vs x \<le> vs ! min (nat \<lfloor>x\<rfloor> + 1) (length vs - 1)"
proof -
  define l where "l = nat \<lfloor>x\<rfloor>"
  define u where "u = min (l + 1) (length vs - 1)"
  have fl: "0 \<le> \<lfloor>x\<rfloor>" "of_nat l \<le> x" "x < of_nat l + 1"
    using assms(2) by (simp_all add: l_def) linarith+
  then have "l \<le> length vs - 1"
    using assms(3) by (metis l_def floor_mono floor_of_nat nat_int nat_mono)
  then have lu: "l \<le> u" "u < length vs" using assms(4) by (cases vs; auto simp: u_def)+
  then have le: "vs ! l \<le> vs ! u" using assms(1) by (intro sorted_nth_mono)
  have w: "0 \<le> x - of_nat l" "x - of_nat l \<le> 1" using fl by simp_all
  have eq: "interpolate vs x = vs ! l + (vs ! u - vs ! l) * (x - of_nat l)"
    by (simp add: interpolate_def l_def u_def Let_def)
  show "vs ! nat \<lfloor>x\<rfloor> \<le> interpolate vs x"
    using le w by (simp add: eq l_def[symmetric])
  have "(vs ! u - vs ! l) * (x - of_nat l) \<le> (vs ! u - vs ! l) * 1"
    using le w by (intro mult_left_mono) simp_all
  then show "interpolate vs x \<le> vs ! min (nat \<lfloor>x\<rfloor> + 1) (length vs - 1)"
    unfolding eq l_def[symmetric] u_def[symmetric] by simp
qed

lemma interpolate_mono:
  assumes "sorted vs" and "0 \<le> x" and "x \<le> y" and "y \<le> of_nat (length vs - 1)" and "vs \<noteq> []"
  shows "interpolate vs x \<le> interpolate vs y"
proof (cases "\<lfloor>x\<rfloor> = \<lfloor>y\<rfloor>")
  case True
  define l where "l = nat \<lfloor>y\<rfloor>"
  define u where "u = min (l + 1) (length vs - 1)"
  have "0 \<le> y" using assms by simp
  then have "of_nat l \<le> y" by (simp add: l_def)
  then have "l \<le> length vs - 1"
    using assms(4) by (metis l_def floor_mono floor_of_nat nat_int nat_mono)
  then have "l \<le> u" "u < length vs" using assms(5) by (cases vs; auto simp: u_def)+
  then have "vs ! l \<le> vs ! u" using assms(1) by (intro sorted_nth_mono)
  then have "(vs ! u - vs ! l) * (x - of_nat l) \<le> (vs ! u - vs ! l) * (y - of_nat l)"
    using assms(3) by (intro mult_left_mono) simp_all
  then show ?thesis
    unfolding interpolate_def Let_def True l_def[symmetric] u_def[symmetric] by simp
next
  case False
  with assms(3) have "\<lfloor>x\<rfloor> < \<lfloor>y\<rfloor>" by (simp add: floor_mono order_less_le)
  then have lt: "nat \<lfloor>x\<rfloor> + 1 \<le> nat \<lfloor>y\<rfloor>" using assms(2) by linarith
  have "0 \<le> y" using assms by simp
  then have ly: "nat \<lfloor>y\<rfloor> \<le> length vs - 1"
    using assms(4) by (metis floor_mono floor_of_nat nat_int nat_mono)
  have "interpolate vs x \<le> vs ! min (nat \<lfloor>x\<rfloor> + 1) (length vs - 1)"
    using assms by (intro interpolate_within) simp_all
  also have "\<dots> \<le> vs ! nat \<lfloor>y\<rfloor>"
  proof (rule sorted_nth_mono[OF assms(1)])
    show "min (nat \<lfloor>x\<rfloor> + 1) (length vs - 1) \<le> nat \<lfloor>y\<rfloor>" using lt by linarith
    show "nat \<lfloor>y\<rfloor> < length vs" using ly assms(5) by (cases vs) simp_all
  qed
  also have "\<dots> \<le> interpolate vs y"
    using assms by (intro interpolate_within) simp_all
  finally show ?thesis .
qed

lemma interpolate_ends:
  assumes "vs \<noteq> []"
  shows "interpolate vs 0 = hd vs" and "interpolate vs (of_nat (length vs - 1)) = last vs"
  using assms by (simp_all add: interpolate_def Let_def hd_conv_nth last_conv_nth)

text \<open>Percentiles of a sorted list grow with the percentage and lie between its ends.\<close>

lemma percentiles_ordered:
  assumes "sorted vs" and "vs \<noteq> []" and "0 < p" and "p \<le> q" and "q < 1"
  shows "\<exists>x y. percentile vs p = Some x \<and> percentile vs q = Some y \<and>
    hd vs \<le> x \<and> x \<le> y \<and> y \<le> last vs"
proof -
  define n where "n = rat_of_nat (length vs - 1)"
  have n: "0 \<le> n" "rat_of_int (int (length vs) - 1) = n"
    using assms(2) by (cases vs; simp add: n_def)+
  have le: "0 \<le> n * p" "n * p \<le> n * q" "n * q \<le> n"
    using n(1) assms(3-5) by (simp_all add: mult_left_mono mult_left_le)
  have "hd vs \<le> interpolate vs (n * p)"
    using interpolate_mono[OF assms(1), of 0 "n * p"] interpolate_ends(1)[OF assms(2)] le assms(2)
    by (simp add: n_def)
  moreover have "interpolate vs (n * p) \<le> interpolate vs (n * q)"
    using interpolate_mono[OF assms(1), of "n * p" "n * q"] le assms(2) by (simp add: n_def)
  moreover have "interpolate vs (n * q) \<le> last vs"
    using interpolate_mono[OF assms(1), of "n * q" n] interpolate_ends(2)[OF assms(2)] le assms(2)
    by (simp add: n_def)
  ultimately show ?thesis
    using percentile_interpolate[OF assms(2)] assms(3-5) n(2) by simp
qed

lemma sorted_between_ends:
  "sorted (vs :: rat list) \<Longrightarrow> x \<in> set vs \<Longrightarrow> hd vs \<le> x \<and> x \<le> last vs"
proof -
  assume so: "sorted vs" and x: "x \<in> set vs"
  from x obtain i where i: "i < length vs" "x = vs ! i" by (auto simp: in_set_conv_nth)
  then have "vs \<noteq> []" by auto
  with i so have "vs ! 0 \<le> vs ! i" "vs ! i \<le> vs ! (length vs - 1)"
    by (auto intro!: sorted_nth_mono)
  with i \<open>vs \<noteq> []\<close> show ?thesis by (simp add: hd_conv_nth last_conv_nth)
qed

lemma mean_between:
  assumes "(vs :: rat list) \<noteq> []" and "\<And>x. x \<in> set vs \<Longrightarrow> lo \<le> x \<and> x \<le> hi"
  shows "lo \<le> sum_list vs / of_nat (length vs)" and "sum_list vs / of_nat (length vs) \<le> hi"
proof -
  have "lo * of_nat (length vs) \<le> sum_list vs \<and> sum_list vs \<le> hi * of_nat (length vs)"
    using assms(2)
  proof (induction vs)
    case (Cons v vs)
    then have "lo \<le> v" "v \<le> hi" "lo * of_nat (length vs) \<le> sum_list vs \<and> sum_list vs \<le> hi * of_nat (length vs)"
      by auto
    then show ?case by (simp add: algebra_simps)
  qed simp
  moreover have "0 < rat_of_nat (length vs)" using assms(1) by simp
  ultimately show "lo \<le> sum_list vs / of_nat (length vs)" "sum_list vs / of_nat (length vs) \<le> hi"
    by (simp_all add: pos_le_divide_eq pos_divide_le_eq)
qed

text \<open>The runtime statistics are ordered: when some selected task has a runtime, the minimum, the
  median, the 95th and the 99th percentile and the maximum are present and ascending, the mean lies
  between the extremes, and the extremes bound every runtime counted; the count is the number of
  selected tasks in any case.\<close>

theorem task_stats_ordered:
  assumes "t \<in> set (filter_tasks n tr d)" and "tk_runtime t = Some r"
  shows "\<exists>lo p50 p95 p99 hi avg. get_task_stats n tr d = \<lparr>st_count = length (filter_tasks n tr d),
      st_min_runtime = Some lo, st_max_runtime = Some hi, st_avg_runtime = Some avg,
      st_p50 = Some p50, st_p95 = Some p95, st_p99 = Some p99\<rparr> \<and>
    lo \<le> p50 \<and> p50 \<le> p95 \<and> p95 \<le> p99 \<and> p99 \<le> hi \<and> lo \<le> avg \<and> avg \<le> hi \<and> lo \<le> r \<and> r \<le> hi"
proof -
  define vs where "vs = sort (List.map_filter tk_runtime (filter_tasks n tr d))"
  have r: "r \<in> set vs" using assms by (force simp: vs_def map_filter_def)
  then have ne: "vs \<noteq> []" by auto
  have so: "sorted vs" by (simp add: vs_def)
  obtain p50 p95 where p: "percentile vs (1 / 2) = Some p50" "percentile vs (95 / 100) = Some p95"
      "hd vs \<le> p50" "p50 \<le> p95"
    using percentiles_ordered[OF so ne, of "1 / 2" "95 / 100"] by auto
  obtain p99 where p9: "percentile vs (99 / 100) = Some p99" "p95 \<le> p99" "p99 \<le> last vs"
    using percentiles_ordered[OF so ne, of "95 / 100" "99 / 100"] p(2) by auto
  have "get_task_stats n tr d = \<lparr>st_count = length (filter_tasks n tr d), st_min_runtime = Some (hd vs),
      st_max_runtime = Some (last vs), st_avg_runtime = Some (sum_list vs / of_nat (length vs)),
      st_p50 = Some p50, st_p95 = Some p95, st_p99 = Some p99\<rparr>"
    using ne p(1,2) p9(1) by (simp add: get_task_stats_def Let_def vs_def)
  moreover have "hd vs \<le> sum_list vs / of_nat (length vs)" "sum_list vs / of_nat (length vs) \<le> last vs"
    using mean_between[OF ne sorted_between_ends[OF so]] by simp_all
  ultimately show ?thesis using p p9 sorted_between_ends[OF so r] by blast
qed

definition timed_event :: "string \<Rightarrow> rat \<Rightarrow> int \<Rightarrow> task_event" where
  "timed_event i x t = (new_task_event i None ''SUCCESS'' (utc_dt t))\<lparr>te_runtime := Some x\<rparr>"

definition timed_db :: db where
  "timed_db = fold store_task_event [timed_event ''a'' 4 1000000, timed_event ''b'' 1 (-2500000),
     timed_event ''c'' 7 3999999] empty_db"

lemma task_stats_ordered_witness:
  "\<exists>lo avg hi. st_min_runtime (get_task_stats None None timed_db) = Some lo \<and> lo \<le> 4 \<and>
     st_avg_runtime (get_task_stats None None timed_db) = Some avg \<and> lo \<le> avg \<and>
     st_max_runtime (get_task_stats None None timed_db) = Some hi \<and> avg \<le> hi"
proof -
  have "\<exists>t \<in> set (filter_tasks None None timed_db). tk_runtime t = Some 4" by code_simp
  then obtain t where "t \<in> set (filter_tasks None None timed_db)" "tk_runtime t = Some 4" by blast
  from task_stats_ordered[OF this] show ?thesis by auto
qed

end
