(* ===== verification/Store_Throughput.thy ===== *)
theory Store_Throughput
  imports Store_Stats
begin

text \<open>
  Throughput per time bucket, the state distribution and the heat map of \<open>SQLiteController\<close>. The
  loop that lays out the buckets is a partial function: None stands for a loop that never ends. A
  datetime outside the years 1 to 9999 raises OverflowError, as in Python.
\<close>

section \<open>Buckets\<close>

definition dt_add_seconds :: "pydt \<Rightarrow> int \<Rightarrow> pyexc + pydt" where
  "dt_add_seconds d n = (let t = dt_local d + n * us_per_second in
     if min_local \<le> t \<and> t \<le> max_local then Inr (DT t (dt_off d))
     else Inl (OtherError ''OverflowError: date value out of range''))"

definition coerced :: "pydt \<Rightarrow> pydt" where
  "coerced d = (case coerce_dt (Some d) of None \<Rightarrow> d | Some x \<Rightarrow> x)"

partial_function (option) fill_buckets ::
    "int \<Rightarrow> pydt \<Rightarrow> pydt \<Rightarrow> (pydt, nat) pydict \<Rightarrow> (pyexc + (pydt, nat) pydict) option" where
  "fill_buckets bucket_seconds fin cursor buckets =
     (if dt_instant cursor \<le> dt_instant fin
      then (case dt_add_seconds cursor bucket_seconds of
              Inl e \<Rightarrow> Some (Inl e)
            | Inr next \<Rightarrow> fill_buckets bucket_seconds fin next (dset cursor 0 buckets))
      else Some (Inr buckets))"

definition init_buckets :: "time_range \<Rightarrow> int \<Rightarrow> (pyexc + (pydt, nat) pydict) option" where
  "init_buckets tr bucket_seconds =
     fill_buckets bucket_seconds (coerced (tr_end tr)) (coerced (tr_start tr)) []"

text \<open>\<open>int(x)\<close> of a number of microseconds in seconds truncates towards zero.\<close>

definition whole_seconds :: "int \<Rightarrow> int" where
  "whole_seconds us = (if 0 \<le> us then us div us_per_second else - ((- us) div us_per_second))"

definition bucket_start :: "pydt \<Rightarrow> pydt \<Rightarrow> int \<Rightarrow> pyexc + pydt" where
  "bucket_start start timestamp bucket_seconds =
     (let s = coerced start; t = coerced timestamp;
          delta_seconds = whole_seconds (dt_instant t - dt_instant s)
      in if bucket_seconds = 0 then Inl (OtherError ''ZeroDivisionError'')
         else let bucket_index = max (delta_seconds div bucket_seconds) 0
              in dt_add_seconds s (bucket_index * bucket_seconds))"

definition count_task :: "pydt \<Rightarrow> int \<Rightarrow> task \<Rightarrow> (pydt, nat) pydict \<Rightarrow> pyexc + (pydt, nat) pydict" where
  "count_task start bucket_seconds t buckets = (case task_timestamp t of
       None \<Rightarrow> Inr buckets
     | Some ts \<Rightarrow> ebind (bucket_start start ts bucket_seconds) (\<lambda>b.
         Inr (case dget buckets b of None \<Rightarrow> buckets | Some n \<Rightarrow> dset b (n + 1) buckets)))"

definition get_throughput :: "time_range \<Rightarrow> int \<Rightarrow> db \<Rightarrow> (pyexc + throughput_bucket list) option" where
  "get_throughput tr bucket_seconds d = Option.bind (init_buckets tr bucket_seconds) (\<lambda>r. Some
     (ebind r (\<lambda>buckets.
      ebind (efold (count_task (tr_start tr) bucket_seconds) (filter_tasks None (Some tr) d) buckets) (\<lambda>filled.
      Inr (map (\<lambda>(k, n). \<lparr>tb_bucket_start = k, tb_count = n\<rparr>) filled)))))"

section \<open>State distribution and heat map\<close>

definition get_state_distribution :: "db \<Rightarrow> (string, nat) pydict" where
  "get_state_distribution d =
     map (\<lambda>s. (s, length (filter (\<lambda>r. tk_state r = s) (db_tasks d)))) (remdups (map tk_state (db_tasks d)))"

definition bump_cell :: "nat \<Rightarrow> nat \<Rightarrow> nat list list \<Rightarrow> nat list list" where
  "bump_cell i j hm = hm[i := (hm ! i)[j := hm ! i ! j + 1]]"

definition heat_task :: "task \<Rightarrow> nat list list \<Rightarrow> nat list list" where
  "heat_task t hm = (case task_timestamp t of
       None \<Rightarrow> hm
     | Some ts \<Rightarrow> bump_cell (dt_weekday (coerced ts)) (dt_hour (coerced ts)) hm)"

definition get_heatmap :: "time_range option \<Rightarrow> db \<Rightarrow> nat list list" where
  "get_heatmap tr d = fold heat_task (filter_tasks None tr d) (replicate 7 (replicate 24 0))"

section \<open>The bucket loop\<close>

definition bucket_at :: "pydt \<Rightarrow> int \<Rightarrow> nat \<Rightarrow> pydt" where
  "bucket_at s n j = DT (dt_local s + int j * (n * us_per_second)) (dt_off s)"

definition bucket_no :: "pydt \<Rightarrow> pydt \<Rightarrow> int \<Rightarrow> nat" where
  "bucket_no s e n = nat ((dt_instant e - dt_instant s) div (n * us_per_second) + 1)"

lemma fill_buckets_closed:
  assumes "0 < n" and "min_local \<le> dt_local c" and "dt_local c - dt_instant c + dt_instant e + n * us_per_second \<le> max_local"
    and "\<And>k. k \<in> fst ` set acc \<Longrightarrow> dt_local k < dt_local c"
  shows "fill_buckets n e c acc = Some (Inr (acc @ map (\<lambda>j. (bucket_at c n j, 0)) [0..<bucket_no c e n]))"
  using assms(2-4)
proof (induction "bucket_no c e n" arbitrary: c acc)
  case 0
  let ?w = "n * us_per_second"
  have w: "0 < ?w" using assms(1) by (simp add: us_defs)
  have "dt_instant e < dt_instant c"
  proof (rule ccontr)
    assume "\<not> ?thesis"
    then have "0 \<le> (dt_instant e - dt_instant c) div ?w" using w by (simp add: pos_imp_zdiv_nonneg_iff)
    with 0(1) show False by (simp add: bucket_no_def)
  qed
  with 0(1)[symmetric] show ?case by (subst fill_buckets.simps) simp
next
  case (Suc m)
  let ?w = "n * us_per_second"
  have w: "0 < ?w" using assms(1) by (simp add: us_defs)
  have "0 \<le> (dt_instant e - dt_instant c) div ?w"
    using Suc(2) by (simp add: bucket_no_def)
  then have le: "dt_instant c \<le> dt_instant e" using w by (simp add: pos_imp_zdiv_nonneg_iff)
  define c' where "c' = bucket_at c n 1"
  have c': "dt_local c' = dt_local c + ?w" "dt_instant c' = dt_instant c + ?w"
    by (simp_all add: c'_def bucket_at_def dt_instant_def)
  have add: "dt_add_seconds c n = Inr c'"
    using Suc.prems(1,2) le w by (simp add: dt_add_seconds_def Let_def c'_def bucket_at_def)
  have "(dt_instant e - dt_instant c') div ?w = (dt_instant e - dt_instant c) div ?w - 1"
  proof -
    have "(dt_instant e - dt_instant c + (- 1) * ?w) div ?w = - 1 + (dt_instant e - dt_instant c) div ?w"
      by (rule div_mult_self1) (metis w less_irrefl)
    then show ?thesis by (simp add: c' algebra_simps)
  qed
  with Suc(2) have m: "m = bucket_no c' e n" by (simp add: bucket_no_def)
  have fresh: "dset c 0 acc = acc @ [(c, 0)]"
    using Suc.prems(3) by (intro dset_new) auto
  have "fill_buckets n e c acc = fill_buckets n e c' (acc @ [(c, 0)])"
    using le add fresh by (subst fill_buckets.simps) simp
  also have "\<dots> = Some (Inr ((acc @ [(c, 0)]) @ map (\<lambda>j. (bucket_at c' n j, 0)) [0..<bucket_no c' e n]))"
  proof (rule Suc(1)[OF m])
    show "min_local \<le> dt_local c'" using Suc.prems(1) w by (simp add: c')
    show "dt_local c' - dt_instant c' + dt_instant e + ?w \<le> max_local"
      using Suc.prems(2) by (simp add: c')
    fix k assume "k \<in> fst ` set (acc @ [(c, 0 :: nat)])"
    then have "k = c \<or> k \<in> fst ` set acc" by auto
    then have "dt_local k \<le> dt_local c"
      by (metis Suc.prems(3) order_less_imp_le order_refl)
    with w show "dt_local k < dt_local c'" by (simp add: c'(1))
  qed
  also have "(c, 0 :: nat) # map (\<lambda>j. (bucket_at c' n j, 0)) [0..<m] = map (\<lambda>j. (bucket_at c n j, 0)) [0..<Suc m]"
  proof -
    have "bucket_at c' n j = bucket_at c n (Suc j)" for j
      by (simp add: bucket_at_def c'_def algebra_simps)
    moreover have "bucket_at c n 0 = c" by (simp add: bucket_at_def)
    ultimately show ?thesis by (simp add: upt_conv_Cons map_Suc_upt[symmetric] comp_def del: upt_Suc)
  qed
  then have "(acc @ [(c, 0)]) @ map (\<lambda>j. (bucket_at c' n j, 0)) [0..<bucket_no c' e n] =
      acc @ map (\<lambda>j. (bucket_at c n j, 0)) [0..<bucket_no c e n]"
    by (simp only: m[symmetric] Suc(2)[symmetric] append_assoc append.simps)
  finally show ?case .
qed

section \<open>Counting\<close>

lemma dset_known: "dict_ok d \<Longrightarrow> k \<in> fst ` set d \<Longrightarrow>
    dset k v d = map (\<lambda>(k', x). (k', if k' = k then v else x)) d"
proof (induction d)
  case (Cons p d)
  obtain k1 x1 where p: "p = (k1, x1)" by fastforce
  have "k1 = k \<Longrightarrow> map (\<lambda>(k', x). (k', if k' = k then v else x)) d = d"
    using Cons.prems by (intro map_idI) (force simp: p dict_ok_def)
  with Cons show ?case by (auto simp: p dict_ok_def)
qed simp

lemma bump_known:
  assumes "dict_ok b" and "k \<in> fst ` set b"
  shows "(case dget b k of None \<Rightarrow> b | Some n \<Rightarrow> dset k (n + 1) b) =
    map (\<lambda>(k', n). (k', n + (if k' = k then 1 else 0 :: nat))) b"
proof -
  obtain n where n: "dget b k = Some n" using assms(2) by (metis domD dom_map_of_conv_image_fst)
  have "dset k (n + 1) b = map (\<lambda>(k', x). (k', if k' = k then n + 1 else x)) b"
    using assms by (rule dset_known)
  also have "\<dots> = map (\<lambda>(k', x). (k', x + (if k' = k then 1 else 0))) b"
  proof (intro map_cong refl)
    fix p assume p: "p \<in> set b"
    obtain k' x where kx: "p = (k', x)" by fastforce
    with p assms(1) have "dget b k' = Some x" by (simp add: dict_ok_def)
    with n have "k' = k \<Longrightarrow> x = n" by simp
    then show "(case p of (k', x) \<Rightarrow> (k', if k' = k then n + 1 else x)) =
        (case p of (k', x) \<Rightarrow> (k', x + (if k' = k then 1 else 0)))"
      by (simp add: kx)
  qed
  finally show ?thesis using n by simp
qed

text \<open>The bucket a task falls into, when the tasks have timestamps inside the range.\<close>

lemma count_tasks_closed:
  assumes "dict_ok b" and "\<And>t. t \<in> set ts \<Longrightarrow> \<exists>s. task_timestamp t = Some s \<and> bucket_start st s n = Inr (key t)"
    and "key ` set ts \<subseteq> fst ` set b"
  shows "efold (count_task st n) ts b = Inr (map (\<lambda>(k, c). (k, c + length (filter (\<lambda>t. key t = k) ts))) b)"
  using assms
proof (induction ts arbitrary: b)
  case Nil
  then show ?case by (simp add: case_prod_unfold)
next
  case (Cons t ts)
  let ?b = "map (\<lambda>(k', c). (k', c + (if k' = key t then 1 else 0 :: nat))) b"
  have keys: "map fst ?b = map fst b" by (simp add: case_prod_unfold comp_def)
  then have kset: "fst ` set ?b = fst ` set b" by (metis set_map)
  obtain s where "task_timestamp t = Some s" "bucket_start st s n = Inr (key t)"
    using Cons.prems(2)[of t] by auto
  then have "count_task st n t b = Inr ?b"
    using bump_known[OF Cons.prems(1), of "key t"] Cons.prems(3) by (simp add: count_task_def)
  moreover have "efold (count_task st n) ts ?b =
      Inr (map (\<lambda>(k, c). (k, c + length (filter (\<lambda>t. key t = k) ts))) ?b)"
  proof (rule Cons.IH)
    show "dict_ok ?b" using Cons.prems(1) keys by (simp only: dict_ok_def)
    show "key ` set ts \<subseteq> fst ` set ?b" using Cons.prems(3) kset by simp
  qed (use Cons.prems(2) in simp)
  moreover have "map (\<lambda>(k, c). (k, c + length (filter (\<lambda>t. key t = k) ts))) ?b =
      map (\<lambda>(k, c). (k, c + length (filter (\<lambda>t. key t = k) (t # ts)))) b"
    by auto
  ultimately show ?case by simp
qed

lemma whole_seconds_div:
  assumes "0 \<le> x" and "0 < n"
  shows "whole_seconds x div n = x div (n * us_per_second)"
  using assms by (simp add: whole_seconds_def us_defs zdiv_zmult2_eq mult.commute[of n])

text \<open>A UTC time window, as the pages build it.\<close>

definition utc_range :: "time_range \<Rightarrow> bool" where
  "utc_range tr = (dt_off (tr_start tr) = Some 0 \<and> dt_off (tr_end tr) = Some 0)"

definition naive_task :: "task \<Rightarrow> bool" where
  "naive_task r = (case task_timestamp r of None \<Rightarrow> True | Some t \<Rightarrow> dt_off t = None)"

lemma task_timestamp_row: "naive_task r \<Longrightarrow> task_timestamp (row_to_task r) = map_option with_utc (task_timestamp r)"
  by (auto simp: naive_task_def task_timestamp_def row_to_task_def or_else_def coerce_dt_def split: option.splits)

lemma in_window:
  assumes "utc_range tr" and "list_all naive_task (db_tasks d)" and "t \<in> set (filter_tasks None (Some tr) d)"
  shows "\<exists>x. task_timestamp t = Some (utc_dt x) \<and> dt_instant (tr_start tr) \<le> x \<and> x \<le> dt_instant (tr_end tr)"
proof -
  from assms(3) obtain r where r: "r \<in> set (db_tasks d)" "t = row_to_task r"
    "sql_between (task_timestamp r) (tr_start tr) (tr_end tr)"
    by (auto simp: filter_tasks_def)
  with assms(2) have "naive_task r" by (auto simp: list_all_iff)
  from task_timestamp_row[OF this] r assms(1) show ?thesis
    by (auto simp: sql_between_def utc_range_def dt_instant_def with_utc_def utc_dt_def split: option.splits)
qed

lemma bucket_start_at:
  assumes "dt_off s = Some 0" and "dt_local s \<le> x" and "0 < n" and "min_local \<le> dt_local s" and "x \<le> max_local"
  shows "bucket_start s (utc_dt x) n = Inr (bucket_at s n (nat ((x - dt_local s) div (n * us_per_second))))"
proof -
  let ?w = "n * us_per_second" and ?y = "x - dt_local s"
  have w: "0 < ?w" using assms(3) by (simp add: us_defs)
  have q: "0 \<le> ?y div ?w" using w assms(2) by (simp add: pos_imp_zdiv_nonneg_iff)
  have "?y div ?w * ?w \<le> ?y" using w by (simp add: minus_mod_eq_div_mult[symmetric])
  then have ub: "dt_local s + ?y div ?w * ?w \<le> max_local" using assms(5) by simp
  have lb: "min_local \<le> dt_local s + ?y div ?w * ?w" using q w assms(4) by (smt (verit) mult_nonneg_nonneg)
  have c: "coerced s = s" "coerced (utc_dt x) = utc_dt x"
    using assms(1) by (simp_all add: coerced_def coerce_dt_def utc_dt_def)
  have i: "dt_instant (utc_dt x) - dt_instant s = ?y"
    using assms(1) by (simp add: dt_instant_def utc_dt_def)
  show ?thesis
    unfolding bucket_start_def c Let_def i
    using whole_seconds_div[of ?y n] assms(2,3) q ub lb
    by (simp add: dt_add_seconds_def bucket_at_def Let_def mult.assoc)
qed

section \<open>What the charts show\<close>

definition in_bucket :: "pydt \<Rightarrow> int \<Rightarrow> task \<Rightarrow> bool" where
  "in_bucket b n t = (case task_timestamp t of
       None \<Rightarrow> False
     | Some ts \<Rightarrow> dt_instant b \<le> dt_instant ts \<and> dt_instant ts < dt_instant b + n * us_per_second)"

lemma sum_by_index:
  assumes "\<And>t. t \<in> set ts \<Longrightarrow> f t < n"
  shows "sum_list (map (\<lambda>j. length (filter (\<lambda>t. f t = j) ts)) [0..<n]) = length ts"
  using assms
proof (induction ts)
  case (Cons t ts)
  have "sum_list (map (\<lambda>j. length (filter (\<lambda>t. f t = j) (t # ts))) [0..<n]) =
      sum_list (map (\<lambda>j. (if f t = j then 1 else 0) + length (filter (\<lambda>t. f t = j) ts)) [0..<n])"
    by (intro arg_cong[where f = sum_list] map_cong) auto
  also have "\<dots> = (\<Sum>j \<in> {0..<n}. if f t = j then 1 else 0) + length ts"
    using Cons by (simp add: sum_list_addf interv_sum_list_conv_sum_set_nat)
  also have "(\<Sum>j \<in> {0..<n}. if f t = j then 1 else 0 :: nat) = 1"
    using Cons.prems[of t] by (simp add: sum.delta)
  finally show ?case by simp
qed simp

lemma bucket_at_inj: "0 < n \<Longrightarrow> bucket_at s n i = bucket_at s n j \<longleftrightarrow> i = j"
  by (simp add: bucket_at_def us_defs)

lemma in_bucket_iff:
  assumes "0 < n" and "dt_off s = Some 0" and "dt_local s \<le> x" and "task_timestamp t = Some (utc_dt x)"
  shows "in_bucket (bucket_at s n j) n t \<longleftrightarrow> nat ((x - dt_local s) div (n * us_per_second)) = j"
proof -
  define w where "w = n * us_per_second"
  define y where "y = x - dt_local s"
  have w: "0 < w" using assms(1) by (simp add: w_def us_defs)
  have y: "0 \<le> y" using assms(3) by (simp add: y_def)
  have "in_bucket (bucket_at s n j) n t \<longleftrightarrow> int j * w \<le> y \<and> y < int j * w + w"
    using assms(2,4) by (auto simp: in_bucket_def bucket_at_def dt_instant_def utc_dt_def w_def y_def)
  also have "\<dots> \<longleftrightarrow> y div w = int j"
  proof
    assume "int j * w \<le> y \<and> y < int j * w + w"
    then show "y div w = int j" by (intro int_div_pos_eq[of _ _ _ "y - int j * w"]) (auto simp: mult.commute)
  next
    assume "y div w = int j"
    moreover have "y = y div w * w + y mod w" by simp
    moreover have "0 \<le> y mod w" "y mod w < w" using w by simp_all
    ultimately show "int j * w \<le> y \<and> y < int j * w + w" by auto
  qed
  also have "\<dots> \<longleftrightarrow> nat (y div w) = j"
    using w y by (auto simp: pos_imp_zdiv_nonneg_iff)
  finally show ?thesis by (simp add: w_def y_def)
qed

text \<open>C18: The throughput chart loses nothing and counts nothing twice: for a UTC window and a positive
  bucket width (and dates that stay in Python's range) the query returns consecutive buckets from the
  start of the window, each with the number of tasks of the window whose time lies in it, and the
  counts add up to the number of tasks in the window.\<close>

theorem throughput_conserves:
  assumes "utc_range tr" and "0 < n" and "min_local \<le> dt_local (tr_start tr)"
    and "dt_local (tr_end tr) + n * us_per_second \<le> max_local" and "list_all naive_task (db_tasks d)"
  defines "ts \<equiv> filter_tasks None (Some tr) d"
  shows "\<exists>bs. get_throughput tr n d = Some (Inr bs) \<and>
    bs = map (\<lambda>j. let b = bucket_at (tr_start tr) n j
                  in \<lparr>tb_bucket_start = b, tb_count = length (filter (in_bucket b n) ts)\<rparr>)
           [0..<bucket_no (tr_start tr) (tr_end tr) n] \<and>
    sum_list (map tb_count bs) = length ts"
proof -
  let ?s = "tr_start tr" and ?e = "tr_end tr" and ?w = "n * us_per_second"
  define N where "N = bucket_no ?s ?e n"
  define idx where "idx t = nat ((dt_local (the (task_timestamp t)) - dt_local ?s) div ?w)" for t
  define b0 where "b0 = map (\<lambda>j. (bucket_at ?s n j, 0 :: nat)) [0..<N]"
  have off: "dt_off ?s = Some 0" "dt_off ?e = Some 0" using assms(1) by (auto simp: utc_range_def)
  have w: "0 < ?w" using assms(2) by (simp add: us_defs)
  have inst: "dt_instant ?s = dt_local ?s" "dt_instant ?e = dt_local ?e"
    using off by (simp_all add: dt_instant_def)
  have coerced: "coerced ?s = ?s" "coerced ?e = ?e"
    using off by (simp_all add: coerced_def coerce_dt_def)
  have init: "init_buckets tr n = Some (Inr b0)"
    unfolding init_buckets_def coerced b0_def N_def
    using assms(2-4) by (subst fill_buckets_closed) (simp_all add: inst)
  have task: "\<exists>x. task_timestamp t = Some (utc_dt x) \<and> dt_local ?s \<le> x \<and> x \<le> dt_local ?e" if "t \<in> set ts" for t
    using in_window[OF assms(1,5)] that inst by (simp add: ts_def)
  have idx: "idx t < N" "bucket_start ?s (the (task_timestamp t)) n = Inr (bucket_at ?s n (idx t))"
    "in_bucket (bucket_at ?s n j) n t \<longleftrightarrow> idx t = j" if "t \<in> set ts" for t j
  proof -
    from task[OF that] obtain x where x: "task_timestamp t = Some (utc_dt x)" "dt_local ?s \<le> x" "x \<le> dt_local ?e"
      by blast
    then have "(x - dt_local ?s) div ?w \<le> (dt_local ?e - dt_local ?s) div ?w"
      using w by (intro zdiv_mono1) simp_all
    moreover have "0 \<le> (x - dt_local ?s) div ?w" using w x by (simp add: pos_imp_zdiv_nonneg_iff)
    ultimately show "idx t < N" using x by (simp add: idx_def N_def bucket_no_def inst utc_dt_def)
    show "bucket_start ?s (the (task_timestamp t)) n = Inr (bucket_at ?s n (idx t))"
      using bucket_start_at[OF off(1) x(2) assms(2,3)] x w assms(4) by (simp add: idx_def) (simp add: utc_dt_def)
    show "in_bucket (bucket_at ?s n j) n t \<longleftrightarrow> idx t = j"
      using in_bucket_iff[OF assms(2) off(1) x(2,1), of j] x by (simp add: idx_def utc_dt_def)
  qed
  have "efold (count_task ?s n) ts b0 =
      Inr (map (\<lambda>(k, c). (k, c + length (filter (\<lambda>t. bucket_at ?s n (idx t) = k) ts))) b0)"
  proof (rule count_tasks_closed)
    show "dict_ok b0"
      using bucket_at_inj[OF assms(2)] by (auto simp: dict_ok_def b0_def comp_def distinct_map intro!: inj_onI)
    show "\<exists>s. task_timestamp t = Some s \<and> bucket_start ?s s n = Inr (bucket_at ?s n (idx t))" if "t \<in> set ts" for t
      using task[OF that] idx(2)[OF that] by auto
    show "(\<lambda>t. bucket_at ?s n (idx t)) ` set ts \<subseteq> fst ` set b0"
      using idx(1) by (force simp: b0_def image_iff)
  qed
  also have "map (\<lambda>(k, c). (k, c + length (filter (\<lambda>t. bucket_at ?s n (idx t) = k) ts))) b0 =
      map (\<lambda>j. (bucket_at ?s n j, length (filter (in_bucket (bucket_at ?s n j) n) ts))) [0..<N]"
    using idx(3) by (auto simp: b0_def bucket_at_inj[OF assms(2)] intro!: arg_cong[where f = length] filter_cong)
  finally have "get_throughput tr n d = Some (Inr (map (\<lambda>j. \<lparr>tb_bucket_start = bucket_at ?s n j,
      tb_count = length (filter (in_bucket (bucket_at ?s n j) n) ts)\<rparr>) [0..<N]))"
    by (simp add: get_throughput_def init ts_def[symmetric] comp_def)
  moreover have "sum_list (map (\<lambda>j. length (filter (in_bucket (bucket_at ?s n j) n) ts)) [0..<N]) = length ts"
  proof -
    have "filter (in_bucket (bucket_at ?s n j) n) ts = filter (\<lambda>t. idx t = j) ts" for j
      using idx(3) by (intro filter_cong) auto
    then show ?thesis using sum_by_index[of ts idx N] idx(1) by simp
  qed
  ultimately show ?thesis by (simp add: N_def Let_def comp_def)
qed

definition ten_seconds :: time_range where
  "ten_seconds = \<lparr>tr_start = utc_dt (-3000000), tr_end = utc_dt 6999999\<rparr>"

lemma throughput_conserves_witness:
  "\<exists>bs. get_throughput ten_seconds 5 timed_db = Some (Inr bs) \<and> map tb_count bs = [2, 1] \<and>
     sum_list (map tb_count bs) = 3"
proof -
  have ok: "utc_range ten_seconds" "min_local \<le> dt_local (tr_start ten_seconds)"
    "dt_local (tr_end ten_seconds) + 5 * us_per_second \<le> max_local" "list_all naive_task (db_tasks timed_db)"
    by code_simp+
  have len: "length (filter_tasks None (Some ten_seconds) timed_db) = 3" by code_simp
  have counts: "map tb_count (map (\<lambda>j. let b = bucket_at (tr_start ten_seconds) 5 j
      in \<lparr>tb_bucket_start = b, tb_count = length (filter (in_bucket b 5)
           (filter_tasks None (Some ten_seconds) timed_db))\<rparr>)
      [0..<bucket_no (tr_start ten_seconds) (tr_end ten_seconds) 5]) = [2, 1]" by code_simp
  from throughput_conserves[OF ok(1) _ ok(2,3,4)] len show ?thesis
    unfolding counts[symmetric] by auto
qed

text \<open>A bucket width of zero makes no progress.\<close>

definition stuck_args :: "int \<Rightarrow> pydt \<Rightarrow> pydt \<Rightarrow> bool" where
  "stuck_args n e c = (n = 0 \<and> min_local \<le> dt_local c \<and> dt_local c \<le> max_local \<and> dt_instant c \<le> dt_instant e)"

lemma zero_width_stuck:
  assumes "fill_buckets n e c b = Some r"
  shows "\<not> stuck_args n e c"
proof (rule fill_buckets.raw_induct[where P = "\<lambda>n e c b r. \<not> stuck_args n e c", rotated, OF assms])
  fix rec n e c b r
  assume IH: "\<And>n e c b r. rec n e c b = Some r \<Longrightarrow> \<not> stuck_args n e c"
    and body: "(if dt_instant c \<le> dt_instant e
      then case dt_add_seconds c n of Inl x \<Rightarrow> Some (Inl x) | Inr next \<Rightarrow> rec n e next (dset c 0 b)
      else Some (Inr b)) = Some r"
  show "\<not> stuck_args n e c"
  proof
    assume z: "stuck_args n e c"
    then have "dt_add_seconds c n = Inr c" by (cases c) (simp add: dt_add_seconds_def stuck_args_def)
    with body z have "rec n e c (dset c 0 b) = Some r" by (simp add: stuck_args_def)
    from IH[OF this] z show False by blast
  qed
qed

text \<open>C22: A throughput request with a bucket width of zero over a window that is not empty never
  returns: the loop that lays out the buckets makes no progress, and the request schema does not
  exclude the value.\<close>

theorem throughput_zero_width:
  assumes "dt_instant (coerced (tr_start tr)) \<le> dt_instant (coerced (tr_end tr))"
    and "min_local \<le> dt_local (tr_start tr)" and "dt_local (tr_start tr) \<le> max_local"
  shows "get_throughput tr 0 d = None"
proof -
  have "dt_local (coerced (tr_start tr)) = dt_local (tr_start tr)"
    by (simp add: coerced_def coerce_dt_def with_utc_def)
  then have "fill_buckets 0 (coerced (tr_end tr)) (coerced (tr_start tr)) [] = None"
    using zero_width_stuck[of 0 "coerced (tr_end tr)" "coerced (tr_start tr)" "[]"] assms
    by (cases "fill_buckets 0 (coerced (tr_end tr)) (coerced (tr_start tr)) []") (auto simp: stuck_args_def)
  then show ?thesis by (simp add: get_throughput_def init_buckets_def)
qed

lemma throughput_zero_width_witness: "get_throughput ten_seconds 0 timed_db = None"
proof (rule throughput_zero_width)
  show "dt_instant (coerced (tr_start ten_seconds)) \<le> dt_instant (coerced (tr_end ten_seconds))" by code_simp
  show "min_local \<le> dt_local (tr_start ten_seconds)" by code_simp
  show "dt_local (tr_start ten_seconds) \<le> max_local" by code_simp
qed

section \<open>The heat map\<close>

definition heat_shape :: "nat list list \<Rightarrow> bool" where
  "heat_shape hm = (length hm = 7 \<and> list_all (\<lambda>row. length row = 24) hm)"

definition in_cell :: "nat \<Rightarrow> nat \<Rightarrow> task \<Rightarrow> bool" where
  "in_cell i j t = (case task_timestamp t of
       None \<Rightarrow> False
     | Some ts \<Rightarrow> dt_weekday (coerced ts) = i \<and> dt_hour (coerced ts) = j)"

lemma heat_task_step:
  assumes "heat_shape hm" and "i < 7" and "j < 24"
  shows "heat_shape (heat_task t hm)"
    and "heat_task t hm ! i ! j = hm ! i ! j + (if in_cell i j t then 1 else 0)"
  using assms
  by (auto simp: heat_task_def in_cell_def bump_cell_def heat_shape_def list_all_length nth_list_update
      dt_weekday_less dt_hour_less split: option.split)

lemma heat_tasks:
  assumes "heat_shape hm" and "i < 7" and "j < 24"
  shows "heat_shape (fold heat_task ts hm) \<and>
    fold heat_task ts hm ! i ! j = hm ! i ! j + length (filter (in_cell i j) ts)"
  using assms(1)
proof (induction ts arbitrary: hm)
  case (Cons t ts)
  with heat_task_step[OF Cons.prems assms(2,3), of t] show ?case by simp
qed simp

text \<open>The heat map always has seven days of twenty-four hours, and each cell is the number of
  selected tasks whose time falls on that weekday and hour; in particular no index is out of range.\<close>

theorem heatmap_exact:
  assumes "i < 7" and "j < 24"
  shows "heat_shape (get_heatmap tr d) \<and>
    get_heatmap tr d ! i ! j = length (filter (in_cell i j) (filter_tasks None tr d))"
proof -
  have "heat_shape (replicate 7 (replicate 24 0))" by (simp add: heat_shape_def list_all_iff)
  from heat_tasks[OF this assms, of "filter_tasks None tr d"] assms show ?thesis
    by (simp add: get_heatmap_def)
qed

lemma heatmap_exact_witness: "get_heatmap None timed_db ! 3 ! 0 = 2 \<and> heat_shape (get_heatmap None timed_db)"
proof -
  have "length (filter (in_cell 3 0) (filter_tasks None None timed_db)) = 2" by code_simp
  with heatmap_exact[of 3 0 None timed_db] show ?thesis by simp
qed

text \<open>The state distribution lists every state of the stored tasks once with the number of tasks
  in it, and the numbers add up to the number of tasks.\<close>

theorem state_distribution_exact:
  "dict_ok (get_state_distribution d) \<and>
   dget (get_state_distribution d) s = (let c = length (filter (\<lambda>r. tk_state r = s) (db_tasks d))
     in if c = 0 then None else Some c) \<and>
   sum_list (dvalues (get_state_distribution d)) = length (db_tasks d)"
proof (intro conjI)
  let ?ss = "remdups (map tk_state (db_tasks d))"
  let ?c = "\<lambda>s. length (filter (\<lambda>r. tk_state r = s) (db_tasks d))"
  show "dict_ok (get_state_distribution d)"
    by (simp add: dict_ok_def get_state_distribution_def comp_def)
  have "dget (map (\<lambda>s. (s, f s)) xs) s = (if s \<in> set xs then Some (f s) else None)" for xs and f :: "string \<Rightarrow> nat"
    by (induction xs) auto
  moreover have "?c s = 0 \<longleftrightarrow> s \<notin> set ?ss" by (auto simp: filter_empty_conv)
  ultimately show "dget (get_state_distribution d) s = (let c = ?c s in if c = 0 then None else Some c)"
    by (simp add: get_state_distribution_def Let_def)
  have "sum_list (map ?c ?ss) = (\<Sum>s \<in> set ?ss. count_list (map tk_state (db_tasks d)) s)"
    by (simp add: sum_list_distinct_conv_sum_set count_list_eq_length_filter filter_map comp_def
        eq_commute[of _ "tk_state _"])
  also have "\<dots> = length (map tk_state (db_tasks d))"
    by (intro sum_count_set) simp_all
  finally show "sum_list (dvalues (get_state_distribution d)) = length (db_tasks d)"
    by (simp add: dvalues_def get_state_distribution_def comp_def)
qed

end
