(* ===== verification/Store_System.thy ===== *)
theory Store_System
  imports Task_Lifecycle Worker_Facts Store_Throughput
begin

text \<open>
  The database as a whole: the writes of \<open>SQLiteController\<close> as a step relation, the states a running
  program can reach with it, the invariant they satisfy, and the upgrade of older databases.
\<close>

section \<open>Reachable databases\<close>

inductive store_step :: "pyrt \<Rightarrow> db \<Rightarrow> db \<Rightarrow> bool" for rt where
  step_task_event: "store_step rt d (store_task_event e d)"
| step_relation: "store_step rt d (store_task_relation r d)"
| step_worker_event: "store_worker_event rt w d = Inr d' \<Longrightarrow> store_step rt d d'"
| step_queue_event: "store_step rt d (store_broker_queue_event q d)"
| step_schedule: "store_step rt d (store_schedule s d)"
| step_delete_schedule: "store_step rt d (delete_schedule i d)"
| step_cleanup: "store_step rt d (snd (cleanup now days d))"

inductive reachable :: "pyrt \<Rightarrow> db \<Rightarrow> bool" for rt where
  reach_open: "open_store empty_db = Inr d \<Longrightarrow> reachable rt d"
| reach_step: "reachable rt d \<Longrightarrow> store_step rt d d' \<Longrightarrow> reachable rt d'"

definition naive :: "pydt option \<Rightarrow> bool" where
  "naive v = (case v of None \<Rightarrow> True | Some t \<Rightarrow> dt_off t = None)"

definition naive_row :: "task \<Rightarrow> bool" where
  "naive_row r = (naive (tk_received r) \<and> naive (tk_started r) \<and> naive (tk_finished r))"

definition store_ok :: "db \<Rightarrow> bool" where
  "store_ok d \<longleftrightarrow>
     distinct (map tk_task_id (db_tasks d)) \<and> list_all naive_row (db_tasks d) \<and>
     ids_ok (db_task_events d) \<and> ids_ok (db_task_relations d) \<and> ids_ok (db_worker_events d) \<and>
     distinct (map wr_hostname (db_workers d)) \<and> ids_ok (db_broker_queue_events d) \<and>
     distinct (map sc_schedule_id (db_schedules d)) \<and>
     same_schema (db_schema d) define_tables \<and> db_version d = Some schema_version_no"

lemma naive_simps [simp]: "naive None" "naive (map_option bind_dt v)" "naive (Some (bind_dt t))"
  by (cases v; simp add: naive_def bind_dt_def)+

lemma naive_or_else: "naive a \<Longrightarrow> naive b \<Longrightarrow> naive (or_else a b)"
  by (cases a) auto

lemma list_all_upsert:
  "list_all P rows \<Longrightarrow> P new \<Longrightarrow> (\<And>r. P r \<Longrightarrow> P (upd r)) \<Longrightarrow> list_all P (upsert_row key k new upd rows)"
  by (auto simp: upsert_row_def list_all_iff)

text \<open>What the throughput query needs of the rows.\<close>

lemma naive_row_task: "naive_row r \<Longrightarrow> naive_task r"
  by (auto simp: naive_row_def naive_task_def naive_def task_timestamp_def or_else_def split: option.splits)

lemma naive_inserted: "naive_row (inserted_task v)"
  by (simp add: naive_row_def inserted_task_def)

lemma naive_updated: "naive_row r \<Longrightarrow> naive_row (updated_task v r)"
  by (simp add: naive_row_def updated_task_def naive_or_else)

lemma store_ok_task_event: "store_ok d \<Longrightarrow> store_ok (store_task_event e d)"
  by (auto simp: store_ok_def store_task_event_def Let_def ids_ok_insert_auto
      intro!: distinct_keys_upsert list_all_upsert naive_inserted naive_updated split: prod.split)

lemma store_ok_worker_event:
  assumes "store_ok d" and "store_worker_event rt w d = Inr d'"
  shows "store_ok d'"
proof -
  from assms(2) obtain v i where v: "worker_from_event rt w = Inr v"
    and d': "d' = d\<lparr>db_worker_events := insert_auto \<lparr>wer_hostname = we_hostname w, wer_event = we_event w,
                 wer_timestamp = bind_dt (we_timestamp w), wer_info = i, wer_broker_url = we_broker_url w\<rparr>
                 (db_worker_events d),
              db_workers := upsert_row wr_hostname (we_hostname w) (bound_worker v)
                 (updated_worker w v) (db_workers d)\<rparr>"
    unfolding store_worker_event_def by (auto simp: ebind_Inr_iff)
  have "wr_hostname v = we_hostname w"
    using v by (auto simp: worker_from_event_def ebind_Inr_iff Let_def)
  then show ?thesis
    using assms(1)
    by (auto simp: store_ok_def d' ids_ok_insert_auto bound_worker_def updated_worker_def
        intro!: distinct_keys_upsert)
qed

lemma store_ok_schedule: "store_ok d \<Longrightarrow> store_ok (store_schedule s d)"
proof -
  assume ok: "store_ok d"
  let ?k = "sc_schedule_id s"
  have "map sc_schedule_id (upsert_row sc_schedule_id ?k (schedule_values s) (\<lambda>r. schedule_values s) (db_schedules d)) =
    (if ?k \<in> sc_schedule_id ` set (db_schedules d) then map sc_schedule_id (db_schedules d)
     else map sc_schedule_id (db_schedules d) @ [?k])"
    by (auto simp: upsert_row_def schedule_values_def)
  with ok show ?thesis by (auto simp: store_ok_def store_schedule_def)
qed

lemma store_ok_cleanup: "store_ok d \<Longrightarrow> store_ok (snd (cleanup now days d))"
  by (auto simp: store_ok_def cleanup_def Let_def delete_where_def list_all_iff
      intro: distinct_keys_filter ids_ok_filter)

lemma store_ok_step: "store_step rt d d' \<Longrightarrow> store_ok d \<Longrightarrow> store_ok d'"
proof (induction rule: store_step.induct)
  case (step_relation d r)
  then show ?case by (simp add: store_ok_def store_task_relation_def ids_ok_insert_auto)
next
  case (step_queue_event d q)
  then show ?case by (simp add: store_ok_def store_broker_queue_event_def ids_ok_insert_auto)
next
  case (step_delete_schedule d i)
  then show ?case by (simp add: store_ok_def delete_schedule_def distinct_keys_filter)
qed (simp_all add: store_ok_task_event store_ok_worker_event store_ok_schedule store_ok_cleanup)

lemma store_ok_open: "open_store empty_db = Inr d \<Longrightarrow> store_ok d"
proof -
  assume "open_store empty_db = Inr d"
  then have "d = empty_db\<lparr>db_schema := create_all [], db_version := Some schema_version_no\<rparr>"
    by (simp add: open_store_def initialize_db_def ensure_schema_def get_schema_version_def empty_db_def
        Let_def or_int_def schema_version_no_def)
  with fresh_schema show ?thesis by (simp add: store_ok_def empty_db_def)
qed

lemma reachable_ok: "reachable rt d \<Longrightarrow> store_ok d"
  by (induction rule: reachable.induct) (auto intro: store_ok_open store_ok_step)



section \<open>Opening a database\<close>

definition of_version :: "int \<Rightarrow> db \<Rightarrow> bool" where
  "of_version v d = (db_schema d = tables_of_version v \<and> db_version d = Some v)"

text \<open>C16: A database written by any released version (schema 1 to 5) is brought to the current schema
  when it is opened: opening succeeds, the tables have exactly the current columns, the version is
  recorded, no row is touched, and opening it again changes nothing.\<close>

theorem upgrade_any_version:
  assumes "of_version v d" and "1 \<le> v" and "v \<le> schema_version_no"
  shows "\<exists>s. open_store d = Inr (d\<lparr>db_schema := s, db_version := Some schema_version_no\<rparr>) \<and>
    same_schema s define_tables \<and>
    open_store (d\<lparr>db_schema := s, db_version := Some schema_version_no\<rparr>) =
      Inr (d\<lparr>db_schema := s, db_version := Some schema_version_no\<rparr>)"
proof -
  have "v = 1 \<or> v = 2 \<or> v = 3 \<or> v = 4 \<or> v = 5" using assms(2,3) by (auto simp: schema_version_no_def)
  then have "upgraded_ok v" using upgraded_ok_all by blast
  then obtain s where s: "migrate_schema v schema_version_no (create_all (tables_of_version v)) = Inr s"
    "same_schema s define_tables" "create_all s = s"
    by (auto simp: upgraded_ok_def upgraded_def split: sum.splits)
  have v: "get_schema_version (initialize_db d) = v"
    using assms by (simp add: of_version_def initialize_db_def get_schema_version_def or_int_def Let_def)
  have "open_store d = Inr (d\<lparr>db_schema := s, db_version := Some schema_version_no\<rparr>)"
  proof (cases "v = schema_version_no")
    case True
    then have "s = create_all (tables_of_version v)" using s(1)
      by (simp add: migrate_schema_def schema_version_no_def)
    with True assms(1) v show ?thesis
      by (simp add: open_store_def ensure_schema_def Let_def initialize_db_def of_version_def)
  next
    case False
    with s(1) assms(1) v show ?thesis
      by (simp add: open_store_def ensure_schema_def Let_def migrate_def initialize_db_def of_version_def)
  qed
  moreover have "open_store (d\<lparr>db_schema := s, db_version := Some schema_version_no\<rparr>) =
      Inr (d\<lparr>db_schema := s, db_version := Some schema_version_no\<rparr>)"
    using s(3) by (simp add: open_store_def ensure_schema_def initialize_db_def get_schema_version_def
        or_int_def Let_def schema_version_no_def)
  ultimately show ?thesis using s(2) by blast
qed

lemma upgrade_any_version_witness:
  "\<exists>d. open_store (timed_db\<lparr>db_schema := tables_of_version 2, db_version := Some 2\<rparr>) = Inr d \<and>
     same_schema (db_schema d) define_tables \<and> db_tasks d = db_tasks timed_db"
proof -
  have "of_version 2 (timed_db\<lparr>db_schema := tables_of_version 2, db_version := Some 2\<rparr>)"
    by (simp add: of_version_def)
  from upgrade_any_version[OF this] show ?thesis by (auto simp: schema_version_no_def)
qed

end
