(* ===== verification/Task_Queries.thy ===== *)
theory Task_Queries
  imports Task_Lifecycle
begin

text \<open>
  What the task queries of the SQLite adapter return: pages cut the ordered answer without loss or
  overlap, and the free-text search finds exactly the tasks that contain the text in any case.
\<close>

section \<open>Pages\<close>

lemma concat_pages:
  "concat (map (\<lambda>k. take m (drop (k * m) xs)) [0..<n]) = take (n * m) xs"
proof (induction n)
  case (Suc n)
  have "take (n * m + m) xs = take (n * m) xs @ take m (drop (n * m) xs)"
    by (rule take_add)
  with Suc show ?case by (simp add: add.commute)
qed simp

lemma mset_ordered_tasks: "mset (ordered_tasks f skey sdir d) = mset (matching_rows f d)"
  by (simp add: ordered_tasks_def Let_def)

lemma sorted_ordered_tasks:
  "sorted (map (task_sort_column skey)
     ((if py_lower (or_str sdir ''desc'') = ''asc'' then id else rev) (ordered_tasks f skey sdir d)))"
  by (simp add: ordered_tasks_def Let_def sorted_sort_asc_key)
     (metis rev_map sorted_sort_desc_key)

lemma page_of_ordered:
  "fst (get_tasks_page f skey sdir (int m) (int k) d) =
     map row_to_task (take m (drop k (ordered_tasks f skey sdir d)))"
  by (simp add: get_tasks_page_def sql_page_def Let_def)

text \<open>Paging is complete and without repetition: reading pages of any positive size until the
  reported total is covered yields, in order, the whole ordered answer; that answer is a permutation
  of the rows that pass the filters, sorted by the requested column in the requested direction
  (NULL as the smallest value), and the total is its length.\<close>

theorem pages_cover:
  assumes "length (matching_rows f d) \<le> n * m"
  shows "concat (map (\<lambda>k. fst (get_tasks_page f skey sdir (int m) (int (k * m)) d)) [0..<n]) =
      map row_to_task (ordered_tasks f skey sdir d) \<and>
    mset (ordered_tasks f skey sdir d) = mset (matching_rows f d) \<and>
    sorted (map (task_sort_column skey)
      ((if py_lower (or_str sdir ''desc'') = ''asc'' then id else rev) (ordered_tasks f skey sdir d))) \<and>
    snd (get_tasks_page f skey sdir lmt off d) = length (ordered_tasks f skey sdir d)"
proof (intro conjI mset_ordered_tasks sorted_ordered_tasks)
  let ?xs = "ordered_tasks f skey sdir d"
  have len: "length ?xs = length (matching_rows f d)"
    using mset_ordered_tasks by (rule mset_eq_length)
  have "concat (map (\<lambda>k. fst (get_tasks_page f skey sdir (int m) (int (k * m)) d)) [0..<n]) =
      map row_to_task (concat (map (\<lambda>k. take m (drop (k * m) ?xs)) [0..<n]))"
    by (simp only: page_of_ordered map_concat map_map comp_def)
  then show "concat (map (\<lambda>k. fst (get_tasks_page f skey sdir (int m) (int (k * m)) d)) [0..<n]) =
      map row_to_task ?xs"
    using assms len by (simp only: concat_pages) simp
  show "snd (get_tasks_page f skey sdir lmt off d) = length ?xs"
    by (simp add: get_tasks_page_def len)
qed

definition three_tasks :: db where
  "three_tasks = fold store_task_event [new_task_event ''a'' (Some ''app.Add'') ''STARTED'' (utc_dt 3),
     new_task_event ''b'' None ''RETRY'' (utc_dt 1), new_task_event ''c'' (Some ''mul'') ''SUCCESS'' (utc_dt 7)]
     empty_db"

lemma pages_cover_witness:
  "map tk_task_id (concat (map (\<lambda>k. fst (get_tasks_page None None (Some ''asc'') (int 2) (int (k * 2)) three_tasks))
     [0..<2])) = [''b'', ''a'', ''c'']"
proof -
  have "length (matching_rows None three_tasks) \<le> 2 * 2" by code_simp
  from pages_cover[OF this, of None "Some ''asc''"]
  have "concat (map (\<lambda>k. fst (get_tasks_page None None (Some ''asc'') (int 2) (int (k * 2)) three_tasks)) [0..<2]) =
      map row_to_task (ordered_tasks None None (Some ''asc'') three_tasks)" by blast
  then show ?thesis by (simp only:) code_simp
qed

section \<open>Search\<close>

lemma sql_like_percentD: "sql_like (CHR ''%'' # ps) t \<Longrightarrow> \<exists>u v. t = u @ v \<and> sql_like ps v"
proof (induction t)
  case (Cons c t)
  then consider "sql_like ps (c # t)" | "sql_like (CHR ''%'' # ps) t" by auto
  then show ?case
  proof cases
    case 1
    then show ?thesis by (metis append_Nil)
  next
    case 2
    then show ?thesis using Cons.IH by (metis append_Cons)
  qed
qed auto

lemma sql_like_literalD:
  "sql_like (p @ qs) t \<Longrightarrow> set p \<inter> {CHR ''%'', CHR ''_''} = {} \<Longrightarrow>
     \<exists>s t'. t = s @ t' \<and> py_lower s = py_lower p \<and> sql_like qs t'"
proof (induction p arbitrary: t)
  case (Cons a p)
  then obtain c t1 where t: "t = c # t1" by (cases t) auto
  with Cons.prems have "lower_char a = lower_char c" "sql_like (p @ qs) t1" by auto
  moreover then obtain s t' where "t1 = s @ t'" "py_lower s = py_lower p" "sql_like qs t'"
    using Cons.IH[of t1] Cons.prems(2) by auto
  ultimately have "t = (c # s) @ t'" "py_lower (c # s) = py_lower (a # p)" "sql_like qs t'"
    using t by (simp_all add: py_lower_def)
  then show ?case by blast
qed (auto simp: py_lower_def)

lemma sql_like_search_iff:
  assumes "set needle \<inter> {CHR ''%'', CHR ''_''} = {}"
  shows "sql_like (''%'' @ needle @ ''%'') hay \<longleftrightarrow> str_in (py_lower needle) (py_lower hay)"
proof
  assume "sql_like (''%'' @ needle @ ''%'') hay"
  then obtain u v where uv: "hay = u @ v" "sql_like (needle @ ''%'') v"
    using sql_like_percentD[of "needle @ ''%''" hay] by auto
  from sql_like_literalD[OF uv(2) assms] obtain s t' where "v = s @ t'" "py_lower s = py_lower needle"
    by blast
  with uv(1) have "py_lower hay = py_lower u @ py_lower needle @ py_lower t'" by simp
  then show "str_in (py_lower needle) (py_lower hay)" by (simp only: str_in_append)
next
  assume "str_in (py_lower needle) (py_lower hay)"
  with assms show "sql_like (''%'' @ needle @ ''%'') hay" by (intro sql_like_search) auto
qed

text \<open>The columns the search looks at.\<close>

definition searched_columns :: "task \<Rightarrow> string set" where
  "searched_columns r = {t. Some t \<in> {tk_name r, Some (tk_task_id r), tk_worker r, tk_args r, tk_kwargs r}}"

lemma search_matches_iff:
  assumes "set needle \<inter> {CHR ''%'', CHR ''_''} = {}"
  shows "search_matches needle r \<longleftrightarrow>
    (\<exists>t \<in> searched_columns r. str_in (py_lower needle) (py_lower t))"
  unfolding search_matches_def Let_def like_column_def searched_columns_def sql_like_search_iff[OF assms]
  by (auto split: option.splits)

lemma set_get_tasks:
  "set (get_tasks (Some f) d) = row_to_task ` {r \<in> set (db_tasks d). apply_task_filters f r}"
  by (simp add: get_tasks_def matching_rows_def)

text \<open>The free-text search is exact: for a text without LIKE wildcards, the tasks returned are
  those whose name, id, worker, args or kwargs contain the text, ignoring case.\<close>

theorem search_exact:
  assumes "needle \<noteq> []" and "set needle \<inter> {CHR ''%'', CHR ''_''} = {}"
  shows "set (get_tasks (Some (no_filter\<lparr>tf_search := Some needle\<rparr>)) d) =
    row_to_task ` {r \<in> set (db_tasks d). \<exists>t \<in> searched_columns r. str_in (py_lower needle) (py_lower t)}"
  using assms(1)
  by (simp add: set_get_tasks apply_task_filters_def no_filter_def filter_eq_def search_matches_iff[OF assms(2)])

lemma search_exact_witness:
  "''a'' \<in> tk_task_id ` set (get_tasks (Some (no_filter\<lparr>tf_search := Some ''aDD''\<rparr>)) three_tasks)"
proof -
  have "set ''aDD'' \<inter> {CHR ''%'', CHR ''_''} = {}" by code_simp
  moreover have "py_lower ''aDD'' = ''add''" by code_simp
  ultimately
  have "set (get_tasks (Some (no_filter\<lparr>tf_search := Some ''aDD''\<rparr>)) three_tasks) =
    row_to_task ` {r \<in> set (db_tasks three_tasks). \<exists>t \<in> searched_columns r. str_in ''add'' (py_lower t)}"
    using search_exact[of "''aDD''" three_tasks] by simp
  moreover have "\<exists>r \<in> set (db_tasks three_tasks). tk_task_id r = ''a'' \<and> tk_name r = Some ''app.Add''"
    by code_simp
  then obtain r where r: "r \<in> set (db_tasks three_tasks)" "tk_task_id r = ''a''"
    "''app.Add'' \<in> searched_columns r"
    by (elim bexE conjE) (rule that, assumption, assumption, simp only: searched_columns_def, simp)
  moreover have "str_in ''add'' (py_lower ''app.Add'')" by code_simp
  ultimately have "row_to_task r \<in> set (get_tasks (Some (no_filter\<lparr>tf_search := Some ''aDD''\<rparr>)) three_tasks)"
    by blast
  then show ?thesis by (rule rev_image_eqI) (simp only: row_to_task_simps r(2))
qed

end
