(* ===== verification/Registry.thy ===== *)
theory Registry
  imports Domain
begin

text \<open>
  The registry of Celery applications (celery_root/core/registry.py). A Celery app is its identity,
  its \<open>main\<close> attribute and its configuration; importing a module is a parameter.
\<close>

section \<open>Applications\<close>

record app =
  app_id :: nat
  app_main :: "string option"
  app_conf :: "(string, pyval) pydict"

datatype loaded = AppObj app | OtherObj

definition conf_get :: "app \<Rightarrow> string \<Rightarrow> pyval" where
  "conf_get a k = (case dget (app_conf a) k of None \<Rightarrow> PNone | Some v \<Rightarrow> v)"

text \<open>\<open>str(app.conf.broker_url or '')\<close>\<close>

definition conf_text :: "pyrt \<Rightarrow> app \<Rightarrow> string \<Rightarrow> string" where
  "conf_text rt a k = (let v = conf_get a k in if truthy v then py_str rt v else [])"

record broker_group =
  bg_broker_url :: string
  bg_apps :: "app list"

text \<open>The beat section of the settings: None without it; the refresh interval is optional.\<close>

record beat_config =
  bc_db_refresh_seconds :: "rat option"

definition split_path :: "string \<Rightarrow> pyexc + (string \<times> string)" where
  "split_path path =
     (if CHR '':'' \<in> set path then Inr (before CHR '':'' path, after CHR '':'' path)
      else if CHR ''.'' \<notin> set path
      then Inl (ImportError ''Import path must be module:attr or module.attr'')
      else Inr (rbefore CHR ''.'' path, rafter CHR ''.'' path))"

definition load_app :: "(string \<Rightarrow> pyexc + (string, loaded) pydict) \<Rightarrow> string \<Rightarrow> pyexc + app" where
  "load_app import_module path =
     ebind (split_path path) (\<lambda>(module_path, attr).
     ebind (import_module module_path) (\<lambda>module.
     case dget module attr of
       None \<Rightarrow> Inl (ImportError (path @ '' does not define '' @ attr))
     | Some OtherObj \<Rightarrow> Inl (TypeError (path @ '' did not resolve to a Celery app''))
     | Some (AppObj a) \<Rightarrow> Inr a))"

definition resolve_name :: "pyrt \<Rightarrow> app \<Rightarrow> string" where
  "resolve_name rt a =
     (let name = or_str (app_main a) [];
          name = (if name = [] then conf_text rt a ''main'' else name)
      in if name = [] then ''celery_app_'' @ show_nat (app_id a) else name)"

definition apply_beat_scheduler :: "pyrt \<Rightarrow> beat_config option \<Rightarrow> app \<Rightarrow> app" where
  "apply_beat_scheduler rt beat a = (case beat of
       None \<Rightarrow> a
     | Some b \<Rightarrow>
         (if str_in ''django_celery_beat'' (conf_text rt a ''beat_scheduler'') then a
          else let conf = dset ''beat_scheduler''
                 (PStr ''celery_root.components.beat.db_scheduler:DatabaseScheduler'') (app_conf a)
               in a\<lparr>app_conf := (case bc_db_refresh_seconds b of
                    None \<Rightarrow> conf
                  | Some x \<Rightarrow> dset ''beat_db_refresh_seconds'' (PFloat x) conf)\<rparr>))"

section \<open>The registry\<close>

text \<open>Registering an instance; a path is loaded first.\<close>

definition register_app :: "pyrt \<Rightarrow> beat_config option \<Rightarrow> app \<Rightarrow> (string, app) pydict \<Rightarrow> pyexc + (string, app) pydict" where
  "register_app rt beat worker apps =
     (let a = apply_beat_scheduler rt beat worker;
          name = resolve_name rt a
      in case dget apps name of
           None \<Rightarrow> Inr (dset name a apps)
         | Some existing \<Rightarrow>
             (if app_id existing \<noteq> app_id a then Inl (ValueError (''Duplicate app name registered: '' @ name))
              else Inr (dset name a apps)))"

datatype worker_ref = Instance app | ImportPath string

definition register :: "pyrt \<Rightarrow> beat_config option \<Rightarrow> (string \<Rightarrow> pyexc + (string, loaded) pydict) \<Rightarrow>
    worker_ref \<Rightarrow> (string, app) pydict \<Rightarrow> pyexc + (string, app) pydict" where
  "register rt beat import_module worker apps = (case worker of
       Instance a \<Rightarrow> register_app rt beat a apps
     | ImportPath path \<Rightarrow> ebind (load_app import_module path) (\<lambda>a. register_app rt beat a apps))"

definition new_registry :: "pyrt \<Rightarrow> beat_config option \<Rightarrow> (string \<Rightarrow> pyexc + (string, loaded) pydict) \<Rightarrow>
    worker_ref list \<Rightarrow> pyexc + (string, app) pydict" where
  "new_registry rt beat import_module workers = efold (register rt beat import_module) workers []"

definition get_apps :: "(string, app) pydict \<Rightarrow> app list" where
  "get_apps apps = dvalues apps"

definition get_app :: "(string, app) pydict \<Rightarrow> string \<Rightarrow> pyexc + app" where
  "get_app apps name = (case dget apps name of
       None \<Rightarrow> Inl (KeyError (''Unknown app: '' @ name))
     | Some a \<Rightarrow> Inr a)"

definition add_to_group :: "pyrt \<Rightarrow> app \<Rightarrow> (string, broker_group) pydict \<Rightarrow> (string, broker_group) pydict" where
  "add_to_group rt a brokers =
     (let broker_url = conf_text rt a ''broker_url'';
          old = (case dget brokers broker_url of None \<Rightarrow> [] | Some g \<Rightarrow> bg_apps g)
      in dset broker_url \<lparr>bg_broker_url = broker_url, bg_apps = old @ [a]\<rparr> brokers)"

definition get_brokers :: "pyrt \<Rightarrow> (string, app) pydict \<Rightarrow> (string, broker_group) pydict" where
  "get_brokers rt apps = fold (add_to_group rt) (dvalues apps) []"

section \<open>Facts\<close>

lemma register_dict_ok: "register rt beat im w apps = Inr apps' \<Longrightarrow> dict_ok apps \<Longrightarrow> dict_ok apps'"
  by (auto simp: register_def register_app_def ebind_Inr_iff Let_def split: worker_ref.splits option.splits if_splits)

lemma registry_dict_ok: "efold (register rt beat im) ws apps = Inr apps' \<Longrightarrow> dict_ok apps \<Longrightarrow> dict_ok apps'"
  by (induction ws arbitrary: apps) (auto simp: ebind_Inr_iff dest: register_dict_ok)

text \<open>What the groups are after a run of apps.\<close>

lemma groups_of:
  "dget (fold (add_to_group rt) as brokers) url =
     (let new = filter (\<lambda>a. conf_text rt a ''broker_url'' = url) as;
          old = (case dget brokers url of None \<Rightarrow> [] | Some g \<Rightarrow> bg_apps g)
      in if new = [] then dget brokers url else Some \<lparr>bg_broker_url = url, bg_apps = old @ new\<rparr>)"
  by (induction as arbitrary: brokers) (auto simp: add_to_group_def Let_def split: option.split)

lemma groups_dict_ok: "dict_ok brokers \<Longrightarrow> dict_ok (fold (add_to_group rt) as brokers)"
  by (rule fold_invariant) (auto simp: add_to_group_def Let_def)

text \<open>The broker groups partition the registered apps: the group of a URL holds exactly the apps
  configured with that URL, in the order of registration, there is no group without an app, and no
  URL has two groups.\<close>

theorem brokers_partition:
  "dict_ok (get_brokers rt apps) \<and>
   dget (get_brokers rt apps) url =
     (let members = filter (\<lambda>a. conf_text rt a ''broker_url'' = url) (get_apps apps)
      in if members = [] then None else Some \<lparr>bg_broker_url = url, bg_apps = members\<rparr>)"
  unfolding get_brokers_def get_apps_def groups_of by (simp add: groups_dict_ok Let_def)

end
