(* ===== verification/Redaction.thy ===== *)
theory Redaction
  imports Domain
begin

text \<open>
  The redaction of passwords (celery_root/shared/redaction.py) on ASCII text, with the parts of
  \<open>urllib.parse\<close> and the two regular expressions it uses. Percent-encoded bytes outside ASCII stay
  bytes here, where Python decodes them as UTF-8 and encodes them again.
\<close>

section \<open>URLs\<close>

record url_parts =
  up_scheme :: string
  up_netloc :: string
  up_path :: string
  up_query :: string
  up_fragment :: string

definition is_scheme_char :: "char \<Rightarrow> bool" where
  "is_scheme_char c = (is_alpha c \<or> is_digit c \<or> c \<in> {CHR ''+'', CHR ''-'', CHR ''.''})"

text \<open>Leading blanks and control characters go, tabs and line ends go everywhere.\<close>

definition clean_url :: "string \<Rightarrow> string" where
  "clean_url s = filter (\<lambda>c. c \<notin> {CHR 0x09, CHR 0x0A, CHR 0x0D})
     (dropWhile (\<lambda>c. (of_char c :: nat) \<le> 32) s)"

definition split_scheme :: "string \<Rightarrow> string \<times> string" where
  "split_scheme url =
     (let s = before CHR '':'' url
      in if CHR '':'' \<in> set url \<and> s \<noteq> [] \<and> is_alpha (hd s) \<and> list_all is_scheme_char s
         then (py_lower s, after CHR '':'' url) else ([], url))"

text \<open>\<open>urlsplit\<close>: None when it raises ValueError on the brackets of an IPv6 address.\<close>

definition urlsplit :: "string \<Rightarrow> url_parts option" where
  "urlsplit text =
     (let (scheme, rest) = split_scheme (clean_url text);
          has_netloc = starts_with ''//'' rest;
          body = (if has_netloc then drop 2 rest else rest);
          in_netloc = (\<lambda>c. c \<notin> {CHR ''/'', CHR ''?'', CHR ''#''});
          netloc = (if has_netloc then takeWhile in_netloc body else []);
          tail = (if has_netloc then dropWhile in_netloc body else body);
          fragment = (if CHR ''#'' \<in> set tail then after CHR ''#'' tail else []);
          tail = before CHR ''#'' tail;
          query = (if CHR ''?'' \<in> set tail then after CHR ''?'' tail else []);
          path = before CHR ''?'' tail
      in if (CHR ''['' \<in> set netloc) \<noteq> (CHR '']'' \<in> set netloc) then None
         else Some \<lparr>up_scheme = scheme, up_netloc = netloc, up_path = path, up_query = query,
                    up_fragment = fragment\<rparr>)"

definition urlunsplit :: "url_parts \<Rightarrow> string" where
  "urlunsplit u =
     (let path = (if up_netloc u \<noteq> [] then ''//'' @ up_netloc u @
            (if up_path u \<noteq> [] \<and> hd (up_path u) \<noteq> CHR ''/'' then ''/'' @ up_path u else up_path u)
          else up_path u);
          url = (if up_scheme u \<noteq> [] then up_scheme u @ '':'' @ path else path);
          url = (if up_query u \<noteq> [] then url @ ''?'' @ up_query u else url)
      in if up_fragment u \<noteq> [] then url @ ''#'' @ up_fragment u else url)"

text \<open>Form encoding: plus for blank, percent and two hexadecimal digits for the other bytes.\<close>

definition hex_value :: "char \<Rightarrow> nat option" where
  "hex_value c = (let n = (of_char c :: nat) in
     if is_digit c then Some (n - 48)
     else if 65 \<le> n \<and> n \<le> 70 then Some (n - 55)
     else if 97 \<le> n \<and> n \<le> 102 then Some (n - 87) else None)"

definition hex_digit :: "nat \<Rightarrow> char" where
  "hex_digit n = char_of (if n < 10 then n + 48 else n + 55)"

fun unquote_plus :: "string \<Rightarrow> string" where
  "unquote_plus (p # a # b # t) =
     (if p = CHR ''%''
      then case (hex_value a, hex_value b) of
             (Some x, Some y) \<Rightarrow> char_of (16 * x + y) # unquote_plus t
           | _ \<Rightarrow> p # unquote_plus (a # b # t)
      else (if p = CHR ''+'' then CHR '' '' else p) # unquote_plus (a # b # t))"
| "unquote_plus (p # t) = (if p = CHR ''+'' then CHR '' '' else p) # unquote_plus t"
| "unquote_plus [] = []"

definition quote_char :: "char \<Rightarrow> string" where
  "quote_char c =
     (if is_alpha c \<or> is_digit c \<or> c \<in> {CHR ''_'', CHR ''.'', CHR ''-'', CHR ''~''} then [c]
      else if c = CHR '' '' then ''+''
      else [CHR ''%'', hex_digit (of_char c div 16), hex_digit (of_char c mod 16)])"

definition quote_plus :: "string \<Rightarrow> string" where
  "quote_plus s = concat (map quote_char s)"

text \<open>\<open>parse_qsl(query, keep_blank_values=True)\<close> and \<open>urlencode\<close> of pairs of strings.\<close>

definition parse_qsl :: "string \<Rightarrow> (string \<times> string) list" where
  "parse_qsl q = map (\<lambda>item. (unquote_plus (before CHR ''='' item), unquote_plus (after CHR ''='' item)))
     (filter (\<lambda>item. item \<noteq> []) (split_on CHR ''&'' q))"

fun join :: "string \<Rightarrow> string list \<Rightarrow> string" where
  "join sep [] = []"
| "join sep [x] = x"
| "join sep (x # y # xs) = x @ sep @ join sep (y # xs)"

definition urlencode :: "(string \<times> string) list \<Rightarrow> string" where
  "urlencode items = join ''&'' (map (\<lambda>(k, v). quote_plus k @ ''='' @ quote_plus v) items)"

section \<open>The redaction\<close>

definition REDACTED_VALUE :: string where "REDACTED_VALUE = ''***''"

definition PASSWORD_KEYS :: "string list" where
  "PASSWORD_KEYS = [''password'', ''passwd'', ''pwd'']"

definition is_password_key :: "string \<Rightarrow> bool" where
  "is_password_key key =
     (let normalized = replace_char CHR ''-'' ''_'' (py_lower (py_strip key))
      in normalized \<in> set PASSWORD_KEYS \<or> (\<exists>suffix \<in> set PASSWORD_KEYS. ends_with suffix normalized))"

definition contains_password_param :: "string \<Rightarrow> bool" where
  "contains_password_param text = (\<exists>token \<in> set PASSWORD_KEYS. str_in (token @ ''='') (py_lower text))"

text \<open>One match of \<open>(password|passwd|pwd)=([^&;\s]+)\<close>: the name as written, and the text after.\<close>

definition in_value :: "char \<Rightarrow> bool" where
  "in_value c = (c \<noteq> CHR ''&'' \<and> c \<noteq> CHR '';'' \<and> \<not> is_space c)"

definition match_param :: "string \<Rightarrow> (string \<times> string) option" where
  "match_param t =
     (case filter (\<lambda>k. starts_with (k @ ''='') (py_lower t)) PASSWORD_KEYS of
        [] \<Rightarrow> None
      | k # _ \<Rightarrow> (let rest = drop (length k + 1) t
                 in if rest \<noteq> [] \<and> in_value (hd rest)
                    then Some (take (length k) t, dropWhile in_value rest) else None))"

text \<open>\<open>re.sub\<close>: the leftmost matches, each followed by the search in the text after it.\<close>

function sub_matches :: "(string \<Rightarrow> (string \<times> string) option) \<Rightarrow> string \<Rightarrow> string" where
  "sub_matches m [] = []"
| "sub_matches m (c # t) =
     (case m (c # t) of
        None \<Rightarrow> c # sub_matches m t
      | Some (out, rest) \<Rightarrow>
          (if length rest \<le> length t then out @ sub_matches m rest else c # sub_matches m t))"
  by pat_completeness auto
termination
  by (relation "measure (\<lambda>(m, s). length s)") auto

definition redact_password_params :: "string \<Rightarrow> string" where
  "redact_password_params text =
     sub_matches (\<lambda>t. map_option (\<lambda>(name, rest). (name @ ''='' @ REDACTED_VALUE, rest)) (match_param t)) text"

text \<open>One match of \<open>([a-z][a-z0-9+.-]*://)([^\s/@:]*):([^\s/@]*)@\<close>, ignoring case.\<close>

definition in_password :: "char \<Rightarrow> bool" where
  "in_password c = (\<not> is_space c \<and> c \<noteq> CHR ''/'' \<and> c \<noteq> CHR ''@'')"

definition match_credential :: "string \<Rightarrow> (string \<times> string) option" where
  "match_credential t =
     (let scheme = takeWhile is_scheme_char t; r1 = dropWhile is_scheme_char t
      in if scheme \<noteq> [] \<and> is_alpha (hd scheme) \<and> starts_with ''://'' r1
         then let r2 = drop 3 r1;
                  user = takeWhile (\<lambda>c. in_password c \<and> c \<noteq> CHR '':'') r2;
                  r3 = dropWhile (\<lambda>c. in_password c \<and> c \<noteq> CHR '':'') r2
              in if starts_with '':'' r3
                 then let r4 = dropWhile in_password (drop 1 r3)
                      in if starts_with ''@'' r4
                         then Some (scheme @ ''://'' @ user @ '':'' @ REDACTED_VALUE @ ''@'', drop 1 r4)
                         else None
                 else None
         else None)"

definition redact_url_credentials_in_text :: "string \<Rightarrow> string" where
  "redact_url_credentials_in_text text = sub_matches match_credential text"

definition redact_query :: "string \<Rightarrow> string \<times> bool" where
  "redact_query query =
     (let items = parse_qsl query
      in if items = [] then (query, False)
         else (urlencode (map (\<lambda>(k, v). (k, if is_password_key k then REDACTED_VALUE else v)) items),
               \<exists>(k, v) \<in> set items. is_password_key k))"

definition redact_netloc :: "string \<Rightarrow> string \<times> bool" where
  "redact_netloc netloc =
     (if CHR ''@'' \<notin> set netloc then (netloc, False)
      else let userinfo = rbefore CHR ''@'' netloc; hostinfo = rafter CHR ''@'' netloc
           in if CHR '':'' \<notin> set userinfo then (netloc, False)
              else (before CHR '':'' userinfo @ '':'' @ REDACTED_VALUE @ ''@'' @ hostinfo, True))"

definition redact_url_text :: "string \<Rightarrow> string" where
  "redact_url_text text = (case urlsplit text of
       None \<Rightarrow> redact_password_params (redact_url_credentials_in_text text)
     | Some parts \<Rightarrow>
         (if up_scheme parts = [] \<or> up_netloc parts = []
          then let redacted_text = redact_url_credentials_in_text text
               in if contains_password_param redacted_text then redact_password_params redacted_text
                  else redacted_text
          else let (netloc, netloc_redacted) = redact_netloc (up_netloc parts);
                   (query, query_redacted) =
                     (if up_query parts \<noteq> [] then redact_query (up_query parts) else (up_query parts, False))
               in if \<not> (netloc_redacted \<or> query_redacted) then text
                  else urlunsplit (parts\<lparr>up_netloc := netloc, up_query := query\<rparr>)))"

definition redact_text :: "string \<Rightarrow> string" where
  "redact_text text =
     (if text = [] \<or> str_in REDACTED_VALUE text then text
      else if \<not> str_in ''://'' text
      then (if contains_password_param text then redact_password_params text else text)
      else redact_url_text text)"

definition redact_url_password :: "string option \<Rightarrow> string option" where
  "redact_url_password value = map_option redact_text value"

text \<open>\<open>redact_access_data\<close> and \<open>_redact_mapping\<close>, through nested containers.\<close>

definition password_entry :: "pyval \<Rightarrow> bool" where
  "password_entry key = (case key of PStr k \<Rightarrow> is_password_key k | _ \<Rightarrow> False)"

fun redact_access_data :: "pyval \<Rightarrow> pyval" where
  "redact_access_data (PStr s) = PStr (redact_text s)"
| "redact_access_data (PDict d) = PDict (map (\<lambda>(k, v). (k,
     if password_entry k then PStr REDACTED_VALUE else redact_access_data v)) d)"
| "redact_access_data (PList xs) = PList (map redact_access_data xs)"
| "redact_access_data (PTuple xs) = PTuple (map redact_access_data xs)"
| "redact_access_data (PSet xs) = PSet (remdups (map redact_access_data xs))"
| "redact_access_data v = v"

section \<open>Passwords in URLs\<close>

text \<open>The parts of a URL with credentials: what may stand in each.\<close>

definition url_char :: "char \<Rightarrow> bool" where
  "url_char c = (c \<notin> {CHR 0x09, CHR 0x0A, CHR 0x0D, CHR ''?'', CHR ''#''})"

definition netloc_char :: "char \<Rightarrow> bool" where
  "netloc_char c = (url_char c \<and> c \<notin> {CHR ''/'', CHR ''['', CHR '']''})"

definition url_scheme :: "string \<Rightarrow> bool" where
  "url_scheme s = (s \<noteq> [] \<and> is_alpha (hd s) \<and> list_all is_scheme_char s)"

definition credential_url :: "string \<Rightarrow> string \<Rightarrow> string \<Rightarrow> string \<Rightarrow> string \<Rightarrow> string" where
  "credential_url scheme user password host path =
     scheme @ ''://'' @ user @ '':'' @ password @ ''@'' @ host @ path"

definition credential_parts :: "string \<Rightarrow> string \<Rightarrow> string \<Rightarrow> string \<Rightarrow> string \<Rightarrow> bool" where
  "credential_parts scheme user password host path \<longleftrightarrow>
     url_scheme scheme \<and> list_all netloc_char user \<and> CHR '':'' \<notin> set user \<and>
     list_all netloc_char password \<and> list_all netloc_char host \<and> CHR ''@'' \<notin> set host \<and>
     list_all url_char path \<and> (path = [] \<or> hd path = CHR ''/'')"

lemma scheme_char_url: "is_scheme_char c \<Longrightarrow> url_char c"
  by (auto simp: is_scheme_char_def is_alpha_def is_upper_def is_lower_def is_digit_def url_char_def)

lemma scheme_char_no_colon: "\<not> is_scheme_char CHR '':''"
  by code_simp

lemma alpha_not_blank: "is_alpha c \<Longrightarrow> \<not> (of_char c :: nat) \<le> 32"
  by (auto simp: is_alpha_def is_upper_def is_lower_def)

lemma clean_url_id:
  assumes "url_scheme s" and "list_all url_char t"
  shows "clean_url (s @ t) = s @ t"
proof -
  obtain c s' where s: "s = c # s'" using assms(1) by (cases s) (auto simp: url_scheme_def)
  then have "dropWhile (\<lambda>c. (of_char c :: nat) \<le> 32) (s @ t) = s @ t"
    using assms(1) alpha_not_blank[of c] by (simp add: url_scheme_def)
  moreover have "list_all url_char (s @ t)"
    using assms scheme_char_url by (auto simp: url_scheme_def list_all_iff)
  then have "filter (\<lambda>c. c \<notin> {CHR 0x09, CHR 0x0A, CHR 0x0D}) (s @ t) = s @ t"
    by (intro filter_True) (auto simp: list_all_iff url_char_def)
  ultimately show ?thesis by (simp add: clean_url_def)
qed

lemma urlsplit_netloc:
  assumes "url_scheme s" and "list_all netloc_char netloc" and "list_all url_char path"
    and "path = [] \<or> hd path = CHR ''/''"
  shows "urlsplit (s @ ''://'' @ netloc @ path) = Some \<lparr>up_scheme = py_lower s, up_netloc = netloc,
    up_path = path, up_query = [], up_fragment = []\<rparr>"
proof -
  let ?in = "\<lambda>c. c \<notin> {CHR ''/'', CHR ''?'', CHR ''#''}"
  have clean: "clean_url (s @ ''://'' @ netloc @ path) = s @ CHR '':'' # ''//'' @ netloc @ path"
  proof -
    have "list_all url_char (''://'' @ netloc @ path)"
      using assms(2,3) by (auto simp: list_all_iff netloc_char_def url_char_def)
    from clean_url_id[OF assms(1) this] show ?thesis by simp
  qed
  have s: "CHR '':'' \<notin> set s" using assms(1) scheme_char_no_colon by (auto simp: url_scheme_def list_all_iff)
  then have scheme: "split_scheme (s @ CHR '':'' # ''//'' @ netloc @ path) = (py_lower s, ''//'' @ netloc @ path)"
    using assms(1) by (simp add: split_scheme_def url_scheme_def Let_def)
  have n: "\<And>c. c \<in> set netloc \<Longrightarrow> ?in c" "CHR ''['' \<notin> set netloc" "CHR '']'' \<notin> set netloc"
    using assms(2) by (auto simp: list_all_iff netloc_char_def url_char_def)
  have p: "CHR ''?'' \<notin> set path" "CHR ''#'' \<notin> set path"
    using assms(3) by (auto simp: list_all_iff url_char_def)
  have take: "takeWhile ?in (netloc @ path) = netloc" "dropWhile ?in (netloc @ path) = path"
    using n(1) assms(4) by (cases path; simp add: takeWhile_append2 dropWhile_append2)+
  have b: "before CHR ''#'' path = path" "before CHR ''?'' path = path"
    using p by (auto simp: before_def takeWhile_eq_all_conv)
  show ?thesis
    unfolding urlsplit_def clean scheme Let_def prod.case
    using take b p n(2,3) by simp
qed

lemma redact_netloc_credentials:
  assumes "CHR '':'' \<notin> set user" and "CHR ''@'' \<notin> set host"
  shows "redact_netloc (user @ '':'' @ password @ ''@'' @ host) = (user @ '':'' @ REDACTED_VALUE @ ''@'' @ host, True)"
proof -
  have e: "user @ '':'' @ password @ ''@'' @ host = (user @ CHR '':'' # password) @ CHR ''@'' # host" by simp
  show ?thesis
    unfolding e redact_netloc_def Let_def rbefore_append[OF assms(2)] rafter_append[OF assms(2)]
    using assms(1) by simp
qed

lemma redact_credential_url:
  assumes "credential_parts scheme user password host path"
    and "\<not> str_in REDACTED_VALUE (credential_url scheme user password host path)"
  shows "redact_url_password (Some (credential_url scheme user password host path)) =
    Some (credential_url (py_lower scheme) user REDACTED_VALUE host path)"
proof -
  let ?netloc = "user @ '':'' @ password @ ''@'' @ host"
  have e: "credential_url scheme user password host path = scheme @ ''://'' @ ?netloc @ path"
    by (simp add: credential_url_def)
  have sep: "str_in ''://'' (scheme @ ''://'' @ ?netloc @ path)" by (rule str_in_append)
  have "list_all netloc_char ?netloc"
    using assms(1) by (auto simp: credential_parts_def netloc_char_def url_char_def)
  then have split: "urlsplit (scheme @ ''://'' @ ?netloc @ path) = Some \<lparr>up_scheme = py_lower scheme,
      up_netloc = ?netloc, up_path = path, up_query = [], up_fragment = []\<rparr>"
    using assms(1) by (intro urlsplit_netloc) (auto simp: credential_parts_def)
  have "scheme \<noteq> []" using assms(1) by (simp add: credential_parts_def url_scheme_def)
  then have low: "py_lower scheme \<noteq> []" by (simp add: py_lower_def)
  have net: "redact_netloc ?netloc = (user @ '':'' @ REDACTED_VALUE @ ''@'' @ host, True)"
    using assms(1) by (intro redact_netloc_credentials) (auto simp: credential_parts_def)
  have "redact_url_text (scheme @ ''://'' @ ?netloc @ path) =
      urlunsplit \<lparr>up_scheme = py_lower scheme, up_netloc = user @ '':'' @ REDACTED_VALUE @ ''@'' @ host,
        up_path = path, up_query = [], up_fragment = []\<rparr>"
    unfolding redact_url_text_def split option.case
    using low net by simp
  also have "\<dots> = credential_url (py_lower scheme) user REDACTED_VALUE host path"
    using assms(1) low by (auto simp: urlunsplit_def credential_url_def credential_parts_def Let_def)
  finally have "redact_url_text (scheme @ ''://'' @ ?netloc @ path) =
      credential_url (py_lower scheme) user REDACTED_VALUE host path" .
  then show ?thesis
    using assms(2) sep \<open>scheme \<noteq> []\<close> unfolding e by (simp add: redact_url_password_def redact_text_def)
qed



text \<open>A failover list leaks every password but the first: of two URLs joined by a semicolon, as Celery
  accepts them for a broker, only the credentials of the first are replaced, and the second URL is
  reproduced with its password.\<close>

theorem failover_list_leaks:
  assumes "credential_parts s1 u1 p1 (h1 @ '';'' @ s2 @ '':'') (''//'' @ u2 @ '':'' @ p2 @ ''@'' @ h2)"
    and "\<not> str_in REDACTED_VALUE
      (credential_url s1 u1 p1 h1 [] @ '';'' @ credential_url s2 u2 p2 h2 [])"
  shows "redact_url_password (Some (credential_url s1 u1 p1 h1 [] @ '';'' @ credential_url s2 u2 p2 h2 [])) =
    Some (credential_url (py_lower s1) u1 REDACTED_VALUE h1 [] @ '';'' @ credential_url s2 u2 p2 h2 [])"
proof -
  have e: "credential_url s u p h1 [] @ '';'' @ credential_url s2 u2 p2 h2 [] =
      credential_url s u p (h1 @ '';'' @ s2 @ '':'') (''//'' @ u2 @ '':'' @ p2 @ ''@'' @ h2)" for s u p
    by (simp add: credential_url_def)
  show ?thesis
    unfolding e by (rule redact_credential_url) (use assms in \<open>simp_all add: e del: append_Cons\<close>)
qed

lemma failover_list_leaks_witness:
  "redact_url_password (Some ''amqp://u:one@a;amqp://u:two@b'') = Some ''amqp://u:***@a;amqp://u:two@b''"
proof -
  have "credential_parts ''amqp'' ''u'' ''one'' (''a'' @ '';'' @ ''amqp'' @ '':'') (''//'' @ ''u'' @ '':'' @ ''two'' @ ''@'' @ ''b'')"
    and "\<not> str_in REDACTED_VALUE (credential_url ''amqp'' ''u'' ''one'' ''a'' [] @ '';'' @ credential_url ''amqp'' ''u'' ''two'' ''b'' [])"
    and urls: "credential_url ''amqp'' ''u'' ''one'' ''a'' [] @ '';'' @ credential_url ''amqp'' ''u'' ''two'' ''b'' [] =
       ''amqp://u:one@a;amqp://u:two@b''"
    "credential_url (py_lower ''amqp'') ''u'' REDACTED_VALUE ''a'' [] @ '';'' @ credential_url ''amqp'' ''u'' ''two'' ''b'' [] =
       ''amqp://u:***@a;amqp://u:two@b''"
    by code_simp+
  from failover_list_leaks[OF this(1,2)] show ?thesis unfolding urls .
qed

section \<open>Passwords in data\<close>

text \<open>Two values that differ only under password keys.\<close>

inductive same_public :: "pyval \<Rightarrow> pyval \<Rightarrow> bool" where
  same_value: "same_public v v"
| same_dict: "list_all2 (\<lambda>p q. fst p = fst q \<and> (password_entry (fst p) \<or> same_public (snd p) (snd q))) d e \<Longrightarrow>
    same_public (PDict d) (PDict e)"
| same_list: "list_all2 same_public xs ys \<Longrightarrow> same_public (PList xs) (PList ys)"
| same_tuple: "list_all2 same_public xs ys \<Longrightarrow> same_public (PTuple xs) (PTuple ys)"
monos list_all2_mono

lemma redact_lists_equal:
  "list_all2 (\<lambda>x y. same_public x y \<and> redact_access_data x = redact_access_data y) xs ys \<Longrightarrow>
     map redact_access_data xs = map redact_access_data ys"
  by (induction rule: list_all2_induct) auto

lemma redact_same_public:
  assumes "same_public v w"
  shows "redact_access_data v = redact_access_data w"
  using assms
proof (induction rule: same_public.induct)
  case (same_dict d e)
  then show ?case by (induction rule: list_all2_induct) (auto simp: case_prod_unfold)
qed (auto dest: redact_lists_equal)

text \<open>Data shown to users does not depend on what stands under a password key, at any depth of nested
  dictionaries, lists and tuples: values that agree everywhere else are redacted to the same value.\<close>

theorem redaction_hides_password_fields:
  assumes "same_public v w"
  shows "redact_access_data v = redact_access_data w"
  using assms by (rule redact_same_public)

lemma redaction_hides_password_fields_witness:
  "redact_access_data (PList [PDict [(PStr ''DB-Password'', PStr ''x''), (PStr ''port'', PInt 1)]]) =
   redact_access_data (PList [PDict [(PStr ''DB-Password'', PInt 7), (PStr ''port'', PInt 1)]])"
proof (rule redaction_hides_password_fields)
  have "password_entry (PStr ''DB-Password'')" by code_simp
  then show "same_public (PList [PDict [(PStr ''DB-Password'', PStr ''x''), (PStr ''port'', PInt 1)]])
      (PList [PDict [(PStr ''DB-Password'', PInt 7), (PStr ''port'', PInt 1)]])"
    by (auto intro!: same_public.intros)
qed

end
