(* ===== verification/Rpc_Messages.thy ===== *)
theory Rpc_Messages
  imports Domain
begin

text \<open>
  The messages of the database RPC (celery_root/shared/schemas/rpc.py): one constructor per request
  model and per response model, the envelopes, and the validator of raw queries. How pydantic turns
  models into JSON text and back is a parameter of the model, the record \<open>codec\<close>.
\<close>

section \<open>Requests and responses\<close>

datatype rpc_request =
    PingRequest
  | IngestTaskEventRequest task_event
  | IngestWorkerEventRequest worker_event
  | IngestBrokerQueueEventRequest broker_queue_event
  | BrokerQueueSnapshotRequest string
  | WorkerEventSnapshotRequest string
  | StoreTaskRelationRequest task_relation
  | ListTasksRequest "task_filter option"
  | ListTasksPageRequest "task_filter option" "string option" "string option" int int
  | ListTaskNamesRequest
  | GetTaskRequest string
  | ListTaskRelationsRequest string
  | ListWorkersRequest
  | GetWorkerRequest string
  | TaskStatsRequest "string option" "time_range option"
  | ThroughputRequest time_range int
  | StateDistributionRequest
  | HeatmapRequest "time_range option"
  | ListSchedulesRequest
  | StoreScheduleRequest schedule
  | DeleteScheduleRequest string
  | CleanupRequest int
  | SchemaVersionRequest
  | SchemaRequest
  | DbInfoRequest
  | RawQueryRequest string "(pyval \<times> pyval) list option" int

record schema_column =
  col_name :: string
  col_type :: string
  col_nullable :: bool
  col_default :: "string option"
  col_primary_key :: bool

record schema_index =
  ix_name :: "string option"
  ix_columns :: "string list"
  ix_unique :: "bool option"

record db_info =
  info_backend :: string
  info_dialect :: string
  info_version :: "string option"
  info_language :: string
  info_schema_version :: int
  info_driver :: "string option"
  info_storage :: "string option"
  info_path :: "string option"

datatype rpc_response =
    Ok
  | PingResponse
  | BrokerQueueSnapshotResponse "broker_queue_event list"
  | WorkerEventSnapshotResponse "worker_event option"
  | ListTasksResponse "task list"
  | ListTasksPageResponse "task list" nat
  | ListTaskNamesResponse "string list"
  | GetTaskResponse "task option"
  | ListTaskRelationsResponse "task_relation list"
  | ListWorkersResponse "worker list"
  | GetWorkerResponse "worker option"
  | TaskStatsResponse task_stats
  | ThroughputResponse "throughput_bucket list"
  | StateDistributionResponse "(string, nat) pydict"
  | HeatmapResponse "nat list list"
  | ListSchedulesResponse "schedule list"
  | CleanupResponse nat
  | SchemaVersionResponse int
  | SchemaResponse string "(string, schema_column list \<times> schema_index list) pydict"
  | DbInfoResponse db_info
  | RawQueryResponse "string list" "pyval list list" nat bool

section \<open>Envelopes\<close>

record rpc_error =
  er_code :: string
  er_message :: string

record request_envelope =
  rq_request_id :: string
  rq_op :: string
  rq_payload :: "pyval option"
  rq_schema_version :: int

record response_envelope =
  rs_request_id :: string
  rs_ok :: bool
  rs_payload :: "pyval option"
  rs_error :: "rpc_error option"
  rs_schema_version :: int

definition RPC_SCHEMA_VERSION :: int where "RPC_SCHEMA_VERSION = 1"

text \<open>
  The JSON forms, as pydantic gives them: \<open>model_dump(mode='json')\<close> of requests and responses,
  \<open>model_validate\<close> of a payload against the model of the given name (None when it raises
  ValidationError), and the text of the envelopes with its parser.
\<close>

record codec =
  cd_dump_req :: "rpc_request \<Rightarrow> pyval"
  cd_validate_req :: "string \<Rightarrow> pyval \<Rightarrow> rpc_request option"
  cd_dump_res :: "rpc_response \<Rightarrow> pyval"
  cd_validate_res :: "string \<Rightarrow> pyval \<Rightarrow> rpc_response option"
  cd_request_json :: "request_envelope \<Rightarrow> string"
  cd_parse_request :: "string \<Rightarrow> request_envelope option"
  cd_response_json :: "response_envelope \<Rightarrow> string"
  cd_parse_response :: "string \<Rightarrow> response_envelope option"

section \<open>Raw queries\<close>

definition READONLY_PRAGMAS :: "string list" where
  "READONLY_PRAGMAS = [''collation_list'', ''compile_options'', ''database_list'', ''foreign_key_list'',
     ''function_list'', ''index_info'', ''index_list'', ''index_xinfo'', ''module_list'', ''pragma_list'',
     ''table_info'', ''table_xinfo'']"

text \<open>\<open>while cleaned.endswith(';'): cleaned = cleaned[:-1].rstrip()\<close>\<close>

function drop_semicolons :: "string \<Rightarrow> string" where
  "drop_semicolons s = (if s \<noteq> [] \<and> last s = CHR '';'' then drop_semicolons (rstrip_by is_space (butlast s)) else s)"
  by auto
termination
proof (relation "measure length")
  fix s :: string assume "s \<noteq> [] \<and> last s = CHR '';''"
  moreover have "length (dropWhile is_space (rev (butlast s))) \<le> length (rev (butlast s))"
    by (rule length_dropWhile_le)
  ultimately show "(rstrip_by is_space (butlast s), s) \<in> measure length"
    by (simp add: rstrip_by_def) (metis Suc_pred length_greater_0_conv less_Suc_eq_le)
qed simp

declare drop_semicolons.simps [simp del]

text \<open>
  \<open>re.match(r'pragma\\s+([\\w.]+)', cleaned, re.IGNORECASE)\<close>: in the raw string the doubled
  backslashes stand for backslashes, so the pattern asks for a literal backslash, a run of the
  letter s, and a run of backslashes, the letter w and dots (the group).
\<close>

definition in_class :: "char \<Rightarrow> bool" where
  "in_class c = (c = CHR 0x5C \<or> lower_char c = CHR ''w'' \<or> c = CHR ''.'')"

definition pragma_match :: "string \<Rightarrow> string option" where
  "pragma_match s =
     (if starts_with (''pragma'' @ [CHR 0x5C]) (py_lower s)
      then let rest = drop 7 s;
               spaces = takeWhile (\<lambda>c. lower_char c = CHR ''s'') rest;
               group = takeWhile in_class (dropWhile (\<lambda>c. lower_char c = CHR ''s'') rest)
           in if spaces = [] \<or> group = [] then None else Some group
      else None)"

definition validate_query :: "string \<Rightarrow> pyexc + string" where
  "validate_query value =
     (let cleaned = py_strip value
      in if cleaned = [] then Inl (ValueError ''Query cannot be empty.'')
         else let cleaned = drop_semicolons cleaned
              in if CHR '';'' \<in> set cleaned then Inl (ValueError ''Multiple statements are not allowed.'')
                 else let lowered = py_lower cleaned
                      in if starts_with ''pragma'' lowered
                         then case pragma_match cleaned of
                                None \<Rightarrow> Inl (ValueError ''PRAGMA name is required.'')
                              | Some g \<Rightarrow>
                                  (let pragma_name = py_lower (last (split_on CHR ''.'' g))
                                   in if pragma_name \<notin> set READONLY_PRAGMAS
                                      then Inl (ValueError (''PRAGMA '' @ pragma_name @ '' is not allowed.''))
                                      else if CHR ''='' \<in> set cleaned
                                      then Inl (ValueError ''PRAGMA assignments are not allowed.'')
                                      else Inr cleaned)
                         else if \<not> (starts_with ''select'' lowered \<or> starts_with ''with'' lowered \<or>
                                    starts_with ''explain'' lowered)
                         then Inl (ValueError ''Only read-only SELECT/WITH/EXPLAIN queries are allowed.'')
                         else Inr cleaned)"

section \<open>What the validator lets through\<close>

definition no_trail :: "string \<Rightarrow> bool" where
  "no_trail s = (s = [] \<or> \<not> is_space (last s))"

lemma no_trail_rstrip: "no_trail (rstrip_by is_space s)"
proof (cases "dropWhile is_space (rev s)")
  case (Cons c t)
  then have "\<not> is_space c" by (metis dropWhile_eq_Cons_conv)
  with Cons show ?thesis by (simp add: no_trail_def rstrip_by_def)
qed (simp add: no_trail_def rstrip_by_def)

lemma rstrip_prefix: "\<exists>t. s = rstrip_by is_space s @ t"
proof -
  have "rev s = takeWhile is_space (rev s) @ dropWhile is_space (rev s)" by simp
  then have "s = rev (dropWhile is_space (rev s)) @ rev (takeWhile is_space (rev s))"
    by (metis rev_append rev_rev_ident)
  then show ?thesis by (auto simp: rstrip_by_def)
qed

lemma drop_semicolons_facts:
  "\<exists>t. s = drop_semicolons s @ t"
  "no_trail s \<Longrightarrow> no_trail (drop_semicolons s)"
  "drop_semicolons s = [] \<or> last (drop_semicolons s) \<noteq> CHR '';''"
proof (induction s rule: drop_semicolons.induct)
  case (1 s)
  show "\<exists>t. s = drop_semicolons s @ t"
  proof (cases "s \<noteq> [] \<and> last s = CHR '';''")
    case True
    from 1(1)[OF True] obtain t where "rstrip_by is_space (butlast s) = drop_semicolons s @ t"
      using True drop_semicolons.simps[of s] by auto
    moreover obtain u where "butlast s = rstrip_by is_space (butlast s) @ u" using rstrip_prefix by blast
    ultimately have "butlast s = drop_semicolons s @ (t @ u)" by simp
    then have "s = drop_semicolons s @ (t @ u @ [last s])" using True by (metis append.assoc append_butlast_last_id)
    then show ?thesis by blast
  qed (auto simp: drop_semicolons.simps[of s])
  show "no_trail s \<Longrightarrow> no_trail (drop_semicolons s)"
    using 1(2) no_trail_rstrip by (subst drop_semicolons.simps) auto
  show "drop_semicolons s = [] \<or> last (drop_semicolons s) \<noteq> CHR '';''"
    using 1(3) by (subst (1 2) drop_semicolons.simps) auto
qed

lemma drop_semicolons_id: "s = [] \<or> last s \<noteq> CHR '';'' \<Longrightarrow> drop_semicolons s = s"
  by (subst drop_semicolons.simps) auto

lemma py_strip_id: "no_trail s \<Longrightarrow> s = [] \<or> \<not> is_space (hd s) \<Longrightarrow> py_strip s = s"
proof -
  assume t: "no_trail s" and h: "s = [] \<or> \<not> is_space (hd s)"
  have "dropWhile is_space s = s" using h by (cases s) auto
  moreover have "dropWhile is_space (rev s) = rev s"
    using t by (cases s rule: rev_cases) (auto simp: no_trail_def)
  ultimately show "py_strip s = s" by (simp add: py_strip_def lstrip_by_def rstrip_by_def)
qed

lemma py_strip_ends: "no_trail (py_strip s)" "py_strip s = [] \<or> \<not> is_space (hd (py_strip s))"
proof -
  show "no_trail (py_strip s)" by (simp add: py_strip_def no_trail_rstrip)
  obtain t where t: "lstrip_by is_space s = py_strip s @ t"
    unfolding py_strip_def using rstrip_prefix by blast
  show "py_strip s = [] \<or> \<not> is_space (hd (py_strip s))"
  proof (cases "py_strip s")
    case (Cons c r)
    with t have "dropWhile is_space s = c # r @ t" by (simp add: lstrip_by_def)
    with Cons show ?thesis by (metis dropWhile_eq_Cons_conv list.sel(1))
  qed simp
qed

lemma set_last_split: "set (last (split_on c s)) \<subseteq> set s"
proof (induction s)
  case (Cons x s)
  then show ?case by (cases "split_on c s") (auto split: if_splits)
qed simp

lemma pragma_name_chars:
  assumes "pragma_match s = Some g"
  shows "set (py_lower (last (split_on CHR ''.'' g))) \<subseteq> {CHR 0x5C, CHR ''w'', CHR ''.''}"
proof -
  have "set g \<subseteq> {c. in_class c}"
    using assms by (auto simp: pragma_match_def Let_def split: if_splits dest: set_takeWhileD)
  then have "set (last (split_on CHR ''.'' g)) \<subseteq> {c. in_class c}" using set_last_split by blast
  moreover have "lower_char CHR 0x5C = CHR 0x5C" "lower_char CHR ''.'' = CHR ''.''" by code_simp+
  ultimately show ?thesis by (auto simp: py_lower_def in_class_def)
qed

lemma readonly_pragmas_other_chars:
  "p \<in> set READONLY_PRAGMAS \<Longrightarrow> \<not> set p \<subseteq> {CHR 0x5C, CHR ''w'', CHR ''.''}"
proof -
  have "list_all (\<lambda>p. \<not> set p \<subseteq> {CHR 0x5C, CHR ''w'', CHR ''.''}) READONLY_PRAGMAS" by code_simp
  then show "p \<in> set READONLY_PRAGMAS \<Longrightarrow> \<not> set p \<subseteq> {CHR 0x5C, CHR ''w'', CHR ''.''}"
    by (simp add: list_all_iff)
qed

lemma validate_query_cases:
  assumes "validate_query q = Inr c"
  shows "c = drop_semicolons (py_strip q)" and "CHR '';'' \<notin> set c"
    and "starts_with ''select'' (py_lower c) \<or> starts_with ''with'' (py_lower c) \<or> starts_with ''explain'' (py_lower c)"
    and "\<not> starts_with ''pragma'' (py_lower c)"
proof -
  have np: "\<not> starts_with ''pragma'' (py_lower (drop_semicolons (py_strip q)))"
  proof
    assume p: "starts_with ''pragma'' (py_lower (drop_semicolons (py_strip q)))"
    then obtain g where g: "pragma_match (drop_semicolons (py_strip q)) = Some g"
        "py_lower (last (split_on CHR ''.'' g)) \<in> set READONLY_PRAGMAS"
      using assms by (auto simp: validate_query_def Let_def split: if_splits option.splits)
    with pragma_name_chars readonly_pragmas_other_chars show False by blast
  qed
  show "c = drop_semicolons (py_strip q)" "CHR '';'' \<notin> set c" "\<not> starts_with ''pragma'' (py_lower c)"
    "starts_with ''select'' (py_lower c) \<or> starts_with ''with'' (py_lower c) \<or> starts_with ''explain'' (py_lower c)"
    using assms np by (auto simp: validate_query_def Let_def split: if_splits)
qed

text \<open>C17: The raw-query validator lets through only a single statement that begins with SELECT, WITH or
  EXPLAIN; it accepts its own output unchanged, so the server agrees with the client that validated
  the query first. No PRAGMA passes, not even those of the read-only list: the pattern that should
  extract the pragma name is written with doubled backslashes in a raw string.\<close>

theorem validate_query_safe:
  assumes "validate_query q = Inr c"
  shows "CHR '';'' \<notin> set c \<and> validate_query c = Inr c \<and> \<not> starts_with ''pragma'' (py_lower c) \<and>
    (starts_with ''select'' (py_lower c) \<or> starts_with ''with'' (py_lower c) \<or>
     starts_with ''explain'' (py_lower c))"
proof (intro conjI validate_query_cases[OF assms])
  note f = validate_query_cases[OF assms]
  have ne: "c \<noteq> []" using f(3) by (auto simp: py_lower_def)
  obtain t where t: "py_strip q = c @ t" using drop_semicolons_facts(1)[of "py_strip q"] f(1) by auto
  have "no_trail c" using drop_semicolons_facts(2)[OF py_strip_ends(1)] f(1) by simp
  moreover have "\<not> is_space (hd c)" using py_strip_ends(2)[of q] t ne by (metis append_is_Nil_conv hd_append2)
  ultimately have "py_strip c = c" by (simp add: py_strip_id)
  moreover have "drop_semicolons c = c"
    using drop_semicolons_facts(3)[of "py_strip q"] f(1) by (intro drop_semicolons_id) simp
  ultimately show "validate_query c = Inr c"
    using f ne by (auto simp: validate_query_def Let_def)
qed

lemma validate_query_safe_witness:
  "validate_query '' select * from tasks ; ; '' = Inr ''select * from tasks'' \<and>
   validate_query ''select * from tasks'' = Inr ''select * from tasks'' \<and>
   (\<exists>e. validate_query ''PRAGMA table_info(tasks)'' = Inl e)"
proof (intro conjI)
  show q: "validate_query '' select * from tasks ; ; '' = Inr ''select * from tasks''" by code_simp
  from validate_query_safe[OF q] show "validate_query ''select * from tasks'' = Inr ''select * from tasks''" by blast
  have "validate_query ''PRAGMA table_info(tasks)'' = Inl (ValueError ''PRAGMA name is required.'')" by code_simp
  then show "\<exists>e. validate_query ''PRAGMA table_info(tasks)'' = Inl e" by blast
qed

end
