(* ===== verification/Rpc_Server.thy ===== *)
theory Rpc_Server
  imports Rpc_Messages Store_System
begin

text \<open>
  The server side of the database RPC: the handlers and the operation table of
  celery_root/core/db/dispatch.py, and the request handling of \<open>DBManager\<close>
  (celery_root/core/db/manager.py). A handler returns an exception or a response with the new
  database; None stands for a handler that never returns. What SQLAlchemy's inspector, driver and
  raw SQL execution answer is a parameter, the record \<open>sqla\<close>.
\<close>

section \<open>Handlers\<close>

record column_info =
  ci_name :: string
  ci_type :: string
  ci_nullable :: "bool option"
  ci_default :: "string option"
  ci_primary_key :: "bool option"

record index_info =
  ii_name :: "string option"
  ii_columns :: "string list option"
  ii_unique :: "bool option"

record sqla =
  sq_tables :: "db \<Rightarrow> (string \<times> column_info list \<times> index_info list) list"
  sq_dialect :: string
  sq_driver :: string
  sq_version :: "string option"
  sq_path :: "string option"
  sq_execute :: "string \<Rightarrow> (pyval \<times> pyval) list \<Rightarrow> db \<Rightarrow> pyexc + (string list \<times> pyval list list)"

type_synonym 'a answer = "(pyexc + 'a) option"

text \<open>The relations an event implies: to its parent, its group and its chord.\<close>

definition event_relations :: "task_event \<Rightarrow> task_relation list" where
  "event_relations e =
     (let root_id = or_str (te_root_id e) (te_task_id e);
          edge = (\<lambda>p kind. if truthy_str p
             then [\<lparr>rel_root_id = root_id, rel_parent_id = p, rel_child_id = te_task_id e, rel_relation = kind\<rparr>]
             else [])
      in edge (te_parent_id e) ''parent'' @ edge (te_group_id e) ''group'' @ edge (te_chord_id e) ''chord'')"

definition store_relations :: "task_event \<Rightarrow> db \<Rightarrow> db" where
  "store_relations e d = fold store_task_relation (event_relations e) d"

definition ingest_task_event :: "task_event \<Rightarrow> db \<Rightarrow> db" where
  "ingest_task_event e d = store_relations e (store_task_event e d)"

definition schema_tables :: "sqla \<Rightarrow> db \<Rightarrow> (string, schema_column list \<times> schema_index list) pydict" where
  "schema_tables sq d = fold (\<lambda>(t, cols, ixs). dset t
     (map (\<lambda>c. \<lparr>col_name = ci_name c, col_type = ci_type c,
        col_nullable = (case ci_nullable c of None \<Rightarrow> True | Some b \<Rightarrow> b),
        col_default = ci_default c,
        col_primary_key = (case ci_primary_key c of None \<Rightarrow> False | Some b \<Rightarrow> b)\<rparr>) cols,
      map (\<lambda>i. \<lparr>ix_name = ii_name i,
        ix_columns = (case ii_columns i of None \<Rightarrow> [] | Some xs \<Rightarrow> xs),
        ix_unique = ii_unique i\<rparr>) ixs)) (sq_tables sq d) []"

definition db_info_of :: "sqla \<Rightarrow> db \<Rightarrow> db_info" where
  "db_info_of sq d = \<lparr>info_backend = ''sqlite'', info_dialect = sq_dialect sq,
     info_version = sq_version sq, info_language = ''SQL'', info_schema_version = get_schema_version d,
     info_driver = Some (sq_driver sq),
     info_storage = Some (if sq_path sq = None then ''memory'' else ''file''),
     info_path = sq_path sq\<rparr>"

text \<open>\<open>_raw_query\<close>: one row more than asked for is fetched to see whether the result was cut. The
  connection is closed without a commit, so the database keeps its content.\<close>

definition raw_query :: "sqla \<Rightarrow> string \<Rightarrow> (pyval \<times> pyval) list option \<Rightarrow> int \<Rightarrow> db \<Rightarrow> pyexc + rpc_response" where
  "raw_query sq q params max_rows d =
     ebind (sq_execute sq q (case params of None \<Rightarrow> [] | Some p \<Rightarrow> p) d) (\<lambda>(columns, all_rows).
       let rows = take (nat (max_rows + 1)) all_rows;
           truncated = (max_rows < int (length rows));
           rows = (if truncated then take (nat max_rows) rows else rows)
       in Inr (RawQueryResponse columns rows (length rows) truncated))"

definition handle_meta :: "sqla \<Rightarrow> rpc_request \<Rightarrow> db \<Rightarrow> (pyexc + rpc_response) option" where
  "handle_meta sq req d = (case req of
       PingRequest \<Rightarrow> Some (Inr PingResponse)
     | SchemaVersionRequest \<Rightarrow> Some (Inr (SchemaVersionResponse (get_schema_version d)))
     | SchemaRequest \<Rightarrow> Some (Inr (SchemaResponse (sq_dialect sq) (schema_tables sq d)))
     | DbInfoRequest \<Rightarrow> Some (Inr (DbInfoResponse (db_info_of sq d)))
     | RawQueryRequest q params n \<Rightarrow> Some (raw_query sq q params n d)
     | _ \<Rightarrow> None)"

text \<open>The handlers that write.\<close>

definition handle_write :: "pyrt \<Rightarrow> pydt \<Rightarrow> rpc_request \<Rightarrow> db \<Rightarrow> (pyexc + rpc_response \<times> db) option" where
  "handle_write rt now req d = (case req of
       IngestTaskEventRequest e \<Rightarrow> Some (Inr (Ok, ingest_task_event e d))
     | IngestWorkerEventRequest e \<Rightarrow> Some (ebind (store_worker_event rt e d) (\<lambda>d'. Inr (Ok, d')))
     | IngestBrokerQueueEventRequest e \<Rightarrow> Some (Inr (Ok, store_broker_queue_event e d))
     | StoreTaskRelationRequest r \<Rightarrow> Some (Inr (Ok, store_task_relation r d))
     | StoreScheduleRequest s \<Rightarrow> Some (Inr (Ok, store_schedule s d))
     | DeleteScheduleRequest i \<Rightarrow> Some (Inr (Ok, delete_schedule i d))
     | CleanupRequest days \<Rightarrow> Some (let (n, d') = cleanup now days d in Inr (CleanupResponse n, d'))
     | _ \<Rightarrow> None)"

text \<open>The handlers that read; the outer option is the loop of \<open>get_throughput\<close>.\<close>

definition handle_read :: "pyrt \<Rightarrow> rpc_request \<Rightarrow> db \<Rightarrow> rpc_response answer" where
  "handle_read rt req d = (case req of
       BrokerQueueSnapshotRequest b \<Rightarrow> Some (Inr (BrokerQueueSnapshotResponse (get_broker_queue_snapshot b d)))
     | WorkerEventSnapshotRequest h \<Rightarrow> Some (Inr (WorkerEventSnapshotResponse (get_worker_event_snapshot rt h d)))
     | ListTasksRequest f \<Rightarrow> Some (Inr (ListTasksResponse (get_tasks f d)))
     | ListTasksPageRequest f sk sd lmt off \<Rightarrow>
         Some (let (tasks, total) = get_tasks_page f sk sd lmt off d in Inr (ListTasksPageResponse tasks total))
     | ListTaskNamesRequest \<Rightarrow> Some (Inr (ListTaskNamesResponse (list_task_names d)))
     | GetTaskRequest i \<Rightarrow> Some (Inr (GetTaskResponse (get_task i d)))
     | ListTaskRelationsRequest i \<Rightarrow> Some (Inr (ListTaskRelationsResponse (get_task_relations i d)))
     | ListWorkersRequest \<Rightarrow> Some (Inr (ListWorkersResponse (get_workers rt d)))
     | GetWorkerRequest h \<Rightarrow> Some (Inr (GetWorkerResponse (get_worker rt h d)))
     | TaskStatsRequest n tr \<Rightarrow> Some (Inr (TaskStatsResponse (get_task_stats n tr d)))
     | ThroughputRequest tr n \<Rightarrow>
         map_option (\<lambda>r. ebind r (\<lambda>bs. Inr (ThroughputResponse bs))) (get_throughput tr n d)
     | StateDistributionRequest \<Rightarrow> Some (Inr (StateDistributionResponse (get_state_distribution d)))
     | HeatmapRequest tr \<Rightarrow> Some (Inr (HeatmapResponse (get_heatmap tr d)))
     | ListSchedulesRequest \<Rightarrow> Some (Inr (ListSchedulesResponse (get_schedules d)))
     | _ \<Rightarrow> None)"

definition is_write :: "rpc_request \<Rightarrow> bool" where
  "is_write req = (case req of
       IngestTaskEventRequest _ \<Rightarrow> True | IngestWorkerEventRequest _ \<Rightarrow> True
     | IngestBrokerQueueEventRequest _ \<Rightarrow> True | StoreTaskRelationRequest _ \<Rightarrow> True
     | StoreScheduleRequest _ \<Rightarrow> True | DeleteScheduleRequest _ \<Rightarrow> True | CleanupRequest _ \<Rightarrow> True
     | _ \<Rightarrow> False)"

definition is_meta :: "rpc_request \<Rightarrow> bool" where
  "is_meta req = (case req of
       PingRequest \<Rightarrow> True | SchemaVersionRequest \<Rightarrow> True | SchemaRequest \<Rightarrow> True
     | DbInfoRequest \<Rightarrow> True | RawQueryRequest _ _ _ \<Rightarrow> True | _ \<Rightarrow> False)"

text \<open>What the operation of a request does, with the wall clock \<open>now\<close>.\<close>

definition run_handler :: "sqla \<Rightarrow> pyrt \<Rightarrow> pydt \<Rightarrow> rpc_request \<Rightarrow> db \<Rightarrow> (rpc_response \<times> db) answer" where
  "run_handler sq rt now req d =
     (if is_write req then handle_write rt now req d
      else map_option (\<lambda>r. ebind r (\<lambda>res. Inr (res, d)))
             (if is_meta req then handle_meta sq req d else handle_read rt req d))"

text \<open>\<open>RPC_OPERATIONS\<close>: the request and the response model of every operation name.\<close>

definition RPC_OPERATIONS :: "(string, string \<times> string) pydict" where
  "RPC_OPERATIONS = [
    (''db.ping'', ''PingRequest'', ''PingResponse''),
    (''db.schema_version'', ''SchemaVersionRequest'', ''SchemaVersionResponse''),
    (''db.schema'', ''SchemaRequest'', ''SchemaResponse''),
    (''db.info'', ''DbInfoRequest'', ''DbInfoResponse''),
    (''db.raw_query'', ''RawQueryRequest'', ''RawQueryResponse''),
    (''events.task.ingest'', ''IngestTaskEventRequest'', ''Ok''),
    (''events.worker.ingest'', ''IngestWorkerEventRequest'', ''Ok''),
    (''events.broker_queue.ingest'', ''IngestBrokerQueueEventRequest'', ''Ok''),
    (''broker.queues.snapshot'', ''BrokerQueueSnapshotRequest'', ''BrokerQueueSnapshotResponse''),
    (''workers.events.snapshot'', ''WorkerEventSnapshotRequest'', ''WorkerEventSnapshotResponse''),
    (''relations.store'', ''StoreTaskRelationRequest'', ''Ok''),
    (''tasks.list'', ''ListTasksRequest'', ''ListTasksResponse''),
    (''tasks.page'', ''ListTasksPageRequest'', ''ListTasksPageResponse''),
    (''tasks.names'', ''ListTaskNamesRequest'', ''ListTaskNamesResponse''),
    (''tasks.get'', ''GetTaskRequest'', ''GetTaskResponse''),
    (''relations.list'', ''ListTaskRelationsRequest'', ''ListTaskRelationsResponse''),
    (''workers.list'', ''ListWorkersRequest'', ''ListWorkersResponse''),
    (''workers.get'', ''GetWorkerRequest'', ''GetWorkerResponse''),
    (''stats.task'', ''TaskStatsRequest'', ''TaskStatsResponse''),
    (''stats.throughput'', ''ThroughputRequest'', ''ThroughputResponse''),
    (''stats.state_distribution'', ''StateDistributionRequest'', ''StateDistributionResponse''),
    (''stats.heatmap'', ''HeatmapRequest'', ''HeatmapResponse''),
    (''schedules.list'', ''ListSchedulesRequest'', ''ListSchedulesResponse''),
    (''schedules.store'', ''StoreScheduleRequest'', ''Ok''),
    (''schedules.delete'', ''DeleteScheduleRequest'', ''Ok''),
    (''db.cleanup'', ''CleanupRequest'', ''CleanupResponse'')]"

section \<open>The DB manager\<close>

record manager =
  mg_max_message_bytes :: nat
  mg_codec :: codec
  mg_sqla :: sqla
  mg_rt :: pyrt

definition error_response :: "manager \<Rightarrow> string \<Rightarrow> string \<Rightarrow> string \<Rightarrow> string" where
  "error_response mg request_id code message = cd_response_json (mg_codec mg)
     \<lparr>rs_request_id = request_id, rs_ok = False, rs_payload = None,
      rs_error = Some \<lparr>er_code = code, er_message = message\<rparr>, rs_schema_version = RPC_SCHEMA_VERSION\<rparr>"

definition ok_response :: "manager \<Rightarrow> string \<Rightarrow> rpc_response \<Rightarrow> string" where
  "ok_response mg request_id res = cd_response_json (mg_codec mg)
     \<lparr>rs_request_id = request_id, rs_ok = True, rs_payload = Some (cd_dump_res (mg_codec mg) res),
      rs_error = None, rs_schema_version = RPC_SCHEMA_VERSION\<rparr>"

text \<open>\<open>_handle_operation\<close>: a payload that is no dict counts as an empty one. The left side of the inner
  result is the error code and message of the reply.\<close>

definition handle_operation ::
    "manager \<Rightarrow> pydt \<Rightarrow> string \<Rightarrow> pyval option \<Rightarrow> db \<Rightarrow> ((string \<times> string) + (rpc_response \<times> db)) option" where
  "handle_operation mg now request_model payload d =
     (let payload_dict = (case payload of Some (PDict p) \<Rightarrow> PDict p | _ \<Rightarrow> PDict [])
      in case cd_validate_req (mg_codec mg) request_model payload_dict of
           None \<Rightarrow> Some (Inl (''VALIDATION_ERROR'', ''Invalid RPC payload''))
         | Some req \<Rightarrow> (case run_handler (mg_sqla mg) (mg_rt mg) now req d of
               None \<Rightarrow> None
             | Some (Inl e) \<Rightarrow> Some (Inl (''SERVER_ERROR'', ''RPC handler failed''))
             | Some (Inr r) \<Rightarrow> Some (Inr r)))"

text \<open>\<open>_dispatch\<close>: the reply and the new database; \<open>fresh\<close> is the id made up before the request has
  been read.\<close>

definition dispatch :: "manager \<Rightarrow> pydt \<Rightarrow> string \<Rightarrow> string \<Rightarrow> db \<Rightarrow> (string \<times> db) option" where
  "dispatch mg now fresh data d =
     (if mg_max_message_bytes mg < length data
      then Some (error_response mg fresh ''MESSAGE_TOO_LARGE'' ''RPC request exceeded max message size'', d)
      else case cd_parse_request (mg_codec mg) data of
          None \<Rightarrow> Some (error_response mg fresh ''VALIDATION_ERROR'' ''Invalid RPC payload'', d)
        | Some env \<Rightarrow>
            (if rq_schema_version env \<noteq> RPC_SCHEMA_VERSION
             then Some (error_response mg (rq_request_id env) ''SCHEMA_UNSUPPORTED''
                          ''Unsupported RPC schema version'', d)
             else case dget RPC_OPERATIONS (rq_op env) of
                 None \<Rightarrow> Some (error_response mg (rq_request_id env) ''OP_NOT_FOUND''
                                (''Unknown operation: '' @ rq_op env), d)
               | Some (request_model, response_model) \<Rightarrow>
                   (case handle_operation mg now request_model (rq_payload env) d of
                      None \<Rightarrow> None
                    | Some (Inl (code, message)) \<Rightarrow> Some (error_response mg (rq_request_id env) code message, d)
                    | Some (Inr (res, d')) \<Rightarrow> Some (ok_response mg (rq_request_id env) res, d'))))"

text \<open>\<open>_handle_connection\<close>, one message: without a free slot the reply is BUSY.\<close>

definition handle_message :: "manager \<Rightarrow> bool \<Rightarrow> pydt \<Rightarrow> string \<Rightarrow> string \<Rightarrow> db \<Rightarrow> (string \<times> db) option" where
  "handle_message mg busy now fresh data d =
     (if busy then Some (error_response mg fresh ''BUSY'' ''DB manager is busy'', d)
      else dispatch mg now fresh data d)"

section \<open>Ingesting over RPC\<close>

lemma store_relations_tasks [simp]: "db_tasks (store_relations e d) = db_tasks d"
proof -
  have "db_tasks (fold store_task_relation rs d) = db_tasks d" for rs
    by (induction rs arbitrary: d) (simp_all add: store_task_relation_def)
  then show ?thesis by (simp add: store_relations_def)
qed

interpretation ingest: task_tracker ingest_task_event state_in_store te_task_id te_state
proof
  fix e d i
  have "state_in_store (ingest_task_event e d) i = state_in_store (store_task_event e d) i"
    by (simp add: ingest_task_event_def state_in_store_def get_task_def)
  then show "state_in_store (ingest_task_event e d) i =
    (if i = te_task_id e then Some (next_state (state_in_store d i) (te_state e)) else state_in_store d i)"
    by (simp add: store.state_law)
qed

text \<open>Every operation keeps the database reachable, so the invariants hold behind the RPC as well.\<close>

lemma reachable_relations: "reachable rt d \<Longrightarrow> reachable rt (store_relations e d)"
  unfolding store_relations_def
  by (rule fold_invariant) (auto intro: reach_step step_relation)

lemma run_handler_reachable:
  assumes "run_handler sq rt now req d = Some (Inr (res, d'))" and "reachable rt d"
  shows "reachable rt d'"
proof (cases "is_write req")
  case True
  with assms(1) have w: "handle_write rt now req d = Some (Inr (res, d'))" by (simp add: run_handler_def)
  show ?thesis
  proof (cases req)
    case (IngestTaskEventRequest e)
    with w have "d' = store_relations e (store_task_event e d)"
      by (simp add: handle_write_def ingest_task_event_def)
    with assms(2) show ?thesis by (auto intro: reachable_relations reach_step step_task_event)
  next
    case (CleanupRequest days)
    with w have "d' = snd (cleanup now days d)" by (simp add: handle_write_def case_prod_unfold Let_def)
    with assms(2) show ?thesis by (auto intro: reach_step step_cleanup)
  next
    case (IngestWorkerEventRequest e)
    with w have "store_worker_event rt e d = Inr d'" by (auto simp: handle_write_def ebind_Inr_iff)
    with assms(2) show ?thesis by (auto intro: reach_step step_worker_event)
  qed (use w assms(2) True in \<open>auto simp: handle_write_def is_write_def
      intro: reach_step step_queue_event step_relation step_schedule step_delete_schedule\<close>)
next
  case False
  with assms have "d' = d" by (auto simp: run_handler_def ebind_Inr_iff)
  with assms(2) show ?thesis by simp
qed


text \<open>A codec for the witnesses: it knows one request and one response.\<close>

definition toy_codec :: "rpc_request \<Rightarrow> rpc_response \<Rightarrow> codec" where
  "toy_codec req res = \<lparr>cd_dump_req = (\<lambda>_. PDict []), cd_validate_req = (\<lambda>_ _. Some req),
     cd_dump_res = (\<lambda>_. PNone), cd_validate_res = (\<lambda>_ _. Some res),
     cd_request_json = (\<lambda>e. rq_op e @ '' '' @ rq_request_id e),
     cd_parse_request = (\<lambda>s. Some \<lparr>rq_request_id = after CHR '' '' s, rq_op = before CHR '' '' s,
        rq_payload = Some (PDict []), rq_schema_version = 1\<rparr>),
     cd_response_json = (\<lambda>r. (if rs_ok r then ''+'' else ''-'') @ rs_request_id r),
     cd_parse_response = (\<lambda>s. Some \<lparr>rs_request_id = tl s, rs_ok = (hd s = CHR ''+''),
        rs_payload = (if hd s = CHR ''+'' then Some PNone else None),
        rs_error = (if hd s = CHR ''+'' then None else Some \<lparr>er_code = ''BUSY'', er_message = ''DB manager is busy''\<rparr>),
        rs_schema_version = 1\<rparr>)\<rparr>"

definition toy_sqla :: sqla where
  "toy_sqla = \<lparr>sq_tables = (\<lambda>_. []), sq_dialect = ''sqlite'', sq_driver = ''pysqlite'', sq_version = None,
     sq_path = None, sq_execute = (\<lambda>_ _ _. Inr ([], []))\<rparr>"

definition toy_manager :: "rpc_request \<Rightarrow> rpc_response \<Rightarrow> manager" where
  "toy_manager req res = \<lparr>mg_max_message_bytes = 100, mg_codec = toy_codec req res, mg_sqla = toy_sqla, mg_rt = toy_rt\<rparr>"

definition toy_ingest :: rpc_request where
  "toy_ingest = IngestTaskEventRequest
     ((new_task_event ''a'' None ''SUCCESS'' (utc_dt 5))\<lparr>te_parent_id := Some ''p''\<rparr>)"

definition fresh_db :: db where
  "fresh_db = projr (open_store empty_db)"

lemma reachable_fresh: "reachable rt fresh_db"
proof -
  have "open_store empty_db = Inr fresh_db" by code_simp
  then show ?thesis by (rule reach_open)
qed

definition after_ingest :: "string \<times> db" where
  "after_ingest = the (handle_message (toy_manager toy_ingest Ok) False (utc_dt 0) ''f''
     ''events.task.ingest r1'' fresh_db)"


end
