(* ===== verification/Rpc_Client.thy ===== *)
theory Rpc_Client
  imports Rpc_Server
begin

text \<open>
  The client side of the database RPC (celery_root/core/db/rpc_client.py): the transport with its
  attempts, the call of an operation, and the operation and response model each method of
  \<open>DbRpcClient\<close> uses. What the network does in each attempt is given as a list of fates. The
  properties relate a call through client, codec and server to the direct use of the database.
\<close>

section \<open>Transport\<close>

text \<open>
  An attempt can fail before the server sees the request, lose the reply (by timeout or by a broken
  connection, with the request processed or not), or bring a reply.
\<close>

datatype fate = Unreachable | TimedOut bool | Broken bool | Replied

record rpc_settings =
  set_max_message_bytes :: nat
  set_codec :: codec

text \<open>The state of a call: whether the transport has a connection, and the database of the server.\<close>

record link =
  lk_connected :: bool
  lk_db :: db

type_synonym server = "string \<Rightarrow> db \<Rightarrow> (string \<times> db) option"

definition processed :: "server \<Rightarrow> string \<Rightarrow> bool \<Rightarrow> db \<Rightarrow> db" where
  "processed srv data done d = (if done then (case srv data d of None \<Rightarrow> d | Some (_, d') \<Rightarrow> d') else d)"

text \<open>The loop over the attempts; a handler that never returns looks like a timeout to the client.\<close>

fun attempts :: "rpc_settings \<Rightarrow> server \<Rightarrow> string \<Rightarrow> string \<Rightarrow> fate list \<Rightarrow> link \<Rightarrow>
    (pyexc + response_envelope) \<times> link" where
  "attempts st srv request_id data [] lk = (Inl (RuntimeError ''RPC request failed''), lk)"
| "attempts st srv request_id data (f # fs) lk = (case f of
       Unreachable \<Rightarrow> attempts st srv request_id data fs (lk\<lparr>lk_connected := False\<rparr>)
     | TimedOut p \<Rightarrow> attempts st srv request_id data fs
         (lk\<lparr>lk_connected := False, lk_db := processed srv data p (lk_db lk)\<rparr>)
     | Broken p \<Rightarrow> attempts st srv request_id data fs
         (lk\<lparr>lk_connected := False, lk_db := processed srv data p (lk_db lk)\<rparr>)
     | Replied \<Rightarrow>
         (case srv data (lk_db lk) of
            None \<Rightarrow> attempts st srv request_id data fs (lk\<lparr>lk_connected := False\<rparr>)
          | Some (resp_bytes, d') \<Rightarrow>
              (let lk' = \<lparr>lk_connected = True, lk_db = d'\<rparr>
               in if set_max_message_bytes st < length resp_bytes
                  then (Inl (ValueError ''RPC response too large''), lk')
                  else case cd_parse_response (set_codec st) resp_bytes of
                      None \<Rightarrow> attempts st srv request_id data fs (lk'\<lparr>lk_connected := False\<rparr>)
                    | Some response \<Rightarrow>
                        (if rs_schema_version response \<noteq> RPC_SCHEMA_VERSION
                         then (Inl (RuntimeError ''RPC schema version mismatch''), lk')
                         else if rs_request_id response \<noteq> request_id
                         then (Inl (RuntimeError ''RPC response request_id mismatch''), lk')
                         else (Inr response, lk')))))"

definition request_data :: "rpc_settings \<Rightarrow> string \<Rightarrow> string \<Rightarrow> pyval \<Rightarrow> string" where
  "request_data st request_id op payload = cd_request_json (set_codec st)
     \<lparr>rq_request_id = request_id, rq_op = op, rq_payload = Some payload, rq_schema_version = RPC_SCHEMA_VERSION\<rparr>"

definition request :: "rpc_settings \<Rightarrow> server \<Rightarrow> string \<Rightarrow> fate list \<Rightarrow> string \<Rightarrow> pyval \<Rightarrow> nat \<Rightarrow> link \<Rightarrow>
    (pyexc + response_envelope) \<times> link" where
  "request st srv request_id fates op payload max_retries lk =
     (let data = request_data st request_id op payload
      in if set_max_message_bytes st < length data
         then (Inl (ValueError ''RPC request too large''), lk)
         else attempts st srv request_id data (take (max_retries + 1) fates) lk)"

section \<open>Calls\<close>

text \<open>\<open>RpcCallError\<close> carries the error of the reply; everything else is raised as it is.\<close>

datatype call_error = RpcCallError rpc_error | Raised pyexc

definition call_op :: "rpc_settings \<Rightarrow> server \<Rightarrow> string \<Rightarrow> fate list \<Rightarrow> string \<Rightarrow> rpc_request \<Rightarrow> string \<Rightarrow> nat \<Rightarrow>
    link \<Rightarrow> (call_error + rpc_response) \<times> link" where
  "call_op st srv request_id fates op req response_model max_retries lk =
     (case request st srv request_id fates op (cd_dump_req (set_codec st) req) max_retries lk of
        (Inl e, lk') \<Rightarrow> (Inl (Raised e), lk')
      | (Inr response, lk') \<Rightarrow>
          (if \<not> rs_ok response
           then (Inl (RpcCallError (case rs_error response of
                   None \<Rightarrow> \<lparr>er_code = ''UNKNOWN'', er_message = ''RPC failed''\<rparr> | Some e \<Rightarrow> e)), lk')
           else case cd_validate_res (set_codec st) response_model
                       (case rs_payload response of None \<Rightarrow> PDict [] | Some p \<Rightarrow> p) of
                  None \<Rightarrow> (Inl (Raised ValidationError), lk')
                | Some res \<Rightarrow> (Inr res, lk')))"

text \<open>The operation and the response model of the client method that builds a request.\<close>

primrec client_method :: "rpc_request \<Rightarrow> string \<times> string" where
  "client_method PingRequest = (''db.ping'', ''PingResponse'')"
| "client_method SchemaVersionRequest = (''db.schema_version'', ''SchemaVersionResponse'')"
| "client_method SchemaRequest = (''db.schema'', ''SchemaResponse'')"
| "client_method DbInfoRequest = (''db.info'', ''DbInfoResponse'')"
| "client_method (RawQueryRequest q params n) = (''db.raw_query'', ''RawQueryResponse'')"
| "client_method (IngestTaskEventRequest e) = (''events.task.ingest'', ''Ok'')"
| "client_method (ListTasksRequest f) = (''tasks.list'', ''ListTasksResponse'')"
| "client_method (ListTasksPageRequest f sk sd lmt off) = (''tasks.page'', ''ListTasksPageResponse'')"
| "client_method ListTaskNamesRequest = (''tasks.names'', ''ListTaskNamesResponse'')"
| "client_method (GetTaskRequest i) = (''tasks.get'', ''GetTaskResponse'')"
| "client_method (StoreTaskRelationRequest r) = (''relations.store'', ''Ok'')"
| "client_method (ListTaskRelationsRequest i) = (''relations.list'', ''ListTaskRelationsResponse'')"
| "client_method (IngestWorkerEventRequest e) = (''events.worker.ingest'', ''Ok'')"
| "client_method (IngestBrokerQueueEventRequest e) = (''events.broker_queue.ingest'', ''Ok'')"
| "client_method (BrokerQueueSnapshotRequest b) = (''broker.queues.snapshot'', ''BrokerQueueSnapshotResponse'')"
| "client_method ListWorkersRequest = (''workers.list'', ''ListWorkersResponse'')"
| "client_method (GetWorkerRequest h) = (''workers.get'', ''GetWorkerResponse'')"
| "client_method (WorkerEventSnapshotRequest h) = (''workers.events.snapshot'', ''WorkerEventSnapshotResponse'')"
| "client_method (TaskStatsRequest n tr) = (''stats.task'', ''TaskStatsResponse'')"
| "client_method (ThroughputRequest tr n) = (''stats.throughput'', ''ThroughputResponse'')"
| "client_method StateDistributionRequest = (''stats.state_distribution'', ''StateDistributionResponse'')"
| "client_method (HeatmapRequest tr) = (''stats.heatmap'', ''HeatmapResponse'')"
| "client_method ListSchedulesRequest = (''schedules.list'', ''ListSchedulesResponse'')"
| "client_method (StoreScheduleRequest s) = (''schedules.store'', ''Ok'')"
| "client_method (DeleteScheduleRequest i) = (''schedules.delete'', ''Ok'')"
| "client_method (CleanupRequest days) = (''db.cleanup'', ''CleanupResponse'')"

text \<open>A client method: every method makes its call without retries.\<close>

definition client_call :: "rpc_settings \<Rightarrow> server \<Rightarrow> string \<Rightarrow> fate list \<Rightarrow> rpc_request \<Rightarrow> link \<Rightarrow>
    (call_error + rpc_response) \<times> link" where
  "client_call st srv request_id fates req lk =
     call_op st srv request_id fates (fst (client_method req)) req (snd (client_method req)) 0 lk"

section \<open>Client and server together\<close>

text \<open>The pydantic class of a request.\<close>

primrec model_name :: "rpc_request \<Rightarrow> string" where
  "model_name PingRequest = ''PingRequest''"
| "model_name SchemaVersionRequest = ''SchemaVersionRequest''"
| "model_name SchemaRequest = ''SchemaRequest''"
| "model_name DbInfoRequest = ''DbInfoRequest''"
| "model_name (RawQueryRequest q params n) = ''RawQueryRequest''"
| "model_name (IngestTaskEventRequest e) = ''IngestTaskEventRequest''"
| "model_name (ListTasksRequest f) = ''ListTasksRequest''"
| "model_name (ListTasksPageRequest f sk sd lmt off) = ''ListTasksPageRequest''"
| "model_name ListTaskNamesRequest = ''ListTaskNamesRequest''"
| "model_name (GetTaskRequest i) = ''GetTaskRequest''"
| "model_name (StoreTaskRelationRequest r) = ''StoreTaskRelationRequest''"
| "model_name (ListTaskRelationsRequest i) = ''ListTaskRelationsRequest''"
| "model_name (IngestWorkerEventRequest e) = ''IngestWorkerEventRequest''"
| "model_name (IngestBrokerQueueEventRequest e) = ''IngestBrokerQueueEventRequest''"
| "model_name (BrokerQueueSnapshotRequest b) = ''BrokerQueueSnapshotRequest''"
| "model_name ListWorkersRequest = ''ListWorkersRequest''"
| "model_name (GetWorkerRequest h) = ''GetWorkerRequest''"
| "model_name (WorkerEventSnapshotRequest h) = ''WorkerEventSnapshotRequest''"
| "model_name (TaskStatsRequest n tr) = ''TaskStatsRequest''"
| "model_name (ThroughputRequest tr n) = ''ThroughputRequest''"
| "model_name StateDistributionRequest = ''StateDistributionRequest''"
| "model_name (HeatmapRequest tr) = ''HeatmapRequest''"
| "model_name ListSchedulesRequest = ''ListSchedulesRequest''"
| "model_name (StoreScheduleRequest s) = ''StoreScheduleRequest''"
| "model_name (DeleteScheduleRequest i) = ''DeleteScheduleRequest''"
| "model_name (CleanupRequest days) = ''CleanupRequest''"

text \<open>The client uses operations the server knows, with the right models on both sides.\<close>

lemma operations_agree:
  "dget RPC_OPERATIONS (fst (client_method req)) = Some (model_name req, snd (client_method req))"
  by (cases req; simp only: client_method.simps model_name.simps fst_conv snd_conv; code_simp)

text \<open>
  What the calls rely on of pydantic: the envelopes and the payloads of a given request and response
  are read back as they were written. It holds of a request and a response that consist of values
  JSON can express.
\<close>

definition exact_request :: "codec \<Rightarrow> string \<Rightarrow> rpc_request \<Rightarrow> bool" where
  "exact_request cd request_id req =
     (let payload = cd_dump_req cd req;
          env = \<lparr>rq_request_id = request_id, rq_op = fst (client_method req), rq_payload = Some payload,
                 rq_schema_version = RPC_SCHEMA_VERSION\<rparr>
      in (case payload of PDict _ \<Rightarrow> True | _ \<Rightarrow> False) \<and>
         cd_parse_request cd (cd_request_json cd env) = Some env \<and>
         cd_validate_req cd (model_name req) payload = Some req)"

definition exact_response :: "codec \<Rightarrow> string \<Rightarrow> string \<Rightarrow> rpc_response \<Rightarrow> bool" where
  "exact_response cd request_id model res =
     (let payload = cd_dump_res cd res;
          env = \<lparr>rs_request_id = request_id, rs_ok = True, rs_payload = Some payload, rs_error = None,
                 rs_schema_version = RPC_SCHEMA_VERSION\<rparr>
      in cd_parse_response cd (cd_response_json cd env) = Some env \<and>
         cd_validate_res cd model payload = Some res)"

definition exact_error :: "codec \<Rightarrow> string \<Rightarrow> string \<Rightarrow> string \<Rightarrow> bool" where
  "exact_error cd request_id code message =
     (let env = \<lparr>rs_request_id = request_id, rs_ok = False, rs_payload = None,
                 rs_error = Some \<lparr>er_code = code, er_message = message\<rparr>, rs_schema_version = RPC_SCHEMA_VERSION\<rparr>
      in cd_parse_response cd (cd_response_json cd env) = Some env)"

text \<open>The messages of a call stay within the limits of both sides.\<close>

definition fits :: "rpc_settings \<Rightarrow> manager \<Rightarrow> string \<Rightarrow> rpc_request \<Rightarrow> string \<Rightarrow> bool" where
  "fits st mg request_id req reply =
     (let data = request_data st request_id (fst (client_method req)) (cd_dump_req (set_codec st) req)
      in length data \<le> set_max_message_bytes st \<and> length data \<le> mg_max_message_bytes mg \<and>
         length reply \<le> set_max_message_bytes st)"

lemma dispatch_exact:
  assumes "exact_request (mg_codec mg) request_id req" and "set_codec st = mg_codec mg"
    and "length (request_data st request_id (fst (client_method req)) (cd_dump_req (set_codec st) req))
           \<le> mg_max_message_bytes mg"
  shows "dispatch mg now fresh
      (request_data st request_id (fst (client_method req)) (cd_dump_req (set_codec st) req)) d =
    (case run_handler (mg_sqla mg) (mg_rt mg) now req d of
       None \<Rightarrow> None
     | Some (Inl e) \<Rightarrow> Some (error_response mg request_id ''SERVER_ERROR'' ''RPC handler failed'', d)
     | Some (Inr (res, d')) \<Rightarrow> Some (ok_response mg request_id res, d'))"
proof -
  obtain p where p: "cd_dump_req (mg_codec mg) req = PDict p"
    using assms(1) by (auto simp: exact_request_def Let_def split: pyval.splits)
  show ?thesis
    using assms p
    by (auto simp: exact_request_def Let_def dispatch_def request_data_def handle_operation_def
        operations_agree split: option.splits sum.splits prod.splits)
qed


definition toy_settings :: "rpc_request \<Rightarrow> rpc_response \<Rightarrow> rpc_settings" where
  "toy_settings req res = \<lparr>set_max_message_bytes = 100, set_codec = toy_codec req res\<rparr>"

definition stored_db :: db where
  "stored_db = ingest_task_event ((new_task_event ''a'' None ''SUCCESS'' (utc_dt 5))\<lparr>te_parent_id := Some ''p''\<rparr>) fresh_db"

lemma toy_side_conditions:
  "set_codec (toy_settings toy_ingest Ok) = mg_codec (toy_manager toy_ingest Ok)"
  "exact_request (mg_codec (toy_manager toy_ingest Ok)) ''r1'' toy_ingest"
  "exact_response (mg_codec (toy_manager toy_ingest Ok)) ''r1'' (snd (client_method toy_ingest)) Ok"
  "fits (toy_settings toy_ingest Ok) (toy_manager toy_ingest Ok) ''r1'' toy_ingest
     (ok_response (toy_manager toy_ingest Ok) ''r1'' Ok)"
  by (simp add: toy_settings_def toy_manager_def) code_simp+


section \<open>Delivery\<close>

lemma single_attempt:
  assumes "attempts st srv request_id data [f] lk = (r, lk')"
  shows "lk_db lk' = lk_db lk \<or> (\<exists>reply. srv data (lk_db lk) = Some (reply, lk_db lk'))"
    and "r = Inr response \<Longrightarrow> \<exists>reply. srv data (lk_db lk) = Some (reply, lk_db lk') \<and>
      cd_parse_response (set_codec st) reply = Some response \<and> rs_request_id response = request_id"
  using assms
  by (auto simp: processed_def Let_def split: fate.splits option.splits prod.splits if_splits)

text \<open>C14: A client method is executed at most once: whatever the network does to the request and the
  reply, the database afterwards is the old one or the one left by a single execution of the request,
  and when the method returns a result, the server executed it exactly once and answered it with the
  request's own id.\<close>

theorem client_call_at_most_once:
  assumes "client_call st srv request_id fates req lk = (r, lk')"
  defines "data \<equiv> request_data st request_id (fst (client_method req)) (cd_dump_req (set_codec st) req)"
  shows "(lk_db lk' = lk_db lk \<or> (\<exists>reply. srv data (lk_db lk) = Some (reply, lk_db lk'))) \<and>
    (case r of
       Inl _ \<Rightarrow> True
     | Inr res \<Rightarrow> \<exists>reply response. srv data (lk_db lk) = Some (reply, lk_db lk') \<and>
         cd_parse_response (set_codec st) reply = Some response \<and> rs_ok response \<and>
         rs_request_id response = request_id)"
proof (cases "set_max_message_bytes st < length data \<or> fates = []")
  case True
  then show ?thesis
    using assms(1) by (auto simp: client_call_def call_op_def request_def Let_def data_def split: if_splits)
next
  case False
  then obtain f fs where f: "fates = f # fs" by (cases fates) auto
  obtain r1 lk1 where at: "attempts st srv request_id data [f] lk = (r1, lk1)" by fastforce
  have "request st srv request_id fates (fst (client_method req)) (cd_dump_req (set_codec st) req) 0 lk = (r1, lk1)"
    using False at f by (simp add: request_def data_def[symmetric] Let_def del: attempts.simps)
  then show ?thesis
    using assms(1) single_attempt[OF at]
    by (auto simp: client_call_def call_op_def split: sum.splits option.splits if_splits prod.splits)
qed

lemma client_call_at_most_once_witness:
  "\<exists>r d. client_call (toy_settings toy_ingest Ok) (handle_message (toy_manager toy_ingest Ok) False (utc_dt 0) ''f'')
       ''r1'' [TimedOut True, Replied] toy_ingest \<lparr>lk_connected = False, lk_db = fresh_db\<rparr> = (Inl r, d) \<and>
     (lk_db d = fresh_db \<or> (\<exists>reply. handle_message (toy_manager toy_ingest Ok) False (utc_dt 0) ''f''
       (request_data (toy_settings toy_ingest Ok) ''r1'' ''events.task.ingest'' (PDict [])) fresh_db = Some (reply, lk_db d)))"
proof -
  let ?call = "client_call (toy_settings toy_ingest Ok) (handle_message (toy_manager toy_ingest Ok) False (utc_dt 0) ''f'')
       ''r1'' [TimedOut True, Replied] toy_ingest \<lparr>lk_connected = False, lk_db = fresh_db\<rparr>"
  have "fst ?call = Inl (Raised (RuntimeError ''RPC request failed''))" by code_simp
  then obtain d where d: "?call = (Inl (Raised (RuntimeError ''RPC request failed'')), d)"
    by (metis prod.collapse)
  have op: "fst (client_method toy_ingest) = ''events.task.ingest''"
    "cd_dump_req (set_codec (toy_settings toy_ingest Ok)) toy_ingest = PDict []"
    by (simp_all add: toy_ingest_def toy_settings_def toy_codec_def)
  from client_call_at_most_once[OF d] d show ?thesis by (simp only: op link.simps) blast
qed

text \<open>C23: A busy server is never reported as busy: the BUSY reply carries an id made up by the server, so
  the client raises a request-id mismatch instead of the RPC error the reply contains.\<close>

theorem busy_is_mismatch:
  assumes "set_codec st = mg_codec mg" and "exact_error (mg_codec mg) fresh ''BUSY'' ''DB manager is busy''"
    and "fits st mg request_id req (error_response mg fresh ''BUSY'' ''DB manager is busy'')"
    and "fresh \<noteq> request_id"
  shows "client_call st (handle_message mg True now fresh) request_id (Replied # fates) req
      \<lparr>lk_connected = c, lk_db = d\<rparr> =
    (Inl (Raised (RuntimeError ''RPC response request_id mismatch'')), \<lparr>lk_connected = True, lk_db = d\<rparr>)"
  using assms
  by (simp add: client_call_def call_op_def request_def handle_message_def fits_def Let_def
      error_response_def exact_error_def)

lemma busy_is_mismatch_witness:
  "fst (client_call (toy_settings toy_ingest Ok) (handle_message (toy_manager toy_ingest Ok) True (utc_dt 0) ''f'')
     ''r1'' [Replied] toy_ingest \<lparr>lk_connected = False, lk_db = fresh_db\<rparr>) =
   Inl (Raised (RuntimeError ''RPC response request_id mismatch''))"
proof -
  have "exact_error (mg_codec (toy_manager toy_ingest Ok)) ''f'' ''BUSY'' ''DB manager is busy''" by code_simp
  moreover have "fits (toy_settings toy_ingest Ok) (toy_manager toy_ingest Ok) ''r1'' toy_ingest
      (error_response (toy_manager toy_ingest Ok) ''f'' ''BUSY'' ''DB manager is busy'')" by code_simp
  ultimately show ?thesis
    using busy_is_mismatch[OF toy_side_conditions(1)] by simp
qed

end
