(* ===== verification/Event_Listener.thy ===== *)
theory Event_Listener
  imports Registry Redaction Rpc_Client
begin

text \<open>
  The event listener (celery_root/core/event_listener.py): which Celery app it listens with and how
  it takes over the settings of the workers, how it turns the raw dictionaries of Celery events into
  task events, worker events and task relations, and how it hands them to the database client and to
  the bounded queues of the metrics exporters.
\<close>

section \<open>Settings taken over from the workers\<close>

definition SERIALIZER_KEYS :: "string list" where
  "SERIALIZER_KEYS = [''event_serializer'', ''task_serializer'', ''result_serializer'']"

definition BROKER_KEYS :: "string list" where
  "BROKER_KEYS = [''broker_use_ssl'', ''broker_transport_options'',
     ''broker_connection_retry_on_startup'', ''broker_connection_max_retries'',
     ''broker_connection_timeout'', ''broker_heartbeat'', ''broker_heartbeat_checkrate'',
     ''broker_pool_limit'', ''broker_failover_strategy'']"

definition redact_broker_url :: "string option \<Rightarrow> string" where
  "redact_broker_url value = (case redact_url_password value of None \<Rightarrow> [] | Some t \<Rightarrow> t)"

text \<open>\<open>_load_worker_apps\<close>: loading errors of three kinds and an unknown broker give no apps.\<close>

definition load_worker_apps :: "pyrt \<Rightarrow> beat_config option \<Rightarrow> (string \<Rightarrow> pyexc + (string, loaded) pydict) \<Rightarrow>
    string list \<Rightarrow> string \<Rightarrow> pyexc + app list" where
  "load_worker_apps rt beat import_module worker_import_paths broker_url =
     (if worker_import_paths = [] then Inr []
      else case new_registry rt beat import_module (map ImportPath worker_import_paths) of
          Inl (ImportError m) \<Rightarrow> Inr []
        | Inl (TypeError m) \<Rightarrow> Inr []
        | Inl (ValueError m) \<Rightarrow> Inr []
        | Inl e \<Rightarrow> Inl e
        | Inr apps \<Rightarrow> (case dget (get_brokers rt apps) broker_url of
              None \<Rightarrow> Inr []
            | Some grp \<Rightarrow> Inr (bg_apps grp)))"

text \<open>\<open>_select_event_app\<close>: the app to listen with (the first worker app, or a new one, whose identity is
  \<open>fresh\<close>) and the worker apps; the first worker app is told the broker.\<close>

definition select_event_app :: "pyrt \<Rightarrow> beat_config option \<Rightarrow> (string \<Rightarrow> pyexc + (string, loaded) pydict) \<Rightarrow>
    string list \<Rightarrow> nat \<Rightarrow> string \<Rightarrow> pyexc + (app \<times> app list)" where
  "select_event_app rt beat import_module worker_import_paths fresh broker_url =
     ebind (load_worker_apps rt beat import_module worker_import_paths broker_url) (\<lambda>apps.
     Inr (case apps of
         [] \<Rightarrow> (\<lparr>app_id = fresh, app_main = None, app_conf = [(''broker_url'', PStr broker_url)]\<rparr>, [])
       | a # rest \<Rightarrow>
           (let primary = (if broker_url \<noteq> [] \<and> conf_text rt a ''broker_url'' \<noteq> broker_url
                           then a\<lparr>app_conf := dset ''broker_url'' (PStr broker_url) (app_conf a)\<rparr> else a)
            in (primary, primary # rest))))"

text \<open>Iterating over a value; a value that is not iterable raises TypeError.\<close>

definition py_iter :: "pyval \<Rightarrow> pyexc + pyval list" where
  "py_iter v = (case v of
       PList xs \<Rightarrow> Inr xs | PTuple xs \<Rightarrow> Inr xs | PSet xs \<Rightarrow> Inr xs
     | PDict d \<Rightarrow> Inr (map fst d) | PStr s \<Rightarrow> Inr (map (\<lambda>c. PStr [c]) s)
     | _ \<Rightarrow> Inl (TypeError ''object is not iterable''))"

definition accepted_by :: "pyrt \<Rightarrow> app \<Rightarrow> pyexc + string list" where
  "accepted_by rt a =
     ebind (let raw = conf_get a ''accept_content'' in
            if truthy raw then ebind (py_iter raw) (\<lambda>items. Inr (map (py_str rt) items)) else Inr [])
     (\<lambda>items. Inr (items @ concat (map (\<lambda>key. let s = conf_get a key in
         if truthy s then [py_str rt s] else []) SERIALIZER_KEYS)))"

definition collect_accept_content :: "pyrt \<Rightarrow> app list \<Rightarrow> pyexc + string list" where
  "collect_accept_content rt apps =
     ebind (efold (\<lambda>a allowed. ebind (accepted_by rt a) (\<lambda>items. Inr (allowed @ items))) apps [])
       (\<lambda>allowed. Inr (sort (remdups allowed)))"

text \<open>Equality of settings: numbers (and booleans) by value.\<close>

definition py_eq :: "pyval \<Rightarrow> pyval \<Rightarrow> bool" where
  "py_eq a b = (case (as_number a, as_number b) of (Some x, Some y) \<Rightarrow> x = y | _ \<Rightarrow> a = b)"

definition unique_values :: "pyval list \<Rightarrow> pyval list" where
  "unique_values vs = fold (\<lambda>v unique. if \<exists>e \<in> set unique. py_eq v e then unique else unique @ [v]) vs []"

definition resolve_shared_setting :: "app list \<Rightarrow> string \<Rightarrow> pyval \<times> bool" where
  "resolve_shared_setting apps key =
     (let values = filter (\<lambda>v. v \<noteq> PNone) (map (\<lambda>a. conf_get a key) apps)
      in if values = [] then (PNone, False)
         else let conflict = (1 < length (unique_values values));
                  primary_value = conf_get (hd apps) key
              in (if primary_value = PNone then hd values else primary_value, conflict))"

text \<open>\<open>_apply_setting\<close> and \<open>_configure_from_workers\<close>: the app that is configured is the first of
  \<open>apps\<close>, the same object.\<close>

definition set_conf :: "string \<Rightarrow> pyval \<Rightarrow> app list \<Rightarrow> app list" where
  "set_conf key v apps = (case apps of
       [] \<Rightarrow> [] | a # rest \<Rightarrow> a\<lparr>app_conf := dset key v (app_conf a)\<rparr> # rest)"

definition apply_setting :: "string \<Rightarrow> app list \<Rightarrow> app list" where
  "apply_setting key apps =
     (let (value, conflict) = resolve_shared_setting apps key
      in if value = PNone then apps else set_conf key value apps)"

definition configure_from_workers :: "pyrt \<Rightarrow> app list \<Rightarrow> pyexc + app list" where
  "configure_from_workers rt apps =
     (if apps = [] then Inr []
      else ebind (collect_accept_content rt apps) (\<lambda>accept_content.
        let apps = (if accept_content \<noteq> [] then set_conf ''accept_content'' (PList (map PStr accept_content)) apps
                    else apps)
        in Inr (fold apply_setting BROKER_KEYS (fold apply_setting SERIALIZER_KEYS apps))))"

section \<open>Reading event fields\<close>

type_synonym raw_event = "(pyval \<times> pyval) list"

fun event_field :: "raw_event \<Rightarrow> string list \<Rightarrow> pyval" where
  "event_field event [] = PNone"
| "event_field event (key # keys) = (let v = pget event key in if v \<noteq> PNone then v else event_field event keys)"

definition event_id :: "raw_event \<Rightarrow> string list \<Rightarrow> pyval" where
  "event_id event keys =
     (let value = event_field event keys
      in if value \<noteq> PNone then value
         else case pget event ''headers'' of
             PDict headers \<Rightarrow> (case filter (phas headers) keys of [] \<Rightarrow> PNone | key # _ \<Rightarrow> pget headers key)
           | _ \<Rightarrow> PNone)"

definition stamped :: "raw_event \<Rightarrow> pyval list \<Rightarrow> (pyval \<times> pyval) list" where
  "stamped headers names = fold (\<lambda>key stamps. case key of
       PStr k \<Rightarrow> (if phas headers k then dset key (pget headers k) stamps else stamps)
     | _ \<Rightarrow> stamps) names []"

definition extract_stamps :: "raw_event \<Rightarrow> pyval" where
  "extract_stamps event = (case pget event ''stamps'' of
       PDict s \<Rightarrow> PDict s
     | _ \<Rightarrow> (case pget event ''headers'' of
           PDict headers \<Rightarrow>
             (let names = (case pget headers ''stamped_headers'' of
                  PList xs \<Rightarrow> xs | PTuple xs \<Rightarrow> xs | _ \<Rightarrow> []);
                  stamps = stamped headers names
              in if stamps = [] then PNone else PDict stamps)
         | _ \<Rightarrow> PNone))"

definition stringify :: "pyrt \<Rightarrow> pyval \<Rightarrow> string option" where
  "stringify rt v = (case v of
       PNone \<Rightarrow> None
     | PStr s \<Rightarrow> Some s
     | PDict _ \<Rightarrow> Some (case rt_dumps_any rt v of Some t \<Rightarrow> t | None \<Rightarrow> py_str rt v)
     | PList _ \<Rightarrow> Some (case rt_dumps_any rt v of Some t \<Rightarrow> t | None \<Rightarrow> py_str rt v)
     | PTuple _ \<Rightarrow> Some (case rt_dumps_any rt v of Some t \<Rightarrow> t | None \<Rightarrow> py_str rt v)
     | PModel _ \<Rightarrow> Some (case rt_dumps_any rt v of Some t \<Rightarrow> t | None \<Rightarrow> py_str rt v)
     | _ \<Rightarrow> Some (py_str rt v))"

definition to_float :: "pyrt \<Rightarrow> pyval \<Rightarrow> rat option" where
  "to_float rt v = (case as_number v of
       Some x \<Rightarrow> Some x
     | None \<Rightarrow> (case v of PStr s \<Rightarrow> rt_float rt s | _ \<Rightarrow> None))"

text \<open>\<open>int(x)\<close> of a float truncates towards zero.\<close>

definition truncate_rat :: "rat \<Rightarrow> int" where
  "truncate_rat x = (if 0 \<le> x then \<lfloor>x\<rfloor> else - \<lfloor>- x\<rfloor>)"

definition to_int :: "pyrt \<Rightarrow> pyval \<Rightarrow> int option" where
  "to_int rt v = (case v of
       PBool b \<Rightarrow> Some (if b then 1 else 0)
     | PInt n \<Rightarrow> Some n
     | PFloat x \<Rightarrow> Some (truncate_rat x)
     | PStr s \<Rightarrow> rt_int rt s
     | _ \<Rightarrow> None)"

definition parse_iso_datetime :: "pyrt \<Rightarrow> pyval \<Rightarrow> pyexc + pydt option" where
  "parse_iso_datetime rt raw = (case raw of
       PDatetime t \<Rightarrow> Inr (Some t)
     | PStr s \<Rightarrow> Inr (rt_iso rt (replace_char CHR ''Z'' ''+00:00'' s))
     | _ \<Rightarrow> (case as_number raw of
           Some x \<Rightarrow> ebind (from_timestamp x) (\<lambda>t. Inr (Some t))
         | None \<Rightarrow> Inr None))"

text \<open>A time field: a number of seconds or a datetime, otherwise the given fallback.\<close>

definition time_field :: "pyval \<Rightarrow> pyexc + pydt \<Rightarrow> pyexc + pydt" where
  "time_field raw fallback = (case as_number raw of
       Some x \<Rightarrow> from_timestamp x
     | None \<Rightarrow> (case raw of
           PDatetime t \<Rightarrow> Inr (if dt_off t = None then with_utc t else t)
         | _ \<Rightarrow> fallback))"

definition event_timestamp :: "pydt \<Rightarrow> raw_event \<Rightarrow> pyexc + pydt" where
  "event_timestamp now event = time_field (pget event ''timestamp'') (Inr now)"

definition event_received_timestamp :: "pydt \<Rightarrow> raw_event \<Rightarrow> pyexc + pydt" where
  "event_received_timestamp now event = time_field (pget event ''local_received'') (event_timestamp now event)"

text \<open>\<open>_json_safe\<close>: a dictionary of plain JSON values.\<close>

definition json_safe :: "pyrt \<Rightarrow> pyval \<Rightarrow> (pyval \<times> pyval) list" where
  "json_safe rt v = (case Option.bind (rt_dumps_any rt v) (rt_loads rt) of
       Some (PDict d) \<Rightarrow> d
     | Some safe \<Rightarrow> [(PStr ''value'', safe)]
     | None \<Rightarrow> [(PStr ''value'', PStr (py_str rt v))])"

section \<open>Events\<close>

definition TASK_STATE_MAP :: "(string, string) pydict" where
  "TASK_STATE_MAP = [(''task-received'', ''RECEIVED''), (''task-started'', ''STARTED''),
     (''task-succeeded'', ''SUCCESS''), (''task-failed'', ''FAILURE''), (''task-retried'', ''RETRY''),
     (''task-revoked'', ''REVOKED''), (''task-rejected'', ''REJECTED''), (''task-sent'', ''PENDING'')]"

definition event_state :: "string \<Rightarrow> string" where
  "event_state event_type = dget_or TASK_STATE_MAP event_type (py_upper (remove_all ''task-'' event_type))"

definition task_event_of :: "pyrt \<Rightarrow> pydt \<Rightarrow> string \<Rightarrow> raw_event \<Rightarrow> pyexc + task_event option" where
  "task_event_of rt now event_type event =
     (let task_id = por (pget event ''uuid'') (pget event ''id'')
      in if \<not> truthy task_id then Inr None
         else ebind (event_timestamp now event) (\<lambda>timestamp.
              ebind (parse_iso_datetime rt (pget event ''eta'')) (\<lambda>eta.
              ebind (parse_iso_datetime rt (pget event ''expires'')) (\<lambda>expires.
              Inr (Some \<lparr>te_task_id = py_str rt task_id,
                te_name = stringify rt (event_field event [''name'', ''task'', ''task_name'']),
                te_state = event_state event_type,
                te_timestamp = timestamp,
                te_worker = stringify rt (pget event ''hostname''),
                te_args = stringify rt (event_field event [''args'', ''argsrepr'']),
                te_kwargs = stringify rt (event_field event [''kwargs'', ''kwargsrepr'']),
                te_result = stringify rt (event_field event [''result'', ''exception'']),
                te_traceback = stringify rt (pget event ''traceback''),
                te_stamps = stringify rt (extract_stamps event),
                te_runtime = to_float rt (pget event ''runtime''),
                te_retries = to_int rt (pget event ''retries''),
                te_eta = eta, te_expires = expires,
                te_parent_id = stringify rt (event_id event [''parent_id'', ''parent'']),
                te_root_id = stringify rt (event_id event [''root_id'', ''root'']),
                te_group_id = stringify rt (event_id event [''group_id'', ''group'']),
                te_chord_id = stringify rt (event_id event [''chord_id'', ''chord''])\<rparr>)))))"

definition worker_event_of :: "pyrt \<Rightarrow> pydt \<Rightarrow> string \<Rightarrow> string \<Rightarrow> raw_event \<Rightarrow> pyexc + worker_event option" where
  "worker_event_of rt now broker_url_redacted event_type event =
     (let hostname = pget event ''hostname''
      in if \<not> truthy hostname then Inr None
         else let raw_info = filter (\<lambda>(k, v). k \<notin> {PStr ''type'', PStr ''timestamp''}) event;
                  info = json_safe rt (redact_access_data (PDict raw_info))
              in ebind (event_received_timestamp now event) (\<lambda>timestamp.
                 Inr (Some \<lparr>we_hostname = py_str rt hostname, we_event = event_type,
                   we_timestamp = timestamp, we_info = Some info,
                   we_broker_url = Some broker_url_redacted\<rparr>)))"

definition task_relation_of :: "pyrt \<Rightarrow> raw_event \<Rightarrow> task_relation option" where
  "task_relation_of rt event =
     (let root_id = stringify rt (pget event ''root_id'');
          child_id = stringify rt (pget event ''child_id'');
          relation = stringify rt (pget event ''relation'')
      in if truthy_str root_id \<and> truthy_str child_id \<and> truthy_str relation
         then Some \<lparr>rel_root_id = the root_id, rel_parent_id = stringify rt (pget event ''parent_id''),
                    rel_child_id = the child_id, rel_relation = the relation\<rparr>
         else None)"

section \<open>Emitting\<close>

datatype emitted = EmTask task_event | EmWorker worker_event | EmRelation task_relation

text \<open>The listener's surroundings: the database behind the client (with no client, items are not sent),
  and the metrics queues with their common capacity.\<close>

record 'd listener =
  ls_db :: 'd
  ls_has_client :: bool
  ls_queues :: "emitted list list"
  ls_maxsize :: nat

text \<open>A database client: it stores an item or raises.\<close>

type_synonym 'd client = "emitted \<Rightarrow> 'd \<Rightarrow> call_error option \<times> 'd"

text \<open>\<open>_send_to_db\<close>: RPC errors and runtime errors are logged, other exceptions propagate.\<close>

definition send_to_db :: "'d client \<Rightarrow> emitted \<Rightarrow> 'd listener \<Rightarrow> pyexc option \<times> 'd listener" where
  "send_to_db client item ls =
     (if \<not> ls_has_client ls then (None, ls)
      else let (err, d') = client item (ls_db ls); ls' = ls\<lparr>ls_db := d'\<rparr>
           in case err of
                None \<Rightarrow> (None, ls')
              | Some (RpcCallError e) \<Rightarrow> (None, ls')
              | Some (Raised (RuntimeError m)) \<Rightarrow> (None, ls')
              | Some (Raised e) \<Rightarrow> (Some e, ls'))"

text \<open>\<open>queue.put_nowait\<close>: a full queue drops the item.\<close>

definition put_nowait :: "nat \<Rightarrow> emitted \<Rightarrow> emitted list \<Rightarrow> emitted list" where
  "put_nowait maxsize item q = (if length q < maxsize then q @ [item] else q)"

definition emit :: "'d client \<Rightarrow> bool \<Rightarrow> emitted \<Rightarrow> 'd listener \<Rightarrow> pyexc option \<times> 'd listener" where
  "emit client fanout item ls = (case send_to_db client item ls of
       (Some e, ls') \<Rightarrow> (Some e, ls')
     | (None, ls') \<Rightarrow> (None, if fanout
           then ls'\<lparr>ls_queues := map (put_nowait (ls_maxsize ls') item) (ls_queues ls')\<rparr> else ls'))"

text \<open>\<open>_handle_event\<close> with the handlers it calls: an exception in reading the event, or one that the
  database client raises, leaves the handler.\<close>

definition event_type_of :: "pyrt \<Rightarrow> raw_event \<Rightarrow> string" where
  "event_type_of rt event = (case dget event (PStr ''type'') of None \<Rightarrow> [] | Some v \<Rightarrow> py_str rt v)"

datatype parsed = Ignored | Bad pyexc | Emit emitted bool

definition parse_event :: "pyrt \<Rightarrow> pydt \<Rightarrow> string \<Rightarrow> raw_event \<Rightarrow> parsed" where
  "parse_event rt now broker_url_redacted event =
     (let event_type = event_type_of rt event
      in if event_type = ''task-relation''
         then (case task_relation_of rt event of None \<Rightarrow> Ignored | Some r \<Rightarrow> Emit (EmRelation r) False)
         else if starts_with ''task-'' event_type
         then (case task_event_of rt now event_type event of
                 Inl e \<Rightarrow> Bad e | Inr None \<Rightarrow> Ignored | Inr (Some e) \<Rightarrow> Emit (EmTask e) True)
         else if starts_with ''worker-'' event_type
         then (case worker_event_of rt now broker_url_redacted event_type event of
                 Inl e \<Rightarrow> Bad e | Inr None \<Rightarrow> Ignored | Inr (Some e) \<Rightarrow> Emit (EmWorker e) True)
         else Ignored)"

definition handle_event :: "'d client \<Rightarrow> pyrt \<Rightarrow> pydt \<Rightarrow> string \<Rightarrow> raw_event \<Rightarrow> 'd listener \<Rightarrow>
    pyexc option \<times> 'd listener" where
  "handle_event client rt now broker_url_redacted event ls =
     (case parse_event rt now broker_url_redacted event of
        Ignored \<Rightarrow> (None, ls)
      | Bad e \<Rightarrow> (Some e, ls)
      | Emit item fanout \<Rightarrow> emit client fanout item ls)"

text \<open>The maintenance of each iteration: when events were last enabled and a heartbeat last logged.\<close>

definition maybe_log_heartbeat :: "rat \<Rightarrow> rat \<Rightarrow> rat" where
  "maybe_log_heartbeat now last_heartbeat = (if 60 \<le> now - last_heartbeat then now else last_heartbeat)"

definition maybe_enable_events :: "bool \<Rightarrow> rat \<Rightarrow> rat \<Rightarrow> rat \<Rightarrow> bool \<times> rat" where
  "maybe_enable_events control_ok now after_call last_enable =
     (if now - last_enable < 30 then (False, last_enable)
      else if control_ok then (True, after_call) else (True, last_enable))"

section \<open>From raw events to stored tasks\<close>

text \<open>The database manager as the listener's client when every call goes through (see
  \<open>rpc_refines_direct\<close>): a handler that raises shows as an RPC error.\<close>

definition direct_client :: "pyrt \<Rightarrow> db client" where
  "direct_client rt item d = (case item of
       EmTask e \<Rightarrow> (None, ingest_task_event e d)
     | EmWorker w \<Rightarrow> (case store_worker_event rt w d of
           Inl e \<Rightarrow> (Some (RpcCallError \<lparr>er_code = ''SERVER_ERROR'', er_message = ''RPC handler failed''\<rparr>), d)
         | Inr d' \<Rightarrow> (None, d'))
     | EmRelation r \<Rightarrow> (None, store_task_relation r d))"

text \<open>A raw event with the wall clock at its arrival, and the task event it stands for.\<close>

type_synonym arrival = "pydt \<times> raw_event"

definition parsed_task :: "pyrt \<Rightarrow> string \<Rightarrow> arrival \<Rightarrow> task_event option" where
  "parsed_task rt url a = (case parse_event rt (fst a) url (snd a) of Emit (EmTask e) _ \<Rightarrow> Some e | _ \<Rightarrow> None)"

definition listen :: "pyrt \<Rightarrow> string \<Rightarrow> arrival \<Rightarrow> db listener \<Rightarrow> db listener" where
  "listen rt url a ls = snd (handle_event (direct_client rt) rt (fst a) url (snd a) ls)"

definition listen_db :: "pyrt \<Rightarrow> string \<Rightarrow> arrival \<Rightarrow> db \<Rightarrow> db" where
  "listen_db rt url a d = (case parse_event rt (fst a) url (snd a) of
       Emit item fanout \<Rightarrow> snd (direct_client rt item d) | _ \<Rightarrow> d)"

lemma direct_client_raises:
  "fst (direct_client rt item d) = None \<or> (\<exists>x. fst (direct_client rt item d) = Some (RpcCallError x))"
  by (auto simp: direct_client_def split: emitted.splits sum.splits)

lemma send_direct:
  "send_to_db (direct_client rt) item ls =
     (None, if ls_has_client ls then ls\<lparr>ls_db := snd (direct_client rt item (ls_db ls))\<rparr> else ls)"
  using direct_client_raises[of rt item "ls_db ls"]
  by (auto simp: send_to_db_def Let_def case_prod_unfold)

lemma listen_parts:
  "ls_has_client (listen rt url a ls) = ls_has_client ls"
  "ls_maxsize (listen rt url a ls) = ls_maxsize ls"
  "ls_has_client ls \<Longrightarrow> ls_db (listen rt url a ls) = listen_db rt url a (ls_db ls)"
  by (auto simp: listen_def handle_event_def emit_def send_direct listen_db_def split: parsed.splits)

lemma listen_fold:
  "ls_has_client ls \<Longrightarrow> ls_db (fold (listen rt url) as ls) = fold (listen_db rt url) as (ls_db ls)"
  by (induction as arbitrary: ls) (simp_all add: listen_parts)

lemma worker_event_keeps_tasks: "store_worker_event rt w d = Inr d' \<Longrightarrow> db_tasks d' = db_tasks d"
  by (auto simp: store_worker_event_def ebind_Inr_iff)

lemma state_of_same_tasks: "db_tasks d' = db_tasks d \<Longrightarrow> state_in_store d' i = state_in_store d i"
  by (simp add: state_in_store_def get_task_def)

interpretation listener: task_feed ingest_task_event state_in_store te_task_id te_state
  "listen_db rt url" "parsed_task rt url" for rt url
proof
  fix a d i
  show "state_in_store (listen_db rt url a d) i = (case parsed_task rt url a of
      None \<Rightarrow> state_in_store d i | Some e \<Rightarrow> state_in_store (ingest_task_event e d) i)"
    by (auto simp: listen_db_def parsed_task_def direct_client_def store_task_relation_def
        split: parsed.splits emitted.splits sum.splits
        intro!: state_of_same_tasks dest!: worker_event_keeps_tasks)
qed


definition wire :: "string \<Rightarrow> string \<Rightarrow> int \<Rightarrow> arrival" where
  "wire ty i t = (utc_dt 0, [(PStr ''type'', PStr ty), (PStr ''uuid'', PStr i), (PStr ''timestamp'', PInt t)])"

definition toy_listener :: "db listener" where
  "toy_listener = \<lparr>ls_db = fresh_db, ls_has_client = True, ls_queues = [[]], ls_maxsize = 2\<rparr>"

definition wire_stream :: "arrival list" where
  "wire_stream = [wire ''task-succeeded'' ''a'' 3, wire ''task-started'' ''b'' 1, wire ''task-received'' ''a'' 1,
     wire ''worker-heartbeat'' ''a'' 2, wire ''task-started'' ''a'' 2]"


section \<open>The metrics queues\<close>

text \<open>The items fanned out, in the order of their arrival.\<close>

definition fanned_out :: "pyrt \<Rightarrow> string \<Rightarrow> arrival \<Rightarrow> emitted option" where
  "fanned_out rt url a = (case parse_event rt (fst a) url (snd a) of
       Emit item True \<Rightarrow> Some item | _ \<Rightarrow> None)"

lemma listen_queues:
  "ls_queues (listen rt url a ls) = (case fanned_out rt url a of
     None \<Rightarrow> ls_queues ls | Some item \<Rightarrow> map (put_nowait (ls_maxsize ls) item) (ls_queues ls))"
  by (auto simp: listen_def handle_event_def emit_def send_direct fanned_out_def split: parsed.splits bool.splits)

lemma fold_put_nowait:
  "length q \<le> m \<Longrightarrow> fold (put_nowait m) items q = q @ take (m - length q) items"
proof (induction items arbitrary: q)
  case (Cons x items)
  show ?case
  proof (cases "length q < m")
    case True
    then have "m - length q = Suc (m - length (q @ [x]))" by simp
    with True Cons show ?thesis by (simp add: put_nowait_def)
  next
    case False
    with Cons show ?thesis by (simp add: put_nowait_def)
  qed
qed simp

lemma listen_fold_queues:
  "ls_queues (fold (listen rt url) as ls) =
     map (fold (put_nowait (ls_maxsize ls)) (List.map_filter (fanned_out rt url) as)) (ls_queues ls)"
proof (induction as arbitrary: ls)
  case (Cons a as)
  then show ?case by (simp add: listen_queues listen_parts map_filter_simps comp_def split: option.split)
qed (simp add: map_filter_simps)

text \<open>The listener never blocks on metrics and never exceeds their queues: after any stream of raw
  events each metrics queue holds what it held before followed by the first of the task and worker
  events received, as many as fit its capacity, in order; task relations are never queued.\<close>

theorem metrics_queues_bounded:
  assumes "list_all (\<lambda>q. length q \<le> ls_maxsize ls) (ls_queues ls)"
  shows "ls_queues (fold (listen rt url) as ls) =
      map (\<lambda>q. q @ take (ls_maxsize ls - length q) (List.map_filter (fanned_out rt url) as)) (ls_queues ls) \<and>
    list_all (\<lambda>q. length q \<le> ls_maxsize ls) (ls_queues (fold (listen rt url) as ls)) \<and>
    EmRelation r \<notin> set (List.map_filter (fanned_out rt url) as)"
proof (intro conjI)
  show q: "ls_queues (fold (listen rt url) as ls) =
      map (\<lambda>q. q @ take (ls_maxsize ls - length q) (List.map_filter (fanned_out rt url) as)) (ls_queues ls)"
    unfolding listen_fold_queues using assms by (intro map_cong refl fold_put_nowait) (simp add: list_all_iff)
  show "list_all (\<lambda>q. length q \<le> ls_maxsize ls) (ls_queues (fold (listen rt url) as ls))"
    unfolding q using assms by (auto simp: list_all_iff)
  have "fanned_out rt url a \<noteq> Some (EmRelation r)" for a
    by (auto simp: fanned_out_def parse_event_def Let_def
        split: parsed.splits bool.splits if_splits option.splits sum.splits)
  then show "EmRelation r \<notin> set (List.map_filter (fanned_out rt url) as)"
    by (auto simp: map_filter_def)
qed

lemma metrics_queues_bounded_witness:
  "map length (ls_queues (fold (listen toy_rt []) wire_stream toy_listener)) = [2]"
proof -
  have "list_all (\<lambda>q. length q \<le> ls_maxsize toy_listener) (ls_queues toy_listener)" by code_simp
  from metrics_queues_bounded[OF this]
  have q: "ls_queues (fold (listen toy_rt []) wire_stream toy_listener) =
      map (\<lambda>q. q @ take (ls_maxsize toy_listener - length q) (List.map_filter (fanned_out toy_rt []) wire_stream))
        (ls_queues toy_listener)" by blast
  show ?thesis unfolding q by code_simp
qed

end
