(* ===== verification/Reconciler.thy ===== *)
theory Reconciler
  imports Event_Listener
begin

text \<open>
  The reconciler (celery_root/core/reconciler.py): it inspects workers and brokers in turn and asks
  the result backends for the outcome of tasks whose events were lost. Inspectors, backends, broker
  access and the database client are parameters; times of the monotonic clock are rationals.
\<close>

section \<open>State\<close>

record reconciler =
  rc_apps :: "app list"
  rc_app_names :: "string list"
  rc_worker_names :: "string list"
  rc_worker_index :: nat
  rc_broker_index :: nat
  rc_task_queue :: "task list"
  rc_task_refresh_at :: rat
  rc_worker_refresh_at :: rat
  rc_round_robin_index :: nat

definition new_reconciler :: "pyrt \<Rightarrow> app list \<Rightarrow> reconciler" where
  "new_reconciler rt apps = \<lparr>rc_apps = apps, rc_app_names = map (resolve_name rt) apps,
     rc_worker_names = [], rc_worker_index = 0, rc_broker_index = 0, rc_task_queue = [],
     rc_task_refresh_at = 0, rc_worker_refresh_at = 0, rc_round_robin_index = 0\<rparr>"

text \<open>The loop takes the three actions in turn.\<close>

datatype action = PollWorkers | PollBrokers | ReconcileTasks

definition next_action :: "reconciler \<Rightarrow> action \<times> reconciler" where
  "next_action rc = ([PollWorkers, PollBrokers, ReconcileTasks] ! rc_round_robin_index rc,
     rc\<lparr>rc_round_robin_index := (rc_round_robin_index rc + 1) mod 3\<rparr>)"

section \<open>Worker snapshots\<close>

text \<open>What an inspector answers; a call that raises counts as None.\<close>

record inspector =
  in_stats :: pyval
  in_conf :: pyval
  in_active_queues :: pyval
  in_active :: pyval
  in_registered :: pyval

definition extract_host_payload :: "pyval \<Rightarrow> string \<Rightarrow> pyval" where
  "extract_host_payload payload hostname = (case payload of PDict d \<Rightarrow> pget d hostname | _ \<Rightarrow> PNone)"

record worker_snapshot =
  ws_stats :: "(pyval \<times> pyval) list option"
  ws_conf :: "(pyval \<times> pyval) list option"
  ws_queues :: pyval
  ws_registered :: pyval
  ws_active :: pyval
  ws_broker_url :: "string option"
  ws_app :: "string option"

definition no_snapshot :: worker_snapshot where
  "no_snapshot = \<lparr>ws_stats = None, ws_conf = None, ws_queues = PNone, ws_registered = PNone,
     ws_active = PNone, ws_broker_url = None, ws_app = None\<rparr>"

definition as_dict :: "pyval \<Rightarrow> (pyval \<times> pyval) list option" where
  "as_dict v = (case v of PDict d \<Rightarrow> Some d | _ \<Rightarrow> None)"

text \<open>\<open>_inspect_worker\<close>: the first app whose inspector says anything about the host.\<close>

fun inspect_worker :: "pyrt \<Rightarrow> (app \<Rightarrow> string \<Rightarrow> inspector option) \<Rightarrow> app list \<Rightarrow> string \<Rightarrow> worker_snapshot" where
  "inspect_worker rt inspect [] hostname = no_snapshot"
| "inspect_worker rt inspect (a # apps) hostname = (case inspect a hostname of
       None \<Rightarrow> inspect_worker rt inspect apps hostname
     | Some i \<Rightarrow>
         (let stats = extract_host_payload (in_stats i) hostname;
              conf = extract_host_payload (in_conf i) hostname;
              queues = extract_host_payload (in_active_queues i) hostname;
              active = extract_host_payload (in_active i) hostname;
              registered = extract_host_payload (in_registered i) hostname
          in if stats \<noteq> PNone \<or> conf \<noteq> PNone \<or> queues \<noteq> PNone \<or> registered \<noteq> PNone \<or> active \<noteq> PNone
             then \<lparr>ws_stats = as_dict stats, ws_conf = as_dict conf, ws_queues = queues,
                   ws_registered = registered, ws_active = active,
                   ws_broker_url = Some (conf_text rt a ''broker_url''), ws_app = Some (resolve_name rt a)\<rparr>
             else inspect_worker rt inspect apps hostname))"

definition active_count :: "pyval \<Rightarrow> int option" where
  "active_count active = (case active of
       PList xs \<Rightarrow> Some (int (length xs)) | PTuple xs \<Rightarrow> Some (int (length xs)) | _ \<Rightarrow> as_int active)"

definition json_safe_str :: "pyrt \<Rightarrow> pyval \<Rightarrow> (pyval \<times> pyval) list" where
  "json_safe_str rt v = (case Option.bind (rt_dumps_str rt v) (rt_loads rt) of
       Some (PDict d) \<Rightarrow> d
     | Some safe \<Rightarrow> [(PStr ''value'', safe)]
     | None \<Rightarrow> [(PStr ''value'', PStr (py_str rt v))])"

definition field_if :: "bool \<Rightarrow> string \<Rightarrow> pyval \<Rightarrow> (pyval \<times> pyval) list" where
  "field_if c k v = (if c then [(PStr k, v)] else [])"

definition worker_info_fields :: "worker_snapshot \<Rightarrow> (pyval \<times> pyval) list" where
  "worker_info_fields s =
     (let stats = (case ws_stats s of None \<Rightarrow> [] | Some d \<Rightarrow> d);
          conf = (case ws_conf s of None \<Rightarrow> [] | Some d \<Rightarrow> d)
      in field_if (stats \<noteq> []) ''stats'' (PDict stats) @
         field_if (stats \<noteq> [] \<and> pget stats ''pool'' \<noteq> PNone) ''pool'' (pget stats ''pool'') @
         field_if (conf \<noteq> []) ''conf'' (PDict conf) @
         field_if (ws_queues s \<noteq> PNone) ''queues'' (ws_queues s) @
         field_if (ws_registered s \<noteq> PNone) ''registered'' (ws_registered s) @
         (case active_count (ws_active s) of
            Some n \<Rightarrow> [(PStr ''active'', PInt n)]
          | None \<Rightarrow> field_if (ws_active s \<noteq> PNone) ''active'' (ws_active s)) @
         (case ws_app s of None \<Rightarrow> [] | Some a \<Rightarrow> [(PStr ''app'', PStr a)]))"

definition build_worker_info :: "pyrt \<Rightarrow> worker_snapshot \<Rightarrow> (pyval \<times> pyval) list" where
  "build_worker_info rt s = json_safe_str rt (redact_access_data (PDict (worker_info_fields s)))"

definition build_worker_event :: "pyrt \<Rightarrow> pydt \<Rightarrow> string \<Rightarrow> worker_snapshot \<Rightarrow> worker_event option" where
  "build_worker_event rt now hostname s =
     (if ws_stats s = None \<and> ws_conf s = None \<and> ws_queues s = PNone \<and> ws_registered s = PNone \<and>
         ws_active s = PNone
      then None
      else Some \<lparr>we_hostname = hostname, we_event = ''worker-snapshot'', we_timestamp = now,
             we_info = Some (build_worker_info rt s), we_broker_url = redact_url_password (ws_broker_url s)\<rparr>)"

text \<open>The rotation over the workers; \<open>fetched\<close> is the answer of \<open>get_workers\<close> (None when the RPC fails)
  and \<open>after_fetch\<close> the clock when it is in.\<close>

definition should_refresh_workers :: "rat \<Rightarrow> reconciler \<Rightarrow> bool" where
  "should_refresh_workers now rc = (30 \<le> now - rc_worker_refresh_at rc \<or> rc_worker_names rc = [])"

definition refresh_workers :: "worker list option \<Rightarrow> rat \<Rightarrow> reconciler \<Rightarrow> reconciler" where
  "refresh_workers fetched after_fetch rc = (case fetched of
       None \<Rightarrow> rc
     | Some workers \<Rightarrow> rc\<lparr>rc_worker_names := map wk_hostname workers,
         rc_worker_refresh_at := after_fetch, rc_worker_index := 0\<rparr>)"

definition next_worker_name :: "reconciler \<Rightarrow> string option \<times> reconciler" where
  "next_worker_name rc =
     (if rc_worker_names rc = [] then (None, rc)
      else (Some (rc_worker_names rc ! (rc_worker_index rc mod length (rc_worker_names rc))),
            rc\<lparr>rc_worker_index := rc_worker_index rc + 1\<rparr>))"

definition select_worker :: "worker list option \<Rightarrow> rat \<Rightarrow> rat \<Rightarrow> reconciler \<Rightarrow> string option \<times> reconciler" where
  "select_worker fetched now after_fetch rc =
     next_worker_name (if should_refresh_workers now rc then refresh_workers fetched after_fetch rc else rc)"

text \<open>\<open>_poll_worker_stats\<close>: the host that is inspected and the event to store.\<close>

definition poll_worker_stats :: "pyrt \<Rightarrow> (app \<Rightarrow> string \<Rightarrow> inspector option) \<Rightarrow> worker list option \<Rightarrow> rat \<Rightarrow> rat \<Rightarrow>
    pydt \<Rightarrow> reconciler \<Rightarrow> worker_event option \<times> reconciler" where
  "poll_worker_stats rt inspect fetched now after_fetch utc_now rc =
     (if rc_apps rc = [] then (None, rc)
      else case select_worker fetched now after_fetch rc of
          (None, rc') \<Rightarrow> (None, rc')
        | (Some hostname, rc') \<Rightarrow>
            (build_worker_event rt utc_now hostname (inspect_worker rt inspect (rc_apps rc') hostname), rc'))"

section \<open>Broker queues\<close>

record queue_info =
  qi_name :: string
  qi_messages :: "int option"
  qi_consumers :: "int option"

definition poll_broker_stats :: "pyrt \<Rightarrow> (string, app) pydict \<Rightarrow> (string \<Rightarrow> queue_info list option) \<Rightarrow> pydt \<Rightarrow>
    reconciler \<Rightarrow> broker_queue_event list \<times> reconciler" where
  "poll_broker_stats rt registry list_queues timestamp rc =
     (if rc_app_names rc = [] then ([], rc)
      else let app_name = rc_app_names rc ! (rc_broker_index rc mod length (rc_app_names rc));
               rc' = rc\<lparr>rc_broker_index := rc_broker_index rc + 1\<rparr>;
               broker_url = (case get_app registry app_name of Inl e \<Rightarrow> [] | Inr a \<Rightarrow> conf_text rt a ''broker_url'');
               redacted = (if broker_url \<noteq> [] then redact_text broker_url else broker_url)
           in case list_queues app_name of
                None \<Rightarrow> ([], rc')
              | Some queues \<Rightarrow> (map (\<lambda>q. \<lparr>bq_broker_url = redacted, bq_queue = qi_name q,
                    bq_messages = qi_messages q, bq_consumers = qi_consumers q, bq_timestamp = timestamp\<rparr>) queues, rc'))"

section \<open>Task outcomes\<close>

definition NON_FINAL_STATES :: "string list" where
  "NON_FINAL_STATES = [''PENDING'', ''RECEIVED'', ''STARTED'', ''RETRY'', ''REJECTED'']"

text \<open>\<open>_parse_datetime\<close>: what cannot be read is None; a number outside the range of dates raises.\<close>

definition parse_datetime :: "pyrt \<Rightarrow> pyval \<Rightarrow> pyexc + pydt option" where
  "parse_datetime rt raw = (case raw of
       PDatetime t \<Rightarrow> Inr (coerce_dt (Some t))
     | PStr s \<Rightarrow> Inr (coerce_dt (rt_iso rt (replace_char CHR ''Z'' ''+00:00'' s)))
     | _ \<Rightarrow> (case as_number raw of
           Some x \<Rightarrow> ebind (from_timestamp x) (\<lambda>t. Inr (Some t))
         | None \<Rightarrow> Inr None))"

definition stringify_plain :: "pyrt \<Rightarrow> pyval \<Rightarrow> string option" where
  "stringify_plain rt v = (case v of
       PNone \<Rightarrow> None
     | PStr s \<Rightarrow> Some s
     | PDict _ \<Rightarrow> Some (case rt_dumps rt v of Some t \<Rightarrow> t | None \<Rightarrow> py_str rt v)
     | PList _ \<Rightarrow> Some (case rt_dumps rt v of Some t \<Rightarrow> t | None \<Rightarrow> py_str rt v)
     | PTuple _ \<Rightarrow> Some (case rt_dumps rt v of Some t \<Rightarrow> t | None \<Rightarrow> py_str rt v)
     | _ \<Rightarrow> Some (py_str rt v))"

definition final_state :: "pyrt \<Rightarrow> (pyval \<times> pyval) list \<Rightarrow> string option" where
  "final_state rt meta =
     (let status = pget meta ''status''
      in if status = PNone then None
         else if is_final (py_str rt status) then Some (py_str rt status) else None)"

definition task_event_from_meta :: "pyrt \<Rightarrow> pydt \<Rightarrow> task \<Rightarrow> string \<Rightarrow> (pyval \<times> pyval) list \<Rightarrow> pyexc + task_event" where
  "task_event_from_meta rt now t status meta =
     ebind (parse_datetime rt (pget meta ''date_done'')) (\<lambda>done_at.
     Inr ((new_task_event (tk_task_id t) (tk_name t) status (case done_at of None \<Rightarrow> now | Some x \<Rightarrow> x))
       \<lparr>te_worker := tk_worker t,
        te_result := stringify_plain rt (pget meta ''result''),
        te_traceback := stringify_plain rt (pget meta ''traceback''),
        te_runtime := to_float rt (pget meta ''runtime''),
        te_retries := to_int rt (pget meta ''retries''),
        te_parent_id := tk_parent_id t, te_root_id := tk_root_id t,
        te_group_id := tk_group_id t, te_chord_id := tk_chord_id t\<rparr>))"

text \<open>\<open>_find_final_meta\<close>: the first backend that reports an outcome; None stands for an app without a
  usable backend, a backend that raises, and an answer that is no mapping.\<close>

fun find_final_meta :: "pyrt \<Rightarrow> (app \<Rightarrow> string \<Rightarrow> (pyval \<times> pyval) list option) \<Rightarrow> app list \<Rightarrow> string \<Rightarrow>
    ((pyval \<times> pyval) list \<times> string) option" where
  "find_final_meta rt get_meta [] task_id = None"
| "find_final_meta rt get_meta (a # apps) task_id = (case get_meta a task_id of
       None \<Rightarrow> find_final_meta rt get_meta apps task_id
     | Some meta \<Rightarrow> (case final_state rt meta of
           None \<Rightarrow> find_final_meta rt get_meta apps task_id
         | Some status \<Rightarrow> Some (meta, status)))"

text \<open>\<open>_refresh_tasks\<close>: the unfinished tasks by state, each id once (a failed query is skipped).\<close>

definition refresh_tasks :: "(string \<Rightarrow> task list option) \<Rightarrow> rat \<Rightarrow> reconciler \<Rightarrow> reconciler" where
  "refresh_tasks get_by_state after_fetch rc =
     (let batches = concat (map (\<lambda>s. case get_by_state s of None \<Rightarrow> [] | Some ts \<Rightarrow> ts) NON_FINAL_STATES)
      in rc\<lparr>rc_task_queue := dvalues (fold (\<lambda>t. dset (tk_task_id t) t) batches []),
            rc_task_refresh_at := after_fetch\<rparr>)"

definition select_task :: "(string \<Rightarrow> task list option) \<Rightarrow> rat \<Rightarrow> rat \<Rightarrow> reconciler \<Rightarrow> task option \<times> reconciler" where
  "select_task get_by_state now after_fetch rc =
     (let rc' = (if 30 \<le> now - rc_task_refresh_at rc \<or> rc_task_queue rc = []
                 then refresh_tasks get_by_state after_fetch rc else rc)
      in case rc_task_queue rc' of
           [] \<Rightarrow> (None, rc')
         | t # rest \<Rightarrow> (Some t, rc'\<lparr>rc_task_queue := rest\<rparr>))"

definition reconcile_task_states :: "pyrt \<Rightarrow> (string \<Rightarrow> task list option) \<Rightarrow>
    (app \<Rightarrow> string \<Rightarrow> (pyval \<times> pyval) list option) \<Rightarrow> rat \<Rightarrow> rat \<Rightarrow> pydt \<Rightarrow> reconciler \<Rightarrow>
    (pyexc + task_event option) \<times> reconciler" where
  "reconcile_task_states rt get_by_state get_meta now after_fetch utc_now rc =
     (if rc_apps rc = [] then (Inr None, rc)
      else case select_task get_by_state now after_fetch rc of
          (None, rc') \<Rightarrow> (Inr None, rc')
        | (Some t, rc') \<Rightarrow> (case find_final_meta rt get_meta (rc_apps rc') (tk_task_id t) of
              None \<Rightarrow> (Inr None, rc')
            | Some (meta, status) \<Rightarrow>
                (ebind (task_event_from_meta rt utc_now t status meta) (\<lambda>e. Inr (Some e)), rc')))"

lemma find_final_meta_final: "find_final_meta rt get_meta apps i = Some (meta, s) \<Longrightarrow> is_final s"
  by (induction apps) (auto simp: final_state_def Let_def split: option.splits if_splits)

text \<open>C15: Backfilling is safe: the reconciler only ever produces an event for a task with an outcome that
  a backend reported, and storing it puts the task into that outcome, whatever state it was in.\<close>

theorem backfill_sets_outcome:
  assumes "reconcile_task_states rt get_by_state get_meta now after_fetch utc_now rc = (Inr (Some e), rc')"
  shows "is_final (te_state e) \<and>
    (\<exists>a meta. get_meta a (te_task_id e) = Some meta \<and> final_state rt meta = Some (te_state e)) \<and>
    state_in_store (ingest_task_event e d) (te_task_id e) = Some (te_state e)"
proof -
  obtain sel rc1 where sel: "select_task get_by_state now after_fetch rc = (sel, rc1)" by fastforce
  with assms obtain t where "sel = Some t"
    by (cases sel) (auto simp: reconcile_task_states_def split: if_splits)
  with assms sel obtain meta s where
    t: "find_final_meta rt get_meta (rc_apps rc1) (tk_task_id t) = Some (meta, s)"
    and e: "task_event_from_meta rt utc_now t s meta = Inr e"
    by (cases "find_final_meta rt get_meta (rc_apps rc1) (tk_task_id t)")
       (auto simp: reconcile_task_states_def ebind_Inr_iff split: if_splits)
  from e have te: "te_state e = s" "te_task_id e = tk_task_id t"
    by (auto simp: task_event_from_meta_def ebind_Inr_iff new_task_event_def)
  have found: "find_final_meta rt get_meta apps i = Some (meta, s) \<Longrightarrow>
      \<exists>a. get_meta a i = Some meta \<and> final_state rt meta = Some s" for apps i
    by (induction apps) (auto split: option.splits)
  have f: "is_final s" using t by (rule find_final_meta_final)
  then have "next_state ex s = s" for ex
    by (auto simp: next_state_def should_preserve_state_def is_final_iff split: option.split)
  then have "state_in_store (ingest_task_event e d) (te_task_id e) = Some (te_state e)"
    by (simp add: ingest.state_law te)
  with f found[OF t] te show ?thesis by auto
qed

definition one_app :: app where
  "one_app = \<lparr>app_id = 1, app_main = Some ''demo'', app_conf = []\<rparr>"

definition lost_task :: task where
  "lost_task = blank_task ''a'' ''STARTED''"

lemma backfill_sets_outcome_witness:
  "\<exists>e. reconcile_task_states toy_rt (\<lambda>s. if s = ''STARTED'' then Some [lost_task] else None)
      (\<lambda>a i. Some [(PStr ''status'', PStr ''FAILURE'')]) 40 41 (utc_dt 9) (new_reconciler toy_rt [one_app]) = (Inr (Some e),
      (new_reconciler toy_rt [one_app])\<lparr>rc_task_refresh_at := 41\<rparr>) \<and>
    state_in_store (ingest_task_event e fresh_db) ''a'' = Some ''FAILURE''"
proof -
  let ?e = "new_task_event ''a'' None ''FAILURE'' (utc_dt 9)"
  have run: "reconcile_task_states toy_rt (\<lambda>s. if s = ''STARTED'' then Some [lost_task] else None)
      (\<lambda>a i. Some [(PStr ''status'', PStr ''FAILURE'')]) 40 41 (utc_dt 9) (new_reconciler toy_rt [one_app]) =
      (Inr (Some ?e), (new_reconciler toy_rt [one_app])\<lparr>rc_task_refresh_at := 41\<rparr>)" by code_simp
  have "te_task_id ?e = ''a''" "te_state ?e = ''FAILURE''" by (simp_all add: new_task_event_def)
  with backfill_sets_outcome[OF run, of fresh_db]
  have "state_in_store (ingest_task_event ?e fresh_db) ''a'' = Some ''FAILURE''" by simp
  with run show ?thesis by (intro exI[of _ ?e] conjI)
qed

section \<open>Starvation\<close>

text \<open>
  The polls of a run, with the clock at each poll and after the fetch a poll may make. The loop sleeps
  one second after each of its three actions, so polls of workers are at least three seconds apart.
\<close>

fun poll_run :: "worker list \<Rightarrow> (rat \<times> rat) list \<Rightarrow> reconciler \<Rightarrow> string option list \<times> reconciler" where
  "poll_run ws [] rc = ([], rc)"
| "poll_run ws ((now, after_fetch) # polls) rc =
     (let (h, rc1) = select_worker (Some ws) now after_fetch rc;
          (hs, rc2) = poll_run ws polls rc1
      in (h # hs, rc2))"

fun paced :: "rat \<Rightarrow> (rat \<times> rat) list \<Rightarrow> bool" where
  "paced t [] = True"
| "paced t ((now, after_fetch) # polls) = (t + 3 \<le> now \<and> now \<le> after_fetch \<and> paced after_fetch polls)"

text \<open>Between two refreshes the index grows by one per poll, that is at most once in three seconds.\<close>

definition rotation_ok :: "worker list \<Rightarrow> rat \<Rightarrow> reconciler \<Rightarrow> bool" where
  "rotation_ok ws t rc = (rc_worker_names rc = [] \<or>
     (rc_worker_names rc = map wk_hostname ws \<and> 1 \<le> rc_worker_index rc \<and>
      rc_worker_refresh_at rc + 3 * of_nat (rc_worker_index rc - 1) \<le> t))"

lemma rotation_step:
  assumes "rotation_ok ws t rc" and "t + 3 \<le> now" and "now \<le> after_fetch" and "ws \<noteq> []"
    and "select_worker (Some ws) now after_fetch rc = (h, rc')"
  shows "rotation_ok ws after_fetch rc'" and "\<exists>k < 10. h = Some (map wk_hostname ws ! (k mod length ws))"
proof -
  consider (refresh) "should_refresh_workers now rc"
    | (keep) "\<not> should_refresh_workers now rc" by blast
  then have "rotation_ok ws after_fetch rc' \<and> (\<exists>k < 10. h = Some (map wk_hostname ws ! (k mod length ws)))"
  proof cases
    case refresh
    then have "rc' = rc\<lparr>rc_worker_names := map wk_hostname ws, rc_worker_refresh_at := after_fetch, rc_worker_index := 1\<rparr>"
      "h = Some (map wk_hostname ws ! 0)"
      using assms(4,5) by (auto simp: select_worker_def refresh_workers_def next_worker_name_def)
    then have "rotation_ok ws after_fetch rc'" "h = Some (map wk_hostname ws ! (0 mod length ws))"
      by (simp_all add: rotation_ok_def)
    then show ?thesis by (metis zero_less_numeral)
  next
    case keep
    then have ne: "rc_worker_names rc \<noteq> []" "now - rc_worker_refresh_at rc < 30"
      by (auto simp: should_refresh_workers_def)
    with assms(1) have i: "rc_worker_names rc = map wk_hostname ws" "1 \<le> rc_worker_index rc"
      "rc_worker_refresh_at rc + 3 * of_nat (rc_worker_index rc - 1) \<le> t"
      by (auto simp: rotation_ok_def)
    have sel: "h = Some (map wk_hostname ws ! (rc_worker_index rc mod length ws))"
      "rc' = rc\<lparr>rc_worker_index := rc_worker_index rc + 1\<rparr>"
      using keep ne assms(5) i(1) by (auto simp: select_worker_def next_worker_name_def)
    have "rat_of_nat (rc_worker_index rc) = 1 + of_nat (rc_worker_index rc - 1)"
      using i(2) by (simp add: of_nat_diff)
    then have time: "rc_worker_refresh_at rc + 3 * of_nat (rc_worker_index rc) \<le> now"
      using i(3) assms(2) by linarith
    with ne(2) have "rat_of_nat (rc_worker_index rc) < rat_of_nat 10" by simp
    then have "rc_worker_index rc < 10" by (simp only: of_nat_less_iff)
    moreover have "rotation_ok ws after_fetch rc'"
      using time assms(3) i(1) sel(2) by (simp add: rotation_ok_def)
    ultimately show ?thesis using sel(1) by blast
  qed
  then show "rotation_ok ws after_fetch rc'" "\<exists>k < 10. h = Some (map wk_hostname ws ! (k mod length ws))"
    by blast+
qed

lemma polled_hosts:
  assumes "ws \<noteq> []" and "rotation_ok ws t rc" and "paced t polls" and "Some h \<in> set (fst (poll_run ws polls rc))"
  shows "\<exists>k < 10. h = map wk_hostname ws ! (k mod length ws)"
  using assms(2-4)
proof (induction polls arbitrary: t rc)
  case (Cons p polls)
  obtain now after_fetch where p: "p = (now, after_fetch)" by fastforce
  obtain h1 rc1 where sel: "select_worker (Some ws) now after_fetch rc = (h1, rc1)" by fastforce
  from Cons.prems(2) have times: "t + 3 \<le> now" "now \<le> after_fetch" "paced after_fetch polls"
    by (simp_all add: p)
  note step = rotation_step[OF Cons.prems(1) times(1,2) assms(1) sel]
  have "Some h = h1 \<or> Some h \<in> set (fst (poll_run ws polls rc1))"
    using Cons.prems(3) by (simp add: p sel split: prod.splits)
  then show ?case
  proof
    assume "Some h = h1"
    with step(2) show ?thesis by auto
  next
    assume "Some h \<in> set (fst (poll_run ws polls rc1))"
    with Cons.IH[OF step(1) times(3)] show ?thesis by blast
  qed
qed simp

text \<open>Only the first ten workers are ever inspected: the list of workers is fetched again, and the
  rotation restarted, every thirty seconds, while polls of workers are at least three seconds apart,
  so in any run the hosts polled are among the first ten the database lists.\<close>

theorem only_ten_workers_polled:
  assumes "ws \<noteq> []" and "paced t polls" and "rc_worker_names rc = []" and "Some h \<in> set (fst (poll_run ws polls rc))"
  shows "h \<in> set (take 10 (map wk_hostname ws))"
proof -
  have "rotation_ok ws t rc" using assms(3) by (simp add: rotation_ok_def)
  from polled_hosts[OF assms(1) this assms(2,4)] obtain k
    where k: "k < 10" "h = map wk_hostname ws ! (k mod length ws)" by blast
  have "k mod length ws < length ws" "k mod length ws < 10"
    using assms(1) k(1) mod_less_eq_dividend[of k "length ws"] by (simp, linarith)
  then have "take 10 (map wk_hostname ws) ! (k mod length ws) = h"
    "k mod length ws < length (take 10 (map wk_hostname ws))" using k(2) by simp_all
  then show ?thesis by (metis nth_mem)
qed

definition named_worker :: "string \<Rightarrow> worker" where
  "named_worker h = \<lparr>wk_hostname = h, wk_status = ''ONLINE'', wk_last_heartbeat = None, wk_pool_size = None,
     wk_active_tasks = None, wk_registered_tasks = None, wk_queues = None, wk_broker_url = None\<rparr>"

lemma only_ten_workers_polled_witness:
  "''w1'' \<in> set (take 10 (map wk_hostname (map named_worker [''w0'', ''w1'', ''w2''])))"
proof (rule only_ten_workers_polled)
  show "map named_worker [''w0'', ''w1'', ''w2''] \<noteq> []" by simp
  show "paced 0 [(3, 4), (7, 7), (10, 10)]" by simp
  show "rc_worker_names (new_reconciler toy_rt [one_app]) = []" by (simp add: new_reconciler_def)
  show "Some ''w1'' \<in> set (fst (poll_run (map named_worker [''w0'', ''w1'', ''w2''])
      [(3, 4), (7, 7), (10, 10)] (new_reconciler toy_rt [one_app])))" by code_simp
qed

end
