(* ===== verification/Retry.thy ===== *)
theory Retry
  imports Rpc_Server Registry
begin

text \<open>
  Retrying a failed task with everything below it (celery_root/core/engine/retry.py). The JSON
  library and the sender are parameters; a call of the sender is recorded whether or not it raises.
\<close>

section \<open>The relation graph\<close>

definition add_relation :: "task_relation \<Rightarrow> (string, string list) pydict \<Rightarrow> (string, string list) pydict" where
  "add_relation r adjacency = (case rel_parent_id r of
       None \<Rightarrow> adjacency
     | Some p \<Rightarrow> dset p (dget_or adjacency p [] @ [rel_child_id r]) adjacency)"

definition build_adjacency :: "task_relation list \<Rightarrow> (string, string list) pydict" where
  "build_adjacency relations = fold add_relation relations []"

definition succs :: "('a, 'a list) pydict \<Rightarrow> ('a \<times> 'a) set" where
  "succs adjacency = {(x, y). y \<in> set (dget_or adjacency x [])}"

lemma succs_listed: "(x, y) \<in> succs adjacency \<Longrightarrow> y \<in> (\<Union>xs \<in> snd ` set adjacency. set xs)"
proof -
  assume "(x, y) \<in> succs adjacency"
  then obtain ys where "dget adjacency x = Some ys" "y \<in> set ys"
    by (cases "dget adjacency x") (auto simp: succs_def dget_or_def)
  then have "ys \<in> snd ` set adjacency" "y \<in> set ys" by (force dest: map_of_SomeD)+
  then show ?thesis by blast
qed

text \<open>Breadth-first search. Every step either shortens the queue or visits a new node of the finitely many there are.\<close>

function bfs :: "('a, 'a list) pydict \<Rightarrow> 'a list \<Rightarrow> 'a set \<Rightarrow> 'a list \<Rightarrow> 'a list" where
  "bfs adjacency [] visited order = order"
| "bfs adjacency (node # queue) visited order =
     (if node \<in> visited then bfs adjacency queue visited order
      else bfs adjacency (queue @ filter (\<lambda>c. c \<notin> insert node visited) (dget_or adjacency node []))
             (insert node visited) (order @ [node]))"
  by pat_completeness auto

termination
proof (relation "inv_image (less_than <*lex*> less_than) (\<lambda>(adjacency, queue, visited, order).
    (card ((set queue \<union> (\<Union>xs \<in> snd ` set adjacency. set xs)) - visited), length queue))", goal_cases)
  case 1
  show ?case by (intro wf_inv_image wf_lex_prod wf_less_than)
next
  case (2 adjacency node queue visited order)
  then have "(set (node # queue) \<union> (\<Union>xs \<in> snd ` set adjacency. set xs)) - visited =
      (set queue \<union> (\<Union>xs \<in> snd ` set adjacency. set xs)) - visited" by auto
  then show ?case by simp
next
  case (3 adjacency node queue visited order)
  have "set (dget_or adjacency node []) \<subseteq> (\<Union>xs \<in> snd ` set adjacency. set xs)"
    using succs_listed[of node _ adjacency] by (auto simp: succs_def)
  then have "(set (queue @ filter (\<lambda>c. c \<notin> insert node visited) (dget_or adjacency node [])) \<union>
       (\<Union>xs \<in> snd ` set adjacency. set xs)) - insert node visited
     \<subset> (set (node # queue) \<union> (\<Union>xs \<in> snd ` set adjacency. set xs)) - visited"
    using 3 by auto
  then show ?case by (simp add: psubset_card_mono)
qed

definition descendants_bfs :: "'a \<Rightarrow> ('a, 'a list) pydict \<Rightarrow> 'a list" where
  "descendants_bfs start adjacency = bfs adjacency [start] {} []"

section \<open>Retrying\<close>

definition parse_args :: "pyrt \<Rightarrow> string option \<Rightarrow> pyval list" where
  "parse_args rt v = (case v of
       None \<Rightarrow> []
     | Some s \<Rightarrow> (if s = [] then [] else case rt_loads rt s of
           None \<Rightarrow> [PStr s] | Some (PList xs) \<Rightarrow> xs | Some p \<Rightarrow> [p]))"

definition parse_kwargs :: "pyrt \<Rightarrow> string option \<Rightarrow> (pyval \<times> pyval) list" where
  "parse_kwargs rt v = (case v of
       None \<Rightarrow> []
     | Some s \<Rightarrow> (if s = [] then [] else case rt_loads rt s of Some (PDict d) \<Rightarrow> d | _ \<Rightarrow> []))"

record send_call =
  call_worker :: string
  call_name :: string
  call_args :: "pyval list"
  call_kwargs :: "(pyval \<times> pyval) list"

text \<open>The task of a node as it is sent again: skipped when it is unknown or has no name or worker.\<close>

definition resend :: "pyrt \<Rightarrow> db \<Rightarrow> string \<Rightarrow> send_call option" where
  "resend rt d i = (case get_task i d of
       None \<Rightarrow> None
     | Some t \<Rightarrow> (case (tk_name t, tk_worker t) of
           (Some n, Some w) \<Rightarrow> Some \<lparr>call_worker = w, call_name = n, call_args = parse_args rt (tk_args t),
             call_kwargs = parse_kwargs rt (tk_kwargs t)\<rparr>
         | _ \<Rightarrow> None))"

fun send_all :: "pyrt \<Rightarrow> (send_call \<Rightarrow> pyexc + 'r) \<Rightarrow> db \<Rightarrow> string list \<Rightarrow> send_call list \<times> (pyexc + 'r list)" where
  "send_all rt send d [] = ([], Inr [])"
| "send_all rt send d (i # order) = (case resend rt d i of
       None \<Rightarrow> send_all rt send d order
     | Some c \<Rightarrow> (case send c of
           Inl e \<Rightarrow> ([c], Inl e)
         | Inr r \<Rightarrow> (let (calls, rest) = send_all rt send d order
                    in (c # calls, ebind rest (\<lambda>rs. Inr (r # rs))))))"

definition retry_order :: "db \<Rightarrow> task \<Rightarrow> string \<Rightarrow> string list" where
  "retry_order d t failed_task_id =
     descendants_bfs failed_task_id (build_adjacency (get_task_relations (or_str (tk_root_id t) (tk_task_id t)) d))"

definition smart_retry :: "pyrt \<Rightarrow> (send_call \<Rightarrow> pyexc + 'r) \<Rightarrow> string \<Rightarrow> db \<Rightarrow> send_call list \<times> (pyexc + 'r list)" where
  "smart_retry rt send failed_task_id d = (case get_task failed_task_id d of
       None \<Rightarrow> ([], Inl (ValueError (''Task '' @ failed_task_id @ '' not found'')))
     | Some t \<Rightarrow> send_all rt send d (retry_order d t failed_task_id))"

text \<open>\<open>send_task\<close> of celery_root/core/engine/tasks.py behind the default sender; what the Celery app
  does with the task is a parameter.\<close>

definition send_task :: "(app \<Rightarrow> send_call \<Rightarrow> pyexc + 'r) \<Rightarrow> (string, app) pydict \<Rightarrow> send_call \<Rightarrow> pyexc + 'r" where
  "send_task app_send registry c = ebind (get_app registry (call_worker c)) (\<lambda>a. app_send a c)"

definition send_via_celery :: "(app \<Rightarrow> send_call \<Rightarrow> pyexc + 'r) \<Rightarrow> (string, app) pydict \<Rightarrow> send_call \<Rightarrow> pyexc + 'r" where
  "send_via_celery app_send registry c = send_task app_send registry c"

section \<open>What the search visits\<close>

lemma adjacency_children:
  "dget_or (fold add_relation rels adj) p [] =
     dget_or adj p [] @ map rel_child_id (filter (\<lambda>r. rel_parent_id r = Some p) rels)"
  by (induction rels arbitrary: adj) (auto simp: add_relation_def dget_or_dset split: option.split)

definition relation_edges :: "task_relation list \<Rightarrow> (string \<times> string) set" where
  "relation_edges rels = {(p, c). \<exists>r \<in> set rels. rel_parent_id r = Some p \<and> rel_child_id r = c}"

lemma succs_adjacency: "succs (build_adjacency rels) = relation_edges rels"
proof -
  have "dget_or [] p [] = ([] :: string list)" for p :: string by (simp add: dget_or_def)
  then show ?thesis
    by (auto simp: succs_def build_adjacency_def adjacency_children relation_edges_def)
qed

lemma bfs_upper: "set (bfs adj queue visited order) \<subseteq> set order \<union> (succs adj)\<^sup>* `` set queue"
proof (induction adj queue visited order rule: bfs.induct)
  case (2 adj node queue visited order)
  have step: "(succs adj)\<^sup>* `` set (filter P (dget_or adj node [])) \<subseteq> (succs adj)\<^sup>* `` {node}" for P
    by (auto simp: succs_def intro: converse_rtrancl_into_rtrancl)
  show ?case
  proof (cases "node \<in> visited")
    case True
    then show ?thesis using "2.IH"(1) by auto
  next
    case False
    then show ?thesis using "2.IH"(2)[OF False] step[of "\<lambda>c. c \<notin> insert node visited"] by fastforce
  qed
qed simp

text \<open>Nodes visited have all their children visited or waiting, so at the end the order is closed.\<close>

lemma bfs_lower:
  assumes "visited = set order" and "succs adj `` visited \<subseteq> visited \<union> set queue"
  shows "set order \<union> set queue \<subseteq> set (bfs adj queue visited order) \<and>
    succs adj `` set (bfs adj queue visited order) \<subseteq> set (bfs adj queue visited order)"
  using assms
proof (induction adj queue visited order rule: bfs.induct)
  case (2 adj node queue visited order)
  show ?case
  proof (cases "node \<in> visited")
    case True
    then have "succs adj `` visited \<subseteq> visited \<union> set queue" using "2.prems"(2) by auto
    then show ?thesis using "2.IH"(1)[OF True "2.prems"(1)] True "2.prems"(1) by auto
  next
    case False
    have "succs adj `` insert node visited \<subseteq> insert node visited \<union>
        set (queue @ filter (\<lambda>c. c \<notin> insert node visited) (dget_or adj node []))"
      using "2.prems"(2) by (auto simp: succs_def)
    then show ?thesis using "2.IH"(2)[OF False] False "2.prems"(1) by auto
  qed
qed simp

lemma bfs_distinct: "visited = set order \<Longrightarrow> distinct order \<Longrightarrow> distinct (bfs adj queue visited order)"
  by (induction adj queue visited order rule: bfs.induct) auto

lemma bfs_prefix: "\<exists>rest. bfs adj queue visited order = order @ rest"
  by (induction adj queue visited order rule: bfs.induct) auto

text \<open>In the order every node but the first comes after one of its parents.\<close>

definition parented :: "('a \<times> 'a) set \<Rightarrow> 'a list \<Rightarrow> bool" where
  "parented E order = (\<forall>i < length order. 0 < i \<longrightarrow> (\<exists>j < i. (order ! j, order ! i) \<in> E))"

lemma parented_snoc:
  assumes "parented E order" and "order = [] \<or> (\<exists>x \<in> set order. (x, node) \<in> E)"
  shows "parented E (order @ [node])"
proof (unfold parented_def, intro allI impI)
  fix i assume i: "i < length (order @ [node])" "0 < i"
  show "\<exists>j<i. ((order @ [node]) ! j, (order @ [node]) ! i) \<in> E"
  proof (cases "i < length order")
    case True
    with assms(1) i(2) obtain j where "j < i" "(order ! j, order ! i) \<in> E" by (auto simp: parented_def)
    with True show ?thesis by (intro exI[of _ j]) (simp add: nth_append)
  next
    case False
    with i have "i = length order" "order \<noteq> []" by auto
    moreover from this assms(2) obtain j where "j < length order" "(order ! j, node) \<in> E"
      by (auto simp: in_set_conv_nth)
    ultimately show ?thesis by (intro exI[of _ j]) (simp add: nth_append)
  qed
qed

lemma bfs_parented:
  assumes "parented (succs adj) order" and "order = [] \<and> length queue \<le> 1 \<and> visited = {} \<or>
    order \<noteq> [] \<and> set queue \<subseteq> succs adj `` set order"
  shows "parented (succs adj) (bfs adj queue visited order)"
  using assms
proof (induction adj queue visited order rule: bfs.induct)
  case (2 adj node queue visited order)
  show ?case
  proof (cases "node \<in> visited")
    case True
    then show ?thesis using "2.IH"(1)[OF True "2.prems"(1)] "2.prems"(2) by auto
  next
    case False
    have "order = [] \<or> (\<exists>x \<in> set order. (x, node) \<in> succs adj)" using "2.prems"(2) by auto
    then have "parented (succs adj) (order @ [node])" using "2.prems"(1) by (rule parented_snoc[rotated])
    moreover have "set (queue @ filter (\<lambda>c. c \<notin> insert node visited) (dget_or adj node []))
        \<subseteq> succs adj `` set (order @ [node])"
      using "2.prems"(2) by (auto simp: succs_def)
    ultimately show ?thesis using "2.IH"(2)[OF False] False by simp
  qed
qed simp

lemma descendants_bfs_set: "set (descendants_bfs start adj) = (succs adj)\<^sup>* `` {start}"
proof -
  let ?r = "set (bfs adj [start] {} [])"
  have low: "start \<in> ?r" "succs adj `` ?r \<subseteq> ?r" using bfs_lower[of "{}" "[]" adj "[start]"] by auto
  have "y \<in> ?r" if "(start, y) \<in> (succs adj)\<^sup>*" for y
    using that by (induction rule: rtrancl_induct) (use low in auto)
  moreover have "?r \<subseteq> (succs adj)\<^sup>* `` {start}" using bfs_upper[of adj "[start]" "{}" "[]"] by simp
  ultimately show ?thesis by (auto simp: descendants_bfs_def)
qed

lemma descendants_bfs_distinct: "distinct (descendants_bfs start adj)"
  by (simp add: descendants_bfs_def bfs_distinct)

lemma descendants_bfs_parented: "parented (succs adj) (descendants_bfs start adj)"
  unfolding descendants_bfs_def by (rule bfs_parented) (simp_all add: parented_def)

lemma descendants_bfs_first: "\<exists>rest. descendants_bfs start adj = start # rest"
  using bfs_prefix[of adj "filter (\<lambda>c. c \<noteq> start) (dget_or adj start [])" "{start}" "[start]"]
  by (simp add: descendants_bfs_def)

lemma send_all_ok:
  assumes "\<And>c. \<exists>r. send c = Inr r"
  shows "fst (send_all rt send d order) = List.map_filter (resend rt d) order \<and>
    snd (send_all rt send d order) = Inr (map (projr \<circ> send) (List.map_filter (resend rt d) order))"
proof (induction order)
  case (Cons i order)
  show ?case
  proof (cases "resend rt d i")
    case (Some c)
    obtain r where "send c = Inr r" using assms by blast
    with Cons Some show ?thesis by (auto simp: List.map_filter_simps split: prod.splits)
  qed (simp add: Cons List.map_filter_simps)
qed (simp add: List.map_filter_simps)

section \<open>Properties\<close>

text \<open>C11: A retry sends again exactly the failed task and what can be reached from it over the stored
  relations of its root, each task once and the failed task first, leaving out the tasks that are
  unknown or have no name or worker; the sends are answered in that order.\<close>

theorem retry_sends_descendants:
  assumes "get_task failed d = Some t" and "\<forall>c. \<exists>r. send c = Inr r"
  shows "\<exists>order. distinct (failed # order) \<and>
    set (failed # order) = (relation_edges (get_task_relations (or_str (tk_root_id t) (tk_task_id t)) d))\<^sup>* `` {failed} \<and>
    fst (smart_retry rt send failed d) = List.map_filter (resend rt d) (failed # order) \<and>
    snd (smart_retry rt send failed d) = Inr (map (projr \<circ> send) (List.map_filter (resend rt d) (failed # order)))"
proof -
  let ?adj = "build_adjacency (get_task_relations (or_str (tk_root_id t) (tk_task_id t)) d)"
  obtain order where order: "descendants_bfs failed ?adj = failed # order"
    using descendants_bfs_first by metis
  have "smart_retry rt send failed d = send_all rt send d (failed # order)"
    using assms(1) order by (simp add: smart_retry_def retry_order_def)
  with send_all_ok[of send rt d "failed # order"] assms(2) descendants_bfs_distinct[of failed ?adj]
    descendants_bfs_set[of failed ?adj]
  show ?thesis by (intro exI[of _ order]) (simp only: order succs_adjacency)
qed

definition retry_relation_list :: "task_relation list" where
  "retry_relation_list =
     [\<lparr>rel_root_id = ''a'', rel_parent_id = Some ''a'', rel_child_id = ''c'', rel_relation = ''child''\<rparr>,
      \<lparr>rel_root_id = ''a'', rel_parent_id = Some ''a'', rel_child_id = ''b'', rel_relation = ''child''\<rparr>,
      \<lparr>rel_root_id = ''a'', rel_parent_id = Some ''b'', rel_child_id = ''c'', rel_relation = ''child''\<rparr>]"

definition retry_db :: db where
  "retry_db = fold store_task_relation retry_relation_list
     (fold (\<lambda>i. store_task_event ((new_task_event i (Some ''t'') ''FAILURE'' (utc_dt 0))\<lparr>te_worker := Some ''w''\<rparr>))
       [''a'', ''b'', ''c''] fresh_db)"

lemma retry_task_known: "\<exists>t. get_task ''a'' retry_db = Some t"
  unfolding not_None_eq[symmetric] by code_simp

lemma retry_root: "map_option (\<lambda>t. or_str (tk_root_id t) (tk_task_id t)) (get_task ''a'' retry_db) = Some ''a''"
  by code_simp

lemma retry_relations: "get_task_relations ''a'' retry_db = retry_relation_list"
  by code_simp

text \<open>In a retry every task but the first is sent after some parent of it, but not always after all
  of them: with the relations a-c, a-b and b-c the task c goes before its parent b.\<close>

theorem retry_after_some_parent:
  "parented (relation_edges (get_task_relations (or_str (tk_root_id t) (tk_task_id t)) d)) (retry_order d t failed) \<and>
   (\<exists>d0 t0. get_task ''a'' d0 = Some t0 \<and> retry_order d0 t0 ''a'' = [''a'', ''c'', ''b''] \<and>
     (''b'', ''c'') \<in> relation_edges (get_task_relations (or_str (tk_root_id t0) (tk_task_id t0)) d0))"
proof
  show "parented (relation_edges (get_task_relations (or_str (tk_root_id t) (tk_task_id t)) d)) (retry_order d t failed)"
    unfolding retry_order_def succs_adjacency[symmetric] by (rule descendants_bfs_parented)
  obtain t0 where t0: "get_task ''a'' retry_db = Some t0" using retry_task_known by blast
  have root: "or_str (tk_root_id t0) (tk_task_id t0) = ''a''" using retry_root by (simp add: t0)
  have "retry_order retry_db t0 ''a'' = [''a'', ''c'', ''b'']"
    unfolding retry_order_def root retry_relations by code_simp
  moreover have "(''b'', ''c'') \<in> relation_edges (get_task_relations (or_str (tk_root_id t0) (tk_task_id t0)) retry_db)"
    unfolding root retry_relations by (simp add: relation_edges_def retry_relation_list_def)
  ultimately show "\<exists>d0 t0. get_task ''a'' d0 = Some t0 \<and> retry_order d0 t0 ''a'' = [''a'', ''c'', ''b''] \<and>
     (''b'', ''c'') \<in> relation_edges (get_task_relations (or_str (tk_root_id t0) (tk_task_id t0)) d0)"
    using t0 by blast
qed

lemma retry_sends_descendants_witness:
  "\<exists>order. distinct (''a'' # order) \<and> set (''a'' # order) = (relation_edges retry_relation_list)\<^sup>* `` {''a''} \<and>
    fst (smart_retry toy_rt (\<lambda>c. Inr (call_name c)) ''a'' retry_db) = List.map_filter (resend toy_rt retry_db) (''a'' # order)"
proof -
  obtain t where t: "get_task ''a'' retry_db = Some t" using retry_task_known by blast
  have root: "or_str (tk_root_id t) (tk_task_id t) = ''a''" using retry_root by (simp add: t)
  have ok: "\<forall>c. \<exists>r. (Inr (call_name c) :: pyexc + string) = Inr r" by simp
  from retry_sends_descendants[OF t ok, of toy_rt, unfolded root retry_relations] show ?thesis by blast
qed

end
