(* ===== verification/Settings.thy ===== *)
theory Settings
  imports Registry Redaction
begin

text \<open>
  The configuration models and the process-wide settings (celery_root/config.py), the optional
  dependency check (celery_root/optional.py), and how the command line and the bootstrap class
  arrive at the configuration a program runs with (celery_root/cli.py, celery_root/__init__.py).
  Paths are texts; expanding a home directory is a parameter, creating directories is left out.
\<close>

section \<open>The models\<close>

definition MAX_PORT :: int where "MAX_PORT = 65535"

record database_config =
  dc_rpc_host :: string
  dc_rpc_port :: int
  dc_rpc_auth_key :: string
  dc_rpc_socket_path :: string
  dc_rpc_max_message_bytes :: int
  dc_rpc_max_inflight :: int
  dc_rpc_timeout_seconds :: rat
  dc_db_path :: "string option"
  dc_retention_days :: int
  dc_batch_size :: int
  dc_flush_interval :: rat
  dc_purge_db :: bool

record prometheus_config =
  pc_port :: int
  pc_prometheus_path :: string
  pc_flower_comatibility :: bool

record open_telemetry_config =
  oc_endpoint :: string
  oc_service_name :: string

record frontend_config =
  fc_host :: string
  fc_port :: int
  fc_debug :: bool
  fc_poll_interval :: rat
  fc_secret_key :: string
  fc_basic_auth :: "string option"
  fc_auth_provider :: "string option"
  fc_auth :: "string option"
  fc_oauth2_key :: "string option"
  fc_oauth2_secret :: "string option"
  fc_oauth2_redirect_uri :: "string option"
  fc_oauth2_okta_base_url :: "string option"
  fc_gitlab_allowed_groups :: "string option"
  fc_gitlab_min_access_level :: "int option"
  fc_gitlab_oauth_domain :: "string option"

record mcp_config =
  mc_host :: string
  mc_port :: int
  mc_path :: string
  mc_auth_key :: "string option"
  mc_readonly_db_url :: "string option"

record root_config =
  rt_database :: database_config
  rt_beat :: "beat_config option"
  rt_prometheus :: "prometheus_config option"
  rt_open_telemetry :: "open_telemetry_config option"
  rt_frontend :: "frontend_config option"
  rt_mcp :: "mcp_config option"
  rt_worker_import_paths :: "string list"
  rt_event_queue_maxsize :: int
  rt_integration :: bool

text \<open>The defaults; the socket path and the secret key are made at run time.\<close>

definition default_database :: "string \<Rightarrow> database_config" where
  "default_database socket = \<lparr>dc_rpc_host = ''127.0.0.1'', dc_rpc_port = 8765, dc_rpc_auth_key = [],
     dc_rpc_socket_path = socket, dc_rpc_max_message_bytes = 4194304, dc_rpc_max_inflight = 64,
     dc_rpc_timeout_seconds = 5, dc_db_path = None, dc_retention_days = 7, dc_batch_size = 500,
     dc_flush_interval = 1, dc_purge_db = False\<rparr>"

definition default_frontend :: "string \<Rightarrow> frontend_config" where
  "default_frontend secret = \<lparr>fc_host = ''127.0.0.1'', fc_port = 5555, fc_debug = True, fc_poll_interval = 2,
     fc_secret_key = secret, fc_basic_auth = None, fc_auth_provider = None, fc_auth = None,
     fc_oauth2_key = None, fc_oauth2_secret = None, fc_oauth2_redirect_uri = None,
     fc_oauth2_okta_base_url = None, fc_gitlab_allowed_groups = None, fc_gitlab_min_access_level = None,
     fc_gitlab_oauth_domain = None\<rparr>"

definition default_prometheus :: prometheus_config where
  "default_prometheus = \<lparr>pc_port = 8001, pc_prometheus_path = ''/metrics'', pc_flower_comatibility = False\<rparr>"

definition default_open_telemetry :: open_telemetry_config where
  "default_open_telemetry = \<lparr>oc_endpoint = ''http://localhost:4317'', oc_service_name = ''celery_root''\<rparr>"

definition default_mcp :: mcp_config where
  "default_mcp = \<lparr>mc_host = ''127.0.0.1'', mc_port = 5557, mc_path = ''/mcp/'', mc_auth_key = None,
     mc_readonly_db_url = None\<rparr>"

definition default_config :: "string \<Rightarrow> string \<Rightarrow> root_config" where
  "default_config socket secret = \<lparr>rt_database = default_database socket, rt_beat = None, rt_prometheus = None,
     rt_open_telemetry = None, rt_frontend = Some (default_frontend secret), rt_mcp = None,
     rt_worker_import_paths = [], rt_event_queue_maxsize = 32767, rt_integration = False\<rparr>"

section \<open>Validation\<close>

text \<open>The bounds of the fields are checked first; the field validators then change the values.\<close>

definition port_ok :: "int \<Rightarrow> bool" where
  "port_ok p = (1 \<le> p \<and> p \<le> MAX_PORT)"

definition validate_database :: "(string \<Rightarrow> string) \<Rightarrow> database_config \<Rightarrow> pyexc + database_config" where
  "validate_database expanduser c =
     (if port_ok (dc_rpc_port c) \<and> 0 < dc_rpc_max_message_bytes c \<and> 0 < dc_rpc_max_inflight c \<and>
         0 < dc_rpc_timeout_seconds c \<and> 0 < dc_retention_days c \<and> 0 < dc_batch_size c \<and> 0 < dc_flush_interval c
      then Inr (c\<lparr>dc_rpc_socket_path := expanduser (dc_rpc_socket_path c),
                  dc_db_path := map_option expanduser (dc_db_path c)\<rparr>)
      else Inl ValidationError)"

definition validate_beat :: "beat_config \<Rightarrow> pyexc + beat_config" where
  "validate_beat c = (case bc_db_refresh_seconds c of
       None \<Rightarrow> Inr c
     | Some x \<Rightarrow> (if 0 < x then Inr c else Inl ValidationError))"

definition normalize_prometheus_path :: "string \<Rightarrow> string" where
  "normalize_prometheus_path value =
     (if value = [] then ''/metrics'' else if starts_with ''/'' value then value else ''/'' @ value)"

definition validate_prometheus :: "prometheus_config \<Rightarrow> pyexc + prometheus_config" where
  "validate_prometheus c =
     (if port_ok (pc_port c)
      then Inr (c\<lparr>pc_prometheus_path := normalize_prometheus_path (pc_prometheus_path c)\<rparr>)
      else Inl ValidationError)"

definition validate_frontend :: "frontend_config \<Rightarrow> pyexc + frontend_config" where
  "validate_frontend c =
     (if port_ok (fc_port c) \<and> 0 < fc_poll_interval c \<and>
         (case fc_gitlab_min_access_level c of None \<Rightarrow> True | Some n \<Rightarrow> 1 \<le> n)
      then Inr c else Inl ValidationError)"

definition normalize_mcp_path :: "string \<Rightarrow> string" where
  "normalize_mcp_path value =
     (let cleaned = py_strip value
      in if cleaned = [] then ''/mcp/'' else if starts_with ''/'' cleaned then cleaned else ''/'' @ cleaned)"

definition validate_mcp :: "mcp_config \<Rightarrow> pyexc + mcp_config" where
  "validate_mcp c = (if port_ok (mc_port c) then Inr (c\<lparr>mc_path := normalize_mcp_path (mc_path c)\<rparr>)
     else Inl ValidationError)"

definition validate_opt :: "('a \<Rightarrow> pyexc + 'a) \<Rightarrow> 'a option \<Rightarrow> pyexc + 'a option" where
  "validate_opt f v = (case v of None \<Rightarrow> Inr None | Some x \<Rightarrow> ebind (f x) (\<lambda>y. Inr (Some y)))"

definition validate_root :: "(string \<Rightarrow> string) \<Rightarrow> root_config \<Rightarrow> pyexc + root_config" where
  "validate_root expanduser c =
     ebind (validate_database expanduser (rt_database c)) (\<lambda>db.
     ebind (validate_opt validate_beat (rt_beat c)) (\<lambda>bt.
     ebind (validate_opt validate_prometheus (rt_prometheus c)) (\<lambda>pr.
     ebind (validate_opt validate_frontend (rt_frontend c)) (\<lambda>fr.
     ebind (validate_opt validate_mcp (rt_mcp c)) (\<lambda>mc.
     if 0 < rt_event_queue_maxsize c \<and> rt_event_queue_maxsize c \<le> 32767
     then Inr (c\<lparr>rt_database := db, rt_beat := bt, rt_prometheus := pr, rt_frontend := fr, rt_mcp := mc\<rparr>)
     else Inl ValidationError)))))"

section \<open>The settings of a process\<close>

record settings_state =
  ss_cache :: "root_config option"
  ss_runtime :: "root_config option"

text \<open>\<open>made\<close> is the configuration of defaults this call would make.\<close>

definition get_settings :: "root_config \<Rightarrow> settings_state \<Rightarrow> root_config \<times> settings_state" where
  "get_settings made s = (case ss_runtime s of
       Some c \<Rightarrow> (c, s)
     | None \<Rightarrow> (case ss_cache s of
           Some c \<Rightarrow> (c, s)
         | None \<Rightarrow> (made, s\<lparr>ss_cache := Some made\<rparr>)))"

definition set_settings :: "root_config \<Rightarrow> settings_state \<Rightarrow> settings_state" where
  "set_settings c s = s\<lparr>ss_runtime := Some c\<rparr>"

definition reset_settings :: "settings_state \<Rightarrow> settings_state" where
  "reset_settings s = s\<lparr>ss_cache := None, ss_runtime := None\<rparr>"

section \<open>Optional dependencies\<close>

definition SCOPE_DEPENDENCIES :: "(string, string list) pydict" where
  "SCOPE_DEPENDENCIES =
     [(''web'', [''django'']), (''prometheus'', [''prometheus_client'']),
      (''otel'', [''opentelemetry.sdk'', ''opentelemetry.exporter.otlp'']),
      (''mcp'', [''fastmcp'', ''uvicorn'', ''django''])]"

definition require_optional_scope :: "(string \<Rightarrow> bool) \<Rightarrow> string \<Rightarrow> pyexc + unit" where
  "require_optional_scope installed scope = (case dget SCOPE_DEPENDENCIES scope of
       None \<Rightarrow> Inl (ValueError (''Unknown optional dependency scope: '' @ scope))
     | Some dependencies \<Rightarrow>
         (let missing = filter (\<lambda>n. \<not> installed n) dependencies
          in if missing = [] then Inr ()
             else Inl (RuntimeError (''Optional dependency scope '' @ [CHR 0x27] @ scope @ [CHR 0x27] @
               '' is required but not installed. Missing packages: '' @ join '', '' missing @
               ''. Install with `pip install celery_root['' @ scope @ '']`.''))))"

section \<open>Worker paths\<close>

text \<open>\<open>_parse_worker_paths\<close> of the package and of the command line.\<close>

definition parse_path_list :: "string \<Rightarrow> string list" where
  "parse_path_list raw = filter (\<lambda>p. p \<noteq> []) (map py_strip (split_on CHR '','' raw))"

definition env_worker_paths :: "string option \<Rightarrow> string list" where
  "env_worker_paths raw = (if truthy_str raw then parse_path_list (the raw) else [])"

definition cli_worker_paths :: "string list \<Rightarrow> string list" where
  "cli_worker_paths values = concat (map parse_path_list values)"

definition resolve_worker_paths :: "string list \<Rightarrow> string option \<Rightarrow> string list" where
  "resolve_worker_paths values env =
     (let paths = cli_worker_paths values
      in if paths \<noteq> [] then paths
         else if truthy_str env then cli_worker_paths [the env] else [])"

text \<open>\<open>_derive_worker_import_paths\<close>: the first occurrences of the names that can be found; how the
  module of an app is found is a parameter.\<close>

fun derive_paths :: "(app \<Rightarrow> string option) \<Rightarrow> worker_ref list \<Rightarrow> string list \<Rightarrow> string list" where
  "derive_paths resolve [] paths = paths"
| "derive_paths resolve (w # ws) paths =
     (let path = (case w of ImportPath p \<Rightarrow> Some p | Instance a \<Rightarrow> resolve a)
      in if truthy_str path \<and> the path \<notin> set paths then derive_paths resolve ws (paths @ [the path])
         else derive_paths resolve ws paths)"

definition derive_worker_import_paths :: "(app \<Rightarrow> string option) \<Rightarrow> worker_ref list \<Rightarrow> string list" where
  "derive_worker_import_paths resolve ws = derive_paths resolve ws []"

text \<open>\<open>_resolve_app_import_path\<close>: the modules named by the app first, then all loaded ones; a module
  is its name and its attributes, in which an app is found by identity.\<close>

record py_module =
  pm_name :: string
  pm_attrs :: "(string, loaded) pydict"

definition find_app_attr :: "py_module \<Rightarrow> app \<Rightarrow> string option" where
  "find_app_attr m a = map_option fst (List.find (\<lambda>(k, v). case v of AppObj b \<Rightarrow> app_id b = app_id a | OtherObj \<Rightarrow> False)
     (pm_attrs m))"

fun first_app_path :: "py_module list \<Rightarrow> app \<Rightarrow> string option" where
  "first_app_path [] a = None"
| "first_app_path (m # ms) a = (let attr = find_app_attr m a
     in if truthy_str attr then Some (pm_name m @ '':'' @ the attr) else first_app_path ms a)"

definition resolve_app_import_path :: "pyrt \<Rightarrow> (string \<Rightarrow> py_module option) \<Rightarrow> py_module list \<Rightarrow> app \<Rightarrow> string option" where
  "resolve_app_import_path rt load_module loaded_modules a =
     (let main = or_str (app_main a) [];
          conf_main = conf_text rt a ''main'';
          candidates = (if main \<noteq> [] then [main] else []) @
            (if conf_main \<noteq> [] \<and> conf_main \<noteq> main then [conf_main] else [])
      in first_app_path (List.map_filter load_module candidates @ loaded_modules) a)"

section \<open>The command line\<close>

definition apply_frontend_overrides :: "string \<Rightarrow> root_config \<Rightarrow> string option \<Rightarrow> int option \<Rightarrow> bool option \<Rightarrow> root_config" where
  "apply_frontend_overrides secret config host port debug =
     (if host = None \<and> port = None \<and> debug = None then config
      else let f = (case rt_frontend config of None \<Rightarrow> default_frontend secret | Some f \<Rightarrow> f);
               f = (case host of None \<Rightarrow> f | Some h \<Rightarrow> f\<lparr>fc_host := h\<rparr>);
               f = (case port of None \<Rightarrow> f | Some p \<Rightarrow> f\<lparr>fc_port := p\<rparr>);
               f = (case debug of None \<Rightarrow> f | Some d \<Rightarrow> f\<lparr>fc_debug := d\<rparr>)
           in config\<lparr>rt_frontend := Some f\<rparr>)"

fun unique_paths :: "string list \<Rightarrow> string list \<Rightarrow> string list" where
  "unique_paths seen [] = []"
| "unique_paths seen (p # ps) = (if p \<in> set seen then unique_paths seen ps else p # unique_paths (p # seen) ps)"

definition apply_worker_paths :: "root_config \<Rightarrow> string list \<Rightarrow> root_config" where
  "apply_worker_paths config paths =
     (if paths = [] then config else config\<lparr>rt_worker_import_paths := unique_paths [] paths\<rparr>)"

text \<open>Errors of the registry that are shown as usage errors.\<close>

definition usage_error :: "pyexc \<Rightarrow> pyexc" where
  "usage_error e = (case e of
       ImportError m \<Rightarrow> OtherError m | TypeError m \<Rightarrow> OtherError m | ValueError m \<Rightarrow> OtherError m | _ \<Rightarrow> e)"

definition load_apps :: "pyrt \<Rightarrow> beat_config option \<Rightarrow> (string \<Rightarrow> pyexc + (string, loaded) pydict) \<Rightarrow> string list \<Rightarrow>
    pyexc + app list" where
  "load_apps rt beat import_module paths =
     (if paths = [] then Inr []
      else case new_registry rt beat import_module (map ImportPath paths) of
          Inl e \<Rightarrow> Inl (usage_error e)
        | Inr apps \<Rightarrow> Inr (get_apps apps))"

text \<open>\<open>main\<close> and \<open>_run_root\<close> up to the start of the program: the apps and the configuration given to it.
  The port option is an \<open>IntRange\<close>.\<close>

definition cli_main :: "pyrt \<Rightarrow> (string \<Rightarrow> pyexc + (string, loaded) pydict) \<Rightarrow> string \<Rightarrow> root_config \<Rightarrow> string option \<Rightarrow>
    string list \<Rightarrow> string option \<Rightarrow> int option \<Rightarrow> string list \<Rightarrow> bool option \<Rightarrow> pyexc + (app list \<times> root_config)" where
  "cli_main rt import_module secret settings env apps host port workers debug =
     (if (case port of None \<Rightarrow> False | Some p \<Rightarrow> \<not> port_ok p) then Inl (OtherError ''usage'')
      else let paths = resolve_worker_paths (apps @ workers) env;
               config = apply_worker_paths (apply_frontend_overrides secret settings host port debug) paths
           in ebind (load_apps rt (rt_beat settings) import_module paths) (\<lambda>loaded_apps.
              if loaded_apps = [] then Inl (OtherError ''No Celery app configured.'')
              else Inr (loaded_apps, config)))"

section \<open>The bootstrap class\<close>

text \<open>\<open>CeleryRoot.__init__\<close>: the configuration the processes get. \<open>controller_path\<close> is the path of a
  given SQLite controller; another controller leaves the path as it is.\<close>

datatype db_controller = NoController | SqliteController "string option" | OtherController

definition ensure_worker_import_paths :: "(app \<Rightarrow> string option) \<Rightarrow> string option \<Rightarrow> root_config \<Rightarrow> worker_ref list \<Rightarrow> root_config" where
  "ensure_worker_import_paths resolve env config workers =
     (if rt_worker_import_paths config \<noteq> [] then config
      else let paths = (if env_worker_paths env = [] then derive_worker_import_paths resolve workers
                        else env_worker_paths env)
           in if paths = [] then config else config\<lparr>rt_worker_import_paths := paths\<rparr>)"

definition ensure_sqlite_db_path :: "(string \<Rightarrow> string) \<Rightarrow> db_controller \<Rightarrow> root_config \<Rightarrow> root_config" where
  "ensure_sqlite_db_path absolute controller config =
     (let set_path = (\<lambda>p. config\<lparr>rt_database := (rt_database config)\<lparr>dc_db_path := p\<rparr>\<rparr>)
      in case controller of
           SqliteController raw \<Rightarrow> set_path (map_option absolute raw)
         | OtherController \<Rightarrow> config
         | NoController \<Rightarrow> set_path (map_option absolute (dc_db_path (rt_database config))))"

definition root_init :: "(app \<Rightarrow> string option) \<Rightarrow> (string \<Rightarrow> string) \<Rightarrow> string option \<Rightarrow> root_config \<Rightarrow> worker_ref list \<Rightarrow>
    db_controller \<Rightarrow> bool option \<Rightarrow> int option \<Rightarrow> pyexc + root_config" where
  "root_init resolve absolute env config workers controller purge_db retention_days =
     (if (case retention_days of None \<Rightarrow> False | Some n \<Rightarrow> n \<le> 0)
      then Inl (ValueError ''retention_days must be positive'')
      else let db = rt_database config;
               db = (case retention_days of None \<Rightarrow> db | Some n \<Rightarrow> db\<lparr>dc_retention_days := n\<rparr>);
               db = (case purge_db of None \<Rightarrow> db | Some b \<Rightarrow> db\<lparr>dc_purge_db := b\<rparr>);
               config = ensure_worker_import_paths resolve env (config\<lparr>rt_database := db\<rparr>) workers
           in Inr (ensure_sqlite_db_path absolute controller config))"

text \<open>\<open>_purge_existing_db\<close>: what is removed, None for nothing; the file system is a parameter.\<close>

datatype path_kind = Missing | Directory | File

definition resolve_purge_path :: "db_controller \<Rightarrow> root_config \<Rightarrow> string option" where
  "resolve_purge_path controller config = (case controller of
       NoController \<Rightarrow> dc_db_path (rt_database config)
     | SqliteController raw \<Rightarrow> or_else raw (dc_db_path (rt_database config))
     | OtherController \<Rightarrow> None)"

definition purge_existing_db :: "(string \<Rightarrow> string) \<Rightarrow> (string \<Rightarrow> path_kind) \<Rightarrow> db_controller \<Rightarrow> root_config \<Rightarrow>
    pyexc + string option" where
  "purge_existing_db absolute kind_of controller config = (case resolve_purge_path controller config of
       None \<Rightarrow> Inr None
     | Some p \<Rightarrow> (case kind_of (absolute p) of
           Missing \<Rightarrow> Inr None
         | Directory \<Rightarrow> Inl (RuntimeError (''SQLite database path points to a directory: '' @ absolute p))
         | File \<Rightarrow> Inr (Some (absolute p))))"

section \<open>Properties\<close>

definition path_ok :: "string \<Rightarrow> bool" where
  "path_ok p = starts_with ''/'' p"

definition database_ok :: "database_config \<Rightarrow> bool" where
  "database_ok c = (port_ok (dc_rpc_port c) \<and> 0 < dc_rpc_max_message_bytes c \<and> 0 < dc_rpc_max_inflight c \<and>
     0 < dc_rpc_timeout_seconds c \<and> 0 < dc_retention_days c \<and> 0 < dc_batch_size c \<and> 0 < dc_flush_interval c)"

definition config_ok :: "root_config \<Rightarrow> bool" where
  "config_ok c = (database_ok (rt_database c) \<and>
     pred_option (\<lambda>b. pred_option (\<lambda>x. 0 < x) (bc_db_refresh_seconds b)) (rt_beat c) \<and>
     pred_option (\<lambda>p. port_ok (pc_port p) \<and> path_ok (pc_prometheus_path p)) (rt_prometheus c) \<and>
     pred_option (\<lambda>f. port_ok (fc_port f) \<and> 0 < fc_poll_interval f) (rt_frontend c) \<and>
     pred_option (\<lambda>m. port_ok (mc_port m) \<and> path_ok (mc_path m)) (rt_mcp c) \<and>
     0 < rt_event_queue_maxsize c \<and> rt_event_queue_maxsize c \<le> 32767)"

lemma dropWhile_id: "s \<noteq> [] \<Longrightarrow> \<not> P (hd s) \<Longrightarrow> dropWhile P s = s"
  by (cases s) auto

lemma py_strip_last: "py_strip s \<noteq> [] \<Longrightarrow> \<not> is_space (last (py_strip s))"
  by (simp add: py_strip_def rstrip_by_def last_rev hd_dropWhile)

lemma py_strip_slash:
  assumes "c \<noteq> []" and "\<not> is_space (last c)" and "hd c = CHR ''/'' "
  shows "py_strip c = c"
proof -
  have "lstrip_by is_space c = c"
    unfolding lstrip_by_def by (rule dropWhile_id) (use assms in \<open>auto simp: is_space_def\<close>)
  moreover have "rstrip_by is_space c = c"
    unfolding rstrip_by_def using assms(1,2) by (subst dropWhile_id) (auto simp: hd_rev)
  ultimately show ?thesis by (simp add: py_strip_def)
qed

lemma starts_with_slash: "starts_with ''/'' s \<longleftrightarrow> s \<noteq> [] \<and> hd s = CHR ''/''"
  by (cases s) auto

lemma normalize_mcp_path_ok: "path_ok (normalize_mcp_path v)" "normalize_mcp_path (normalize_mcp_path v) = normalize_mcp_path v"
proof -
  let ?n = "normalize_mcp_path v"
  have n: "?n \<noteq> [] \<and> hd ?n = CHR ''/'' \<and> \<not> is_space (last ?n)"
  proof (cases "py_strip v = []")
    case True
    then show ?thesis by (simp add: normalize_mcp_path_def is_space_def)
  next
    case False
    then show ?thesis using py_strip_last[of v] by (simp add: normalize_mcp_path_def starts_with_slash Let_def)
  qed
  then show "path_ok ?n" by (simp add: path_ok_def starts_with_slash)
  from n have "py_strip ?n = ?n" by (intro py_strip_slash) auto
  with n show "normalize_mcp_path ?n = ?n" by (simp add: normalize_mcp_path_def[of ?n] starts_with_slash)
qed

lemma normalize_prometheus_path_ok:
  "path_ok (normalize_prometheus_path v)"
  "normalize_prometheus_path (normalize_prometheus_path v) = normalize_prometheus_path v"
  by (auto simp: normalize_prometheus_path_def path_ok_def)

lemma validate_database_ok:
  assumes "validate_database ex c = Inr c'"
  shows "database_ok c'" and "(\<And>p. ex (ex p) = ex p) \<Longrightarrow> validate_database ex c' = Inr c'"
  using assms by (auto simp: validate_database_def database_ok_def option.map_comp comp_def split: if_splits)

lemma validate_optE:
  assumes "validate_opt f v = Inr v'"
  obtains "v = None" "v' = None" | x y where "v = Some x" "v' = Some y" "f x = Inr y"
  using assms by (cases v) (auto simp: validate_opt_def ebind_Inr_iff)

lemma validate_opt_fixed: "validate_opt f None = Inr None" "f x = Inr x \<Longrightarrow> validate_opt f (Some x) = Inr (Some x)"
  by (auto simp: validate_opt_def)

lemma validate_beat_ok: "validate_beat c = Inr c' \<Longrightarrow>
    pred_option (\<lambda>x. 0 < x) (bc_db_refresh_seconds c') \<and> validate_beat c' = Inr c'"
  by (auto simp: validate_beat_def split: option.splits if_splits)

lemma validate_prometheus_ok: "validate_prometheus c = Inr c' \<Longrightarrow>
    port_ok (pc_port c') \<and> path_ok (pc_prometheus_path c') \<and> validate_prometheus c' = Inr c'"
  by (auto simp: validate_prometheus_def normalize_prometheus_path_ok split: if_splits)

lemma validate_frontend_ok: "validate_frontend c = Inr c' \<Longrightarrow>
    port_ok (fc_port c') \<and> 0 < fc_poll_interval c' \<and> validate_frontend c' = Inr c'"
  by (auto simp: validate_frontend_def split: if_splits)

lemma validate_mcp_ok: "validate_mcp c = Inr c' \<Longrightarrow>
    port_ok (mc_port c') \<and> path_ok (mc_path c') \<and> validate_mcp c' = Inr c'"
  by (auto simp: validate_mcp_def normalize_mcp_path_ok split: if_splits)


definition sample_config :: root_config where
  "sample_config = (default_config ''/tmp/s'' ''k'')
     \<lparr>rt_mcp := Some (default_mcp\<lparr>mc_path := '' tools ''\<rparr>), rt_prometheus := Some (default_prometheus\<lparr>pc_prometheus_path := ''m''\<rparr>)\<rparr>"


end
