(* ===== verification/Process_Manager.thy ===== *)
theory Process_Manager
  imports Settings Toy_Runtime
begin

text \<open>
  The process manager (celery_root/core/process_manager.py): which processes a configuration gives,
  under which names, the order they are started in, and the supervisor that restarts and stops
  them. A process is an identity and what it runs; whether one is alive is a parameter of each step.
\<close>

section \<open>Addresses\<close>

definition url_host :: "string \<Rightarrow> string" where
  "url_host host =
     (let host = (if host \<in> {''0.0.0.0'', ''::''} then ''127.0.0.1'' else host)
      in if CHR '':'' \<in> set host \<and> \<not> starts_with ''['' host then ''['' @ host @ '']'' else host)"

definition http_url :: "string \<Rightarrow> int \<Rightarrow> string \<Rightarrow> string" where
  "http_url host port path = ''http://'' @ url_host host @ '':'' @ show_int port @ path"

definition metrics_url :: "root_config \<Rightarrow> string" where
  "metrics_url c =
     http_url (case rt_frontend c of None \<Rightarrow> ''127.0.0.1'' | Some f \<Rightarrow> fc_host f)
       (case rt_prometheus c of None \<Rightarrow> 8001 | Some p \<Rightarrow> pc_port p)
       (case rt_prometheus c of None \<Rightarrow> ''/metrics'' | Some p \<Rightarrow> pc_prometheus_path p)"

definition mcp_url :: "root_config \<Rightarrow> string" where
  "mcp_url c =
     (let path = (case rt_mcp c of None \<Rightarrow> ''/mcp/'' | Some m \<Rightarrow> (if mc_path m = [] then ''/mcp/'' else mc_path m));
          path = (if starts_with ''/'' path then path else ''/'' @ path);
          path = (if path \<noteq> ''/'' \<and> \<not> ends_with ''/'' path then path @ ''/'' else path)
      in http_url (case rt_mcp c of None \<Rightarrow> ''127.0.0.1'' | Some m \<Rightarrow> mc_host m)
           (case rt_mcp c of None \<Rightarrow> 5557 | Some m \<Rightarrow> mc_port m) path)"

section \<open>The processes of a configuration\<close>

text \<open>A listener is given the number of metrics queues it feeds; an exporter the backend of each broker.\<close>

datatype process_spec =
    DbManagerProc
  | PrometheusProc string "(string, string) pydict"
  | OtelProc "(string, string) pydict"
  | ListenerProc string nat
  | ReconcilerProc
  | BeatProc string
  | WebProc string int
  | McpProc string int

definition display_url :: "string \<Rightarrow> string" where
  "display_url broker_url =
     (let r = redact_text broker_url; redacted = (if r = [] then broker_url else r)
      in if redacted = [] then ''default'' else redacted)"

text \<open>The backend label of a broker: its one result backend, redacted, or \<open>multiple\<close>.\<close>

definition backend_label :: "pyrt \<Rightarrow> broker_group \<Rightarrow> string" where
  "backend_label rt g =
     (case remdups (map (\<lambda>a. conf_text rt a ''result_backend'') (bg_apps g)) of
        [b] \<Rightarrow> (if b = [] \<or> b = ''multiple'' then b else let r = redact_text b in if r = [] then b else r)
      | _ \<Rightarrow> ''multiple'')"

definition backend_map :: "pyrt \<Rightarrow> (string, broker_group) pydict \<Rightarrow> (string, string) pydict" where
  "backend_map rt groups = fold (\<lambda>(url, g). dset
     (let r = redact_text url in if r = [] then url else r) (backend_label rt g)) groups []"

fun add_listeners :: "nat \<Rightarrow> string list \<Rightarrow> (string, nat) pydict \<Rightarrow> (string, process_spec) pydict \<Rightarrow>
    (string, process_spec) pydict" where
  "add_listeners queues [] counts procs = procs"
| "add_listeners queues (url # urls) counts procs =
     (let display = display_url url;
          count = dget_or counts display 0 + 1;
          suffix = (if 1 < count then ''#'' @ show_nat count else [])
      in add_listeners queues urls (dset display count counts)
           (dset (''event_listener:'' @ display @ suffix) (ListenerProc url queues) procs))"

definition add_beat :: "string \<Rightarrow> (string, process_spec) pydict \<Rightarrow> (string, process_spec) pydict" where
  "add_beat path procs = (let cleaned = py_strip path in
     if cleaned = [] then procs else dset (''beat:'' @ cleaned) (BeatProc cleaned) procs)"

text \<open>\<open>_build_processes\<close>: an optional part adds its processes when its packages are installed, and ends
  the start with an exception when they are not.\<close>

definition with_scope :: "(string \<Rightarrow> bool) \<Rightarrow> string \<Rightarrow> bool \<Rightarrow> ((string, process_spec) pydict \<Rightarrow> (string, process_spec) pydict) \<Rightarrow>
    (string, process_spec) pydict \<Rightarrow> pyexc + (string, process_spec) pydict" where
  "with_scope installed scope wanted f procs =
     (if wanted then ebind (require_optional_scope installed scope) (\<lambda>_. Inr (f procs)) else Inr procs)"

definition build_processes :: "pyrt \<Rightarrow> (string \<Rightarrow> bool) \<Rightarrow> root_config \<Rightarrow> (string, broker_group) pydict \<Rightarrow>
    pyexc + (string, process_spec) pydict" where
  "build_processes rt installed c groups =
     (let queues = (if rt_prometheus c = None then 0 else 1) + (if rt_open_telemetry c = None then 0 else 1)
      in ebind (with_scope installed ''prometheus'' (rt_prometheus c \<noteq> None)
           (dset ''prometheus'' (PrometheusProc (metrics_url c) (backend_map rt groups)))
           (dset ''db_manager'' DbManagerProc [])) (\<lambda>procs.
         ebind (with_scope installed ''otel'' (rt_open_telemetry c \<noteq> None)
           (dset ''otel'' (OtelProc (backend_map rt groups))) procs) (\<lambda>procs.
         let procs = dset ''reconciler'' ReconcilerProc (add_listeners queues (dkeys groups) [] procs);
             procs = (if rt_beat c = None then procs else fold add_beat (rt_worker_import_paths c) procs)
         in ebind (with_scope installed ''web'' (rt_frontend c \<noteq> None)
              (case rt_frontend c of None \<Rightarrow> id | Some f \<Rightarrow> dset ''web'' (WebProc (fc_host f) (fc_port f))) procs) (\<lambda>procs.
            with_scope installed ''mcp'' (rt_mcp c \<noteq> None)
              (case rt_mcp c of None \<Rightarrow> id | Some m \<Rightarrow> dset ''mcp'' (McpProc (mc_host m) (mc_port m))) procs))))"

section \<open>The supervisor\<close>

record process =
  pr_id :: nat
  pr_spec :: process_spec

record supervisor =
  sv_factories :: "(string, process_spec) pydict"
  sv_processes :: "(string, process) pydict"
  sv_stopping :: bool
  sv_next_id :: nat
  sv_started :: "string list"

definition new_supervisor :: supervisor where
  "new_supervisor = \<lparr>sv_factories = [], sv_processes = [], sv_stopping = False, sv_next_id = 0, sv_started = []\<rparr>"

text \<open>Calling a factory, putting the process under its name and starting it.\<close>

definition launch :: "string \<Rightarrow> process_spec \<Rightarrow> supervisor \<Rightarrow> supervisor" where
  "launch name spec s = s\<lparr>sv_processes := dset name \<lparr>pr_id = sv_next_id s, pr_spec = spec\<rparr> (sv_processes s),
     sv_next_id := sv_next_id s + 1, sv_started := sv_started s @ [name]\<rparr>"

text \<open>\<open>_wait_for_db_socket\<close>: each round sees the clock, the socket and the process.\<close>

datatype db_wait = Ready | Died | TimedOut

fun wait_for_db_socket :: "rat \<Rightarrow> (rat \<times> bool \<times> bool) list \<Rightarrow> db_wait" where
  "wait_for_db_socket deadline [] = TimedOut"
| "wait_for_db_socket deadline ((now, socket_exists, alive) # rounds) =
     (if deadline \<le> now then TimedOut
      else if socket_exists then Ready
      else if \<not> alive then Died
      else wait_for_db_socket deadline rounds)"

definition start_processes :: "(string, process_spec) pydict \<Rightarrow> supervisor \<Rightarrow> supervisor" where
  "start_processes factories s =
     (let s = s\<lparr>sv_factories := factories\<rparr>;
          s = (case dget factories ''db_manager'' of None \<Rightarrow> s | Some spec \<Rightarrow> launch ''db_manager'' spec s)
      in fold (\<lambda>(name, spec) s. if name = ''db_manager'' then s else launch name spec s) factories s)"

definition start :: "pyrt \<Rightarrow> (string \<Rightarrow> bool) \<Rightarrow> root_config \<Rightarrow> (string, broker_group) pydict \<Rightarrow> supervisor \<Rightarrow> pyexc + supervisor" where
  "start rt installed c groups s =
     ebind (build_processes rt installed c groups) (\<lambda>factories. Inr (start_processes factories s))"

text \<open>\<open>_monitor\<close>: one pass over a copy of the processes.\<close>

definition check_process :: "(nat \<Rightarrow> bool) \<Rightarrow> string \<times> process \<Rightarrow> supervisor \<Rightarrow> supervisor" where
  "check_process alive np s =
     (if alive (pr_id (snd np)) \<or> sv_stopping s then s
      else case dget (sv_factories s) (fst np) of None \<Rightarrow> s | Some spec \<Rightarrow> launch (fst np) spec s)"

definition monitor :: "(nat \<Rightarrow> bool) \<Rightarrow> supervisor \<Rightarrow> supervisor" where
  "monitor alive s = fold (check_process alive) (sv_processes s) s"

text \<open>\<open>stop\<close>: the calls made; \<open>ends\<close> and \<open>ends_on_kill\<close> say which processes end within the timeouts.\<close>

datatype stop_call = SignalStop string | Join string | Terminate string

definition stop :: "(nat \<Rightarrow> bool) \<Rightarrow> supervisor \<Rightarrow> supervisor \<times> stop_call list" where
  "stop ends s = (s\<lparr>sv_stopping := True\<rparr>,
     map (\<lambda>(n, p). SignalStop n) (sv_processes s) @
     concat (map (\<lambda>(n, p). if ends (pr_id p) then [Join n] else [Join n, Terminate n, Join n]) (sv_processes s)))"

text \<open>The supervisor loop: a pass for every view of the processes until it is told to stop.\<close>

datatype supervisor_event = Pass "nat \<Rightarrow> bool" | Interrupt "nat \<Rightarrow> bool"

fun supervise :: "supervisor_event list \<Rightarrow> supervisor \<Rightarrow> supervisor" where
  "supervise [] s = s"
| "supervise (Pass alive # es) s = (if sv_stopping s then s else supervise es (monitor alive s))"
| "supervise (Interrupt ends # es) s = (if sv_stopping s then s else fst (stop ends s))"

section \<open>Facts about the processes\<close>

lemma add_listeners_ok: "dict_ok procs \<Longrightarrow> dict_ok (add_listeners q urls counts procs)"
  by (induction q urls counts procs rule: add_listeners.induct) (simp_all add: Let_def)

lemma add_listeners_keeps: "fst ` set procs \<subseteq> fst ` set (add_listeners q urls counts procs)"
  by (induction q urls counts procs rule: add_listeners.induct) (auto simp: Let_def)

lemma add_beat_ok: "dict_ok procs \<Longrightarrow> dict_ok (fold add_beat paths procs)"
  by (rule fold_invariant) (auto simp: add_beat_def Let_def)

lemma add_beat_keeps: "n \<in> fst ` set procs \<Longrightarrow> n \<in> fst ` set (fold add_beat paths procs)"
  by (rule fold_invariant) (auto simp: add_beat_def Let_def)

lemma with_scope_Inr: "with_scope installed scope wanted f procs = Inr procs' \<Longrightarrow> procs' = (if wanted then f procs else procs)"
  by (auto simp: with_scope_def ebind_Inr_iff split: if_splits)

definition exporter_procs :: "pyrt \<Rightarrow> root_config \<Rightarrow> (string, broker_group) pydict \<Rightarrow> (string, process_spec) pydict" where
  "exporter_procs rt c groups =
     (let p1 = (if rt_prometheus c \<noteq> None then dset ''prometheus'' (PrometheusProc (metrics_url c) (backend_map rt groups))
          (dset ''db_manager'' DbManagerProc []) else dset ''db_manager'' DbManagerProc [])
      in if rt_open_telemetry c \<noteq> None then dset ''otel'' (OtelProc (backend_map rt groups)) p1 else p1)"

definition beat_procs :: "pyrt \<Rightarrow> root_config \<Rightarrow> nat \<Rightarrow> (string, broker_group) pydict \<Rightarrow> (string, process_spec) pydict" where
  "beat_procs rt c queues groups =
     (let ps = dset ''reconciler'' ReconcilerProc (add_listeners queues (dkeys groups) [] (exporter_procs rt c groups))
      in if rt_beat c = None then ps else fold add_beat (rt_worker_import_paths c) ps)"

lemma build_processes_shape:
  assumes "build_processes rt installed c groups = Inr procs"
  shows "\<exists>queues. procs = (let ps = (case rt_frontend c of None \<Rightarrow> id | Some f \<Rightarrow> dset ''web'' (WebProc (fc_host f) (fc_port f)))
       (beat_procs rt c queues groups)
     in (case rt_mcp c of None \<Rightarrow> id | Some m \<Rightarrow> dset ''mcp'' (McpProc (mc_host m) (mc_port m))) ps)"
proof -
  define queues :: nat where "queues = (if rt_prometheus c = None then 0 else 1) + (if rt_open_telemetry c = None then 0 else 1)"
  have "procs = (let ps = (if rt_frontend c \<noteq> None then (case rt_frontend c of None \<Rightarrow> id
         | Some f \<Rightarrow> dset ''web'' (WebProc (fc_host f) (fc_port f))) (beat_procs rt c queues groups) else beat_procs rt c queues groups)
     in if rt_mcp c \<noteq> None then (case rt_mcp c of None \<Rightarrow> id | Some m \<Rightarrow> dset ''mcp'' (McpProc (mc_host m) (mc_port m))) ps else ps)"
    using assms unfolding build_processes_def Let_def queues_def[symmetric] ebind_Inr_iff
    by (elim exE conjE) (drule with_scope_Inr, drule with_scope_Inr, drule with_scope_Inr, drule with_scope_Inr,
      simp add: beat_procs_def exporter_procs_def Let_def)
  then show ?thesis by (intro exI[of _ queues]) (simp add: Let_def split: option.split)
qed

lemma build_processes_facts:
  assumes "build_processes rt installed c groups = Inr procs"
  shows "dict_ok procs \<and> ''db_manager'' \<in> fst ` set procs"
proof -
  define good where "good = (\<lambda>ps :: (string, process_spec) pydict. dict_ok ps \<and> ''db_manager'' \<in> fst ` set ps)"
  have step: "good ps \<Longrightarrow> good (dset n v ps)" for n v ps by (simp add: good_def)
  have "good (exporter_procs rt c groups)" by (auto simp: good_def exporter_procs_def dict_ok_def Let_def)
  then have "good (add_listeners queues (dkeys groups) [] (exporter_procs rt c groups))" for queues
    using add_listeners_ok subsetD[OF add_listeners_keeps] unfolding good_def by blast
  then have "good (beat_procs rt c queues groups)" for queues
    using step unfolding beat_procs_def Let_def good_def by (auto simp: add_beat_ok add_beat_keeps)
  with build_processes_shape[OF assms] have "good procs"
    by (auto simp: Let_def intro!: step split: option.split)
  then show ?thesis by (simp add: good_def)
qed

text \<open>The invariant of the supervisor; every process runs what the factory of its name makes, no
  identity is used twice, and the database manager was started before anything else.\<close>

definition running_ok :: "supervisor \<Rightarrow> bool" where
  "running_ok s \<longleftrightarrow> dict_ok (sv_processes s) \<and> length (sv_started s) = sv_next_id s \<and>
     (sv_started s = [] \<or> hd (sv_started s) = ''db_manager'') \<and>
     (\<forall>n p. dget (sv_processes s) n = Some p \<longrightarrow> dget (sv_factories s) n = Some (pr_spec p) \<and> pr_id p < sv_next_id s) \<and>
     (\<forall>n m p q. dget (sv_processes s) n = Some p \<longrightarrow> dget (sv_processes s) m = Some q \<longrightarrow> pr_id p = pr_id q \<longrightarrow> n = m)"

definition supervisor_ok :: "supervisor \<Rightarrow> bool" where
  "supervisor_ok s \<longleftrightarrow> running_ok s \<and> sv_started s \<noteq> [] \<and>
     fst ` set (sv_processes s) = fst ` set (sv_factories s)"

lemma launch_simps [simp]:
  "sv_factories (launch n spec s) = sv_factories s" "sv_stopping (launch n spec s) = sv_stopping s"
  "sv_next_id (launch n spec s) = sv_next_id s + 1" "sv_started (launch n spec s) = sv_started s @ [n]"
  "sv_processes (launch n spec s) = dset n \<lparr>pr_id = sv_next_id s, pr_spec = spec\<rparr> (sv_processes s)"
  by (simp_all add: launch_def)

lemma launch_running_ok:
  assumes "running_ok s" and "dget (sv_factories s) n = Some spec" and "sv_started s = [] \<Longrightarrow> n = ''db_manager''"
  shows "running_ok (launch n spec s)"
proof -
  have old: "pr_id p < sv_next_id s" if "dget (sv_processes s) m = Some p" for m p
    using assms(1) that unfolding running_ok_def by blast
  have fresh: "pr_id p = pr_id q \<Longrightarrow> m = k"
    if "dget (sv_processes (launch n spec s)) m = Some p" "dget (sv_processes (launch n spec s)) k = Some q" for m k p q
    using that old assms(1) unfolding running_ok_def by (auto split: if_splits dest: old)
  have known: "dget (sv_factories s) m = Some (pr_spec p) \<and> pr_id p < sv_next_id s + 1"
    if "dget (sv_processes (launch n spec s)) m = Some p" for m p
    using that assms(1,2) old unfolding running_ok_def by (auto split: if_splits dest: less_SucI)
  have first: "hd (sv_started s @ [n]) = ''db_manager''"
    using assms(1,3) unfolding running_ok_def by (cases "sv_started s") simp_all
  have sizes: "dict_ok (sv_processes s)" "length (sv_started s) = sv_next_id s"
    using assms(1) by (simp_all add: running_ok_def)
  show ?thesis unfolding running_ok_def
  proof (intro conjI allI impI)
    show "dict_ok (sv_processes (launch n spec s))" using sizes by simp
    show "length (sv_started (launch n spec s)) = sv_next_id (launch n spec s)" using sizes by simp
    show "sv_started (launch n spec s) = [] \<or> hd (sv_started (launch n spec s)) = ''db_manager''" using first by simp
  next
    fix m p assume p: "dget (sv_processes (launch n spec s)) m = Some p"
    show "dget (sv_factories (launch n spec s)) m = Some (pr_spec p)" using known[OF p] by simp
    show "pr_id p < sv_next_id (launch n spec s)" using known[OF p] by simp
  next
    fix m k p q
    assume "dget (sv_processes (launch n spec s)) m = Some p" "dget (sv_processes (launch n spec s)) k = Some q" "pr_id p = pr_id q"
    then show "m = k" by (rule fresh)
  qed
qed

lemma keys_dget: "n \<in> fst ` set d \<longleftrightarrow> dget d n \<noteq> None"
  by (simp add: dom_map_of_conv_image_fst[symmetric] domIff)

lemma launch_all_ok:
  assumes "running_ok s" and "sv_started s \<noteq> []" and "\<And>n spec. (n, spec) \<in> set ps \<Longrightarrow> dget (sv_factories s) n = Some spec"
  shows "let s' = fold (\<lambda>(n, spec) s. if n = ''db_manager'' then s else launch n spec s) ps s
    in running_ok s' \<and> sv_started s' \<noteq> [] \<and> sv_factories s' = sv_factories s \<and> sv_stopping s' = sv_stopping s \<and>
       fst ` set (sv_processes s') = fst ` set (sv_processes s) \<union> (fst ` set ps - {''db_manager''})"
  using assms
proof (induction ps arbitrary: s)
  case (Cons np ps)
  obtain n spec where np: "np = (n, spec)" by fastforce
  show ?case
  proof (cases "n = ''db_manager''")
    case True
    then show ?thesis using Cons.IH[OF Cons.prems(1,2)] Cons.prems(3) by (auto simp: np Let_def)
  next
    case False
    have "running_ok (launch n spec s)"
      using Cons.prems by (intro launch_running_ok) (auto simp: np)
    then show ?thesis using Cons.IH[of "launch n spec s"] Cons.prems False by (auto simp: np Let_def)
  qed
qed (simp add: Let_def)

lemma start_supervisor_ok:
  assumes "start rt installed c groups new_supervisor = Inr s"
  shows "supervisor_ok s \<and> \<not> sv_stopping s"
proof -
  from assms obtain procs where procs: "build_processes rt installed c groups = Inr procs"
    and s: "s = start_processes procs new_supervisor" by (auto simp: start_def ebind_Inr_iff)
  note facts = build_processes_facts[OF procs]
  then obtain spec where spec: "dget procs ''db_manager'' = Some spec" by (auto simp: keys_dget)
  let ?s0 = "launch ''db_manager'' spec (new_supervisor\<lparr>sv_factories := procs\<rparr>)"
  have "running_ok (new_supervisor\<lparr>sv_factories := procs\<rparr>)" by (simp add: running_ok_def new_supervisor_def)
  then have "running_ok ?s0" by (rule launch_running_ok) (simp_all add: spec)
  moreover have "dget (sv_factories ?s0) n = Some sp" if "(n, sp) \<in> set procs" for n sp
    using that facts by (simp add: dict_ok_def)
  moreover have "sv_started ?s0 \<noteq> []" by simp
  ultimately have run: "let s' = fold (\<lambda>(n, spec) s. if n = ''db_manager'' then s else launch n spec s) procs ?s0
    in running_ok s' \<and> sv_started s' \<noteq> [] \<and> sv_factories s' = sv_factories ?s0 \<and> sv_stopping s' = sv_stopping ?s0 \<and>
       fst ` set (sv_processes s') = fst ` set (sv_processes ?s0) \<union> (fst ` set procs - {''db_manager''})"
    by (intro launch_all_ok)
  have "s = fold (\<lambda>(n, spec) s. if n = ''db_manager'' then s else launch n spec s) procs ?s0"
    by (simp add: s start_processes_def spec)
  with run facts show ?thesis by (auto simp: supervisor_ok_def Let_def new_supervisor_def)
qed

text \<open>One pass: what becomes of the process of every name.\<close>

lemma check_process_simps [simp]:
  "sv_factories (check_process alive np s) = sv_factories s" "sv_stopping (check_process alive np s) = sv_stopping s"
  "sv_next_id s \<le> sv_next_id (check_process alive np s)"
  by (auto simp: check_process_def split: option.split)

lemma check_fold_other: "n \<notin> fst ` set ps \<Longrightarrow> dget (sv_processes (fold (check_process alive) ps s)) n = dget (sv_processes s) n"
  by (induction ps arbitrary: s) (auto simp: check_process_def split: option.splits)

lemma check_fold_fixed: "sv_factories (fold (check_process alive) ps s) = sv_factories s"
  "sv_stopping (fold (check_process alive) ps s) = sv_stopping s" "sv_next_id s \<le> sv_next_id (fold (check_process alive) ps s)"
  by (induction ps arbitrary: s) (auto intro: le_trans[OF check_process_simps(3)])

lemma check_fold_at:
  assumes "distinct (map fst ps)" and "(n, p) \<in> set ps" and "dget (sv_processes s) n = Some p"
    and "dget (sv_factories s) n = Some spec"
  shows "\<exists>q. dget (sv_processes (fold (check_process alive) ps s)) n = Some q \<and>
    (if alive (pr_id p) \<or> sv_stopping s then q = p else pr_spec q = spec \<and> sv_next_id s \<le> pr_id q)"
  using assms
proof (induction ps arbitrary: s)
  case (Cons np ps)
  show ?case
  proof (cases "np = (n, p)")
    case True
    then have "n \<notin> fst ` set ps" using Cons.prems(1) by simp
    then have "dget (sv_processes (fold (check_process alive) (np # ps) s)) n = dget (sv_processes (check_process alive (n, p) s)) n"
      using True by (simp add: check_fold_other)
    moreover have "\<exists>q. dget (sv_processes (check_process alive (n, p) s)) n = Some q \<and>
        (if alive (pr_id p) \<or> sv_stopping s then q = p else pr_spec q = spec \<and> sv_next_id s \<le> pr_id q)"
      using Cons.prems(3,4) by (simp add: check_process_def)
    ultimately show ?thesis by simp
  next
    case False
    then have in_ps: "(n, p) \<in> set ps" using Cons.prems(2) by auto
    then have "n \<in> fst ` set ps" by force
    then have "fst np \<noteq> n" using Cons.prems(1) by auto
    then have "dget (sv_processes (check_process alive np s)) n = Some p"
      using Cons.prems(3) by (auto simp: check_process_def split: option.split)
    with Cons.IH[OF _ in_ps this] Cons.prems(1,4) obtain q where
      q: "dget (sv_processes (fold (check_process alive) ps (check_process alive np s))) n = Some q"
      "if alive (pr_id p) \<or> sv_stopping s then q = p
       else pr_spec q = spec \<and> sv_next_id (check_process alive np s) \<le> pr_id q" by auto
    have "sv_next_id s \<le> pr_id q" if "sv_next_id (check_process alive np s) \<le> pr_id q"
      using check_process_simps(3) that by (rule le_trans)
    with q show ?thesis by (auto split: if_splits)
  qed
qed simp

lemma check_process_ok: "supervisor_ok s \<Longrightarrow> supervisor_ok (check_process alive np s)"
proof (cases "alive (pr_id (snd np)) \<or> sv_stopping s")
  case False
  assume s: "supervisor_ok s"
  show ?thesis
  proof (cases "dget (sv_factories s) (fst np)")
    case (Some spec)
    then have "running_ok (launch (fst np) spec s)"
      using s by (intro launch_running_ok) (simp_all add: supervisor_ok_def)
    moreover have "fst np \<in> fst ` set (sv_factories s)" by (simp only: keys_dget) (simp add: Some)
    ultimately have "supervisor_ok (launch (fst np) spec s)" using s by (simp add: supervisor_ok_def insert_absorb)
    with False Some show ?thesis by (simp add: check_process_def)
  qed (use s False in \<open>simp add: check_process_def\<close>)
qed (simp add: check_process_def)

lemma monitor_ok: "supervisor_ok s \<Longrightarrow> supervisor_ok (monitor alive s)"
  unfolding monitor_def by (rule fold_invariant) (simp_all add: check_process_ok)

lemma supervise_ok: "supervisor_ok s \<Longrightarrow> supervisor_ok (supervise es s)"
proof (induction es s rule: supervise.induct)
  case (3 ends es s)
  have "supervisor_ok (fst (stop ends s)) = supervisor_ok s" by (simp add: stop_def supervisor_ok_def running_ok_def)
  with 3 show ?case by simp
qed (simp_all add: monitor_ok)

text \<open>C9: However a started program runs, passes over its processes with any of them dead and an
  interrupt included, every configured name has exactly one process, it runs what was configured
  for that name, no two processes are the same, and the database manager was started first.\<close>

theorem supervision_ok:
  assumes "start rt installed c groups new_supervisor = Inr s"
  shows "supervisor_ok (supervise es s)"
  using start_supervisor_ok[OF assms] by (simp add: supervise_ok)

text \<open>C24: A process found dead is replaced in the same pass by a new process that runs the same, and one
  found alive is left alone; once the program is stopping nothing is started any more.\<close>

theorem pass_restarts_dead:
  assumes "supervisor_ok s" and "dget (sv_processes s) n = Some p"
  shows "\<exists>q. dget (sv_processes (monitor alive s)) n = Some q \<and> pr_spec q = pr_spec p \<and>
    (if alive (pr_id p) \<or> sv_stopping s then q = p else sv_next_id s \<le> pr_id q)"
proof -
  have "(n, p) \<in> set (sv_processes s)" using assms(2) by (rule map_of_SomeD)
  moreover have "distinct (map fst (sv_processes s))" "dget (sv_factories s) n = Some (pr_spec p)"
    using assms by (auto simp: supervisor_ok_def running_ok_def dict_ok_def)
  ultimately show ?thesis using check_fold_at[of "sv_processes s" n p s "pr_spec p" alive] assms(2)
    by (auto simp: monitor_def split: if_splits)
qed

definition sample_root :: root_config where
  "sample_root = (default_config ''/tmp/s'' ''k'')
     \<lparr>rt_beat := Some \<lparr>bc_db_refresh_seconds = None\<rparr>, rt_prometheus := Some (default_prometheus\<lparr>pc_port := 80\<rparr>),
      rt_worker_import_paths := ['' demo.app '', '' '']\<rparr>"

definition sample_groups :: "(string, broker_group) pydict" where
  "sample_groups = [(''amqp://u:p@h'', \<lparr>bg_broker_url = ''amqp://u:p@h'', bg_apps = []\<rparr>),
     (''amqp://u:q@h'', \<lparr>bg_broker_url = ''amqp://u:q@h'', bg_apps = []\<rparr>)]"

definition sample_supervisor :: supervisor where
  "sample_supervisor = projr (start toy_rt (\<lambda>_. True) sample_root sample_groups new_supervisor)"

lemma sample_start: "start toy_rt (\<lambda>_. True) sample_root sample_groups new_supervisor = Inr sample_supervisor"
  by code_simp

lemma supervision_ok_witness:
  "supervisor_ok (supervise [Pass (\<lambda>i. i \<noteq> 3), Interrupt (\<lambda>i. True), Pass (\<lambda>i. False)] sample_supervisor) \<and>
   sv_started (supervise [Pass (\<lambda>i. i \<noteq> 3), Interrupt (\<lambda>i. True), Pass (\<lambda>i. False)] sample_supervisor) =
     [''db_manager'', ''prometheus'', ''event_listener:amqp://u:***@h'', ''event_listener:amqp://u:***@h#2'', ''reconciler'',
      ''beat:demo.app'', ''web'', ''event_listener:amqp://u:***@h#2'']"
proof
  show "supervisor_ok (supervise [Pass (\<lambda>i. i \<noteq> 3), Interrupt (\<lambda>i. True), Pass (\<lambda>i. False)] sample_supervisor)"
    by (rule supervision_ok[OF sample_start])
  show "sv_started (supervise [Pass (\<lambda>i. i \<noteq> 3), Interrupt (\<lambda>i. True), Pass (\<lambda>i. False)] sample_supervisor) =
     [''db_manager'', ''prometheus'', ''event_listener:amqp://u:***@h'', ''event_listener:amqp://u:***@h#2'', ''reconciler'',
      ''beat:demo.app'', ''web'', ''event_listener:amqp://u:***@h#2'']" by code_simp
qed

lemma pass_restarts_dead_witness:
  "\<exists>q. dget (sv_processes (monitor (\<lambda>i. i \<noteq> 4) sample_supervisor)) ''reconciler'' = Some q \<and>
    pr_spec q = ReconcilerProc \<and> 7 \<le> pr_id q"
proof -
  have ok: "supervisor_ok sample_supervisor" using start_supervisor_ok[OF sample_start] by blast
  have p: "dget (sv_processes sample_supervisor) ''reconciler'' = Some \<lparr>pr_id = 4, pr_spec = ReconcilerProc\<rparr>"
    by code_simp
  have "\<not> sv_stopping sample_supervisor" "sv_next_id sample_supervisor = 7" by code_simp+
  with pass_restarts_dead[OF ok p, of "\<lambda>i. i \<noteq> 4"] show ?thesis by auto
qed

section \<open>Names of listeners\<close>

definition listener_name :: "string \<Rightarrow> nat \<Rightarrow> string" where
  "listener_name display k = ''event_listener:'' @ display @ (if 1 < k then ''#'' @ show_nat k else [])"

lemma show_nat_inj: "show_nat m = show_nat n \<Longrightarrow> m = n"
proof (induction m arbitrary: n rule: less_induct)
  case (less m)
  have digit: "of_char (char_of (k + 48) :: char) = k + 48" if "k < 10" for k :: nat
    using that by (simp add: of_char_of)
  have inj: "j = k" if "char_of (j + 48) = (char_of (k + 48) :: char)" "j < 10" "k < 10" for j k :: nat
    using that digit by (metis add_right_cancel)
  have ne: "show_nat k \<noteq> []" "[] \<noteq> show_nat k" for k by (subst show_nat.simps, simp)+
  show ?case
  proof (cases "m < 10")
    case True
    then have "show_nat m = [char_of (m + 48)]" by (subst show_nat.simps) simp
    with less.prems True show ?thesis
      by (cases "n < 10") (auto simp: show_nat.simps[of n] ne dest: inj)
  next
    case False
    then have m: "show_nat m = show_nat (m div 10) @ [char_of (m mod 10 + 48)]" by (subst show_nat.simps) simp
    show ?thesis
    proof (cases "n < 10")
      case True
      then show ?thesis using less.prems m ne by (auto simp: show_nat.simps[of n])
    next
      case n: False
      then have "show_nat n = show_nat (n div 10) @ [char_of (n mod 10 + 48)]" by (subst show_nat.simps) simp
      with less.prems m have "show_nat (m div 10) = show_nat (n div 10)" "char_of (m mod 10 + 48) = (char_of (n mod 10 + 48) :: char)"
        by auto
      with less.IH[of "m div 10" "n div 10"] False inj[of "m mod 10" "n mod 10"] have "m div 10 = n div 10" "m mod 10 = n mod 10" by auto
      then show ?thesis by (metis div_mult_mod_eq)
    qed
  qed
qed

lemma listener_name_inj:
  assumes "listener_name d k = listener_name e l" and "CHR ''#'' \<notin> set d" and "CHR ''#'' \<notin> set e" and "1 \<le> k" and "1 \<le> l"
  shows "d = e \<and> k = l"
proof -
  have eq: "d @ (if 1 < k then ''#'' @ show_nat k else []) = e @ (if 1 < l then ''#'' @ show_nat l else [])"
    using assms(1) by (simp add: listener_name_def)
  have before: "before CHR ''#'' (d @ (if 1 < k then ''#'' @ show_nat k else [])) = d" if "CHR ''#'' \<notin> set d" for d k
    using that before_append[OF that, of "show_nat k"] by (auto simp: before_def takeWhile_eq_all_conv)
  have "d = e" using arg_cong[OF eq, of "before CHR ''#''"] before[OF assms(2), of k] before[OF assms(3), of l]
    by (simp only:)
  with eq assms(4,5) show ?thesis by (auto split: if_splits dest: show_nat_inj)
qed

text \<open>What has a listener so far, with the number its name carries.\<close>

lemma listener_step:
  "add_listeners q (url # urls) counts procs =
     add_listeners q urls (dset (display_url url) (dget_or counts (display_url url) 0 + 1) counts)
       (dset (listener_name (display_url url) (dget_or counts (display_url url) 0 + 1)) (ListenerProc url q) procs)"
  by (simp add: Let_def listener_name_def)

lemma add_listeners_complete:
  assumes "\<forall>url \<in> set urls. CHR ''#'' \<notin> set (display_url url)"
    and "\<forall>url \<in> set done. CHR ''#'' \<notin> set (display_url url) \<and> (\<exists>k \<ge> 1. k \<le> dget_or counts (display_url url) 0 \<and>
      dget procs (listener_name (display_url url) k) = Some (ListenerProc url q))"
  shows "\<forall>url \<in> set done \<union> set urls. \<exists>k. dget (add_listeners q urls counts procs) (listener_name (display_url url) k) = Some (ListenerProc url q)"
  using assms
proof (induction urls arbitrary: "done" counts procs)
  case (Cons url urls)
  let ?d = "display_url url"
  let ?n = "dget_or counts ?d 0 + 1"
  have "\<forall>u \<in> set (url # done). CHR ''#'' \<notin> set (display_url u) \<and> (\<exists>k \<ge> 1. k \<le> dget_or (dset ?d ?n counts) (display_url u) 0 \<and>
      dget (dset (listener_name ?d ?n) (ListenerProc url q) procs) (listener_name (display_url u) k) = Some (ListenerProc u q))"
  proof
    fix u assume u: "u \<in> set (url # done)"
    show "CHR ''#'' \<notin> set (display_url u) \<and> (\<exists>k \<ge> 1. k \<le> dget_or (dset ?d ?n counts) (display_url u) 0 \<and>
      dget (dset (listener_name ?d ?n) (ListenerProc url q) procs) (listener_name (display_url u) k) = Some (ListenerProc u q))"
    proof (cases "u = url")
      case True
      then show ?thesis using Cons.prems(1) by (auto simp: dget_or_dset intro!: exI[of _ ?n])
    next
      case False
      with u Cons.prems(2) obtain k where k: "1 \<le> k" "k \<le> dget_or counts (display_url u) 0" "CHR ''#'' \<notin> set (display_url u)"
        "dget procs (listener_name (display_url u) k) = Some (ListenerProc u q)" by auto
      have "listener_name (display_url u) k \<noteq> listener_name ?d ?n"
        using listener_name_inj[of "display_url u" k ?d ?n] k(1-3) Cons.prems(1) by auto
      with k show ?thesis by (auto simp: dget_or_dset intro!: exI[of _ k])
    qed
  qed
  from Cons.IH[OF _ this] Cons.prems(1) show ?case by (auto simp: listener_step simp del: add_listeners.simps(2))
qed auto

lemma listener_kept_beat: "dget (fold add_beat paths procs) (''event_listener:'' @ x) = dget procs (''event_listener:'' @ x)"
  by (rule fold_invariant[where P = "\<lambda>ps. dget ps (''event_listener:'' @ x) = dget procs (''event_listener:'' @ x)"])
     (auto simp: add_beat_def Let_def)

text \<open>Every broker of the registry is listened to, whatever else is configured and even when the
  displayed URLs of brokers are the same, as long as no displayed URL contains a number sign.\<close>

theorem every_broker_has_listener:
  assumes "build_processes rt installed c groups = Inr procs" and "url \<in> set (dkeys groups)"
    and "\<forall>u \<in> set (dkeys groups). CHR ''#'' \<notin> set (display_url u)"
  shows "\<exists>name queues. dget procs name = Some (ListenerProc url queues)"
proof -
  from build_processes_shape[OF assms(1)] obtain queues where procs:
    "procs = (let ps = (case rt_frontend c of None \<Rightarrow> id | Some f \<Rightarrow> dset ''web'' (WebProc (fc_host f) (fc_port f)))
       (beat_procs rt c queues groups)
     in (case rt_mcp c of None \<Rightarrow> id | Some m \<Rightarrow> dset ''mcp'' (McpProc (mc_host m) (mc_port m))) ps)" by blast
  from add_listeners_complete[of "dkeys groups" "[]" "[]" "exporter_procs rt c groups" queues] assms(2,3)
  obtain k where k: "dget (add_listeners queues (dkeys groups) [] (exporter_procs rt c groups))
      (listener_name (display_url url) k) = Some (ListenerProc url queues)" by auto
  obtain x where x: "listener_name (display_url url) k = ''event_listener:'' @ x" unfolding listener_name_def by blast
  have "dget (beat_procs rt c queues groups) (''event_listener:'' @ x) = Some (ListenerProc url queues)"
    using k x listener_kept_beat by (auto simp: beat_procs_def Let_def)
  then have "dget procs (''event_listener:'' @ x) = Some (ListenerProc url queues)"
    by (auto simp: procs Let_def split: option.split)
  then show ?thesis by blast
qed

lemma every_broker_has_listener_witness:
  "\<exists>procs name queues. build_processes toy_rt (\<lambda>_. True) sample_root sample_groups = Inr procs \<and>
     dget procs name = Some (ListenerProc ''amqp://u:q@h'' queues)"
proof -
  obtain procs where procs: "build_processes toy_rt (\<lambda>_. True) sample_root sample_groups = Inr procs"
    using sample_start by (auto simp: start_def ebind_Inr_iff)
  have "''amqp://u:q@h'' \<in> set (dkeys sample_groups)" by (simp add: sample_groups_def dkeys_def)
  moreover have "\<forall>u \<in> set (dkeys sample_groups). CHR ''#'' \<notin> set (display_url u)" by code_simp
  ultimately show ?thesis using every_broker_has_listener[OF procs] procs by blast
qed

text \<open>With a number sign the name of one listener may hit the name of another, and its broker is left
  without a listener.\<close>

lemma listener_lost:
  "add_listeners 0 [''redis://:c@h#2'', ''redis://:a@h'', ''redis://:b@h''] [] [] =
     [(''event_listener:redis://:***@h#2'', ListenerProc ''redis://:b@h'' 0),
      (''event_listener:redis://:***@h'', ListenerProc ''redis://:a@h'' 0)]"
  by code_simp

end
