(* ===== verification/Metrics_Base.thy ===== *)
theory Metrics_Base
  imports Redaction
begin

text \<open>
  What the two metrics exporters have in common (celery_root/components/metrics): actions that may
  raise, the labels, the trackers of running tasks, and the reading of event fields. The metrics
  libraries are outside: an exporter records the calls it makes on its instruments.
\<close>

section \<open>Actions\<close>

text \<open>An action changes the state and may raise; what it changed before raising stays.\<close>

type_synonym 's act = "'s \<Rightarrow> pyexc option \<times> 's"

fun run_acts :: "'s act list \<Rightarrow> 's act" where
  "run_acts [] s = (None, s)"
| "run_acts (a # as) s = (case a s of (None, s') \<Rightarrow> run_acts as s' | (Some e, s') \<Rightarrow> (Some e, s'))"

definition change :: "('s \<Rightarrow> 's) \<Rightarrow> 's act" where
  "change f = (\<lambda>s. (None, f s))"

definition when_act :: "bool \<Rightarrow> 's act \<Rightarrow> 's act" where
  "when_act c a = (if c then a else run_acts [])"

definition opt_act :: "('a \<Rightarrow> 's act) \<Rightarrow> 'a option \<Rightarrow> 's act" where
  "opt_act f v = (case v of None \<Rightarrow> run_acts [] | Some x \<Rightarrow> f x)"

definition let_act :: "('s \<Rightarrow> pyexc + 'a) \<Rightarrow> ('a \<Rightarrow> 's act) \<Rightarrow> 's act" where
  "let_act v f = (\<lambda>s. case v s of Inl e \<Rightarrow> (Some e, s) | Inr x \<Rightarrow> f x s)"

section \<open>Labels\<close>

text \<open>\<open>parts.hostname\<close> and \<open>parts.port\<close> of urllib.\<close>

definition host_and_port :: "string \<Rightarrow> string \<times> string" where
  "host_and_port netloc =
     (let hostinfo = (if CHR ''@'' \<in> set netloc then rafter CHR ''@'' netloc else netloc)
      in if CHR ''['' \<in> set hostinfo
         then let bracketed = after CHR ''['' hostinfo
              in (before CHR '']'' bracketed, after CHR '':'' (after CHR '']'' bracketed))
         else (before CHR '':'' hostinfo, after CHR '':'' hostinfo))"

text \<open>The name is lowered up to the zone of an IPv6 address.\<close>

definition url_hostname :: "string \<Rightarrow> string" where
  "url_hostname netloc = (let h = fst (host_and_port netloc) in
     py_lower (before CHR ''%'' h) @ (if CHR ''%'' \<in> set h then CHR ''%'' # after CHR ''%'' h else []))"

definition digits_value :: "string \<Rightarrow> nat" where
  "digits_value s = fold (\<lambda>c n. 10 * n + (of_char c - 48)) s 0"

definition url_port :: "string \<Rightarrow> pyexc + nat option" where
  "url_port netloc = (let p = snd (host_and_port netloc) in
     if p = [] then Inr None
     else if list_all is_digit p
     then (if digits_value p \<le> 65535 then Inr (Some (digits_value p)) else Inl (ValueError ''Port out of range 0-65535''))
     else Inl (ValueError ''Port could not be cast to integer value''))"

definition strip_credentials :: "string \<Rightarrow> pyexc + string" where
  "strip_credentials value = (case urlsplit value of
       None \<Rightarrow> Inr value
     | Some parts \<Rightarrow>
         (if up_scheme parts = [] \<or> up_netloc parts = [] then Inr value
          else ebind (url_port (up_netloc parts)) (\<lambda>port.
               Inr (urlunsplit (parts\<lparr>up_netloc := url_hostname (up_netloc parts) @
                 (case port of None \<Rightarrow> [] | Some p \<Rightarrow> '':'' @ show_nat p)\<rparr>)))))"

definition normalize_label :: "string option \<Rightarrow> string \<Rightarrow> pyexc + string" where
  "normalize_label value empty_label = (case value of
       None \<Rightarrow> Inr ''unknown''
     | Some v \<Rightarrow> (if v = [] then Inr empty_label else strip_credentials v))"

text \<open>The state both exporters keep.\<close>

record task_tracker =
  tt_name :: string
  tt_worker :: string
  tt_state :: string
  tt_received_at :: "pydt option"

record exporter =
  ex_backend_map :: "(string, string) pydict"
  ex_worker_brokers :: "(string, string) pydict"
  ex_trackers :: "(string, task_tracker) pydict"
  ex_prefetched :: "(string \<times> string, int) pydict"
  ex_active :: "(string, int) pydict"

type_synonym labels = "(string, string) pydict"

definition broker_label :: "string \<Rightarrow> 'z exporter_scheme \<Rightarrow> pyexc + string" where
  "broker_label w s = normalize_label (dget (ex_worker_brokers s) w) ''default''"

definition metric_backend_label :: "string \<Rightarrow> 'z exporter_scheme \<Rightarrow> pyexc + string" where
  "metric_backend_label w s = normalize_label
     (case dget (ex_worker_brokers s) w of None \<Rightarrow> None | Some url \<Rightarrow> dget (ex_backend_map s) url) ''disabled''"

definition task_labels :: "string \<Rightarrow> string \<Rightarrow> string option \<Rightarrow> 'z exporter_scheme \<Rightarrow> pyexc + labels" where
  "task_labels task w event_type s =
     ebind (broker_label w s) (\<lambda>b. ebind (metric_backend_label w s) (\<lambda>k.
     Inr ([(''task'', task), (''worker'', w), (''broker'', b), (''backend'', k)] @
       (case event_type of None \<Rightarrow> [] | Some t \<Rightarrow> [(''type'', t)]))))"

definition task_summary_labels :: "string \<Rightarrow> string \<Rightarrow> 'z exporter_scheme \<Rightarrow> pyexc + labels" where
  "task_summary_labels task w s =
     ebind (broker_label w s) (\<lambda>b. ebind (metric_backend_label w s) (\<lambda>k.
     Inr [(''task'', task), (''broker'', b), (''backend'', k)]))"

definition worker_labels :: "string \<Rightarrow> 'z exporter_scheme \<Rightarrow> pyexc + labels" where
  "worker_labels w s =
     ebind (broker_label w s) (\<lambda>b. ebind (metric_backend_label w s) (\<lambda>k.
     Inr [(''worker'', w), (''broker'', b), (''backend'', k)]))"

section \<open>Reading events\<close>

definition TASK_EVENT_TYPE_BY_STATE :: "(string, string) pydict" where
  "TASK_EVENT_TYPE_BY_STATE =
     [(''RECEIVED'', ''task-received''), (''STARTED'', ''task-started''), (''SUCCESS'', ''task-succeeded''),
      (''FAILURE'', ''task-failed''), (''RETRY'', ''task-retried''), (''REVOKED'', ''task-revoked''),
      (''REJECTED'', ''task-rejected''), (''PENDING'', ''task-sent'')]"

definition TERMINAL_TASK_STATES :: "string list" where
  "TERMINAL_TASK_STATES = [''SUCCESS'', ''FAILURE'', ''REVOKED'', ''REJECTED'']"

definition event_type :: "string \<Rightarrow> string" where
  "event_type state = dget_or TASK_EVENT_TYPE_BY_STATE state (''task-'' @ py_lower state)"

definition metric_pool_size :: "pyval \<Rightarrow> int option" where
  "metric_pool_size value = (case value of
       PDict d \<Rightarrow> as_int (por (pget d ''max-concurrency'') (pget d ''max_concurrency''))
     | _ \<Rightarrow> None)"

definition metric_active_tasks :: "pyval \<Rightarrow> int option" where
  "metric_active_tasks value = (case value of PList xs \<Rightarrow> Some (int (length xs)) | _ \<Rightarrow> as_int value)"

text \<open>\<open>(a - b).total_seconds()\<close>, cut at zero; an aware and a naive datetime cannot be subtracted.\<close>

definition seconds_since :: "pydt \<Rightarrow> pydt \<Rightarrow> pyexc + rat" where
  "seconds_since a b =
     (if is_aware a \<noteq> is_aware b then Inl (TypeError ''can not subtract offset-naive and offset-aware datetimes'')
      else Inr (max 0 (of_int (dt_instant a - dt_instant b) / 1000000)))"

text \<open>\<open>value.timestamp()\<close>; a naive datetime is read as local time, which is a parameter.\<close>

definition py_timestamp :: "(int \<Rightarrow> int) \<Rightarrow> pydt \<Rightarrow> rat" where
  "py_timestamp local_us t = of_int (if is_aware t then dt_instant t else local_us (dt_local t)) / 1000000"

section \<open>Counting tasks\<close>

text \<open>The new count and the dictionary with it: a count of zero is dropped, never a negative one kept.\<close>

definition put_count :: "'k \<Rightarrow> int \<Rightarrow> ('k, int) pydict \<Rightarrow> int \<times> ('k, int) pydict" where
  "put_count k c d = (if c \<le> 0 then (0, dpop k d) else (c, dset k c d))"

text \<open>\<open>_track_task_state\<close>, with what an exporter does when counts change and when a task starts.\<close>

definition previous_received :: "task_tracker option \<Rightarrow> pydt option" where
  "previous_received previous = (case previous of None \<Rightarrow> None | Some p \<Rightarrow> tt_received_at p)"

definition next_tracker :: "task_event \<Rightarrow> string \<Rightarrow> string \<Rightarrow> string \<Rightarrow> (string, task_tracker) pydict \<Rightarrow> (string, task_tracker) pydict" where
  "next_tracker e task w state d =
     (if state \<in> set TERMINAL_TASK_STATES then dpop (te_task_id e) d
      else dset (te_task_id e) \<lparr>tt_name = task, tt_worker = w, tt_state = state,
             tt_received_at = (if state = ''RECEIVED'' then Some (te_timestamp e) else None)\<rparr> d)"

definition track_task_state :: "(string \<Rightarrow> string \<Rightarrow> int \<Rightarrow> 'z exporter_scheme act) \<Rightarrow>
    (string \<Rightarrow> int \<Rightarrow> 'z exporter_scheme act) \<Rightarrow> (string \<Rightarrow> string \<Rightarrow> rat \<Rightarrow> 'z exporter_scheme act) \<Rightarrow>
    task_event \<Rightarrow> string \<Rightarrow> string \<Rightarrow> string \<Rightarrow> 'z exporter_scheme act" where
  "track_task_state update_prefetched update_active record_prefetch e task w state = (\<lambda>s.
     let previous = dget (ex_trackers s) (te_task_id e);
         prev_state = map_option tt_state previous;
         prev_name = (case previous of None \<Rightarrow> task | Some p \<Rightarrow> tt_name p);
         prev_worker = (case previous of None \<Rightarrow> w | Some p \<Rightarrow> tt_worker p)
     in run_acts
       [when_act (prev_state = Some ''RECEIVED'' \<and> state \<noteq> ''RECEIVED'') (update_prefetched prev_name prev_worker (- 1)),
        when_act (prev_state = Some ''STARTED'' \<and> state \<noteq> ''STARTED'') (update_active prev_worker (- 1)),
        when_act (state = ''RECEIVED'' \<and> prev_state \<noteq> Some ''RECEIVED'') (update_prefetched task w 1),
        when_act (state = ''STARTED'' \<and> prev_state \<noteq> Some ''STARTED'') (update_active w 1),
        when_act (prev_state = Some ''RECEIVED'' \<and> state = ''STARTED'')
          (opt_act (\<lambda>r. let_act (\<lambda>_. seconds_since (te_timestamp e) r) (record_prefetch task w)) (previous_received previous)),
        change (ex_trackers_update (next_tracker e task w state))] s)"

end
