(* ===== verification/Prometheus_Exporter.thy ===== *)
theory Prometheus_Exporter
  imports Metrics_Base
begin

text \<open>
  The Prometheus exporter (celery_root/components/metrics/prometheus/exporter.py). Its state keeps
  the calls made on the instruments, oldest first; \<open>prom_gauge\<close>, \<open>prom_counter\<close> and \<open>prom_values\<close>
  read them the way the client library documents its gauges, counters and histograms.
\<close>

datatype metric = Events | Failures | Retries | Runtime | RuntimeByTask | PrefetchTime | QueueLatency
  | Prefetched | WorkerOnline | LastHeartbeat | CurrentTasks | PoolSize

text \<open>The registered names; the client appends \<open>_total\<close> to the name of a counter without it.\<close>

definition metric_prefix :: "bool \<Rightarrow> string" where
  "metric_prefix flower_compatibility = (if flower_compatibility then ''flower'' else ''celery_root'')"

fun prom_name :: "metric \<Rightarrow> string" where
  "prom_name Events = ''_events''"
| "prom_name Failures = ''_task_failures_total''"
| "prom_name Retries = ''_task_retries_total''"
| "prom_name Runtime = ''_task_runtime_seconds''"
| "prom_name RuntimeByTask = ''_task_runtime_by_task_seconds''"
| "prom_name PrefetchTime = ''_task_prefetch_time_seconds''"
| "prom_name QueueLatency = ''_task_queue_latency_seconds''"
| "prom_name Prefetched = ''_worker_prefetched_tasks''"
| "prom_name WorkerOnline = ''_worker_online''"
| "prom_name LastHeartbeat = ''_worker_last_heartbeat_timestamp_seconds''"
| "prom_name CurrentTasks = ''_worker_number_of_currently_executing_tasks''"
| "prom_name PoolSize = ''_worker_pool_size''"

fun prom_label_names :: "metric \<Rightarrow> string list" where
  "prom_label_names Events = [''task'', ''type'', ''worker'', ''broker'', ''backend'']"
| "prom_label_names RuntimeByTask = [''task'', ''broker'', ''backend'']"
| "prom_label_names WorkerOnline = [''worker'', ''broker'', ''backend'']"
| "prom_label_names LastHeartbeat = [''worker'', ''broker'', ''backend'']"
| "prom_label_names CurrentTasks = [''worker'', ''broker'', ''backend'']"
| "prom_label_names PoolSize = [''worker'', ''broker'', ''backend'']"
| "prom_label_names _ = [''task'', ''worker'', ''broker'', ''backend'']"

datatype prom_call = Inc metric labels | SetTo metric labels rat | Observe metric labels rat

record prometheus = exporter +
  px_calls :: "prom_call list"

definition new_prometheus :: "(string, string) pydict \<Rightarrow> prometheus" where
  "new_prometheus backends = \<lparr>ex_backend_map = backends, ex_worker_brokers = [], ex_trackers = [],
     ex_prefetched = [], ex_active = [], px_calls = []\<rparr>"

definition do_prom :: "prom_call \<Rightarrow> prometheus act" where
  "do_prom c = change (\<lambda>s. s\<lparr>px_calls := px_calls s @ [c]\<rparr>)"

definition prom_with :: "(prometheus \<Rightarrow> pyexc + labels) \<Rightarrow> (labels \<Rightarrow> prom_call) \<Rightarrow> prometheus act" where
  "prom_with labels_of call = let_act labels_of (\<lambda>l. do_prom (call l))"

definition prom_update_prefetched :: "string \<Rightarrow> string \<Rightarrow> int \<Rightarrow> prometheus act" where
  "prom_update_prefetched task w delta = (\<lambda>s.
     let (current, counts) = put_count (task, w) (dget_or (ex_prefetched s) (task, w) 0 + delta) (ex_prefetched s)
     in run_acts [change (ex_prefetched_update (\<lambda>_. counts)),
          prom_with (task_labels task w None) (\<lambda>l. SetTo Prefetched l (of_int current))] s)"

definition prom_put_active :: "string \<Rightarrow> int \<Rightarrow> prometheus act" where
  "prom_put_active w n = (\<lambda>s.
     let (current, counts) = put_count w n (ex_active s)
     in run_acts [change (ex_active_update (\<lambda>_. counts)),
          prom_with (worker_labels w) (\<lambda>l. SetTo CurrentTasks l (of_int current))] s)"

definition prom_update_active :: "string \<Rightarrow> int \<Rightarrow> prometheus act" where
  "prom_update_active w delta = (\<lambda>s. prom_put_active w (dget_or (ex_active s) w 0 + delta) s)"

definition prom_set_active_count :: "string \<Rightarrow> int \<Rightarrow> prometheus act" where
  "prom_set_active_count w n = prom_put_active w (max n 0)"

definition prom_record_prefetch :: "string \<Rightarrow> string \<Rightarrow> rat \<Rightarrow> prometheus act" where
  "prom_record_prefetch task w seconds = run_acts
     [prom_with (task_labels task w None) (\<lambda>l. SetTo PrefetchTime l seconds),
      prom_with (task_labels task w None) (\<lambda>l. Observe QueueLatency l seconds)]"

definition prom_on_task_event :: "task_event \<Rightarrow> prometheus act" where
  "prom_on_task_event e =
     (let w = or_str (te_worker e) ''unknown'';
          task = or_str (te_name e) ''unknown'';
          state = py_upper (te_state e)
      in run_acts
        [prom_with (task_labels task w (Some (event_type state))) (Inc Events),
         when_act (state = ''FAILURE'') (prom_with (task_labels task w None) (Inc Failures)),
         when_act (state = ''RETRY'') (prom_with (task_labels task w None) (Inc Retries)),
         opt_act (\<lambda>r. run_acts
           [prom_with (task_labels task w None) (\<lambda>l. Observe Runtime l r),
            prom_with (task_summary_labels task w) (\<lambda>l. Observe RuntimeByTask l r)]) (te_runtime e),
         track_task_state prom_update_prefetched prom_update_active prom_record_prefetch e task w state])"

definition prom_on_worker_event :: "(int \<Rightarrow> int) \<Rightarrow> worker_event \<Rightarrow> prometheus act" where
  "prom_on_worker_event local_us e =
     (let h = we_hostname e; normalized = py_lower (we_event e)
      in run_acts
        [opt_act (\<lambda>u. change (ex_worker_brokers_update (dset h u))) (we_broker_url e),
         let_act (worker_labels h) (\<lambda>labels. run_acts
           [opt_act (\<lambda>info. run_acts
              [opt_act (prom_set_active_count h) (metric_active_tasks (pget info ''active'')),
               opt_act (\<lambda>n. do_prom (SetTo PoolSize labels (of_int n))) (metric_pool_size (pget info ''pool''))]) (we_info e),
            if normalized \<in> {''worker-online'', ''online'', ''worker-heartbeat'', ''heartbeat''}
            then run_acts [do_prom (SetTo WorkerOnline labels 1),
                           do_prom (SetTo LastHeartbeat labels (py_timestamp local_us (we_timestamp e)))]
            else when_act (normalized \<in> {''worker-offline'', ''offline''}) (do_prom (SetTo WorkerOnline labels 0))])])"

section \<open>Reading the instruments\<close>

definition prom_counter :: "metric \<Rightarrow> labels \<Rightarrow> prom_call list \<Rightarrow> nat" where
  "prom_counter m l calls = length (filter (\<lambda>c. c = Inc m l) calls)"

fun observed :: "metric \<Rightarrow> labels \<Rightarrow> prom_call \<Rightarrow> rat option" where
  "observed m l (Observe m' l' v) = (if m' = m \<and> l' = l then Some v else None)"
| "observed m l _ = None"

definition prom_values :: "metric \<Rightarrow> labels \<Rightarrow> prom_call list \<Rightarrow> rat list" where
  "prom_values m l calls = List.map_filter (observed m l) calls"

fun set_value :: "metric \<Rightarrow> (labels \<Rightarrow> bool) \<Rightarrow> prom_call \<Rightarrow> rat option \<Rightarrow> rat option" where
  "set_value m P (SetTo m' l v) old = (if m' = m \<and> P l then Some v else old)"
| "set_value m P _ old = old"

text \<open>The last value set on a gauge under labels that satisfy \<open>P\<close>.\<close>

definition prom_gauge :: "metric \<Rightarrow> (labels \<Rightarrow> bool) \<Rightarrow> prom_call list \<Rightarrow> rat option" where
  "prom_gauge m P calls = fold (set_value m P) calls None"

end
