(* ===== verification/OTel_Exporter.thy ===== *)
theory OTel_Exporter
  imports Prometheus_Exporter
begin

text \<open>
  The OpenTelemetry exporter (celery_root/components/metrics/opentelemetry/exporter.py). Counters and
  histograms are recorded as calls; the observable gauges are dictionaries read by callbacks.
\<close>

fun otel_name :: "metric \<Rightarrow> string" where
  "otel_name Events = ''_events_total''"
| "otel_name m = prom_name m"

datatype otel_call = Add metric labels int | Record metric labels rat

record otel = exporter +
  ox_calls :: "otel_call list"
  ox_worker_online :: "(string, int) pydict"
  ox_worker_last_heartbeat :: "(string, rat) pydict"
  ox_task_prefetch_times :: "(string \<times> string, rat) pydict"
  ox_worker_pool_size :: "(string, int) pydict"

definition new_otel :: "(string, string) pydict \<Rightarrow> otel" where
  "new_otel backends = \<lparr>ex_backend_map = backends, ex_worker_brokers = [], ex_trackers = [],
     ex_prefetched = [], ex_active = [], ox_calls = [], ox_worker_online = [], ox_worker_last_heartbeat = [],
     ox_task_prefetch_times = [], ox_worker_pool_size = []\<rparr>"

definition do_otel :: "otel_call \<Rightarrow> otel act" where
  "do_otel c = change (\<lambda>s. s\<lparr>ox_calls := ox_calls s @ [c]\<rparr>)"

definition otel_with :: "(otel \<Rightarrow> pyexc + labels) \<Rightarrow> (labels \<Rightarrow> otel_call) \<Rightarrow> otel act" where
  "otel_with labels_of call = let_act labels_of (\<lambda>l. do_otel (call l))"

text \<open>An up-down counter is only touched when the count really changes.\<close>

definition otel_update_prefetched :: "string \<Rightarrow> string \<Rightarrow> int \<Rightarrow> otel act" where
  "otel_update_prefetched task w delta = (\<lambda>s.
     let previous = dget_or (ex_prefetched s) (task, w) 0;
         (current, counts) = put_count (task, w) (previous + delta) (ex_prefetched s)
     in run_acts [change (ex_prefetched_update (\<lambda>_. counts)),
          when_act (current - previous \<noteq> 0)
            (otel_with (task_labels task w None) (\<lambda>l. Add Prefetched l (current - previous)))] s)"

definition otel_put_active :: "string \<Rightarrow> int \<Rightarrow> otel act" where
  "otel_put_active w n = (\<lambda>s.
     let previous = dget_or (ex_active s) w 0;
         (current, counts) = put_count w n (ex_active s)
     in run_acts [change (ex_active_update (\<lambda>_. counts)),
          when_act (current - previous \<noteq> 0)
            (otel_with (worker_labels w) (\<lambda>l. Add CurrentTasks l (current - previous)))] s)"

definition otel_update_active :: "string \<Rightarrow> int \<Rightarrow> otel act" where
  "otel_update_active w delta = (\<lambda>s. otel_put_active w (dget_or (ex_active s) w 0 + delta) s)"

definition otel_set_active_count :: "string \<Rightarrow> int \<Rightarrow> otel act" where
  "otel_set_active_count w n = otel_put_active w (max n 0)"

definition otel_record_prefetch :: "string \<Rightarrow> string \<Rightarrow> rat \<Rightarrow> otel act" where
  "otel_record_prefetch task w seconds = run_acts
     [change (ox_task_prefetch_times_update (dset (task, w) seconds)),
      otel_with (task_labels task w None) (\<lambda>l. Record QueueLatency l seconds)]"

definition otel_on_task_event :: "task_event \<Rightarrow> otel act" where
  "otel_on_task_event e =
     (let w = or_str (te_worker e) ''unknown'';
          task = or_str (te_name e) ''unknown'';
          state = py_upper (te_state e)
      in run_acts
        [otel_with (task_labels task w (Some (event_type state))) (\<lambda>l. Add Events l 1),
         when_act (state = ''FAILURE'') (otel_with (task_labels task w None) (\<lambda>l. Add Failures l 1)),
         when_act (state = ''RETRY'') (otel_with (task_labels task w None) (\<lambda>l. Add Retries l 1)),
         opt_act (\<lambda>r. run_acts
           [otel_with (task_labels task w None) (\<lambda>l. Record Runtime l r),
            otel_with (task_summary_labels task w) (\<lambda>l. Record RuntimeByTask l r)]) (te_runtime e),
         track_task_state otel_update_prefetched otel_update_active otel_record_prefetch e task w state])"

definition otel_on_worker_event :: "(int \<Rightarrow> int) \<Rightarrow> worker_event \<Rightarrow> otel act" where
  "otel_on_worker_event local_us e =
     (let h = we_hostname e; normalized = py_lower (we_event e)
      in run_acts
        [opt_act (\<lambda>u. change (ex_worker_brokers_update (dset h u))) (we_broker_url e),
         opt_act (\<lambda>info. run_acts
           [opt_act (otel_set_active_count h) (metric_active_tasks (pget info ''active'')),
            opt_act (\<lambda>n. change (ox_worker_pool_size_update (dset h n))) (metric_pool_size (pget info ''pool''))]) (we_info e),
         if normalized \<in> {''worker-online'', ''online'', ''worker-heartbeat'', ''heartbeat''}
         then run_acts [change (ox_worker_online_update (dset h 1)),
                        change (ox_worker_last_heartbeat_update (dset h (py_timestamp local_us (we_timestamp e))))]
         else when_act (normalized \<in> {''worker-offline'', ''offline''}) (change (ox_worker_online_update (dset h 0)))])"

text \<open>The callbacks of the observable gauges: the value and the labels of every entry.\<close>

fun observe_entries :: "('k \<Rightarrow> otel \<Rightarrow> pyexc + labels) \<Rightarrow> otel \<Rightarrow> ('k, 'v) pydict \<Rightarrow> pyexc + ('v \<times> labels) list" where
  "observe_entries labels_of s [] = Inr []"
| "observe_entries labels_of s ((k, v) # d) =
     ebind (labels_of k s) (\<lambda>l. ebind (observe_entries labels_of s d) (\<lambda>rest. Inr ((v, l) # rest)))"

definition observe_task_prefetch :: "otel \<Rightarrow> pyexc + (rat \<times> labels) list" where
  "observe_task_prefetch s = observe_entries (\<lambda>(task, w). task_labels task w None) s (ox_task_prefetch_times s)"

definition observe_worker_online :: "otel \<Rightarrow> pyexc + (int \<times> labels) list" where
  "observe_worker_online s = observe_entries worker_labels s (ox_worker_online s)"

definition observe_worker_last_heartbeat :: "otel \<Rightarrow> pyexc + (rat \<times> labels) list" where
  "observe_worker_last_heartbeat s = observe_entries worker_labels s (ox_worker_last_heartbeat s)"

definition observe_worker_pool_size :: "otel \<Rightarrow> pyexc + (int \<times> labels) list" where
  "observe_worker_pool_size s = observe_entries worker_labels s (ox_worker_pool_size s)"

text \<open>The endpoint decides whether the connection is plain: None leaves the choice to the library.\<close>

definition otlp_insecure :: "string option \<Rightarrow> pyexc + bool option" where
  "otlp_insecure endpoint = (case endpoint of
       None \<Rightarrow> Inr None
     | Some e \<Rightarrow> (case urlsplit e of
           None \<Rightarrow> Inl (ValueError ''Invalid IPv6 URL'')
         | Some parts \<Rightarrow> Inr (if up_scheme parts \<in> {''http'', ''https''} then Some (up_scheme parts = ''http'') else None)))"

section \<open>Reading the instruments\<close>

fun added :: "metric \<Rightarrow> (labels \<Rightarrow> bool) \<Rightarrow> otel_call \<Rightarrow> int" where
  "added m P (Add m' l n) = (if m' = m \<and> P l then n else 0)"
| "added m P (Record m' l v) = 0"

definition otel_sum :: "metric \<Rightarrow> (labels \<Rightarrow> bool) \<Rightarrow> otel_call list \<Rightarrow> int" where
  "otel_sum m P calls = sum_list (map (added m P) calls)"

fun recorded :: "metric \<Rightarrow> labels \<Rightarrow> otel_call \<Rightarrow> rat option" where
  "recorded m l (Record m' l' v) = (if m' = m \<and> l' = l then Some v else None)"
| "recorded m l _ = None"

definition otel_values :: "metric \<Rightarrow> labels \<Rightarrow> otel_call list \<Rightarrow> rat list" where
  "otel_values m l calls = List.map_filter (recorded m l) calls"

end
