(* ===== verification/Metrics_Equivalence.thy ===== *)
theory Metrics_Equivalence
  imports OTel_Exporter Event_Listener
begin

text \<open>
  The two exporters behind the metrics queues, and the proof that they tell the same: whatever the
  listener puts on the queue, every counter and histogram has the same samples, and every gauge of a
  worker has the same value. The proof is a simulation, action by action.
\<close>

section \<open>The exporter process\<close>

text \<open>\<open>_handle_event\<close> of the exporter process: what it does with an item, exceptions swallowed.\<close>

definition handle_item :: "(task_event \<Rightarrow> 's act) \<Rightarrow> (worker_event \<Rightarrow> 's act) \<Rightarrow> emitted \<Rightarrow> 's \<Rightarrow> 's" where
  "handle_item on_task on_worker item s = (case item of
       EmTask e \<Rightarrow> snd (on_task e s)
     | EmWorker e \<Rightarrow> snd (on_worker e s)
     | EmRelation r \<Rightarrow> s)"

text \<open>\<open>_drain_events\<close>: the items waiting, in order.\<close>

definition drain_events :: "(task_event \<Rightarrow> 's act) \<Rightarrow> (worker_event \<Rightarrow> 's act) \<Rightarrow> emitted list \<Rightarrow> 's \<Rightarrow> 's" where
  "drain_events on_task on_worker items s = fold (handle_item on_task on_worker) items s"

definition prom_drain :: "(int \<Rightarrow> int) \<Rightarrow> emitted list \<Rightarrow> prometheus \<Rightarrow> prometheus" where
  "prom_drain local_us = drain_events prom_on_task_event (prom_on_worker_event local_us)"

definition otel_drain :: "(int \<Rightarrow> int) \<Rightarrow> emitted list \<Rightarrow> otel \<Rightarrow> otel" where
  "otel_drain local_us = drain_events otel_on_task_event (otel_on_worker_event local_us)"

section \<open>What it means that the exporters agree\<close>

definition of_worker :: "string \<Rightarrow> labels \<Rightarrow> bool" where
  "of_worker w l = (dget l ''worker'' = Some w)"

definition of_task_worker :: "string \<Rightarrow> string \<Rightarrow> labels \<Rightarrow> bool" where
  "of_task_worker t w l = (dget l ''task'' = Some t \<and> dget l ''worker'' = Some w)"

text \<open>A gauge that was never set shows zero tasks.\<close>

definition gauge_count :: "rat option \<Rightarrow> rat" where
  "gauge_count v = (case v of None \<Rightarrow> 0 | Some x \<Rightarrow> x)"

definition same_samples :: "prom_call list \<Rightarrow> otel_call list \<Rightarrow> bool" where
  "same_samples pc oc \<longleftrightarrow>
     (\<forall>m \<in> {Events, Failures, Retries}. \<forall>l. int (prom_counter m l pc) = otel_sum m ((=) l) oc) \<and>
     (\<forall>m l. prom_values m l pc = otel_values m l oc)"

definition same_counts :: "prom_call list \<Rightarrow> otel_call list \<Rightarrow> bool" where
  "same_counts pc oc \<longleftrightarrow>
     (\<forall>w. gauge_count (prom_gauge CurrentTasks (of_worker w) pc) = of_int (otel_sum CurrentTasks (of_worker w) oc)) \<and>
     (\<forall>t w. gauge_count (prom_gauge Prefetched (of_task_worker t w) pc) = of_int (otel_sum Prefetched (of_task_worker t w) oc))"

definition same_gauges :: "prom_call list \<Rightarrow> otel \<Rightarrow> bool" where
  "same_gauges pc s \<longleftrightarrow>
     (\<forall>w. prom_gauge WorkerOnline (of_worker w) pc = map_option of_int (dget (ox_worker_online s) w)) \<and>
     (\<forall>w. prom_gauge LastHeartbeat (of_worker w) pc = dget (ox_worker_last_heartbeat s) w) \<and>
     (\<forall>w. prom_gauge PoolSize (of_worker w) pc = map_option of_int (dget (ox_worker_pool_size s) w)) \<and>
     (\<forall>t w. prom_gauge PrefetchTime (of_task_worker t w) pc = dget (ox_task_prefetch_times s) (t, w))"

section \<open>The simulation\<close>

definition url_ok :: "string \<Rightarrow> bool" where
  "url_ok u = (case strip_credentials u of Inl e \<Rightarrow> False | Inr l \<Rightarrow> True)"

definition urls_ok :: "'z exporter_scheme \<Rightarrow> bool" where
  "urls_ok s \<longleftrightarrow> (\<forall>w u. dget (ex_worker_brokers s) w = Some u \<longrightarrow> url_ok u) \<and>
     (\<forall>u b. dget (ex_backend_map s) u = Some b \<longrightarrow> url_ok b)"

definition times_ok :: "(string, task_tracker) pydict \<Rightarrow> bool" where
  "times_ok d \<longleftrightarrow> (\<forall>i t r. dget d i = Some t \<longrightarrow> tt_received_at t = Some r \<longrightarrow> is_aware r)"

definition same_core :: "prometheus \<Rightarrow> otel \<Rightarrow> bool" where
  "same_core p s \<longleftrightarrow> ex_backend_map p = ex_backend_map s \<and> ex_worker_brokers p = ex_worker_brokers s \<and>
     ex_trackers p = ex_trackers s \<and> ex_prefetched p = ex_prefetched s \<and> ex_active p = ex_active s \<and>
     urls_ok s \<and> times_ok (ex_trackers s)"

text \<open>The counts behind the gauges are the counts the exporter keeps, and never negative.\<close>

definition counts_kept :: "otel \<Rightarrow> bool" where
  "counts_kept s \<longleftrightarrow> (\<forall>w. otel_sum CurrentTasks (of_worker w) (ox_calls s) = dget_or (ex_active s) w 0) \<and>
     (\<forall>t w. otel_sum Prefetched (of_task_worker t w) (ox_calls s) = dget_or (ex_prefetched s) (t, w) 0) \<and>
     (\<forall>w. 0 \<le> dget_or (ex_active s) w 0) \<and> (\<forall>k. 0 \<le> dget_or (ex_prefetched s) k 0)"

definition agree :: "prometheus \<Rightarrow> otel \<Rightarrow> bool" where
  "agree p s \<longleftrightarrow> same_core p s \<and> counts_kept s \<and> same_samples (px_calls p) (ox_calls s) \<and>
     same_counts (px_calls p) (ox_calls s) \<and> same_gauges (px_calls p) s"

definition sim :: "prometheus act \<Rightarrow> otel act \<Rightarrow> bool" where
  "sim f g \<longleftrightarrow> (\<forall>p s. agree p s \<longrightarrow> (\<exists>p' s'. f p = (None, p') \<and> g s = (None, s') \<and> agree p' s'))"

lemma simI: "(\<And>p s. agree p s \<Longrightarrow> \<exists>p' s'. f p = (None, p') \<and> g s = (None, s') \<and> agree p' s') \<Longrightarrow> sim f g"
  by (simp add: sim_def)

lemma simE: "sim f g \<Longrightarrow> agree p s \<Longrightarrow> \<exists>p' s'. f p = (None, p') \<and> g s = (None, s') \<and> agree p' s'"
  by (simp add: sim_def)

lemma sim_run: "list_all2 sim fs gs \<Longrightarrow> sim (run_acts fs) (run_acts gs)"
proof (induction rule: list_all2_induct)
  case (Cons f fs g gs)
  show ?case
  proof (rule simI)
    fix p s assume "agree p s"
    with simE[OF Cons.hyps(1)] obtain p1 s1 where "f p = (None, p1)" "g s = (None, s1)" "agree p1 s1" by blast
    with simE[OF Cons.IH] show "\<exists>p' s'. run_acts (f # fs) p = (None, p') \<and> run_acts (g # gs) s = (None, s') \<and> agree p' s'"
      by fastforce
  qed
qed (simp add: sim_def)

lemma sim_when: "(c \<Longrightarrow> sim f g) \<Longrightarrow> sim (when_act c f) (when_act c g)"
  by (cases c) (simp_all add: when_act_def sim_run)

lemma sim_opt: "(\<And>x. v = Some x \<Longrightarrow> sim (f x) (g x)) \<Longrightarrow> sim (opt_act f v) (opt_act g v)"
  by (cases v) (simp_all add: opt_act_def sim_run)

lemma sim_if: "(c \<Longrightarrow> sim f g) \<Longrightarrow> (\<not> c \<Longrightarrow> sim f' g') \<Longrightarrow> sim (if c then f else f') (if c then g else g')"
  by simp

text \<open>Readings after one more call.\<close>

lemma readings_snoc [simp]:
  "prom_counter m l (cs @ [c]) = prom_counter m l cs + (if c = Inc m l then 1 else 0)"
  "prom_values m l (cs @ [c]) = prom_values m l cs @ (case observed m l c of None \<Rightarrow> [] | Some v \<Rightarrow> [v])"
  "prom_gauge m P (cs @ [c]) = set_value m P c (prom_gauge m P cs)"
  "otel_sum m P (os @ [d]) = otel_sum m P os + added m P d"
  "otel_values m l (os @ [d]) = otel_values m l os @ (case recorded m l d of None \<Rightarrow> [] | Some v \<Rightarrow> [v])"
  by (simp_all add: prom_counter_def prom_values_def prom_gauge_def otel_sum_def otel_values_def
      List.map_filter_def split: option.split)

text \<open>Labels of known URLs never raise, and both exporters compute the same.\<close>

lemma url_ok_iff: "url_ok u \<longleftrightarrow> (\<exists>l. strip_credentials u = Inr l)"
  by (cases "strip_credentials u") (simp_all add: url_ok_def)

lemma url_labels_ok:
  assumes "urls_ok s"
  shows "\<exists>b. broker_label w s = Inr b" and "\<exists>b. metric_backend_label w s = Inr b"
  using assms by (auto simp: broker_label_def metric_backend_label_def normalize_label_def urls_ok_def url_ok_iff
      split: option.splits)

lemma same_labels:
  assumes "same_core p s"
  shows "broker_label w p = broker_label w s" "metric_backend_label w p = metric_backend_label w s"
  using assms by (simp_all add: same_core_def broker_label_def metric_backend_label_def cong: option.case_cong)

lemma task_labels_agree:
  assumes "same_core p s"
  shows "\<exists>l. task_labels t w et p = Inr l \<and> task_labels t w et s = Inr l \<and> (\<forall>t' w'. of_task_worker t' w' l \<longleftrightarrow> t' = t \<and> w' = w)"
  using url_labels_ok[of s w] same_labels[OF assms, of w] assms
  by (auto simp: task_labels_def same_core_def of_task_worker_def)

lemma worker_labels_agree:
  assumes "same_core p s"
  shows "\<exists>l. worker_labels w p = Inr l \<and> worker_labels w s = Inr l \<and> (\<forall>w'. of_worker w' l \<longleftrightarrow> w' = w)"
  using url_labels_ok[of s w] same_labels[OF assms, of w] assms
  by (auto simp: worker_labels_def same_core_def of_worker_def)

lemma summary_labels_agree:
  assumes "same_core p s"
  shows "\<exists>l. task_summary_labels t w p = Inr l \<and> task_summary_labels t w s = Inr l"
  using url_labels_ok[of s w] same_labels[OF assms, of w] assms
  by (auto simp: task_summary_labels_def same_core_def)

lemma agree_core: "agree p s \<Longrightarrow> same_core p s"
  by (simp add: agree_def)

text \<open>Samples: a call on a counter or histogram touches no gauge.\<close>

lemma agree_count:
  assumes "agree p s" and "m \<in> {Events, Failures, Retries}"
  shows "agree (p\<lparr>px_calls := px_calls p @ [Inc m l]\<rparr>) (s\<lparr>ox_calls := ox_calls s @ [Add m l 1]\<rparr>)"
  using assms unfolding agree_def same_core_def counts_kept_def same_samples_def same_counts_def same_gauges_def
    urls_ok_def times_ok_def by auto

lemma agree_observe:
  assumes "agree p s"
  shows "agree (p\<lparr>px_calls := px_calls p @ [Observe m l v]\<rparr>) (s\<lparr>ox_calls := ox_calls s @ [Record m l v]\<rparr>)"
  using assms unfolding agree_def same_core_def counts_kept_def same_samples_def same_counts_def same_gauges_def
    urls_ok_def times_ok_def by auto

text \<open>The instruments of a state other than the one a call is for.\<close>

lemma sim_counter:
  assumes "\<And>p s. same_core p s \<Longrightarrow> \<exists>l. lab p = Inr l \<and> lab' s = Inr l" and "m \<in> {Events, Failures, Retries}"
  shows "sim (prom_with lab (Inc m)) (otel_with lab' (\<lambda>l. Add m l 1))"
proof (rule simI)
  fix p s assume a: "agree p s"
  with assms(1) obtain l where "lab p = Inr l" "lab' s = Inr l" using agree_core by blast
  with agree_count[OF a assms(2), of l]
  show "\<exists>p' s'. prom_with lab (Inc m) p = (None, p') \<and> otel_with lab' (\<lambda>l. Add m l 1) s = (None, s') \<and> agree p' s'"
    by (simp add: prom_with_def otel_with_def let_act_def do_prom_def do_otel_def change_def)
qed

lemma sim_observe:
  assumes "\<And>p s. same_core p s \<Longrightarrow> \<exists>l. lab p = Inr l \<and> lab' s = Inr l"
  shows "sim (prom_with lab (\<lambda>l. Observe m l v)) (otel_with lab' (\<lambda>l. Record m l v))"
proof (rule simI)
  fix p s assume a: "agree p s"
  with assms obtain l where "lab p = Inr l" "lab' s = Inr l" using agree_core by blast
  with agree_observe[OF a, of m l v]
  show "\<exists>p' s'. prom_with lab (\<lambda>l. Observe m l v) p = (None, p') \<and> otel_with lab' (\<lambda>l. Record m l v) s = (None, s') \<and> agree p' s'"
    by (simp add: prom_with_def otel_with_def let_act_def do_prom_def do_otel_def change_def)
qed

lemma sim_task_counter: "m \<in> {Events, Failures, Retries} \<Longrightarrow>
    sim (prom_with (task_labels t w et) (Inc m)) (otel_with (task_labels t w et) (\<lambda>l. Add m l 1))"
  by (rule sim_counter) (use task_labels_agree in blast)

lemma sim_task_observe: "sim (prom_with (task_labels t w et) (\<lambda>l. Observe m l v)) (otel_with (task_labels t w et) (\<lambda>l. Record m l v))"
  by (rule sim_observe) (use task_labels_agree in blast)

lemma sim_summary_observe: "sim (prom_with (task_summary_labels t w) (\<lambda>l. Observe m l v)) (otel_with (task_summary_labels t w) (\<lambda>l. Record m l v))"
  by (rule sim_observe) (use summary_labels_agree in blast)

text \<open>Counts: the gauge is set to the new count, the up-down counter moved by the difference.\<close>

lemma put_count_nonneg: "put_count k c d = (c', d') \<Longrightarrow> 0 \<le> c'"
  by (auto simp: put_count_def split: if_splits)

lemma put_count_get: "put_count k c d = (c', d') \<Longrightarrow> dget_or d' j 0 = (if j = k then c' else dget_or d j 0)"
  by (auto simp: put_count_def dget_or_dset dget_or_dpop split: if_splits)

lemma agree_prefetched:
  assumes a: "agree p s" and l: "\<forall>t' w'. of_task_worker t' w' l \<longleftrightarrow> t' = t \<and> w' = w"
    and c: "\<And>j. dget_or d j 0 = (if j = (t, w) then c else dget_or (ex_prefetched s) j 0)"
    and "0 \<le> c" and delta: "delta = c - dget_or (ex_prefetched s) (t, w) 0"
    and oc: "oc = (if delta \<noteq> 0 then ox_calls s @ [Add Prefetched l delta] else ox_calls s)"
  shows "agree (p\<lparr>ex_prefetched := d, px_calls := px_calls p @ [SetTo Prefetched l (of_int c)]\<rparr>)
     (s\<lparr>ex_prefetched := d, ox_calls := oc\<rparr>)"
proof -
  have sum: "otel_sum m P oc = otel_sum m P (ox_calls s) + (if m = Prefetched \<and> P l then delta else 0)" for m P
    by (auto simp: oc)
  have vals: "otel_values m l' oc = otel_values m l' (ox_calls s)" for m l'
    by (simp add: oc)
  have kept: "otel_sum Prefetched (of_task_worker t' w') oc = dget_or d (t', w') 0" for t' w'
    using a l by (simp add: sum c delta agree_def counts_kept_def)
  have gauge: "gauge_count (prom_gauge Prefetched (of_task_worker t' w') (px_calls p @ [SetTo Prefetched l (of_int c)])) =
      of_int (otel_sum Prefetched (of_task_worker t' w') oc)" for t' w'
    using a l unfolding kept c agree_def counts_kept_def same_counts_def by (simp add: gauge_count_def)
  show ?thesis using a kept gauge \<open>0 \<le> c\<close> c
    unfolding agree_def same_core_def counts_kept_def same_samples_def same_counts_def same_gauges_def urls_ok_def times_ok_def
    by (auto simp: sum vals)
qed

lemma agree_active:
  assumes a: "agree p s" and l: "\<forall>w'. of_worker w' l \<longleftrightarrow> w' = w"
    and c: "\<And>j. dget_or d j 0 = (if j = w then c else dget_or (ex_active s) j 0)"
    and "0 \<le> c" and delta: "delta = c - dget_or (ex_active s) w 0"
    and oc: "oc = (if delta \<noteq> 0 then ox_calls s @ [Add CurrentTasks l delta] else ox_calls s)"
  shows "agree (p\<lparr>ex_active := d, px_calls := px_calls p @ [SetTo CurrentTasks l (of_int c)]\<rparr>)
     (s\<lparr>ex_active := d, ox_calls := oc\<rparr>)"
proof -
  have sum: "otel_sum m P oc = otel_sum m P (ox_calls s) + (if m = CurrentTasks \<and> P l then delta else 0)" for m P
    by (auto simp: oc)
  have vals: "otel_values m l' oc = otel_values m l' (ox_calls s)" for m l'
    by (simp add: oc)
  have kept: "otel_sum CurrentTasks (of_worker w') oc = dget_or d w' 0" for w'
    using a l by (simp add: sum c delta agree_def counts_kept_def)
  have gauge: "gauge_count (prom_gauge CurrentTasks (of_worker w') (px_calls p @ [SetTo CurrentTasks l (of_int c)])) =
      of_int (otel_sum CurrentTasks (of_worker w') oc)" for w'
    using a l unfolding kept c agree_def counts_kept_def same_counts_def by (simp add: gauge_count_def)
  show ?thesis using a kept gauge \<open>0 \<le> c\<close> c
    unfolding agree_def same_core_def counts_kept_def same_samples_def same_counts_def same_gauges_def urls_ok_def times_ok_def
    by (auto simp: sum vals)
qed

lemma sim_update_prefetched: "sim (prom_update_prefetched t w n) (otel_update_prefetched t w n)"
proof (rule simI)
  fix p s assume a: "agree p s"
  obtain c d where cd: "put_count (t, w) (dget_or (ex_prefetched s) (t, w) 0 + n) (ex_prefetched s) = (c, d)" by fastforce
  have core: "same_core p s" using a by (rule agree_core)
  then have same: "ex_prefetched p = ex_prefetched s" by (simp add: same_core_def)
  have "same_core (p\<lparr>ex_prefetched := d\<rparr>) (s\<lparr>ex_prefetched := d\<rparr>)" using core by (simp add: same_core_def urls_ok_def)
  from task_labels_agree[OF this, of t w None] obtain l where
    l: "task_labels t w None (p\<lparr>ex_prefetched := d\<rparr>) = Inr l" "task_labels t w None (s\<lparr>ex_prefetched := d\<rparr>) = Inr l"
      "\<forall>t' w'. of_task_worker t' w' l \<longleftrightarrow> t' = t \<and> w' = w" by blast
  note step = agree_prefetched[OF a l(3) put_count_get[OF cd] put_count_nonneg[OF cd] refl refl]
  show "\<exists>p' s'. prom_update_prefetched t w n p = (None, p') \<and> otel_update_prefetched t w n s = (None, s') \<and> agree p' s'"
    using step by (simp add: prom_update_prefetched_def otel_update_prefetched_def same cd l prom_with_def otel_with_def
      let_act_def do_prom_def do_otel_def change_def when_act_def Let_def split: if_splits)
qed

lemma sim_put_active: "sim (prom_put_active w n) (otel_put_active w n)"
proof (rule simI)
  fix p s assume a: "agree p s"
  obtain c d where cd: "put_count w n (ex_active s) = (c, d)" by fastforce
  have core: "same_core p s" using a by (rule agree_core)
  then have same: "ex_active p = ex_active s" by (simp add: same_core_def)
  have "same_core (p\<lparr>ex_active := d\<rparr>) (s\<lparr>ex_active := d\<rparr>)" using core by (simp add: same_core_def urls_ok_def)
  from worker_labels_agree[OF this, of w] obtain l where
    l: "worker_labels w (p\<lparr>ex_active := d\<rparr>) = Inr l" "worker_labels w (s\<lparr>ex_active := d\<rparr>) = Inr l"
      "\<forall>w'. of_worker w' l \<longleftrightarrow> w' = w" by blast
  note step = agree_active[OF a l(3) put_count_get[OF cd] put_count_nonneg[OF cd] refl refl]
  show "\<exists>p' s'. prom_put_active w n p = (None, p') \<and> otel_put_active w n s = (None, s') \<and> agree p' s'"
    using step by (simp add: prom_put_active_def otel_put_active_def same cd l prom_with_def otel_with_def
      let_act_def do_prom_def do_otel_def change_def when_act_def Let_def split: if_splits)
qed

lemma sim_update_active: "sim (prom_update_active w n) (otel_update_active w n)"
proof (rule simI)
  fix p s assume a: "agree p s"
  then have "ex_active p = ex_active s" by (simp add: agree_def same_core_def)
  with simE[OF sim_put_active a] show "\<exists>p' s'. prom_update_active w n p = (None, p') \<and>
      otel_update_active w n s = (None, s') \<and> agree p' s'"
    by (simp add: prom_update_active_def otel_update_active_def)
qed

text \<open>The gauges of a worker and the waiting time of a task.\<close>

lemma agree_gauges:
  assumes "\<forall>w'. of_worker w' l \<longleftrightarrow> w' = w" and "agree p s"
  shows "agree (p\<lparr>px_calls := px_calls p @ [SetTo PoolSize l (of_int n)]\<rparr>)
      (ox_worker_pool_size_update (dset w n) s)"
    and "agree (p\<lparr>px_calls := px_calls p @ [SetTo WorkerOnline l (of_int n)]\<rparr>)
      (ox_worker_online_update (dset w n) s)"
    and "agree (p\<lparr>px_calls := px_calls p @ [SetTo LastHeartbeat l x]\<rparr>)
      (ox_worker_last_heartbeat_update (dset w x) s)"
  using assms unfolding agree_def same_core_def counts_kept_def same_samples_def same_counts_def same_gauges_def
    urls_ok_def times_ok_def by auto

lemma sim_gauges:
  assumes "\<forall>w'. of_worker w' l \<longleftrightarrow> w' = w"
  shows "sim (do_prom (SetTo PoolSize l (of_int n))) (change (ox_worker_pool_size_update (dset w n)))"
    and "sim (do_prom (SetTo WorkerOnline l (of_int n))) (change (ox_worker_online_update (dset w n)))"
    and "sim (do_prom (SetTo LastHeartbeat l x)) (change (ox_worker_last_heartbeat_update (dset w x)))"
  using agree_gauges[OF assms] by (auto intro!: simI simp: do_prom_def change_def)

lemma agree_prefetch_time:
  assumes "\<forall>t' w'. of_task_worker t' w' l \<longleftrightarrow> t' = t \<and> w' = w" and "agree p s"
  shows "agree (p\<lparr>px_calls := px_calls p @ [SetTo PrefetchTime l x]\<rparr>)
      (ox_task_prefetch_times_update (dset (t, w) x) s)"
  using assms unfolding agree_def same_core_def counts_kept_def same_samples_def same_counts_def same_gauges_def
    urls_ok_def times_ok_def by auto

lemma sim_record_prefetch: "sim (prom_record_prefetch t w x) (otel_record_prefetch t w x)"
proof -
  have "sim (prom_with (task_labels t w None) (\<lambda>l. SetTo PrefetchTime l x)) (change (ox_task_prefetch_times_update (dset (t, w) x)))"
  proof (rule simI)
    fix p s assume a: "agree p s"
    with task_labels_agree obtain l where "task_labels t w None p = Inr l" "\<forall>t' w'. of_task_worker t' w' l \<longleftrightarrow> t' = t \<and> w' = w"
      using agree_core by blast
    with agree_prefetch_time[OF _ a, of l t w x]
    show "\<exists>p' s'. prom_with (task_labels t w None) (\<lambda>l. SetTo PrefetchTime l x) p = (None, p') \<and>
        change (ox_task_prefetch_times_update (dset (t, w) x)) s = (None, s') \<and> agree p' s'"
      by (simp add: prom_with_def let_act_def do_prom_def change_def)
  qed
  then show ?thesis unfolding prom_record_prefetch_def otel_record_prefetch_def
    by (intro sim_run) (simp add: sim_task_observe)
qed

lemma agree_trackers:
  assumes "agree p s" and "is_aware (te_timestamp e)"
  shows "agree (ex_trackers_update (next_tracker e t w st) p) (ex_trackers_update (next_tracker e t w st) s)"
proof -
  have "times_ok (next_tracker e t w st (ex_trackers s))"
    using assms by (auto simp: times_ok_def next_tracker_def agree_def same_core_def split: if_splits)
  then show ?thesis using assms(1)
    unfolding agree_def same_core_def counts_kept_def same_samples_def same_counts_def same_gauges_def urls_ok_def by auto
qed

lemma sim_track:
  assumes "is_aware (te_timestamp e)"
  shows "sim (track_task_state prom_update_prefetched prom_update_active prom_record_prefetch e t w st)
     (track_task_state otel_update_prefetched otel_update_active otel_record_prefetch e t w st)"
proof (rule simI)
  fix p s assume a: "agree p s"
  define previous where "previous = dget (ex_trackers s) (te_task_id e)"
  have same: "ex_trackers p = ex_trackers s" using a by (simp add: agree_def same_core_def)
  have "is_aware r" if "previous_received previous = Some r" for r
    using a that by (auto simp: previous_received_def previous_def agree_def same_core_def times_ok_def split: option.splits)
  then have "sim (opt_act (\<lambda>r. let_act (\<lambda>_. seconds_since (te_timestamp e) r) (prom_record_prefetch t w)) (previous_received previous))
      (opt_act (\<lambda>r. let_act (\<lambda>_. seconds_since (te_timestamp e) r) (otel_record_prefetch t w)) (previous_received previous))"
    using assms sim_record_prefetch by (intro sim_opt) (simp add: sim_def let_act_def seconds_since_def)
  moreover have "sim (change (ex_trackers_update (next_tracker e t w st))) (change (ex_trackers_update (next_tracker e t w st)))"
    using agree_trackers[OF _ assms] by (auto intro!: simI simp: change_def)
  ultimately have "sim
      (run_acts
       [when_act (map_option tt_state previous = Some ''RECEIVED'' \<and> st \<noteq> ''RECEIVED'')
          (prom_update_prefetched (case previous of None \<Rightarrow> t | Some p \<Rightarrow> tt_name p) (case previous of None \<Rightarrow> w | Some p \<Rightarrow> tt_worker p) (- 1)),
        when_act (map_option tt_state previous = Some ''STARTED'' \<and> st \<noteq> ''STARTED'')
          (prom_update_active (case previous of None \<Rightarrow> w | Some p \<Rightarrow> tt_worker p) (- 1)),
        when_act (st = ''RECEIVED'' \<and> map_option tt_state previous \<noteq> Some ''RECEIVED'') (prom_update_prefetched t w 1),
        when_act (st = ''STARTED'' \<and> map_option tt_state previous \<noteq> Some ''STARTED'') (prom_update_active w 1),
        when_act (map_option tt_state previous = Some ''RECEIVED'' \<and> st = ''STARTED'')
          (opt_act (\<lambda>r. let_act (\<lambda>_. seconds_since (te_timestamp e) r) (prom_record_prefetch t w)) (previous_received previous)),
        change (ex_trackers_update (next_tracker e t w st))])
      (run_acts
       [when_act (map_option tt_state previous = Some ''RECEIVED'' \<and> st \<noteq> ''RECEIVED'')
          (otel_update_prefetched (case previous of None \<Rightarrow> t | Some p \<Rightarrow> tt_name p) (case previous of None \<Rightarrow> w | Some p \<Rightarrow> tt_worker p) (- 1)),
        when_act (map_option tt_state previous = Some ''STARTED'' \<and> st \<noteq> ''STARTED'')
          (otel_update_active (case previous of None \<Rightarrow> w | Some p \<Rightarrow> tt_worker p) (- 1)),
        when_act (st = ''RECEIVED'' \<and> map_option tt_state previous \<noteq> Some ''RECEIVED'') (otel_update_prefetched t w 1),
        when_act (st = ''STARTED'' \<and> map_option tt_state previous \<noteq> Some ''STARTED'') (otel_update_active w 1),
        when_act (map_option tt_state previous = Some ''RECEIVED'' \<and> st = ''STARTED'')
          (opt_act (\<lambda>r. let_act (\<lambda>_. seconds_since (te_timestamp e) r) (otel_record_prefetch t w)) (previous_received previous)),
        change (ex_trackers_update (next_tracker e t w st))])"
    by (intro sim_run) (simp only: list_all2_Cons list_all2_Nil, intro conjI TrueI refl sim_when sim_update_prefetched sim_update_active; assumption?)
  from simE[OF this a] show "\<exists>p' s'.
      track_task_state prom_update_prefetched prom_update_active prom_record_prefetch e t w st p = (None, p') \<and>
      track_task_state otel_update_prefetched otel_update_active otel_record_prefetch e t w st s = (None, s') \<and> agree p' s'"
    unfolding track_task_state_def Let_def same previous_def .
qed

lemma sim_on_task_event:
  assumes "is_aware (te_timestamp e)"
  shows "sim (prom_on_task_event e) (otel_on_task_event e)"
proof -
  have "sim (opt_act (\<lambda>r. run_acts [prom_with (task_labels t w None) (\<lambda>l. Observe Runtime l r),
        prom_with (task_summary_labels t w) (\<lambda>l. Observe RuntimeByTask l r)]) (te_runtime e))
      (opt_act (\<lambda>r. run_acts [otel_with (task_labels t w None) (\<lambda>l. Record Runtime l r),
        otel_with (task_summary_labels t w) (\<lambda>l. Record RuntimeByTask l r)]) (te_runtime e))" for t w
    by (intro sim_opt sim_run) (simp add: sim_task_observe sim_summary_observe)
  then show ?thesis unfolding prom_on_task_event_def otel_on_task_event_def Let_def
    by (intro sim_run) (simp only: list_all2_Cons list_all2_Nil,
      intro conjI sim_when sim_track[OF assms] sim_task_counter TrueI; simp)
qed

lemma sim_brokers:
  assumes "url_ok u"
  shows "sim (change (ex_worker_brokers_update (dset h u))) (change (ex_worker_brokers_update (dset h u)))"
proof (rule simI)
  fix p s assume "agree p s"
  then have "agree (ex_worker_brokers_update (dset h u) p) (ex_worker_brokers_update (dset h u) s)"
    using assms unfolding agree_def same_core_def counts_kept_def same_samples_def same_counts_def same_gauges_def urls_ok_def by auto
  then show "\<exists>p' s'. change (ex_worker_brokers_update (dset h u)) p = (None, p') \<and>
      change (ex_worker_brokers_update (dset h u)) s = (None, s') \<and> agree p' s'" by (simp add: change_def)
qed

text \<open>The Prometheus exporter takes the labels of a worker once, before anything else.\<close>

lemma sim_let_labels:
  assumes "\<And>l. (\<forall>w'. of_worker w' l \<longleftrightarrow> w' = h) \<Longrightarrow> sim (f l) g"
  shows "sim (let_act (worker_labels h) f) g"
proof (rule simI)
  fix p s assume a: "agree p s"
  from worker_labels_agree[OF agree_core[OF a], of h] obtain l where
    l: "worker_labels h p = Inr l" "\<forall>w'. of_worker w' l \<longleftrightarrow> w' = h" by blast
  from simE[OF assms[OF l(2)] a] show "\<exists>p' s'. let_act (worker_labels h) f p = (None, p') \<and> g s = (None, s') \<and> agree p' s'"
    by (simp add: let_act_def l)
qed

lemma run_acts_nested: "run_acts [a, b, c] = run_acts [a, run_acts [b, c]]"
  by (rule ext) (simp split: prod.split option.split)

lemma sim_on_worker_event:
  assumes "\<And>u. we_broker_url e = Some u \<Longrightarrow> url_ok u"
  shows "sim (prom_on_worker_event local_us e) (otel_on_worker_event local_us e)"
proof -
  let ?h = "we_hostname e"
  have active: "sim (prom_set_active_count ?h n) (otel_set_active_count ?h n)" for n
    by (simp add: prom_set_active_count_def otel_set_active_count_def sim_put_active)
  have body: "sim
      (run_acts
           [opt_act (\<lambda>info. run_acts
              [opt_act (prom_set_active_count ?h) (metric_active_tasks (pget info ''active'')),
               opt_act (\<lambda>n. do_prom (SetTo PoolSize l (of_int n))) (metric_pool_size (pget info ''pool''))]) (we_info e),
            if c then run_acts [do_prom (SetTo WorkerOnline l 1),
                           do_prom (SetTo LastHeartbeat l x)]
            else when_act c' (do_prom (SetTo WorkerOnline l 0))])
      (run_acts
           [opt_act (\<lambda>info. run_acts
             [opt_act (otel_set_active_count ?h) (metric_active_tasks (pget info ''active'')),
              opt_act (\<lambda>n. change (ox_worker_pool_size_update (dset ?h n))) (metric_pool_size (pget info ''pool''))]) (we_info e),
            if c then run_acts [change (ox_worker_online_update (dset ?h 1)),
                        change (ox_worker_last_heartbeat_update (dset ?h x))]
            else when_act c' (change (ox_worker_online_update (dset ?h 0)))])"
    if l: "\<forall>w'. of_worker w' l \<longleftrightarrow> w' = ?h" for l c c' x
  proof -
    have info: "sim (opt_act (\<lambda>info. run_acts
              [opt_act (prom_set_active_count ?h) (metric_active_tasks (pget info ''active'')),
               opt_act (\<lambda>n. do_prom (SetTo PoolSize l (of_int n))) (metric_pool_size (pget info ''pool''))]) (we_info e))
        (opt_act (\<lambda>info. run_acts
             [opt_act (otel_set_active_count ?h) (metric_active_tasks (pget info ''active'')),
              opt_act (\<lambda>n. change (ox_worker_pool_size_update (dset ?h n))) (metric_pool_size (pget info ''pool''))]) (we_info e))"
      by (intro sim_opt sim_run) (simp add: sim_opt active sim_gauges[OF l])
    have online: "sim (run_acts [do_prom (SetTo WorkerOnline l 1), do_prom (SetTo LastHeartbeat l x)])
        (run_acts [change (ox_worker_online_update (dset ?h 1)), change (ox_worker_last_heartbeat_update (dset ?h x))])"
      using sim_gauges(2)[OF l, of 1] sim_gauges(3)[OF l] by (intro sim_run) simp
    have offline: "sim (do_prom (SetTo WorkerOnline l 0)) (change (ox_worker_online_update (dset ?h 0)))"
      using sim_gauges(2)[OF l, of 0] by simp
    show ?thesis using info online offline by (intro sim_run) (simp add: sim_when)
  qed
  show ?thesis unfolding prom_on_worker_event_def otel_on_worker_event_def Let_def run_acts_nested
    by (intro sim_run) (simp only: list_all2_Cons list_all2_Nil, intro conjI TrueI refl sim_opt sim_brokers assms sim_let_labels body)
qed

section \<open>Properties\<close>

text \<open>What an item must satisfy for no exporter to raise on it: dates with an offset, as the listener
  makes them, and a broker URL whose port is a number.\<close>

definition item_ok :: "emitted \<Rightarrow> bool" where
  "item_ok item = (case item of
       EmTask e \<Rightarrow> is_aware (te_timestamp e)
     | EmWorker e \<Rightarrow> (case we_broker_url e of None \<Rightarrow> True | Some u \<Rightarrow> url_ok u)
     | EmRelation r \<Rightarrow> True)"

lemma agree_item:
  assumes "agree p s" and "item_ok item"
  shows "agree (handle_item prom_on_task_event (prom_on_worker_event local_us) item p)
    (handle_item otel_on_task_event (otel_on_worker_event local_us) item s)"
proof (cases item)
  case (EmTask e)
  then show ?thesis using simE[OF sim_on_task_event assms(1), of e] assms(2) by (auto simp: handle_item_def item_ok_def)
next
  case (EmWorker e)
  then have "\<And>u. we_broker_url e = Some u \<Longrightarrow> url_ok u" using assms(2) by (simp add: item_ok_def)
  then have "sim (prom_on_worker_event local_us e) (otel_on_worker_event local_us e)" by (rule sim_on_worker_event)
  from simE[OF this assms(1)] EmWorker show ?thesis by (auto simp: handle_item_def)
qed (simp add: handle_item_def assms)

lemma agree_drain:
  assumes "agree p s" and "\<forall>i \<in> set items. item_ok i"
  shows "agree (prom_drain local_us items p) (otel_drain local_us items s)"
  using assms unfolding prom_drain_def otel_drain_def drain_events_def
  by (induction items arbitrary: p s) (simp_all add: agree_item)

lemma agree_new:
  assumes "\<forall>b \<in> snd ` set backends. url_ok b"
  shows "agree (new_prometheus backends) (new_otel backends)"
proof -
  have "url_ok b" if "dget backends u = Some b" for u b
    using that assms by (force dest: map_of_SomeD)
  then show ?thesis
    by (simp add: agree_def same_core_def counts_kept_def same_samples_def same_counts_def same_gauges_def urls_ok_def times_ok_def
        new_prometheus_def new_otel_def prom_counter_def prom_values_def prom_gauge_def otel_sum_def otel_values_def
        List.map_filter_def dget_or_def gauge_count_def)
qed


definition on_worker :: "string \<Rightarrow> string \<Rightarrow> int \<Rightarrow> string \<Rightarrow> emitted" where
  "on_worker task_id state t w = EmTask ((new_task_event task_id (Some ''t'') state (utc_dt t))\<lparr>te_worker := Some w\<rparr>)"

definition announce :: "string \<Rightarrow> string \<Rightarrow> emitted" where
  "announce w url = EmWorker \<lparr>we_hostname = w, we_event = ''worker-heartbeat'', we_timestamp = utc_dt 0, we_info = None,
     we_broker_url = Some url\<rparr>"

definition metric_items :: "emitted list" where
  "metric_items = [on_worker ''a'' ''STARTED'' 0 ''w'', announce ''w'' ''redis://h'', on_worker ''a'' ''SUCCESS'' 1 ''w'']"


text \<open>The agreement is per worker, over all its label sets. A worker whose broker becomes known while it
  runs a task changes its labels: the OpenTelemetry series of the new labels goes to minus one, and
  the Prometheus series of the old labels shows one running task for ever.\<close>

lemma relabelled_series:
  "otel_sum CurrentTasks ((=) [(''worker'', ''w''), (''broker'', ''redis://h''), (''backend'', ''unknown'')])
     (ox_calls (otel_drain id metric_items (new_otel []))) = -1 \<and>
   prom_gauge CurrentTasks ((=) [(''worker'', ''w''), (''broker'', ''unknown''), (''backend'', ''unknown'')])
     (px_calls (prom_drain id metric_items (new_prometheus []))) = Some 1"
  by code_simp

text \<open>A task received again by another worker moves its tracker without taking it off the first worker,
  whose gauge stays at one although the task has ended.\<close>

lemma redelivered_stays_prefetched:
  "let s = prom_drain id [on_worker ''a'' ''RECEIVED'' 0 ''w1'', on_worker ''a'' ''RECEIVED'' 1 ''w2'',
      on_worker ''a'' ''STARTED'' 2 ''w2'', on_worker ''a'' ''SUCCESS'' 3 ''w2''] (new_prometheus [])
   in ex_trackers s = [] \<and> dget (ex_prefetched s) (''t'', ''w1'') = Some 1 \<and>
      prom_gauge Prefetched (of_task_worker ''t'' ''w1'') (px_calls s) = Some 1"
  by code_simp

end
