(* ===== verification/Web_Auth.thy ===== *)
theory Web_Auth
  imports Redaction Toy_Runtime
begin

text \<open>
  Authentication of the web application (celery_root/components/web/auth.py): how the settings are
  read, the middleware in front of every page, basic authentication, the OAuth login and what a
  session remembers. The network, base64, regular expressions and a custom handler are parameters.
\<close>

section \<open>Configuration\<close>

datatype provider = Google | Github | Gitlab | Okta

fun provider_value :: "provider \<Rightarrow> string" where
  "provider_value Google = ''google''"
| "provider_value Github = ''github''"
| "provider_value Gitlab = ''gitlab''"
| "provider_value Okta = ''okta''"

definition PROVIDERS :: "provider list" where
  "PROVIDERS = [Google, Github, Gitlab, Okta]"

record web_request =
  rq_path :: string
  rq_full_path :: string
  rq_get :: "(string, string) pydict"
  rq_authorization :: "string option"

text \<open>What the session holds under the three keys: the login (email, provider, time), the state of a
  flow that was started, and where to go after the login.\<close>

record session =
  se_auth :: "(string \<times> string \<times> rat) option"
  se_state :: "string option"
  se_next :: "string option"

definition empty_session :: session where
  "empty_session = \<lparr>se_auth = None, se_state = None, se_next = None\<rparr>"

text \<open>\<open>Pass\<close> is the answer of the page itself; \<open>Own\<close> a response made by a custom handler.\<close>

datatype response = Pass | Text nat string | RedirectTo string | Own nat

datatype handler_result = Allow | Deny | Respond nat

type_synonym custom_handler = "web_request \<Rightarrow> session \<Rightarrow> pyexc + (handler_result \<times> session)"

record auth_config =
  ac_basic_auth :: "(string \<times> string) list"
  ac_provider :: "provider option"
  ac_custom_handler :: "custom_handler option"
  ac_allowed_email_patterns :: "(string \<Rightarrow> bool) list"
  ac_oauth2_key :: "string option"
  ac_oauth2_secret :: "string option"
  ac_oauth2_redirect_uri :: "string option"
  ac_okta_base_url :: "string option"
  ac_gitlab_allowed_groups :: "string list"
  ac_gitlab_min_access_level :: int
  ac_gitlab_oauth_domain :: string
  ac_error :: "string option"

definition auth_enabled :: "auth_config \<Rightarrow> bool" where
  "auth_enabled c = (ac_basic_auth c \<noteq> [] \<or> ac_provider c \<noteq> None \<or> ac_custom_handler c \<noteq> None \<or> truthy_str (ac_error c))"

definition oauth_enabled :: "auth_config \<Rightarrow> bool" where
  "oauth_enabled c = (ac_provider c \<noteq> None)"

definition split_csv :: "string option \<Rightarrow> string list" where
  "split_csv raw = (if truthy_str raw then filter (\<lambda>p. p \<noteq> []) (map py_strip (split_on CHR '','' (the raw))) else [])"

text \<open>An entry without a colon is skipped.\<close>

definition parse_basic_auth :: "string option \<Rightarrow> (string \<times> string) list" where
  "parse_basic_auth raw =
     (if truthy_str raw
      then map (\<lambda>item. (before CHR '':'' item, after CHR '':'' item))
        (filter (\<lambda>item. item \<noteq> [] \<and> CHR '':'' \<in> set item) (map py_strip (split_on CHR '','' (the raw))))
      else [])"

definition parse_allowed_emails :: "(string \<Rightarrow> pyexc + (string \<Rightarrow> bool)) \<Rightarrow> string option \<Rightarrow> pyexc + (string \<Rightarrow> bool) list" where
  "parse_allowed_emails compile raw =
     (let v = (case raw of None \<Rightarrow> [] | Some s \<Rightarrow> py_strip s);
          v = (if starts_with ''allowed-emails'' v
               then lstrip_by (\<lambda>c. c \<in> {CHR '':'', CHR ''='', CHR ''.'', CHR '' ''}) (drop (length ''allowed-emails'') v) else v)
      in efold (\<lambda>p ps. ebind (compile p) (\<lambda>f. Inr (ps @ [f])))
           (filter (\<lambda>p. p \<noteq> []) (map py_strip (split_on CHR '','' v))) [])"

definition parse_int_or :: "pyrt \<Rightarrow> string option \<Rightarrow> int \<Rightarrow> int" where
  "parse_int_or rt raw d = (case raw of None \<Rightarrow> d | Some s \<Rightarrow> (case rt_int rt s of None \<Rightarrow> d | Some n \<Rightarrow> n))"

definition resolve_provider :: "string option \<Rightarrow> provider option" where
  "resolve_provider raw =
     (if \<not> truthy_str raw then None
      else let lowered = py_lower (py_strip (the raw))
           in case List.find (\<lambda>p. provider_value p = lowered) PROVIDERS of
                Some p \<Rightarrow> Some p
              | None \<Rightarrow>
                  (if starts_with ''flower.views.auth'' lowered \<or> starts_with ''flower.'' lowered
                   then List.find (\<lambda>p. str_in (provider_value p) lowered) PROVIDERS else None))"

definition auth_split_path :: "string \<Rightarrow> string \<times> string" where
  "auth_split_path path = (if CHR '':'' \<in> set path then (before CHR '':'' path, after CHR '':'' path)
     else (rbefore CHR ''.'' path, rafter CHR ''.'' path))"

text \<open>\<open>_resolve_custom_handler\<close>: \<open>import_attr\<close> imports a module, which may raise, and gives the attribute
  when there is one that can be called. The inner None is the AuthError.\<close>

definition resolve_custom_handler :: "(string \<Rightarrow> string \<Rightarrow> pyexc + custom_handler option) \<Rightarrow> string option \<Rightarrow>
    pyexc + (string + custom_handler option)" where
  "resolve_custom_handler import_attr raw =
     (if \<not> truthy_str raw then Inr (Inr None)
      else let r = the raw
           in if py_lower (py_strip r) \<in> provider_value ` set PROVIDERS then Inr (Inr None)
              else if CHR ''.'' \<notin> set r \<and> CHR '':'' \<notin> set r then Inr (Inr None)
              else ebind (import_attr (fst (auth_split_path r)) (snd (auth_split_path r))) (\<lambda>h. Inr (case h of
                  None \<Rightarrow> Inl (''Custom auth handler is not callable: '' @ r)
                | Some f \<Rightarrow> Inr (Some f))))"

fun first_env :: "(string \<Rightarrow> string option) \<Rightarrow> string list \<Rightarrow> string option" where
  "first_env env [] = None"
| "first_env env (k # ks) = (case env k of
       None \<Rightarrow> first_env env ks
     | Some v \<Rightarrow> (if py_strip v \<noteq> [] then Some (py_strip v) else first_env env ks))"

definition get_setting :: "pyrt \<Rightarrow> (string \<Rightarrow> pyval) \<Rightarrow> (string \<Rightarrow> string option) \<Rightarrow> string \<Rightarrow> string list \<Rightarrow> string option" where
  "get_setting rt settings env key env_keys = (case settings key of
       PNone \<Rightarrow> first_env env env_keys
     | PStr s \<Rightarrow> Some (if py_strip s \<noteq> [] then py_strip s else s)
     | v \<Rightarrow> Some (py_str rt v))"

definition load_auth_config :: "pyrt \<Rightarrow> (string \<Rightarrow> pyexc + (string \<Rightarrow> bool)) \<Rightarrow>
    (string \<Rightarrow> string \<Rightarrow> pyexc + custom_handler option) \<Rightarrow> (string \<Rightarrow> pyval) \<Rightarrow> (string \<Rightarrow> string option) \<Rightarrow> pyexc + auth_config" where
  "load_auth_config rt compile import_attr settings env =
     (let get = get_setting rt settings env;
          raw_basic = get ''CELERY_ROOT_BASIC_AUTH''
            [''FLOWER_BASIC_AUTH'', ''FLOWER_BASIC_AUTHENTICATION'', ''FLOWER_BASIC_AUTHORIZATION''];
          raw_provider = get ''CELERY_ROOT_AUTH_PROVIDER'' [''FLOWER_AUTH_PROVIDER''];
          raw_auth = get ''CELERY_ROOT_AUTH'' [''FLOWER_AUTH''];
          gitlab_domain = get ''CELERY_ROOT_GITLAB_OAUTH_DOMAIN'' [''FLOWER_GITLAB_OAUTH_DOMAIN''];
          provider = resolve_provider raw_provider
      in ebind (if provider = None then resolve_custom_handler import_attr raw_provider else Inr (Inr None)) (\<lambda>resolved.
         let handler = (case resolved of Inl e \<Rightarrow> None | Inr h \<Rightarrow> h);
             error = (case resolved of Inl e \<Rightarrow> Some e | Inr h \<Rightarrow> None);
             error = (if truthy_str raw_provider \<and> provider = None \<and> handler = None \<and> error = None
                      then Some (''Unsupported auth provider: '' @ the raw_provider) else error)
         in ebind (parse_allowed_emails compile raw_auth) (\<lambda>patterns.
            Inr \<lparr>ac_basic_auth = parse_basic_auth raw_basic, ac_provider = provider, ac_custom_handler = handler,
              ac_allowed_email_patterns = patterns,
              ac_oauth2_key = get ''CELERY_ROOT_OAUTH2_KEY'' [''FLOWER_OAUTH2_KEY''],
              ac_oauth2_secret = get ''CELERY_ROOT_OAUTH2_SECRET'' [''FLOWER_OAUTH2_SECRET''],
              ac_oauth2_redirect_uri = get ''CELERY_ROOT_OAUTH2_REDIRECT_URI'' [''FLOWER_OAUTH2_REDIRECT_URI''],
              ac_okta_base_url = get ''CELERY_ROOT_OAUTH2_OKTA_BASE_URL'' [''FLOWER_OAUTH2_OKTA_BASE_URL''],
              ac_gitlab_allowed_groups = split_csv (get ''CELERY_ROOT_GITLAB_AUTH_ALLOWED_GROUPS'' [''FLOWER_GITLAB_AUTH_ALLOWED_GROUPS'']),
              ac_gitlab_min_access_level = parse_int_or rt (get ''CELERY_ROOT_GITLAB_MIN_ACCESS_LEVEL'' [''FLOWER_GITLAB_MIN_ACCESS_LEVEL'']) 20,
              ac_gitlab_oauth_domain = or_str gitlab_domain ''https://gitlab.com'',
              ac_error = error\<rparr>)))"

section \<open>The middleware\<close>

definition EXEMPT_PATHS :: "string list" where
  "EXEMPT_PATHS = [''/healthcheck'', ''/metrics'', ''/login'', ''/logout'', ''/favicon.ico'']"

definition is_exempt_path :: "string \<Rightarrow> string \<Rightarrow> bool" where
  "is_exempt_path static_url path =
     (let stripped = rstrip_by (\<lambda>c. c = CHR ''/'') path;
          normalized = (if stripped = [] then ''/'' else stripped)
      in normalized \<in> set EXEMPT_PATHS \<or> (static_url \<noteq> [] \<and> starts_with static_url path))"

text \<open>\<open>b64\<close> decodes base64 and UTF-8, None when either raises.\<close>

definition check_basic_auth :: "(string \<Rightarrow> string option) \<Rightarrow> string option \<Rightarrow> (string \<times> string) list \<Rightarrow> bool" where
  "check_basic_auth b64 authorization creds =
     (if \<not> truthy_str authorization then False
      else let header = the authorization
           in if \<not> starts_with ''basic '' (py_lower header) then False
              else case b64 (py_strip (after CHR '' '' header)) of
                  None \<Rightarrow> False
                | Some decoded \<Rightarrow>
                    (if CHR '':'' \<notin> set decoded then False
                     else \<exists>(u, p) \<in> set creds. before CHR '':'' decoded = u \<and> after CHR '':'' decoded = p))"

definition sanitize_next :: "string option \<Rightarrow> string option" where
  "sanitize_next candidate = (case candidate of
       None \<Rightarrow> None
     | Some c \<Rightarrow> (if c \<noteq> [] \<and> starts_with ''/'' c \<and> \<not> starts_with ''//'' c then Some c else None))"

definition redirect_to_login :: "string \<Rightarrow> web_request \<Rightarrow> response" where
  "redirect_to_login login_url rq = (case sanitize_next (Some (rq_full_path rq)) of
       None \<Rightarrow> RedirectTo login_url
     | Some n \<Rightarrow> RedirectTo (login_url @ ''?'' @ urlencode [(''next'', n)]))"

definition handle_custom_auth :: "custom_handler \<Rightarrow> web_request \<Rightarrow> session \<Rightarrow> pyexc + (response \<times> session)" where
  "handle_custom_auth handler rq s = ebind (handler rq s) (\<lambda>(result, s'). Inr (case result of
       Respond n \<Rightarrow> (Own n, s')
     | Allow \<Rightarrow> (Pass, s')
     | Deny \<Rightarrow> (Text 403 ''Authentication required.'', s')))"

definition auth_middleware :: "(string \<Rightarrow> string option) \<Rightarrow> string \<Rightarrow> string \<Rightarrow> auth_config \<Rightarrow> web_request \<Rightarrow> session \<Rightarrow>
    pyexc + (response \<times> session)" where
  "auth_middleware b64 static_url login_url c rq s =
     (if truthy_str (ac_error c) then Inr (Text 500 (the (ac_error c)), s)
      else if \<not> auth_enabled c \<or> is_exempt_path static_url (rq_path rq) then Inr (Pass, s)
      else if ac_basic_auth c \<noteq> [] \<and> check_basic_auth b64 (rq_authorization rq) (ac_basic_auth c) then Inr (Pass, s)
      else case ac_custom_handler c of
          Some handler \<Rightarrow> handle_custom_auth handler rq s
        | None \<Rightarrow>
            (if oauth_enabled c then Inr (if se_auth s \<noteq> None then Pass else redirect_to_login login_url rq, s)
             else Inr (Text 401 ''Authentication required.'', s)))"

section \<open>The provider\<close>

text \<open>An AuthError is answered with 403; any other exception leaves the view.\<close>

datatype auth_fail = AuthError string | Crash pyexc

definition or_crash :: "pyexc + 'a \<Rightarrow> auth_fail + 'a" where
  "or_crash r = (case r of Inl e \<Rightarrow> Inl (Crash e) | Inr x \<Rightarrow> Inr x)"

text \<open>The network: the body and content type of a form post, the body and headers of a get with a token.\<close>

record network =
  nw_post :: "string \<Rightarrow> string \<Rightarrow> pyexc + (string \<times> string)"
  nw_get :: "string \<Rightarrow> string \<Rightarrow> pyexc + (string \<times> (string, string) pydict)"

record endpoints =
  ep_auth_url :: string
  ep_token_url :: string
  ep_user_info_url :: string
  ep_scopes :: "string list"

definition rstrip_slash :: "string \<Rightarrow> string" where
  "rstrip_slash s = rstrip_by (\<lambda>c. c = CHR ''/'') s"

definition resolve_endpoints :: "auth_config \<Rightarrow> auth_fail + endpoints" where
  "resolve_endpoints c = (case ac_provider c of
       Some Google \<Rightarrow> Inr \<lparr>ep_auth_url = ''https://accounts.google.com/o/oauth2/v2/auth'',
         ep_token_url = ''https://oauth2.googleapis.com/token'',
         ep_user_info_url = ''https://openidconnect.googleapis.com/v1/userinfo'',
         ep_scopes = [''openid'', ''email'', ''profile'']\<rparr>
     | Some Github \<Rightarrow> Inr \<lparr>ep_auth_url = ''https://github.com/login/oauth/authorize'',
         ep_token_url = ''https://github.com/login/oauth/access_token'',
         ep_user_info_url = ''https://api.github.com/user'', ep_scopes = [''read:user'', ''user:email'']\<rparr>
     | Some Gitlab \<Rightarrow> (let domain = rstrip_slash (ac_gitlab_oauth_domain c) in
         Inr \<lparr>ep_auth_url = domain @ ''/oauth/authorize'', ep_token_url = domain @ ''/oauth/token'',
           ep_user_info_url = domain @ ''/api/v4/user'', ep_scopes = [''read_user'', ''read_api'']\<rparr>)
     | Some Okta \<Rightarrow>
         (if \<not> truthy_str (ac_okta_base_url c) then Inl (AuthError ''FLOWER_OAUTH2_OKTA_BASE_URL is not configured.'')
          else let base = rstrip_slash (the (ac_okta_base_url c)) in
            Inr \<lparr>ep_auth_url = base @ ''/v1/authorize'', ep_token_url = base @ ''/v1/token'',
              ep_user_info_url = base @ ''/v1/userinfo'', ep_scopes = [''openid'', ''email'', ''profile'']\<rparr>)
     | None \<Rightarrow> Inl (AuthError ''Unsupported OAuth provider.''))"

definition load_json :: "pyrt \<Rightarrow> string \<Rightarrow> auth_fail + pyval" where
  "load_json rt body = (case rt_loads rt body of
       None \<Rightarrow> Inl (Crash (ValueError ''Expecting value'')) | Some v \<Rightarrow> Inr v)"

definition http_post_form :: "pyrt \<Rightarrow> network \<Rightarrow> string \<Rightarrow> (string \<times> string) list \<Rightarrow> auth_fail + pyval" where
  "http_post_form rt net url payload =
     ebind (or_crash (nw_post net url (urlencode payload))) (\<lambda>(body, content_type).
     if str_in ''application/json'' content_type \<or> starts_with ''{'' (py_strip body) then load_json rt body
     else Inr (PDict (fold (\<lambda>(k, v). dset (PStr k) (PStr v)) (filter (\<lambda>(k, v). v \<noteq> []) (parse_qsl body)) [])))"

definition http_get_json_with_headers :: "pyrt \<Rightarrow> network \<Rightarrow> string \<Rightarrow> string \<Rightarrow> auth_fail + (pyval \<times> (string, string) pydict)" where
  "http_get_json_with_headers rt net url token =
     ebind (or_crash (nw_get net url token)) (\<lambda>(body, headers).
     ebind (load_json rt body) (\<lambda>payload. Inr (payload, headers)))"

definition http_get_json :: "pyrt \<Rightarrow> network \<Rightarrow> string \<Rightarrow> string \<Rightarrow> auth_fail + (pyval \<times> pyval) list" where
  "http_get_json rt net url token =
     ebind (http_get_json_with_headers rt net url token) (\<lambda>(data, headers). case data of
       PDict d \<Rightarrow> Inr d | _ \<Rightarrow> Inl (AuthError ''Unexpected JSON payload.''))"

definition item_get :: "pyval \<Rightarrow> string \<Rightarrow> auth_fail + pyval" where
  "item_get item k = (case item of PDict d \<Rightarrow> Inr (pget d k) | _ \<Rightarrow> Inl (Crash (OtherError ''AttributeError'')))"

definition resolve_redirect_uri :: "string \<Rightarrow> auth_config \<Rightarrow> string" where
  "resolve_redirect_uri login_uri c = or_str (ac_oauth2_redirect_uri c) login_uri"

definition exchange_code_for_token :: "pyrt \<Rightarrow> network \<Rightarrow> string \<Rightarrow> auth_config \<Rightarrow> string \<Rightarrow> auth_fail + string" where
  "exchange_code_for_token rt net login_uri c code =
     ebind (resolve_endpoints c) (\<lambda>ep.
     ebind (http_post_form rt net (ep_token_url ep)
       [(''code'', code), (''client_id'', or_str (ac_oauth2_key c) []), (''client_secret'', or_str (ac_oauth2_secret c) []),
        (''redirect_uri'', resolve_redirect_uri login_uri c), (''grant_type'', ''authorization_code'')]) (\<lambda>data.
     ebind (item_get data ''access_token'') (\<lambda>token.
     if truthy token then Inr (py_str rt token) else Inl (AuthError ''OAuth token response missing access_token.''))))"

definition extract_profile_email :: "pyrt \<Rightarrow> (pyval \<times> pyval) list \<Rightarrow> string option" where
  "extract_profile_email rt profile =
     (let email = pget profile ''email'' in if truthy email then Some (py_str rt email) else None)"

fun find_primary :: "pyval list \<Rightarrow> auth_fail + pyval option" where
  "find_primary [] = Inr None"
| "find_primary (item # items) =
     ebind (item_get item ''primary'') (\<lambda>p. ebind (if truthy p then item_get item ''verified'' else Inr p) (\<lambda>v.
     if truthy v then Inr (Some item) else find_primary items))"

definition first_email :: "pyrt \<Rightarrow> pyval list \<Rightarrow> auth_fail + string option" where
  "first_email rt emails = (case emails of
       [] \<Rightarrow> Inr None
     | e # _ \<Rightarrow> ebind (item_get e ''email'') (\<lambda>v. Inr (if truthy v then Some (py_str rt v) else None)))"

definition extract_github_email :: "pyrt \<Rightarrow> network \<Rightarrow> string \<Rightarrow> (pyval \<times> pyval) list \<Rightarrow> auth_fail + string option" where
  "extract_github_email rt net token profile =
     (let email = extract_profile_email rt profile
      in if truthy_str email then Inr email
         else ebind (http_get_json_with_headers rt net ''https://api.github.com/user/emails'' token) (\<lambda>(emails, headers).
              case emails of
                PList items \<Rightarrow>
                  ebind (find_primary items) (\<lambda>primary.
                  ebind (case primary of None \<Rightarrow> Inr PNone | Some item \<Rightarrow> item_get item ''email'') (\<lambda>e.
                  if truthy e then Inr (Some (py_str rt e)) else first_email rt items))
              | _ \<Rightarrow> Inr None))"

definition fetch_user_email :: "pyrt \<Rightarrow> network \<Rightarrow> auth_config \<Rightarrow> string \<Rightarrow> auth_fail + string option" where
  "fetch_user_email rt net c token =
     ebind (resolve_endpoints c) (\<lambda>ep.
     ebind (http_get_json rt net (ep_user_info_url ep) token) (\<lambda>profile.
     if ac_provider c = Some Github then extract_github_email rt net token profile
     else Inr (extract_profile_email rt profile)))"

definition is_email_allowed :: "string \<Rightarrow> (string \<Rightarrow> bool) list \<Rightarrow> bool" where
  "is_email_allowed email patterns = (patterns = [] \<or> list_ex (\<lambda>p. p email) patterns)"

fun add_groups :: "pyrt \<Rightarrow> pyval list \<Rightarrow> string set \<Rightarrow> auth_fail + string set" where
  "add_groups rt [] groups = Inr groups"
| "add_groups rt (item # items) groups =
     ebind (item_get item ''full_path'') (\<lambda>full_path. ebind (item_get item ''path'') (\<lambda>path.
     add_groups rt items ((if truthy path then {py_str rt path} else {}) \<union>
       ((if truthy full_path then {py_str rt full_path} else {}) \<union> groups))))"

text \<open>The pages of groups, as long as the server names a next page; with a server that never stops
  naming one the loop does not return.\<close>

partial_function (option) gitlab_pages :: "pyrt \<Rightarrow> network \<Rightarrow> string \<Rightarrow> int \<Rightarrow> string \<Rightarrow> int \<Rightarrow> string set \<Rightarrow>
    (auth_fail + string set) option" where
  "gitlab_pages rt net domain level token page groups =
     (case http_get_json_with_headers rt net (domain @ ''/api/v4/groups?'' @ urlencode
          [(''min_access_level'', show_int level), (''per_page'', ''100''), (''page'', show_int page)]) token of
        Inl e \<Rightarrow> Some (Inl e)
      | Inr (data, headers) \<Rightarrow>
          (case (case data of PList items \<Rightarrow> add_groups rt items groups | _ \<Rightarrow> Inr groups) of
             Inl e \<Rightarrow> Some (Inl e)
           | Inr groups' \<Rightarrow>
               (let next_page = or_str (dget headers ''X-Next-Page'') []
                in if next_page = [] then Some (Inr groups')
                   else case rt_int rt next_page of
                       None \<Rightarrow> Some (Inr groups')
                     | Some p \<Rightarrow> gitlab_pages rt net domain level token p groups')))"

definition is_gitlab_group_allowed :: "pyrt \<Rightarrow> network \<Rightarrow> auth_config \<Rightarrow> string \<Rightarrow> (auth_fail + bool) option" where
  "is_gitlab_group_allowed rt net c token =
     map_option (\<lambda>r. ebind r (\<lambda>groups. Inr (list_ex (\<lambda>g. g \<in> groups) (ac_gitlab_allowed_groups c))))
       (gitlab_pages rt net (rstrip_slash (ac_gitlab_oauth_domain c)) (ac_gitlab_min_access_level c) token 1 {})"

section \<open>The login\<close>

text \<open>\<open>_complete_oauth_login\<close>: the email that passed every check; None when a page loop does not end.\<close>

definition complete_oauth_login :: "pyrt \<Rightarrow> network \<Rightarrow> string \<Rightarrow> auth_config \<Rightarrow> string \<Rightarrow> (auth_fail + string) option" where
  "complete_oauth_login rt net login_uri c code =
     (case ebind (exchange_code_for_token rt net login_uri c code) (\<lambda>token.
           ebind (fetch_user_email rt net c token) (\<lambda>email. case email of
               None \<Rightarrow> Inl (AuthError ''OAuth provider did not return an email.'')
             | Some e \<Rightarrow> (if is_email_allowed e (ac_allowed_email_patterns c) then Inr (token, e)
                         else Inl (AuthError ''Email address is not allowed.'')))) of
        Inl e \<Rightarrow> Some (Inl e)
      | Inr (token, e) \<Rightarrow>
          (if ac_provider c = Some Gitlab \<and> ac_gitlab_allowed_groups c \<noteq> []
           then map_option (\<lambda>r. ebind r (\<lambda>ok. if ok then Inr e else Inl (AuthError ''GitLab group membership check failed.'')))
             (is_gitlab_group_allowed rt net c token)
           else Some (Inr e)))"

definition start_oauth :: "string \<Rightarrow> string \<Rightarrow> auth_config \<Rightarrow> web_request \<Rightarrow> session \<Rightarrow> response \<times> session" where
  "start_oauth fresh_state login_uri c rq s =
     (if \<not> truthy_str (ac_oauth2_key c) \<or> \<not> truthy_str (ac_oauth2_secret c)
      then (Text 400 ''OAuth client credentials are not configured.'', s)
      else case resolve_endpoints c of
          Inl (AuthError m) \<Rightarrow> (Text 400 m, s)
        | Inl (Crash e) \<Rightarrow> (Text 500 [], s)
        | Inr ep \<Rightarrow>
            (let s' = s\<lparr>se_state := Some fresh_state\<rparr>;
                 s' = (case sanitize_next (dget (rq_get rq) ''next'') of None \<Rightarrow> s' | Some n \<Rightarrow> s'\<lparr>se_next := Some n\<rparr>)
             in (RedirectTo (ep_auth_url ep @ ''?'' @ urlencode
                   [(''response_type'', ''code''), (''client_id'', the (ac_oauth2_key c)),
                    (''redirect_uri'', resolve_redirect_uri login_uri c), (''scope'', join '' '' (ep_scopes ep)),
                    (''state'', fresh_state)]), s')))"

text \<open>A state is good once, and only in the session it was made for.\<close>

definition validate_state :: "string \<Rightarrow> session \<Rightarrow> bool \<times> session" where
  "validate_state state s = (if se_state s = Some state then (True, s\<lparr>se_state := None\<rparr>) else (False, s))"

definition redirect_after_login :: "session \<Rightarrow> response \<times> session" where
  "redirect_after_login s = (RedirectTo (or_str (se_next s) ''/''), s\<lparr>se_next := None\<rparr>)"

definition store_login :: "string \<Rightarrow> string \<Rightarrow> rat \<Rightarrow> session \<Rightarrow> session" where
  "store_login email provider_name now s = s\<lparr>se_auth := Some (email, provider_name, now)\<rparr>"

definition handle_oauth_login :: "pyrt \<Rightarrow> network \<Rightarrow> string \<Rightarrow> rat \<Rightarrow> string \<Rightarrow> auth_config \<Rightarrow> web_request \<Rightarrow> session \<Rightarrow>
    (pyexc + (response \<times> session)) option" where
  "handle_oauth_login rt net fresh_state now login_uri c rq s =
     (case dget (rq_get rq) ''error'' of
        Some error \<Rightarrow> Some (Inr (Text 400 (''OAuth error: '' @ error), s))
      | None \<Rightarrow> (case dget (rq_get rq) ''code'' of
            None \<Rightarrow> Some (Inr (start_oauth fresh_state login_uri c rq s))
          | Some code \<Rightarrow>
              (let state = or_str (dget (rq_get rq) ''state'') [];
                   (valid, s') = validate_state state s
               in if state = [] \<or> \<not> valid then Some (Inr (Text 400 ''Invalid OAuth state.'', s))
                  else case complete_oauth_login rt net login_uri c code of
                      None \<Rightarrow> None
                    | Some (Inl (AuthError m)) \<Rightarrow> Some (Inr (Text 403 m, s'))
                    | Some (Inl (Crash e)) \<Rightarrow> Some (Inl e)
                    | Some (Inr email) \<Rightarrow> Some (Inr (redirect_after_login (store_login email
                        (case ac_provider c of None \<Rightarrow> ''oauth'' | Some p \<Rightarrow> provider_value p) now s'))))))"

definition handle_custom_login :: "custom_handler \<Rightarrow> web_request \<Rightarrow> session \<Rightarrow> pyexc + (response \<times> session)" where
  "handle_custom_login handler rq s =
     (let s' = (case sanitize_next (dget (rq_get rq) ''next'') of None \<Rightarrow> s | Some n \<Rightarrow> s\<lparr>se_next := Some n\<rparr>)
      in ebind (handler rq s') (\<lambda>(result, s2). Inr (case result of
           Respond n \<Rightarrow> (Own n, s2)
         | Allow \<Rightarrow> redirect_after_login s2
         | Deny \<Rightarrow> (Text 403 ''Authentication required.'', s2))))"

definition login_view :: "pyrt \<Rightarrow> network \<Rightarrow> string \<Rightarrow> rat \<Rightarrow> string \<Rightarrow> auth_config \<Rightarrow> web_request \<Rightarrow> session \<Rightarrow>
    (pyexc + (response \<times> session)) option" where
  "login_view rt net fresh_state now login_uri c rq s = (case ac_custom_handler c of
       Some handler \<Rightarrow> Some (handle_custom_login handler rq s)
     | None \<Rightarrow>
         (if \<not> oauth_enabled c then Some (Inr (Text 404 ''OAuth provider is not configured.'', s))
          else handle_oauth_login rt net fresh_state now login_uri c rq s))"

definition logout_view :: "session \<Rightarrow> response \<times> session" where
  "logout_view s = (RedirectTo ''/'', empty_session)"

section \<open>What a session proves\<close>

text \<open>The sessions a browser can reach: any requests, answered by any network at any time. A session is
  only saved when the view returns.\<close>

inductive session_reachable :: "pyrt \<Rightarrow> auth_config \<Rightarrow> session \<Rightarrow> bool" for rt c where
  fresh: "session_reachable rt c empty_session"
| at_login: "session_reachable rt c s \<Longrightarrow> login_view rt net fresh_state now login_uri c rq s = Some (Inr (r, s')) \<Longrightarrow>
    session_reachable rt c s'"
| at_logout: "session_reachable rt c s \<Longrightarrow> session_reachable rt c (snd (logout_view s))"

text \<open>What the provider said of an email when it was let in.\<close>

definition vetted :: "pyrt \<Rightarrow> auth_config \<Rightarrow> string \<Rightarrow> bool" where
  "vetted rt c email \<longleftrightarrow> is_email_allowed email (ac_allowed_email_patterns c) \<and>
     (\<exists>net token. fetch_user_email rt net c token = Inr (Some email) \<and>
       (ac_provider c = Some Gitlab \<and> ac_gitlab_allowed_groups c \<noteq> [] \<longrightarrow> is_gitlab_group_allowed rt net c token = Some (Inr True)))"

lemma complete_oauth_login_vetted:
  assumes "complete_oauth_login rt net login_uri c code = Some (Inr email)"
  shows "vetted rt c email"
proof -
  from assms obtain token where t: "fetch_user_email rt net c token = Inr (Some email)"
      "is_email_allowed email (ac_allowed_email_patterns c)"
    and g: "ac_provider c = Some Gitlab \<and> ac_gitlab_allowed_groups c \<noteq> [] \<longrightarrow> is_gitlab_group_allowed rt net c token = Some (Inr True)"
    unfolding complete_oauth_login_def by (auto simp: ebind_Inr_iff split: sum.splits option.splits if_splits)
  then show ?thesis unfolding vetted_def by blast
qed

text \<open>What the login view does to the session, without a custom handler.\<close>

lemma login_view_session:
  assumes "login_view rt net fresh_state now login_uri c rq s = Some (Inr (r, s'))" and "ac_custom_handler c = None"
  shows "se_auth s' = se_auth s \<or>
    (\<exists>email code prov. se_auth s' = Some (email, prov, now) \<and> se_state s' = None \<and>
      se_state s \<noteq> None \<and> se_state s = dget (rq_get rq) ''state'' \<and>
      complete_oauth_login rt net login_uri c code = Some (Inr email))"
proof (cases "oauth_enabled c \<and> dget (rq_get rq) ''error'' = None \<and> dget (rq_get rq) ''code'' \<noteq> None")
  case False
  then show ?thesis using assms
    by (auto simp: login_view_def handle_oauth_login_def start_oauth_def Let_def split: option.splits if_splits sum.splits auth_fail.splits)
next
  case True
  then obtain code where code: "dget (rq_get rq) ''code'' = Some code" by blast
  define state where "state = or_str (dget (rq_get rq) ''state'') []"
  show ?thesis
  proof (cases "state \<noteq> [] \<and> se_state s = Some state")
    case False
    then have "s' = s" using assms True code
      by (auto simp: login_view_def handle_oauth_login_def validate_state_def state_def Let_def split: if_splits)
    then show ?thesis by simp
  next
    case valid: True
    then have st: "dget (rq_get rq) ''state'' = Some state"
      by (cases "dget (rq_get rq) ''state''") (auto simp: state_def or_str_def split: if_splits)
    have run: "(case complete_oauth_login rt net login_uri c code of
        None \<Rightarrow> None
      | Some (Inl (AuthError m)) \<Rightarrow> Some (Inr (Text 403 m, s\<lparr>se_state := None\<rparr>))
      | Some (Inl (Crash e)) \<Rightarrow> Some (Inl e)
      | Some (Inr email) \<Rightarrow> Some (Inr (redirect_after_login (store_login email
          (case ac_provider c of None \<Rightarrow> ''oauth'' | Some p \<Rightarrow> provider_value p) now (s\<lparr>se_state := None\<rparr>))))) = Some (Inr (r, s'))"
      using assms True code valid by (simp add: login_view_def handle_oauth_login_def validate_state_def st Let_def)
    then show ?thesis using valid st
      by (auto simp: redirect_after_login_def store_login_def split: option.splits sum.splits auth_fail.splits)
  qed
qed

lemma session_vetted:
  assumes "session_reachable rt c s" and "ac_custom_handler c = None" and "se_auth s = Some (email, prov, t)"
  shows "vetted rt c email"
  using assms
proof (induction arbitrary: email prov t rule: session_reachable.induct)
  case (at_login s net fresh_state now login_uri rq r s')
  from login_view_session[OF at_login.hyps(2) at_login.prems(1)] show ?case
  proof
    assume "se_auth s' = se_auth s"
    with at_login.IH[of email prov t] at_login.prems show ?thesis by simp
  next
    assume "\<exists>email code prov. se_auth s' = Some (email, prov, now) \<and> se_state s' = None \<and> se_state s \<noteq> None \<and>
      se_state s = dget (rq_get rq) ''state'' \<and> complete_oauth_login rt net login_uri c code = Some (Inr email)"
    with at_login.prems show ?thesis by (auto dest: complete_oauth_login_vetted)
  qed
qed (simp_all add: empty_session_def logout_view_def)

section \<open>Properties\<close>


definition demo_auth :: auth_config where
  "demo_auth = \<lparr>ac_basic_auth = [], ac_provider = Some Google, ac_custom_handler = None,
     ac_allowed_email_patterns = [starts_with ''me@''], ac_oauth2_key = Some ''k'', ac_oauth2_secret = Some ''s'',
     ac_oauth2_redirect_uri = Some ''u'', ac_okta_base_url = None, ac_gitlab_allowed_groups = [],
     ac_gitlab_min_access_level = 20, ac_gitlab_oauth_domain = [], ac_error = None\<rparr>"

definition demo_rt :: pyrt where
  "demo_rt = toy_rt\<lparr>rt_loads := (\<lambda>s.
     if s = ''{token}'' then Some (PDict [(PStr ''access_token'', PStr ''t'')])
     else if s = ''{user}'' then Some (PDict [(PStr ''email'', PStr ''me@h'')])
     else if s = ''[mails]'' then Some (PList [PDict [(PStr ''email'', PStr ''boss@corp''), (PStr ''primary'', PBool True), (PStr ''verified'', PBool False)]])
     else if s = ''[groups]'' then Some (PList [PDict [(PStr ''full_path'', PStr ''mine/ops''), (PStr ''path'', PStr ''ops'')]])
     else Some (PDict []))\<rparr>"

definition demo_net :: network where
  "demo_net = \<lparr>nw_post = (\<lambda>url body. Inr (''{token}'', [])), nw_get = (\<lambda>url token. Inr (''{user}'', []))\<rparr>"

definition get_request :: "string \<Rightarrow> (string, string) pydict \<Rightarrow> web_request" where
  "get_request path params = \<lparr>rq_path = path, rq_full_path = path, rq_get = params, rq_authorization = None\<rparr>"

definition demo_session :: session where
  "demo_session = \<lparr>se_auth = Some (''me@h'', ''google'', 7), se_state = None, se_next = None\<rparr>"

lemma demo_session_reachable: "session_reachable demo_rt demo_auth demo_session"
proof (rule at_login[OF at_login[OF fresh]])
  show "login_view demo_rt demo_net ''st'' 1 ''u'' demo_auth (get_request ''/login'' []) empty_session =
      Some (Inr (fst (start_oauth ''st'' ''u'' demo_auth (get_request ''/login'' []) empty_session),
        empty_session\<lparr>se_state := Some ''st''\<rparr>))" by code_simp
  show "login_view demo_rt demo_net ''s2'' 7 ''u'' demo_auth (get_request ''/login'' [(''code'', ''c''), (''state'', ''st'')])
      (empty_session\<lparr>se_state := Some ''st''\<rparr>) = Some (Inr (RedirectTo ''/'', demo_session))" by code_simp
qed


section \<open>Where the checks are weaker than they look\<close>

text \<open>An address that the GitHub account has not verified is taken when no verified primary one exists.\<close>

lemma unverified_email_accepted:
  "extract_github_email demo_rt \<lparr>nw_post = (\<lambda>url body. Inr ([], [])), nw_get = (\<lambda>url token. Inr (''[mails]'', []))\<rparr> ''t'' [] =
     Inr (Some ''boss@corp'')"
  by code_simp

text \<open>A required group is also matched by the last name of any group, in whatever namespace.\<close>

lemma foreign_group_accepted:
  "is_gitlab_group_allowed demo_rt \<lparr>nw_post = (\<lambda>url body. Inr ([], [])), nw_get = (\<lambda>url token. Inr (''[groups]'', []))\<rparr>
     (demo_auth\<lparr>ac_gitlab_allowed_groups := [''ops'']\<rparr>) ''t'' = Some (Inr True)"
  by (subst is_gitlab_group_allowed_def, subst gitlab_pages.simps) code_simp

text \<open>A basic authentication setting without a colon turns authentication off.\<close>

lemma malformed_basic_auth_opens:
  "map_option auth_enabled (case load_auth_config toy_rt (\<lambda>p. Inr (\<lambda>e. True)) (\<lambda>m a. Inr None)
     (\<lambda>k. if k = ''CELERY_ROOT_BASIC_AUTH'' then PStr ''admin;secret'' else PNone) (\<lambda>k. None) of
     Inl e \<Rightarrow> None | Inr c \<Rightarrow> Some c) = Some False"
  by code_simp

text \<open>The check of the target after the login lets a backslash through, which browsers read as a slash.\<close>

lemma backslash_target_accepted:
  "sanitize_next (Some (''/'' @ [CHR 0x5C] @ ''evil.example'')) = Some (''/'' @ [CHR 0x5C] @ ''evil.example'')"
  by code_simp

end
