(* ===== verification/Task_Graph.thy ===== *)
theory Task_Graph
  imports Rpc_Server
begin

text \<open>
  The task graph of the web interface (celery_root/components/web/views/graphs.py): nodes and edges
  from the stored relations and from what the tasks say of their parent, group and chord. The text
  form of a date is a parameter; rendering is not modelled.
\<close>

section \<open>Nodes and edges\<close>

record graph_node =
  gn_id :: string
  gn_task_name :: "string option"
  gn_state :: "string option"
  gn_started_at :: "string option"
  gn_finished_at :: "string option"
  gn_duration_ms :: "int option"
  gn_retries :: "int option"
  gn_worker :: "string option"
  gn_args_preview :: "string option"
  gn_kwargs_preview :: "string option"
  gn_result_preview :: "string option"
  gn_traceback_preview :: "string option"
  gn_stamps_preview :: "string option"
  gn_parent_id :: "string option"
  gn_root_id :: string
  gn_kind :: "string option"

record graph_edge =
  ge_id :: string
  ge_source :: string
  ge_target :: string
  ge_kind :: string

text \<open>An edge before it is serialised: parent, child, relation.\<close>

type_synonym raw_edge = "string \<times> string \<times> string"

definition CANVAS_TASK_KIND :: "(string, string) pydict" where
  "CANVAS_TASK_KIND = [(''celery.chain'', ''chain''), (''celery.group'', ''group''), (''celery.chord'', ''chord''),
     (''celery.chord_unlock'', ''chord''), (''celery.map'', ''map''), (''celery.starmap'', ''starmap''),
     (''celery.chunks'', ''chunks'')]"

definition add_edge :: "raw_edge \<Rightarrow> raw_edge list \<Rightarrow> raw_edge list" where
  "add_edge e edges = (if e \<in> set edges then edges else edges @ [e])"

definition edge_of_relation :: "task_relation \<Rightarrow> raw_edge" where
  "edge_of_relation r = (or_str (rel_parent_id r) (rel_root_id r), rel_child_id r,
     if rel_relation r = ''parent'' then ''chain'' else rel_relation r)"

definition build_edges :: "task_relation list \<Rightarrow> raw_edge list" where
  "build_edges relations = fold (\<lambda>r. add_edge (edge_of_relation r)) relations []"

definition node_kind_map :: "raw_edge list \<Rightarrow> (string, string) pydict" where
  "node_kind_map edges = fold (\<lambda>(parent, child, relation) kinds.
     if parent \<noteq> [] \<and> relation \<in> {''group'', ''chord'', ''map'', ''starmap'', ''chunks''} then dset parent relation kinds
     else kinds) edges []"

definition truncate_text :: "string option \<Rightarrow> string option" where
  "truncate_text v = map_option (\<lambda>s. if length s \<le> 256 then s else take 256 s @ ''...'') v"

text \<open>\<open>round(runtime * 1000)\<close>, else the whole milliseconds from start to finish.\<close>

definition duration_ms :: "task \<Rightarrow> int option" where
  "duration_ms t = (case tk_runtime t of
       Some r \<Rightarrow> Some (round_half_even (r * 1000))
     | None \<Rightarrow> (case (tk_started t, tk_finished t) of
           (Some a, Some b) \<Rightarrow> Some (let us = dt_instant b - dt_instant a in
             if 0 \<le> us then us div 1000 else - ((- us) div 1000))
         | _ \<Rightarrow> None))"

definition serialize_node :: "(pydt \<Rightarrow> string) \<Rightarrow> task option \<Rightarrow> string \<Rightarrow> string option \<Rightarrow> string \<Rightarrow> graph_node" where
  "serialize_node isofmt t node_id kind root_id =
     \<lparr>gn_id = node_id, gn_task_name = Option.bind t tk_name, gn_state = map_option tk_state t,
      gn_started_at = Option.bind t (\<lambda>t. map_option isofmt (tk_started t)),
      gn_finished_at = Option.bind t (\<lambda>t. map_option isofmt (tk_finished t)),
      gn_duration_ms = Option.bind t duration_ms, gn_retries = Option.bind t tk_retries,
      gn_worker = Option.bind t tk_worker,
      gn_args_preview = Option.bind t (\<lambda>t. truncate_text (tk_args t)),
      gn_kwargs_preview = Option.bind t (\<lambda>t. truncate_text (tk_kwargs t)),
      gn_result_preview = Option.bind t (\<lambda>t. truncate_text (tk_result t)),
      gn_traceback_preview = Option.bind t (\<lambda>t. truncate_text (tk_traceback t)),
      gn_stamps_preview = Option.bind t (\<lambda>t. truncate_text (tk_stamps t)),
      gn_parent_id = Option.bind t tk_parent_id,
      gn_root_id = (case t of None \<Rightarrow> root_id | Some t \<Rightarrow> or_str (tk_root_id t) root_id),
      gn_kind = kind\<rparr>"

definition EDGE_KINDS :: "string list" where
  "EDGE_KINDS = [''chain'', ''group'', ''chord'', ''link_error'', ''retry'', ''map'', ''starmap'', ''chunks'']"

definition shown_kind :: "string \<Rightarrow> string" where
  "shown_kind relation = (if relation \<in> set EDGE_KINDS then relation else ''chain'')"

definition serialize_edge :: "raw_edge \<Rightarrow> graph_edge option" where
  "serialize_edge e = (case e of (source, target, relation) \<Rightarrow>
     if source = [] \<or> target = [] then None
     else Some \<lparr>ge_id = source @ ''->'' @ target @ '':'' @ shown_kind relation, ge_source = source, ge_target = target,
            ge_kind = shown_kind relation\<rparr>)"

definition canvas_kind :: "task option \<Rightarrow> string option" where
  "canvas_kind t = (case t of None \<Rightarrow> None | Some t \<Rightarrow>
     if truthy_str (tk_name t) then dget CANVAS_TASK_KIND (the (tk_name t)) else None)"

section \<open>Collecting\<close>

text \<open>\<open>edge_keys\<close> holds the edges with both ends, an empty relation counting as a chain.\<close>

definition edge_key :: "raw_edge \<Rightarrow> raw_edge" where
  "edge_key e = (case e of (p, c, r) \<Rightarrow> (p, c, if r = [] then ''chain'' else r))"

definition append_edge :: "string option \<Rightarrow> string \<Rightarrow> string \<Rightarrow> raw_edge list \<times> raw_edge set \<Rightarrow> raw_edge list \<times> raw_edge set" where
  "append_edge parent child relation st =
     (if \<not> truthy_str parent \<or> child = [] then st
      else let e = (the parent, child, relation)
           in if e \<in> snd st then st else (fst st @ [e], insert e (snd st)))"

definition task_edges :: "task \<Rightarrow> raw_edge list \<times> raw_edge set \<Rightarrow> raw_edge list \<times> raw_edge set" where
  "task_edges t st =
     append_edge (tk_chord_id t) (tk_task_id t) ''chord''
       (append_edge (tk_group_id t) (tk_task_id t) ''group''
         (append_edge (tk_parent_id t) (tk_task_id t) ''chain'' st))"

definition id_list :: "string option \<Rightarrow> string list" where
  "id_list v = (if truthy_str v then [the v] else [])"

definition task_ids :: "task \<Rightarrow> string list" where
  "task_ids t = tk_task_id t # id_list (tk_parent_id t) @ id_list (tk_group_id t) @ id_list (tk_chord_id t)"

definition edge_ids :: "raw_edge \<Rightarrow> string list" where
  "edge_ids e = (case e of (p, c, r) \<Rightarrow> id_list (Some p) @ id_list (Some c))"

definition collect_nodes_and_edges :: "string \<Rightarrow> task_relation list \<Rightarrow> task list \<Rightarrow> string list \<times> raw_edge list" where
  "collect_nodes_and_edges root_id relations tasks =
     (let edges = build_edges relations;
          edge_keys = edge_key ` {e \<in> set edges. fst e \<noteq> [] \<and> fst (snd e) \<noteq> []}
      in (root_id # concat (map edge_ids edges) @ concat (map task_ids tasks),
          fst (fold task_edges tasks (edges, edge_keys))))"

section \<open>The payload\<close>

record graph_counts =
  gc_total :: nat
  gc_pending :: nat
  gc_running :: nat
  gc_retry :: nat
  gc_success :: nat
  gc_failure :: nat
  gc_revoked :: nat

definition count_node :: "graph_node \<Rightarrow> graph_counts \<Rightarrow> graph_counts" where
  "count_node n c =
     (if \<not> truthy_str (gn_state n) then c
      else let s = the (gn_state n); c = c\<lparr>gc_total := gc_total c + 1\<rparr>
           in if s = ''PENDING'' \<or> s = ''RECEIVED'' then c\<lparr>gc_pending := gc_pending c + 1\<rparr>
              else if s = ''STARTED'' then c\<lparr>gc_running := gc_running c + 1\<rparr>
              else if s = ''RETRY'' then c\<lparr>gc_retry := gc_retry c + 1\<rparr>
              else if s = ''SUCCESS'' then c\<lparr>gc_success := gc_success c + 1\<rparr>
              else if s = ''FAILURE'' then c\<lparr>gc_failure := gc_failure c + 1\<rparr>
              else if s = ''REVOKED'' then c\<lparr>gc_revoked := gc_revoked c + 1\<rparr>
              else c)"

definition build_state_counts :: "graph_node list \<Rightarrow> graph_counts" where
  "build_state_counts nodes = fold count_node nodes
     \<lparr>gc_total = 0, gc_pending = 0, gc_running = 0, gc_retry = 0, gc_success = 0, gc_failure = 0, gc_revoked = 0\<rparr>"

record graph_payload =
  gp_root_id :: string
  gp_generated_at :: string
  gp_counts :: graph_counts
  gp_nodes :: "graph_node list"
  gp_edges :: "graph_edge list"

text \<open>None is the 404 of an unknown task.\<close>

definition build_graph_payload :: "(pydt \<Rightarrow> string) \<Rightarrow> pydt \<Rightarrow> string \<Rightarrow> db \<Rightarrow> graph_payload option" where
  "build_graph_payload isofmt now task_id d = (case get_task task_id d of
       None \<Rightarrow> None
     | Some t \<Rightarrow>
         (let root_id = or_str (tk_root_id t) (tk_task_id t);
              (node_ids, edges) = collect_nodes_and_edges root_id (get_task_relations root_id d)
                (get_tasks (Some (no_filter\<lparr>tf_root_id := Some root_id\<rparr>)) d);
              kinds = node_kind_map edges;
              nodes = map (\<lambda>i. let nt = get_task i d in
                serialize_node isofmt nt i (or_else (canvas_kind nt) (dget kinds i)) root_id) (sort (remdups node_ids))
          in Some \<lparr>gp_root_id = root_id, gp_generated_at = isofmt now, gp_counts = build_state_counts nodes,
               gp_nodes = nodes, gp_edges = List.map_filter serialize_edge edges\<rparr>))"

text \<open>The view tries again while nodes without edges are found, each time with what is stored then.\<close>

fun build_graph_payload_with_retry :: "(pydt \<Rightarrow> string) \<Rightarrow> pydt \<Rightarrow> string \<Rightarrow> db \<Rightarrow> db list \<Rightarrow> graph_payload option" where
  "build_graph_payload_with_retry isofmt now task_id d later =
     (case build_graph_payload isofmt now task_id d of
        None \<Rightarrow> None
      | Some p \<Rightarrow> (if gp_edges p \<noteq> [] \<or> length (gp_nodes p) \<le> 1 then Some p
                  else case later of [] \<Rightarrow> Some p
                     | d' # ds \<Rightarrow> build_graph_payload_with_retry isofmt now task_id d' ds))"

text \<open>The incremental update: whatever happened, it says that the topology is the same.\<close>

record node_update =
  nu_id :: string
  nu_state :: "string option"
  nu_duration_ms :: "int option"
  nu_retries :: "int option"
  nu_started_at :: "string option"
  nu_finished_at :: "string option"

record graph_update =
  gu_node_updates :: "node_update list"
  gu_counts :: graph_counts
  gu_topology_changed :: bool
  gu_node_count :: nat
  gu_edge_count :: nat

definition graph_update_of :: "graph_payload \<Rightarrow> graph_update" where
  "graph_update_of p = \<lparr>gu_node_updates = map (\<lambda>n. \<lparr>nu_id = gn_id n, nu_state = gn_state n, nu_duration_ms = gn_duration_ms n,
       nu_retries = gn_retries n, nu_started_at = gn_started_at n, nu_finished_at = gn_finished_at n\<rparr>) (gp_nodes p),
     gu_counts = gp_counts p, gu_topology_changed = False, gu_node_count = length (gp_nodes p),
     gu_edge_count = length (gp_edges p)\<rparr>"

section \<open>Facts\<close>

lemma add_edge_fold:
  "set (fold (\<lambda>r. add_edge (f r)) rs edges) = set edges \<union> f ` set rs"
  "distinct edges \<Longrightarrow> distinct (fold (\<lambda>r. add_edge (f r)) rs edges)"
  by (induction rs arbitrary: edges) (auto simp: add_edge_def)

lemma gn_id_serialize [simp]: "gn_id (serialize_node isofmt t i k r) = i"
  by (simp add: serialize_node_def)

lemma build_edges_facts: "set (build_edges rels) = edge_of_relation ` set rels" "distinct (build_edges rels)"
  by (simp_all add: build_edges_def add_edge_fold)

text \<open>The links a task names itself.\<close>

definition task_links :: "task \<Rightarrow> raw_edge set" where
  "task_links t = (if tk_task_id t = [] then {} else
     {(p, tk_task_id t, ''chain'') | p. p \<in> set (id_list (tk_parent_id t))} \<union>
     {(p, tk_task_id t, ''group'') | p. p \<in> set (id_list (tk_group_id t))} \<union>
     {(p, tk_task_id t, ''chord'') | p. p \<in> set (id_list (tk_chord_id t))})"

definition new_link :: "string option \<Rightarrow> string \<Rightarrow> string \<Rightarrow> raw_edge set" where
  "new_link parent child relation = (if child = [] then {} else {(p, child, relation) | p. p \<in> set (id_list parent)})"

text \<open>The list of edges and the set of keys: every link is in the keys, every key is an edge up to an
  empty relation, and every edge with two ends and a relation has its key.\<close>

definition edges_ok :: "raw_edge list \<times> raw_edge set \<Rightarrow> bool" where
  "edges_ok st \<longleftrightarrow> distinct (fst st) \<and>
     snd st = edge_key ` {e \<in> set (fst st). fst e \<noteq> [] \<and> fst (snd e) \<noteq> []}"

lemma append_edge_facts:
  assumes "edges_ok st" and "relation \<noteq> []"
  shows "edges_ok (append_edge parent child relation st)"
    and "snd (append_edge parent child relation st) = snd st \<union> new_link parent child relation"
    and "set (fst (append_edge parent child relation st)) \<subseteq> set (fst st) \<union> new_link parent child relation"
    and "set (fst st) \<subseteq> set (fst (append_edge parent child relation st))"
proof -
  obtain edges keys where st: "st = (edges, keys)" by fastforce
  have keys: "keys = edge_key ` {e \<in> set edges. fst e \<noteq> [] \<and> fst (snd e) \<noteq> []}" "distinct edges"
    using assms(1) by (simp_all add: edges_ok_def st)
  have key: "edge_key (p, c, relation) = (p, c, relation)" for p c using assms(2) by (simp add: edge_key_def)
  show "edges_ok (append_edge parent child relation st)"
  proof (cases "truthy_str parent \<and> child \<noteq> [] \<and> (the parent, child, relation) \<notin> keys")
    case True
    then have p: "the parent \<noteq> []" by (auto elim: truthy_strE)
    have "(the parent, child, relation) \<notin> set edges"
      using True p key[of "the parent" child] unfolding keys(1) by force
    moreover have "{e \<in> set (edges @ [(the parent, child, relation)]). fst e \<noteq> [] \<and> fst (snd e) \<noteq> []} =
        insert (the parent, child, relation) {e \<in> set edges. fst e \<noteq> [] \<and> fst (snd e) \<noteq> []}"
      using True p by auto
    ultimately show ?thesis using True keys key by (simp add: append_edge_def edges_ok_def st Let_def)
  next
    case False
    then have "append_edge parent child relation st = st" by (auto simp: append_edge_def st)
    with assms(1) show ?thesis by simp
  qed
  show "snd (append_edge parent child relation st) = snd st \<union> new_link parent child relation"
    "set (fst (append_edge parent child relation st)) \<subseteq> set (fst st) \<union> new_link parent child relation"
    "set (fst st) \<subseteq> set (fst (append_edge parent child relation st))"
    by (auto simp: append_edge_def new_link_def id_list_def st Let_def split: if_splits)
qed

lemma task_edges_facts:
  assumes "edges_ok st"
  shows "edges_ok (task_edges t st)" and "snd (task_edges t st) = snd st \<union> task_links t"
    and "set (fst (task_edges t st)) \<subseteq> set (fst st) \<union> task_links t" and "set (fst st) \<subseteq> set (fst (task_edges t st))"
proof -
  let ?a = "append_edge (tk_parent_id t) (tk_task_id t) ''chain'' st"
  let ?b = "append_edge (tk_group_id t) (tk_task_id t) ''group'' ?a"
  have links: "task_links t = new_link (tk_parent_id t) (tk_task_id t) ''chain'' \<union>
      new_link (tk_group_id t) (tk_task_id t) ''group'' \<union> new_link (tk_chord_id t) (tk_task_id t) ''chord''"
    by (simp add: task_links_def new_link_def)
  have ne: "''chain'' \<noteq> []" "''group'' \<noteq> []" "''chord'' \<noteq> []" by simp_all
  note a = append_edge_facts[OF assms ne(1), of "tk_parent_id t" "tk_task_id t"]
  note b = append_edge_facts[OF a(1) ne(2), of "tk_group_id t" "tk_task_id t"]
  note c = append_edge_facts[OF b(1) ne(3), of "tk_chord_id t" "tk_task_id t"]
  show "edges_ok (task_edges t st)" unfolding task_edges_def by (rule c(1))
  show "snd (task_edges t st) = snd st \<union> task_links t" unfolding task_edges_def links c(2) b(2) a(2) by (simp only: Un_assoc)
  show "set (fst (task_edges t st)) \<subseteq> set (fst st) \<union> task_links t"
    using a(3) b(3) c(3) unfolding task_edges_def links by blast
  show "set (fst st) \<subseteq> set (fst (task_edges t st))" using a(4) b(4) c(4) unfolding task_edges_def by blast
qed

lemma task_edges_fold:
  assumes "edges_ok st"
  shows "edges_ok (fold task_edges ts st) \<and> snd (fold task_edges ts st) = snd st \<union> (\<Union>t \<in> set ts. task_links t) \<and>
    set (fst (fold task_edges ts st)) \<subseteq> set (fst st) \<union> (\<Union>t \<in> set ts. task_links t)"
  using assms
proof (induction ts arbitrary: st)
  case (Cons t ts)
  note step = task_edges_facts[OF Cons.prems, of t]
  have "set (fst (fold task_edges ts (task_edges t st))) \<subseteq> set (fst (task_edges t st)) \<union> (\<Union>t \<in> set ts. task_links t)"
    using Cons.IH[OF step(1)] by blast
  also have "\<dots> \<subseteq> set (fst st) \<union> (\<Union>t \<in> set (t # ts). task_links t)" using step(3) by auto
  finally show ?case using Cons.IH[OF step(1)] step(2) by (simp add: Un_assoc)
qed simp

text \<open>What the graph should show: the relations and the links of the tasks, with both ends.\<close>

definition graph_links :: "task_relation list \<Rightarrow> task list \<Rightarrow> raw_edge set" where
  "graph_links rels tasks =
     {e \<in> edge_of_relation ` set rels. fst e \<noteq> [] \<and> fst (snd e) \<noteq> []} \<union> (\<Union>t \<in> set tasks. task_links t)"

definition shown_edge :: "raw_edge \<Rightarrow> string \<times> string \<times> string" where
  "shown_edge e = (case e of (p, c, r) \<Rightarrow> (p, c, shown_kind r))"

definition edge_triple :: "graph_edge \<Rightarrow> string \<times> string \<times> string" where
  "edge_triple e = (ge_source e, ge_target e, ge_kind e)"

lemma shown_edge_key [simp]: "shown_edge (edge_key e) = shown_edge e"
  by (cases e) (simp add: shown_edge_def edge_key_def shown_kind_def EDGE_KINDS_def)

lemma serialized_triples:
  "map edge_triple (List.map_filter serialize_edge edges) =
     map shown_edge (filter (\<lambda>e. fst e \<noteq> [] \<and> fst (snd e) \<noteq> []) edges)"
  by (induction edges) (auto simp: List.map_filter_simps serialize_edge_def shown_edge_def edge_triple_def split: prod.splits)

lemma task_links_ends: "e \<in> task_links t \<Longrightarrow> fst e \<noteq> [] \<and> fst (snd e) \<noteq> [] \<and> fst e \<in> set (task_ids t) \<and>
    fst (snd e) \<in> set (task_ids t) \<and> snd (snd e) \<in> set EDGE_KINDS"
  by (auto simp: task_links_def task_ids_def id_list_def EDGE_KINDS_def elim: truthy_strE split: if_splits)

lemma collected:
  assumes "collect_nodes_and_edges rid rels tasks = (ids, edges)"
  shows "set ids = insert rid ((\<Union>r \<in> set rels. set (edge_ids (edge_of_relation r))) \<union> (\<Union>t \<in> set tasks. set (task_ids t)))"
    and "shown_edge ` {e \<in> set edges. fst e \<noteq> [] \<and> fst (snd e) \<noteq> []} = shown_edge ` graph_links rels tasks"
    and "distinct edges" and "set edges \<subseteq> edge_of_relation ` set rels \<union> (\<Union>t \<in> set tasks. task_links t)"
proof -
  define rel_edges where "rel_edges = build_edges rels"
  define both where "both = (\<lambda>es :: raw_edge list. {e \<in> set es. fst e \<noteq> [] \<and> fst (snd e) \<noteq> []})"
  have rel: "set rel_edges = edge_of_relation ` set rels" "distinct rel_edges"
    by (simp_all add: rel_edges_def build_edges_facts)
  have ids: "ids = rid # concat (map edge_ids rel_edges) @ concat (map task_ids tasks)"
    and edges: "edges = fst (fold task_edges tasks (rel_edges, edge_key ` both rel_edges))"
    using assms by (auto simp: collect_nodes_and_edges_def Let_def rel_edges_def both_def)
  show "set ids = insert rid ((\<Union>r \<in> set rels. set (edge_ids (edge_of_relation r))) \<union> (\<Union>t \<in> set tasks. set (task_ids t)))"
    by (simp add: ids rel)
  have "edges_ok (rel_edges, edge_key ` both rel_edges)" using rel by (simp add: edges_ok_def both_def)
  note run = task_edges_fold[OF this, of tasks]
  have ok: "distinct edges" using run unfolding edges_ok_def edges by blast
  have "snd (fold task_edges tasks (rel_edges, edge_key ` both rel_edges)) = edge_key ` both edges"
    using run unfolding edges_ok_def edges both_def by blast
  then have keys: "edge_key ` both edges = edge_key ` both rel_edges \<union> (\<Union>t \<in> set tasks. task_links t)"
    using run by simp
  have sub: "set edges \<subseteq> set rel_edges \<union> (\<Union>t \<in> set tasks. task_links t)" using run by (simp add: edges)
  show "distinct edges" by (rule ok)
  show "set edges \<subseteq> edge_of_relation ` set rels \<union> (\<Union>t \<in> set tasks. task_links t)" using sub by (simp add: rel)
  have "shown_edge ` both edges = shown_edge ` edge_key ` both edges" by (simp add: image_image)
  also have "\<dots> = shown_edge ` both rel_edges \<union> shown_edge ` (\<Union>t \<in> set tasks. task_links t)"
    unfolding keys image_Un by (simp add: image_image)
  also have "\<dots> = shown_edge ` graph_links rels tasks"
    by (simp add: graph_links_def both_def rel image_Un)
  finally show "shown_edge ` {e \<in> set edges. fst e \<noteq> [] \<and> fst (snd e) \<noteq> []} = shown_edge ` graph_links rels tasks"
    by (simp add: both_def)
qed

lemma known_kinds_distinct:
  assumes "distinct es" and "\<forall>e \<in> set es. snd (snd e) \<in> set EDGE_KINDS"
  shows "distinct (map shown_edge es)"
proof -
  have "shown_edge e = e" if "e \<in> set es" for e
    using that assms(2) by (auto simp: shown_edge_def shown_kind_def split: prod.split)
  then have "map shown_edge es = es" by (simp add: map_idI)
  with assms(1) show ?thesis by simp
qed

section \<open>Properties\<close>


definition graph_db :: db where
  "graph_db = store_task_relation \<lparr>rel_root_id = ''a'', rel_parent_id = Some ''a'', rel_child_id = ''b'', rel_relation = ''parent''\<rparr>
     (store_task_event ((new_task_event ''b'' None ''STARTED'' (utc_dt 1))\<lparr>te_root_id := Some ''a'', te_parent_id := Some ''a'', te_group_id := Some ''g''\<rparr>)
       (store_task_event (new_task_event ''a'' None ''SUCCESS'' (utc_dt 0)) fresh_db))"


text \<open>Relations of a kind the view does not know are all shown as chains, so one edge may come twice.\<close>

lemma unknown_kind_twice:
  "map_option (\<lambda>p. map ge_id (gp_edges p)) (build_graph_payload (\<lambda>t. []) (utc_dt 9) ''b''
     (store_task_relation \<lparr>rel_root_id = ''a'', rel_parent_id = Some ''a'', rel_child_id = ''b'', rel_relation = ''child''\<rparr> graph_db)) =
   Some [''a->b:chain'', ''a->b:chain'', ''g->b:group'']"
  by code_simp

text \<open>An update never says that the topology has changed; after a task was added only the counts show it.\<close>

lemma update_hides_new_nodes:
  "map_option (\<lambda>p. (gu_topology_changed (graph_update_of p), gu_node_count (graph_update_of p)))
     (build_graph_payload (\<lambda>t. []) (utc_dt 9) ''b'' (store_task_event ((new_task_event ''c'' None ''PENDING'' (utc_dt 2))
       \<lparr>te_root_id := Some ''a''\<rparr>) graph_db)) = Some (False, 4)"
  by code_simp

end
