(* ===== verification/Beat.thy ===== *)
theory Beat
  imports Retry Redaction
begin

text \<open>
  Periodic tasks: the schedule texts and the controller (celery_root/components/beat/controller.py),
  the beat form of the web interface (celery_root/components/web/views/beat.py), and the scheduler that
  reads schedules from the database and writes back when they ran
  (celery_root/components/beat/db_scheduler.py). Celery's own tick and its crontab class are parameters.
\<close>

section \<open>Schedule texts\<close>

record cron_fields =
  cf_raw :: string
  cf_minute :: string
  cf_hour :: string
  cf_day_of_month :: string
  cf_month_of_year :: string
  cf_day_of_week :: string

definition parse_cron_fields :: "string \<Rightarrow> cron_fields option" where
  "parse_cron_fields value = (case split_ws (py_strip value) of
       mi # ho # dm # my # dw # rest \<Rightarrow> Some \<lparr>cf_raw = py_strip value, cf_minute = mi, cf_hour = ho,
         cf_day_of_month = dm, cf_month_of_year = my, cf_day_of_week = dw\<rparr>
     | _ \<Rightarrow> None)"

definition INTERVAL_PREFIX :: string where "INTERVAL_PREFIX = ''interval:''"

text \<open>One match of \<open>every\s+([\d.]+)\s+seconds\<close> at the front, and the leftmost one in a text.\<close>

definition match_every :: "string \<Rightarrow> string option" where
  "match_every t =
     (if \<not> starts_with ''every'' t then None
      else let r1 = drop 5 t;
               r2 = dropWhile is_space r1;
               number = takeWhile (\<lambda>c. is_digit c \<or> c = CHR ''.'') r2;
               r3 = dropWhile (\<lambda>c. is_digit c \<or> c = CHR ''.'') r2;
               r4 = dropWhile is_space r3
           in if r1 \<noteq> r2 \<and> number \<noteq> [] \<and> r3 \<noteq> r4 \<and> starts_with ''seconds'' r4 then Some number else None)"

fun search_every :: "string \<Rightarrow> string option" where
  "search_every [] = None"
| "search_every (c # t) = (case match_every (c # t) of Some s \<Rightarrow> Some s | None \<Rightarrow> search_every t)"

text \<open>\<open>_parse_interval_seconds\<close>: the number of seconds; a text that is no number means one minute.\<close>

definition parse_interval_seconds :: "pyrt \<Rightarrow> string \<Rightarrow> pyexc + rat" where
  "parse_interval_seconds rt value =
     (let raw = py_strip value;
          raw = (if starts_with INTERVAL_PREFIX raw then drop (length INTERVAL_PREFIX) raw else raw)
      in case search_every raw of
           Some number \<Rightarrow> (case rt_float rt number of
               Some x \<Rightarrow> Inr x | None \<Rightarrow> Inl (ValueError ''could not convert string to float''))
         | None \<Rightarrow> Inr (case rt_float rt raw of Some x \<Rightarrow> x | None \<Rightarrow> 60))"

datatype beat_schedule = Cron cron_fields | Every rat

text \<open>\<open>_parse_schedule\<close>; \<open>crontab_ok\<close> says which fields Celery's crontab accepts.\<close>

definition parse_schedule :: "pyrt \<Rightarrow> (cron_fields \<Rightarrow> bool) \<Rightarrow> string \<Rightarrow> pyexc + beat_schedule" where
  "parse_schedule rt crontab_ok value = (case parse_cron_fields value of
       Some f \<Rightarrow> (if crontab_ok f then Inr (Cron f) else Inl (OtherError ''ParseException''))
     | None \<Rightarrow> ebind (parse_interval_seconds rt value) (\<lambda>x. Inr (Every x)))"

text \<open>The text of a django-celery-beat schedule: a crontab, or an interval and its unit. A number of
  seconds that is no integer is printed by Python, a parameter here.\<close>

datatype django_schedule = DjangoCron string string string string string string | DjangoInterval int string | DjangoNone

definition UNIT_SECONDS :: "(string, rat) pydict" where
  "UNIT_SECONDS = [(''days'', 86400), (''hours'', 3600), (''minutes'', 60), (''seconds'', 1), (''microseconds'', 1 / 1000000)]"

definition format_django_schedule :: "(rat \<Rightarrow> string) \<Rightarrow> django_schedule \<Rightarrow> string option" where
  "format_django_schedule show_float s = (case s of
       DjangoCron mi ho dm my dw tz \<Rightarrow> Some (join '' '' [mi, ho, dm, my, dw])
     | DjangoInterval every period \<Rightarrow>
         Some (INTERVAL_PREFIX @ (if period = ''microseconds'' then show_float (of_int every * (1 / 1000000))
           else show_int (every * \<lfloor>dget_or UNIT_SECONDS period 1\<rfloor>)))
     | DjangoNone \<Rightarrow> None)"

text \<open>What saving a schedule puts into django-celery-beat: an interval is cut to whole seconds.\<close>

definition django_schedule_of :: "pyrt \<Rightarrow> string \<Rightarrow> string \<Rightarrow> pyexc + django_schedule" where
  "django_schedule_of rt tz value = (case parse_cron_fields value of
       Some f \<Rightarrow> Inr (DjangoCron (cf_minute f) (cf_hour f) (cf_day_of_month f) (cf_month_of_year f) (cf_day_of_week f) tz)
     | None \<Rightarrow> ebind (parse_interval_seconds rt value) (\<lambda>x.
         Inr (DjangoInterval (if 0 \<le> x then \<lfloor>x\<rfloor> else \<lceil>x\<rceil>) ''seconds'')))"

section \<open>The controller\<close>

datatype beat_backend = DjangoBackend string | DbBackend string

definition detect_backend :: "pyrt \<Rightarrow> app \<Rightarrow> beat_backend" where
  "detect_backend rt a =
     (let scheduler = conf_text rt a ''beat_scheduler''
      in if str_in ''django_celery_beat'' scheduler then DjangoBackend scheduler
         else DbBackend (if scheduler = [] then ''celery_root.components.beat.db_scheduler:DatabaseScheduler'' else scheduler))"

definition list_db_schedules :: "string \<Rightarrow> db \<Rightarrow> schedule list" where
  "list_db_schedules label d = filter (\<lambda>s. sc_app s = Some label) (get_schedules d)"

definition save_db_schedule :: "string \<Rightarrow> schedule \<Rightarrow> db \<Rightarrow> db" where
  "save_db_schedule label s d = store_schedule (if sc_app s = None then s\<lparr>sc_app := Some label\<rparr> else s) d"

definition delete_db_schedule :: "string \<Rightarrow> db \<Rightarrow> db" where
  "delete_db_schedule i d = delete_schedule i d"

text \<open>The periodic tasks of django-celery-beat: its tables are a state of their own, read and written by
  the four operations the controller uses; each fails with a RuntimeError without the package.\<close>

record periodic_task =
  pt_id :: "int option"
  pt_name :: string
  pt_task :: string
  pt_args :: string
  pt_kwargs :: string
  pt_enabled :: bool
  pt_last_run_at :: "pydt option"
  pt_total_run_count :: "int option"
  pt_schedule :: django_schedule

record 'w django_models =
  dm_all :: "'w \<Rightarrow> pyexc + periodic_task list"
  dm_save :: "periodic_task \<Rightarrow> 'w \<Rightarrow> pyexc + 'w"
  dm_delete_id :: "int option \<Rightarrow> 'w \<Rightarrow> pyexc + (nat \<times> 'w)"
  dm_delete_name :: "string \<Rightarrow> 'w \<Rightarrow> pyexc + 'w"

definition get_periodic_task :: "pyrt \<Rightarrow> periodic_task list \<Rightarrow> string \<Rightarrow> string \<Rightarrow> periodic_task" where
  "get_periodic_task rt rows schedule_id name =
     (let by_id = (case rt_int rt schedule_id of None \<Rightarrow> None | Some n \<Rightarrow> List.find (\<lambda>t. pt_id t = Some n) rows);
          found = (if by_id = None then List.find (\<lambda>t. pt_name t = name) rows else by_id)
      in case found of Some t \<Rightarrow> t
         | None \<Rightarrow> \<lparr>pt_id = None, pt_name = name, pt_task = name, pt_args = ''[]'', pt_kwargs = ''{}'', pt_enabled = True,
             pt_last_run_at = None, pt_total_run_count = None, pt_schedule = DjangoNone\<rparr>)"

text \<open>\<open>_save_django_schedule\<close> keeps the name of the row it finds.\<close>

definition save_django_schedule :: "pyrt \<Rightarrow> 'w django_models \<Rightarrow> app \<Rightarrow> schedule \<Rightarrow> 'w \<Rightarrow> pyexc + 'w" where
  "save_django_schedule rt dm a s w =
     ebind (dm_all dm w) (\<lambda>rows.
     ebind (django_schedule_of rt (or_str (Some (conf_text rt a ''timezone'')) ''UTC'') (sc_schedule s)) (\<lambda>sched.
     dm_save dm ((get_periodic_task rt rows (sc_schedule_id s) (sc_name s))\<lparr>pt_task := sc_task s, pt_enabled := sc_enabled s,
       pt_args := or_str (sc_args s) ''[]'', pt_kwargs := or_str (sc_kwargs s) ''{}'', pt_schedule := sched\<rparr>) w))"

definition list_django_schedules :: "pyrt \<Rightarrow> (rat \<Rightarrow> string) \<Rightarrow> 'w django_models \<Rightarrow> app \<Rightarrow> 'w \<Rightarrow> pyexc + schedule list" where
  "list_django_schedules rt show_float dm a w =
     ebind (dm_all dm w) (\<lambda>rows. Inr (List.map_filter (\<lambda>t. case format_django_schedule show_float (pt_schedule t) of
         None \<Rightarrow> None
       | Some text \<Rightarrow> Some \<lparr>sc_schedule_id = (case pt_id t of Some n \<Rightarrow> show_int n | None \<Rightarrow> ''None''), sc_name = pt_name t,
           sc_task = pt_task t, sc_schedule = text, sc_args = Some (pt_args t), sc_kwargs = Some (pt_kwargs t),
           sc_enabled = pt_enabled t, sc_last_run_at = coerce_dt (pt_last_run_at t),
           sc_total_run_count = Some (or_int (pt_total_run_count t) 0), sc_app = Some (resolve_name rt a)\<rparr>) rows))"

definition delete_django_schedule :: "pyrt \<Rightarrow> 'w django_models \<Rightarrow> string \<Rightarrow> 'w \<Rightarrow> pyexc + 'w" where
  "delete_django_schedule rt dm i w =
     ebind (dm_delete_id dm (rt_int rt i) w) (\<lambda>(n, w').
     if n = 0 then dm_delete_name dm i w' else Inr w')"

text \<open>The operations of the controller choose the backend; the copy in the own database is written after
  django-celery-beat.\<close>

definition list_schedules :: "pyrt \<Rightarrow> (rat \<Rightarrow> string) \<Rightarrow> 'w django_models \<Rightarrow> app \<Rightarrow> 'w \<times> db \<Rightarrow> pyexc + schedule list" where
  "list_schedules rt show_float dm a wd = (case detect_backend rt a of
       DjangoBackend _ \<Rightarrow> list_django_schedules rt show_float dm a (fst wd)
     | DbBackend _ \<Rightarrow> Inr (list_db_schedules (resolve_name rt a) (snd wd)))"

definition save_schedule :: "pyrt \<Rightarrow> 'w django_models \<Rightarrow> app \<Rightarrow> schedule \<Rightarrow> 'w \<times> db \<Rightarrow> pyexc + ('w \<times> db)" where
  "save_schedule rt dm a s wd = (case detect_backend rt a of
       DjangoBackend _ \<Rightarrow> ebind (save_django_schedule rt dm a s (fst wd)) (\<lambda>w. Inr (w, store_schedule s (snd wd)))
     | DbBackend _ \<Rightarrow> Inr (fst wd, save_db_schedule (resolve_name rt a) s (snd wd)))"

definition remove_schedule :: "pyrt \<Rightarrow> 'w django_models \<Rightarrow> app \<Rightarrow> string \<Rightarrow> 'w \<times> db \<Rightarrow> pyexc + ('w \<times> db)" where
  "remove_schedule rt dm a i wd = (case detect_backend rt a of
       DjangoBackend _ \<Rightarrow> ebind (delete_django_schedule rt dm i (fst wd)) (\<lambda>w. Inr (w, delete_schedule i (snd wd)))
     | DbBackend _ \<Rightarrow> Inr (fst wd, delete_db_schedule i (snd wd)))"

definition sync_to_db :: "pyrt \<Rightarrow> (rat \<Rightarrow> string) \<Rightarrow> 'w django_models \<Rightarrow> app \<Rightarrow> 'w \<times> db \<Rightarrow> pyexc + ('w \<times> db)" where
  "sync_to_db rt show_float dm a wd =
     ebind (list_schedules rt show_float dm a wd) (\<lambda>schedules. Inr (fst wd,
       case detect_backend rt a of DjangoBackend _ \<Rightarrow> fold store_schedule schedules (snd wd) | DbBackend _ \<Rightarrow> snd wd))"

section \<open>The beat pages\<close>

text \<open>The rows shown: a RuntimeError of one app's backend is caught, and the app contributes none.\<close>

definition add_rows :: "pyrt \<Rightarrow> (rat \<Rightarrow> string) \<Rightarrow> 'w django_models \<Rightarrow> 'w \<times> db \<Rightarrow> app \<Rightarrow> schedule list \<Rightarrow> pyexc + schedule list" where
  "add_rows rt show_float dm wd a rows = (case list_schedules rt show_float dm a wd of
       Inl (RuntimeError _) \<Rightarrow> Inr rows
     | Inl e \<Rightarrow> Inl e
     | Inr schedules \<Rightarrow> Inr (rows @ map (\<lambda>s. if sc_app s = None then s\<lparr>sc_app := Some (resolve_name rt a)\<rparr> else s) schedules))"

definition list_rows :: "pyrt \<Rightarrow> (rat \<Rightarrow> string) \<Rightarrow> 'w django_models \<Rightarrow> app list \<Rightarrow> 'w \<times> db \<Rightarrow> pyexc + schedule list" where
  "list_rows rt show_float dm apps wd = efold (add_rows rt show_float dm wd) apps []"

text \<open>The form: a schedule that was never run.\<close>

definition parse_form :: "(string, string) pydict \<Rightarrow> string option \<Rightarrow> pyexc + schedule" where
  "parse_form post schedule_id =
     (let field = (\<lambda>k. py_strip (dget_or post k []));
          opt = (\<lambda>k. if field k = [] then None else Some (field k))
      in if field ''name'' = [] \<or> field ''task'' = [] \<or> field ''schedule'' = [] \<or> field ''worker'' = []
         then Inl (ValueError ''name, worker, task, and schedule are required'')
         else Inr \<lparr>sc_schedule_id = or_str schedule_id (if field ''schedule_id'' = [] then field ''name'' else field ''schedule_id''),
           sc_name = field ''name'', sc_task = field ''task'', sc_schedule = field ''schedule'',
           sc_args = opt ''args'', sc_kwargs = opt ''kwargs'', sc_enabled = (dget_or post ''enabled'' [] \<noteq> []),
           sc_last_run_at = None, sc_total_run_count = None, sc_app = Some (field ''worker'')\<rparr>)"

definition find_app :: "pyrt \<Rightarrow> app list \<Rightarrow> string option \<Rightarrow> app option" where
  "find_app rt apps label = (case label of None \<Rightarrow> None | Some l \<Rightarrow> List.find (\<lambda>a. resolve_name rt a = l) apps)"

text \<open>The handlers with a POST request; an exception of the controller is passed on by Django.\<close>

definition error_text :: "pyexc \<Rightarrow> string" where
  "error_text e = (case e of ValueError msg \<Rightarrow> msg | _ \<Rightarrow> [])"

datatype beat_page = BadRequest string | NotFoundPage | RedirectBeat

definition beat_add :: "pyrt \<Rightarrow> 'w django_models \<Rightarrow> app list \<Rightarrow> (string, string) pydict \<Rightarrow> 'w \<times> db \<Rightarrow> pyexc + (beat_page \<times> 'w \<times> db)" where
  "beat_add rt dm apps post wd = (case parse_form post None of
       Inl e \<Rightarrow> Inr (BadRequest (error_text e), wd)
     | Inr s \<Rightarrow> (if apps = [] then Inr (BadRequest ''No Celery workers configured'', wd)
         else case find_app rt apps (sc_app s) of
           None \<Rightarrow> Inr (BadRequest ''Unknown worker selection'', wd)
         | Some a \<Rightarrow> ebind (save_schedule rt dm a s wd) (\<lambda>wd'. Inr (RedirectBeat, wd'))))"

definition beat_edit :: "pyrt \<Rightarrow> (rat \<Rightarrow> string) \<Rightarrow> 'w django_models \<Rightarrow> app list \<Rightarrow> string option \<Rightarrow> string \<Rightarrow>
    (string, string) pydict \<Rightarrow> 'w \<times> db \<Rightarrow> pyexc + (beat_page \<times> 'w \<times> db)" where
  "beat_edit rt show_float dm apps query_app i post wd =
     (let requested = py_strip (or_str query_app (dget_or post ''worker'' []))
      in ebind (list_rows rt show_float dm apps wd) (\<lambda>rows.
         case List.find (\<lambda>s. sc_schedule_id s = i \<and> (requested = [] \<or> sc_app s = Some requested)) rows of
           None \<Rightarrow> Inr (NotFoundPage, wd)
         | Some old \<Rightarrow> (case parse_form post (Some i) of
             Inl e \<Rightarrow> Inr (BadRequest (error_text e), wd)
           | Inr s \<Rightarrow> (if apps = [] then Inr (BadRequest ''No Celery workers configured'', wd)
               else case find_app rt apps (sc_app s) of
                 None \<Rightarrow> Inr (BadRequest ''Unknown worker selection'', wd)
               | Some a \<Rightarrow>
                   ebind (case (if truthy_str (sc_app old) \<and> sc_app old \<noteq> sc_app s then find_app rt apps (sc_app old) else None) of
                       None \<Rightarrow> Inr wd | Some previous \<Rightarrow> remove_schedule rt dm previous i wd) (\<lambda>wd1.
                   ebind (save_schedule rt dm a s wd1) (\<lambda>wd2. Inr (RedirectBeat, wd2)))))))"

definition beat_delete :: "pyrt \<Rightarrow> 'w django_models \<Rightarrow> app list \<Rightarrow> string option \<Rightarrow> string option \<Rightarrow> string \<Rightarrow> 'w \<times> db \<Rightarrow>
    pyexc + (beat_page \<times> 'w \<times> db)" where
  "beat_delete rt dm apps post_app query_app i wd =
     (let selected = py_strip (or_str post_app (or_str query_app []))
      in case apps of
           [] \<Rightarrow> Inr (BadRequest ''No Celery workers configured'', wd)
         | a # _ \<Rightarrow> (case (if selected = [] then Some a else find_app rt apps (Some selected)) of
             None \<Rightarrow> Inr (BadRequest ''Unknown worker selection'', wd)
           | Some target \<Rightarrow> ebind (remove_schedule rt dm target i wd) (\<lambda>wd'. Inr (RedirectBeat, wd'))))"

definition beat_sync :: "pyrt \<Rightarrow> (rat \<Rightarrow> string) \<Rightarrow> 'w django_models \<Rightarrow> app list \<Rightarrow> 'w \<times> db \<Rightarrow> pyexc + (beat_page \<times> 'w \<times> db)" where
  "beat_sync rt show_float dm apps wd =
     (if apps = [] then Inr (BadRequest ''No Celery workers configured'', wd)
      else ebind (efold (sync_to_db rt show_float dm) apps wd) (\<lambda>wd'. Inr (RedirectBeat, wd')))"

section \<open>The scheduler\<close>

record beat_entry =
  be_name :: string
  be_task :: string
  be_schedule :: beat_schedule
  be_args :: "pyval list"
  be_kwargs :: "(pyval \<times> pyval) list"
  be_last_run_at :: pydt
  be_total_run_count :: int

record beat_state =
  bs_refresh_interval :: rat
  bs_last_refresh_at :: rat
  bs_schedule_cache :: "(string, schedule) pydict"
  bs_run_state_cache :: "(string, pydt \<times> int) pydict"
  bs_schedule :: "(string, beat_entry) pydict"
  bs_label :: string

definition new_beat :: "rat option \<Rightarrow> rat option \<Rightarrow> string \<Rightarrow> beat_state" where
  "new_beat refresh_interval conf_value label = \<lparr>
     bs_refresh_interval = (case conf_value of Some x \<Rightarrow> x | None \<Rightarrow> (case refresh_interval of Some x \<Rightarrow> x | None \<Rightarrow> 5)),
     bs_last_refresh_at = 0, bs_schedule_cache = [], bs_run_state_cache = [], bs_schedule = [], bs_label = label\<rparr>"

text \<open>A schedule that never ran counts as run at the moment its entry is built.\<close>

definition build_entry :: "pyrt \<Rightarrow> (cron_fields \<Rightarrow> bool) \<Rightarrow> pydt \<Rightarrow> schedule \<Rightarrow> pyexc + beat_entry" where
  "build_entry rt crontab_ok app_now s =
     ebind (parse_schedule rt crontab_ok (sc_schedule s)) (\<lambda>sched.
     Inr \<lparr>be_name = sc_schedule_id s, be_task = sc_task s, be_schedule = sched, be_args = parse_args rt (sc_args s),
          be_kwargs = parse_kwargs rt (sc_kwargs s),
          be_last_run_at = (case sc_last_run_at s of None \<Rightarrow> app_now | Some t \<Rightarrow> t),
          be_total_run_count = or_int (sc_total_run_count s) 0\<rparr>)"

text \<open>\<open>_load_schedules\<close>: one exception leaves everything as it was.\<close>

definition load_one :: "pyrt \<Rightarrow> (cron_fields \<Rightarrow> bool) \<Rightarrow> pydt \<Rightarrow> schedule \<Rightarrow> (schedule \<times> beat_entry) list \<Rightarrow>
    pyexc + (schedule \<times> beat_entry) list" where
  "load_one rt crontab_ok app_now s acc =
     (if \<not> sc_enabled s then Inr acc
      else ebind (build_entry rt crontab_ok app_now s) (\<lambda>e. Inr (acc @ [(s, e)])))"

definition put_loaded :: "(schedule \<times> beat_entry) list \<Rightarrow> beat_state \<Rightarrow> beat_state" where
  "put_loaded loaded b = b\<lparr>
     bs_schedule_cache := fold (\<lambda>(s, e). dset (sc_schedule_id s) s) loaded [],
     bs_run_state_cache := fold (\<lambda>(s, e). dset (sc_schedule_id s) (be_last_run_at e, be_total_run_count e)) loaded [],
     bs_schedule := fold (\<lambda>(s, e). dset (sc_schedule_id s) e) loaded []\<rparr>"

definition load_schedules :: "pyrt \<Rightarrow> (cron_fields \<Rightarrow> bool) \<Rightarrow> pydt \<Rightarrow> schedule list \<Rightarrow> beat_state \<Rightarrow> pyexc + beat_state" where
  "load_schedules rt crontab_ok app_now schedules b =
     ebind (efold (load_one rt crontab_ok app_now) schedules []) (\<lambda>loaded. Inr (put_loaded loaded b))"

text \<open>\<open>_refresh\<close>: None stands for a database that cannot be reached.\<close>

definition refresh :: "pyrt \<Rightarrow> (cron_fields \<Rightarrow> bool) \<Rightarrow> bool \<Rightarrow> rat \<Rightarrow> pydt \<Rightarrow> schedule list option \<Rightarrow> beat_state \<Rightarrow> pyexc + beat_state" where
  "refresh rt crontab_ok force now app_now fetched b =
     (if \<not> force \<and> now - bs_last_refresh_at b < bs_refresh_interval b then Inr b
      else let b' = b\<lparr>bs_last_refresh_at := now\<rparr>
           in case fetched of
                None \<Rightarrow> Inr b'
              | Some schedules \<Rightarrow> load_schedules rt crontab_ok app_now
                  (filter (\<lambda>s. sc_app s = Some (bs_label b)) schedules) b')"

text \<open>\<open>_writeback_run_state\<close>: the cached schedules whose run state changed, with the new one.\<close>

definition dirty_schedules :: "beat_state \<Rightarrow> schedule list" where
  "dirty_schedules b = List.map_filter (\<lambda>(i, s). case dget (bs_schedule b) i of
       None \<Rightarrow> None
     | Some e \<Rightarrow> (if dget (bs_run_state_cache b) i = Some (be_last_run_at e, be_total_run_count e) then None
                 else Some (s\<lparr>sc_last_run_at := Some (be_last_run_at e), sc_total_run_count := Some (be_total_run_count e)\<rparr>)))
     (bs_schedule_cache b)"

definition mark_written :: "beat_state \<Rightarrow> beat_state" where
  "mark_written b = b\<lparr>
     bs_schedule_cache := map (\<lambda>(i, s). (i, case dget (bs_schedule b) i of
         None \<Rightarrow> s
       | Some e \<Rightarrow> (if dget (bs_run_state_cache b) i = Some (be_last_run_at e, be_total_run_count e) then s
           else s\<lparr>sc_last_run_at := Some (be_last_run_at e), sc_total_run_count := Some (be_total_run_count e)\<rparr>))) (bs_schedule_cache b),
     bs_run_state_cache := fold (\<lambda>(i, s) cache. case dget (bs_schedule b) i of
         None \<Rightarrow> cache | Some e \<Rightarrow> dset i (be_last_run_at e, be_total_run_count e) cache) (bs_schedule_cache b) (bs_run_state_cache b)\<rparr>"

text \<open>A store that fails is logged and not tried again: \<open>store\<close> says what it did to the database.\<close>

definition writeback_run_state :: "(schedule \<Rightarrow> 'd \<Rightarrow> 'd) \<Rightarrow> beat_state \<times> 'd \<Rightarrow> beat_state \<times> 'd" where
  "writeback_run_state store bd = (mark_written (fst bd), fold store (dirty_schedules (fst bd)) (snd bd))"

text \<open>One tick: the clocks at its start, when entries are built and when Celery looks for due entries;
  Celery's tick gives the names sent and the entries after it.\<close>

record beat_tick =
  bt_monotonic :: rat
  bt_app_now :: pydt
  bt_due_now :: pydt

type_synonym celery_tick = "pydt \<Rightarrow> (string, beat_entry) pydict \<Rightarrow> string list \<times> (string, beat_entry) pydict"

definition tick :: "pyrt \<Rightarrow> (cron_fields \<Rightarrow> bool) \<Rightarrow> celery_tick \<Rightarrow> beat_tick \<Rightarrow> string list \<times> beat_state \<times> db \<Rightarrow>
    pyexc + (string list \<times> beat_state \<times> db)" where
  "tick rt crontab_ok super_tick t st = (case st of (sent, b, d) \<Rightarrow>
     ebind (refresh rt crontab_ok False (bt_monotonic t) (bt_app_now t) (Some (get_schedules d)) b) (\<lambda>b'.
     let (now_sent, entries) = super_tick (bt_due_now t) (bs_schedule b');
         (b2, d2) = writeback_run_state store_schedule (b'\<lparr>bs_schedule := entries\<rparr>, d)
     in Inr (sent @ now_sent, b2, d2)))"

text \<open>\<open>setup_schedule\<close>: a forced refresh.\<close>

definition setup_schedule :: "pyrt \<Rightarrow> (cron_fields \<Rightarrow> bool) \<Rightarrow> rat \<Rightarrow> pydt \<Rightarrow> db \<Rightarrow> beat_state \<Rightarrow> pyexc + beat_state" where
  "setup_schedule rt crontab_ok now app_now d b = refresh rt crontab_ok True now app_now (Some (get_schedules d)) b"

section \<open>Facts about loading and writing back\<close>

lemma dget_fold_dset: "dget (fold (\<lambda>(s, e). dset (k s) (g s e)) xs acc) i =
  (case List.find (\<lambda>(s, e). k s = i) (rev xs) of None \<Rightarrow> dget acc i | Some (s, e) \<Rightarrow> Some (g s e))"
  by (induction xs rule: rev_induct) (auto split: prod.splits)

lemma load_all: "efold (load_one rt ok now) schedules acc = Inr loaded \<Longrightarrow>
  set loaded \<subseteq> set acc \<union> {(s, e). s \<in> set schedules \<and> build_entry rt ok now s = Inr e}"
proof (induction schedules arbitrary: acc)
  case (Cons s schedules)
  then obtain acc' where a: "load_one rt ok now s acc = Inr acc'" "efold (load_one rt ok now) schedules acc' = Inr loaded"
    by (auto simp: ebind_Inr_iff)
  from Cons.IH [OF a(2)] a(1) show ?case
    by (auto simp: load_one_def ebind_Inr_iff split: if_splits)
qed simp

lemma find_rev_pair: "List.find P (rev xs) = Some x \<Longrightarrow> x \<in> set xs \<and> P x"
  by (metis find_Some_iff nth_mem set_rev)

lemma in_map_filter: "y \<in> set (List.map_filter f xs) \<longleftrightarrow> (\<exists>x \<in> set xs. f x = Some y)"
  by (induction xs) (auto simp: List.map_filter_simps split: option.splits)

lemma dirty_ids:
  assumes ids: "\<forall>p \<in> set (bs_schedule_cache b). sc_schedule_id (snd p) = fst p"
    and s: "s \<in> set (dirty_schedules b)"
  shows "\<exists>e. dget (bs_schedule b) (sc_schedule_id s) = Some e \<and>
    dget (bs_run_state_cache b) (sc_schedule_id s) \<noteq> Some (be_last_run_at e, be_total_run_count e)"
proof -
  from s obtain k s0 where "(k, s0) \<in> set (bs_schedule_cache b)"
    and "(case dget (bs_schedule b) k of None \<Rightarrow> None
      | Some e \<Rightarrow> (if dget (bs_run_state_cache b) k = Some (be_last_run_at e, be_total_run_count e) then None
          else Some (s0\<lparr>sc_last_run_at := Some (be_last_run_at e), sc_total_run_count := Some (be_total_run_count e)\<rparr>))) = Some s"
    by (auto simp: dirty_schedules_def in_map_filter)
  moreover from this(1) ids have "sc_schedule_id s0 = k" by auto
  ultimately show ?thesis by (auto split: option.splits if_splits)
qed

lemma mark_cache_keeps:
  assumes "dget cache i = Some (be_last_run_at e, be_total_run_count e)" and "dget entries i = Some e"
  shows "dget (fold (\<lambda>(k, s) cache. case dget entries k of
      None \<Rightarrow> cache | Some e \<Rightarrow> dset k (be_last_run_at e, be_total_run_count e) cache) xs cache) i
    = Some (be_last_run_at e, be_total_run_count e)"
  using assms(1)
proof (induction xs arbitrary: cache)
  case (Cons x xs)
  then show ?case using assms(2) by (cases x) (force intro: Cons.IH split: option.splits)
qed simp

lemma upsert_row_other: "\<lbrakk>r \<in> set (upsert_row key k new upd rows); key r = i; k \<noteq> i; key new = k; \<And>x. key (upd x) = k\<rbrakk> \<Longrightarrow> r \<in> set rows"
  by (auto simp: upsert_row_def split: option.splits if_splits)

lemma store_schedules_other: "r \<in> set (db_schedules (fold store_schedule ss d)) \<Longrightarrow> sc_schedule_id r = i \<Longrightarrow>
  \<forall>s \<in> set ss. sc_schedule_id s \<noteq> i \<Longrightarrow> r \<in> set (db_schedules d)"
proof (induction ss arbitrary: d)
  case (Cons s ss)
  then have "r \<in> set (db_schedules (store_schedule s d))" by simp
  then show ?case using Cons.prems
    by (auto simp: store_schedule_def schedule_values_def dest!: upsert_row_other)
qed simp

section \<open>A schedule that never ran\<close>

text \<open>What celery's tick does to an interval entry that is not due, and to a name without an entry.\<close>

definition keeps_undue :: "celery_tick \<Rightarrow> bool" where
  "keeps_undue super_tick \<longleftrightarrow> (\<forall>now entries i. case dget entries i of
       None \<Rightarrow> i \<notin> set (fst (super_tick now entries)) \<and> dget (snd (super_tick now entries)) i = None
     | Some e \<Rightarrow> (\<forall>ev. be_schedule e = Every ev \<longrightarrow>
         of_int (dt_instant now - dt_instant (be_last_run_at e)) < 1000000 * ev \<longrightarrow>
         i \<notin> set (fst (super_tick now entries)) \<and> dget (snd (super_tick now entries)) i = Some e))"

text \<open>The clocks agree: the wall clock read after the monotonic one is at most \<open>latency\<close> later.\<close>

definition clocks_agree :: "rat \<Rightarrow> rat \<Rightarrow> beat_tick \<Rightarrow> bool" where
  "clocks_agree base latency t \<longleftrightarrow>
     base + 1000000 * bt_monotonic t \<le> of_int (dt_instant (bt_app_now t)) \<and>
     of_int (dt_instant (bt_due_now t)) \<le> base + 1000000 * (bt_monotonic t + latency)"

definition never_ran :: "pyrt \<Rightarrow> (cron_fields \<Rightarrow> bool) \<Rightarrow> string \<Rightarrow> rat \<Rightarrow> db \<Rightarrow> bool" where
  "never_ran rt crontab_ok i ev d \<longleftrightarrow> list_all (\<lambda>s. sc_schedule_id s = i \<longrightarrow>
     sc_last_run_at s = None \<and> parse_schedule rt crontab_ok (sc_schedule s) = Inr (Every ev)) (db_schedules d)"

definition idle :: "string \<Rightarrow> rat \<Rightarrow> rat \<Rightarrow> rat \<Rightarrow> beat_state \<Rightarrow> bool" where
  "idle i ev base interval b \<longleftrightarrow>
     bs_refresh_interval b = interval \<and>
     (\<forall>p \<in> set (bs_schedule_cache b). sc_schedule_id (snd p) = fst p) \<and>
     (case dget (bs_schedule b) i of None \<Rightarrow> True
      | Some e \<Rightarrow> be_schedule e = Every ev \<and>
          base + 1000000 * bs_last_refresh_at b \<le> of_int (dt_instant (be_last_run_at e)) \<and>
          dget (bs_run_state_cache b) i = Some (be_last_run_at e, be_total_run_count e))"

lemma new_beat_idle: "idle i ev base (bs_refresh_interval (new_beat r c label)) (new_beat r c label)"
  by (simp add: idle_def new_beat_def)

lemma cache_ids: "p \<in> set (fold (\<lambda>(s, e). dset (sc_schedule_id s) s) loaded acc) \<Longrightarrow>
    \<forall>p \<in> set acc. sc_schedule_id (snd p) = fst p \<Longrightarrow> sc_schedule_id (snd p) = fst p"
proof (induction loaded arbitrary: acc)
  case (Cons x loaded)
  have "\<forall>p \<in> set (dset (sc_schedule_id s) s acc). sc_schedule_id (snd p) = fst p" for s
    using Cons.prems(2) by (induction acc) (auto split: if_splits)
  then show ?case using Cons by (cases x) simp
qed simp

lemma put_loaded_idle:
  assumes rows: "never_ran rt ok i ev d"
    and loaded: "\<forall>(s, e) \<in> set loaded. s \<in> set (get_schedules d) \<and> build_entry rt ok now s = Inr e"
    and now: "base + 1000000 * bs_last_refresh_at b \<le> of_int (dt_instant now)"
    and int: "bs_refresh_interval b = interval"
  shows "idle i ev base interval (put_loaded loaded b)"
proof -
  have ids: "\<forall>p \<in> set (bs_schedule_cache (put_loaded loaded b)). sc_schedule_id (snd p) = fst p"
    by (auto simp: put_loaded_def dest: cache_ids)
  show ?thesis
  proof (cases "List.find (\<lambda>(s, e). sc_schedule_id s = i) (rev loaded)")
    case None
    then show ?thesis using ids int by (simp add: idle_def put_loaded_def dget_fold_dset)
  next
    case (Some x)
    obtain s e where x: "x = (s, e)" by (cases x)
    then have in_l: "(s, e) \<in> set loaded" "sc_schedule_id s = i" using find_rev_pair [OF Some] by auto
    then have s: "s \<in> set (get_schedules d)" and e: "build_entry rt ok now s = Inr e" using loaded by auto
    from s obtain r where r: "r \<in> set (db_schedules d)" "s = row_to_schedule r" by (auto simp: get_schedules_def)
    then have "sc_last_run_at r = None" "parse_schedule rt ok (sc_schedule r) = Inr (Every ev)"
      using rows in_l(2) by (auto simp: never_ran_def list_all_iff row_to_schedule_def)
    then have "sc_last_run_at s = None" "parse_schedule rt ok (sc_schedule s) = Inr (Every ev)"
      using r(2) by (simp_all add: row_to_schedule_def coerce_dt_def)
    then have "be_schedule e = Every ev" "be_last_run_at e = now" using e by (auto simp: build_entry_def)
    then show ?thesis using ids int now Some x
      by (simp add: idle_def put_loaded_def dget_fold_dset)
  qed
qed

lemma refresh_idle:
  assumes idle: "idle i ev base interval b" and rows: "never_ran rt ok i ev d"
    and now: "base + 1000000 * m \<le> of_int (dt_instant app_now)" and pos: "0 < interval"
    and run: "refresh rt ok force m app_now (Some (get_schedules d)) b = Inr b'"
  shows "idle i ev base interval b' \<and> m - bs_last_refresh_at b' < interval"
proof (cases "\<not> force \<and> m - bs_last_refresh_at b < interval")
  case True
  then show ?thesis using run idle by (auto simp: refresh_def idle_def)
next
  case False
  have int: "bs_refresh_interval b = interval" using idle by (simp add: idle_def)
  let ?b = "b\<lparr>bs_last_refresh_at := m\<rparr>"
  have "load_schedules rt ok app_now (filter (\<lambda>s. sc_app s = Some (bs_label b)) (get_schedules d)) ?b = Inr b'"
    using run False int by (auto simp: refresh_def Let_def split: if_splits)
  then obtain loaded where l: "efold (load_one rt ok app_now)
      (filter (\<lambda>s. sc_app s = Some (bs_label b)) (get_schedules d)) [] = Inr loaded" and b': "b' = put_loaded loaded ?b"
    by (auto simp: load_schedules_def ebind_Inr_iff)
  have "\<forall>(s, e) \<in> set loaded. s \<in> set (get_schedules d) \<and> build_entry rt ok app_now s = Inr e"
    using load_all [OF l] by auto
  then have "idle i ev base interval b'" unfolding b'
    by (rule put_loaded_idle [OF rows]) (use now int in simp_all)
  moreover have "bs_last_refresh_at b' = m" by (simp add: b' put_loaded_def)
  ultimately show ?thesis using pos by simp
qed

lemma writeback_idle:
  assumes idle: "idle i ev base interval b" and rows: "never_ran rt ok i ev d"
  shows "idle i ev base interval (mark_written b) \<and> never_ran rt ok i ev (fold store_schedule (dirty_schedules b) d)"
proof
  have ids: "\<forall>p \<in> set (bs_schedule_cache b). sc_schedule_id (snd p) = fst p" using idle by (simp add: idle_def)
  have keys: "\<forall>p \<in> set (bs_schedule_cache (mark_written b)). sc_schedule_id (snd p) = fst p"
    using ids by (auto simp: mark_written_def split: option.splits)
  show "idle i ev base interval (mark_written b)"
  proof (cases "dget (bs_schedule b) i")
    case None
    then show ?thesis using idle keys by (simp add: idle_def mark_written_def)
  next
    case (Some e)
    then have "dget (bs_run_state_cache b) i = Some (be_last_run_at e, be_total_run_count e)"
      using idle by (simp add: idle_def)
    from mark_cache_keeps [OF this Some] show ?thesis using idle keys Some
      by (simp add: idle_def mark_written_def)
  qed
  have "\<forall>s \<in> set (dirty_schedules b). sc_schedule_id s \<noteq> i"
    using dirty_ids [OF ids] idle by (fastforce simp: idle_def)
  then have "\<And>r. r \<in> set (db_schedules (fold store_schedule (dirty_schedules b) d)) \<Longrightarrow> sc_schedule_id r = i \<Longrightarrow>
      r \<in> set (db_schedules d)"
    using store_schedules_other by blast
  then show "never_ran rt ok i ev (fold store_schedule (dirty_schedules b) d)"
    using rows by (simp add: never_ran_def list_all_iff)
qed

lemma undue_unsent:
  assumes idle: "idle i ev base interval b" and law: "keeps_undue super_tick"
    and clocks: "of_int (dt_instant now) \<le> base + 1000000 * (m + latency)"
    and late: "m - bs_last_refresh_at b < interval" and ev: "interval + latency \<le> ev"
  shows "i \<notin> set (fst (super_tick now (bs_schedule b))) \<and>
    idle i ev base interval (b\<lparr>bs_schedule := snd (super_tick now (bs_schedule b))\<rparr>)"
proof (cases "dget (bs_schedule b) i")
  case None
  have "i \<notin> set (fst (super_tick now (bs_schedule b))) \<and> dget (snd (super_tick now (bs_schedule b))) i = None"
    using law [unfolded keeps_undue_def, THEN spec [of _ now], THEN spec [of _ "bs_schedule b"], THEN spec [of _ i]] None
    by simp
  then show ?thesis using idle by (simp add: idle_def)
next
  case (Some e)
  have e: "be_schedule e = Every ev" "base + 1000000 * bs_last_refresh_at b \<le> of_int (dt_instant (be_last_run_at e))"
    using idle Some by (simp_all add: idle_def)
  have "of_int (dt_instant now - dt_instant (be_last_run_at e)) < 1000000 * ev"
    using e(2) clocks late ev by (simp add: algebra_simps)
  then have "i \<notin> set (fst (super_tick now (bs_schedule b))) \<and> dget (snd (super_tick now (bs_schedule b))) i = Some e"
    using law [unfolded keeps_undue_def, THEN spec [of _ now], THEN spec [of _ "bs_schedule b"], THEN spec [of _ i]] Some e(1)
    by simp
  then show ?thesis using idle Some by (simp add: idle_def)
qed

lemma tick_idle:
  assumes idle: "idle i ev base interval b" and rows: "never_ran rt ok i ev d" and law: "keeps_undue super_tick"
    and clocks: "clocks_agree base latency t" and pos: "0 < interval" and ev: "interval + latency \<le> ev"
    and unsent: "i \<notin> set sent" and run: "tick rt ok super_tick t (sent, b, d) = Inr (sent', b', d')"
  shows "i \<notin> set sent' \<and> idle i ev base interval b' \<and> never_ran rt ok i ev d'"
proof -
  from run obtain b1 where r: "refresh rt ok False (bt_monotonic t) (bt_app_now t) (Some (get_schedules d)) b = Inr b1"
    and s': "sent' = sent @ fst (super_tick (bt_due_now t) (bs_schedule b1))"
    and w: "(b', d') = writeback_run_state store_schedule (b1\<lparr>bs_schedule := snd (super_tick (bt_due_now t) (bs_schedule b1))\<rparr>, d)"
    by (auto simp: tick_def ebind_Inr_iff Let_def split_def)
  have b1: "idle i ev base interval b1" "bt_monotonic t - bs_last_refresh_at b1 < interval"
    using refresh_idle [OF idle rows _ pos r] clocks by (simp_all add: clocks_agree_def)
  have "i \<notin> set (fst (super_tick (bt_due_now t) (bs_schedule b1))) \<and>
      idle i ev base interval (b1\<lparr>bs_schedule := snd (super_tick (bt_due_now t) (bs_schedule b1))\<rparr>)"
    by (rule undue_unsent [OF b1(1) law _ b1(2) ev]) (use clocks in \<open>simp add: clocks_agree_def\<close>)
  then show ?thesis using writeback_idle [OF _ rows] unsent s' w by (auto simp: writeback_run_state_def)
qed

lemma ticks_idle:
  assumes "efold (tick rt ok super_tick) ts (sent, b, d) = Inr (sent', b', d')"
    and "idle i ev base interval b" and "never_ran rt ok i ev d" and "keeps_undue super_tick"
    and "list_all (clocks_agree base latency) ts" and "0 < interval" and "interval + latency \<le> ev" and "i \<notin> set sent"
  shows "i \<notin> set sent'"
  using assms
proof (induction ts arbitrary: sent b d)
  case (Cons t ts)
  then obtain sent1 b1 d1 where t: "tick rt ok super_tick t (sent, b, d) = Inr (sent1, b1, d1)"
    and ts: "efold (tick rt ok super_tick) ts (sent1, b1, d1) = Inr (sent', b', d')"
    by (auto simp: ebind_Inr_iff)
  have "i \<notin> set sent1 \<and> idle i ev base interval b1 \<and> never_ran rt ok i ev d1"
    by (rule tick_idle [OF _ _ _ _ _ _ _ t]) (use Cons.prems in simp_all)
  then show ?case using Cons.IH [OF ts] Cons.prems by simp
qed simp


text \<open>A celery tick for intervals: due entries are sent and counted as run now.\<close>

definition interval_due :: "pydt \<Rightarrow> beat_entry \<Rightarrow> bool" where
  "interval_due now e = (case be_schedule e of Cron _ \<Rightarrow> False
     | Every ev \<Rightarrow> 1000000 * ev \<le> of_int (dt_instant now - dt_instant (be_last_run_at e)))"

definition interval_tick :: celery_tick where
  "interval_tick now entries =
     (map fst (filter (\<lambda>(i, e). dget entries i = Some e \<and> interval_due now e) entries),
      map (\<lambda>(i, e). (i, if interval_due now e
        then e\<lparr>be_last_run_at := now, be_total_run_count := be_total_run_count e + 1\<rparr> else e)) entries)"

lemma dget_map_snd: "dget (map (\<lambda>(k, v). (k, f v)) xs) i = map_option f (dget xs i)"
  by (induction xs) auto

lemma interval_tick_law: "keeps_undue interval_tick"
  unfolding keeps_undue_def
proof (intro allI)
  fix now entries i
  have "dget (snd (interval_tick now entries)) i = map_option (\<lambda>e. if interval_due now e
        then e\<lparr>be_last_run_at := now, be_total_run_count := be_total_run_count e + 1\<rparr> else e) (dget entries i)"
    by (simp add: interval_tick_def dget_map_snd)
  then show "case dget entries i of
       None \<Rightarrow> i \<notin> set (fst (interval_tick now entries)) \<and> dget (snd (interval_tick now entries)) i = None
     | Some e \<Rightarrow> (\<forall>ev. be_schedule e = Every ev \<longrightarrow>
         of_int (dt_instant now - dt_instant (be_last_run_at e)) < 1000000 * ev \<longrightarrow>
         i \<notin> set (fst (interval_tick now entries)) \<and> dget (snd (interval_tick now entries)) i = Some e)"
    by (auto simp: interval_tick_def interval_due_def split: option.splits)
qed

definition due_schedule :: "string \<Rightarrow> pydt option \<Rightarrow> schedule" where
  "due_schedule i last_run = \<lparr>sc_schedule_id = i, sc_name = i, sc_task = ''t'', sc_schedule = ''minute'', sc_args = None,
     sc_kwargs = None, sc_enabled = True, sc_last_run_at = last_run, sc_total_run_count = None, sc_app = Some ''w''\<rparr>"

definition beat_db :: db where
  "beat_db = empty_db\<lparr>db_schedules := [due_schedule ''new'' None, due_schedule ''old'' (Some (DT 0 (Some 0)))]\<rparr>"

definition at_second :: "int \<Rightarrow> beat_tick" where
  "at_second s = \<lparr>bt_monotonic = of_int s, bt_app_now = utc_dt (1000000 * s), bt_due_now = utc_dt (1000000 * s)\<rparr>"

definition two_minutes :: "beat_tick list" where
  "two_minutes = map at_second [61, 63, 70, 130]"

definition beat_start :: beat_state where
  "beat_start = projr (setup_schedule toy_rt (\<lambda>f. True) 60 (utc_dt 60000000) beat_db (new_beat None None ''w''))"

definition beat_end :: "string list \<times> beat_state \<times> db" where
  "beat_end = projr (efold (tick toy_rt (\<lambda>f. True) interval_tick) two_minutes ([], beat_start, beat_db))"


section \<open>Writing back\<close>

lemma find_row_Cons: "find_row key k (x # xs) = (if key x = k then Some x else find_row key k xs)"
  by (simp add: find_row_def)

lemma find_row_Nil: "find_row key k [] = None"
  by (simp add: find_row_def)

lemma find_row_put:
  assumes "key new = k"
  shows "find_row key k' (upsert_row key k new (\<lambda>r. new) rows) = (if k' = k then Some new else find_row key k' rows)"
proof -
  have same: "k \<in> key ` set rows \<Longrightarrow> find_row key k (map (\<lambda>r. if key r = k then new else r) rows) = Some new"
    using assms by (induction rows) (auto simp: find_row_def)
  have other: "k' \<noteq> k \<Longrightarrow> find_row key k' (map (\<lambda>r. if key r = k then new else r) rows) = find_row key k' rows"
    using assms by (induction rows) (auto simp: find_row_def)
  have none: "k \<notin> key ` set rows \<Longrightarrow> find_row key k rows = None" by (simp add: find_row_None_iff)
  show ?thesis
  proof (cases "k \<in> key ` set rows")
    case True
    then show ?thesis using same other by (simp add: upsert_row_def)
  next
    case False
    then show ?thesis using none assms
      by (cases "find_row key k' rows") (simp_all add: upsert_row_def find_row_append find_row_Cons find_row_Nil or_else_def, auto)
  qed
qed

lemma stored_schedule: "find_row sc_schedule_id i (db_schedules (store_schedule s d)) =
  (if i = sc_schedule_id s then Some (schedule_values s) else find_row sc_schedule_id i (db_schedules d))"
  by (simp add: store_schedule_def find_row_put schedule_values_def)

lemma stored_schedules:
  "distinct (map sc_schedule_id ss) \<Longrightarrow> find_row sc_schedule_id i (db_schedules (fold store_schedule ss d)) =
    (case find_row sc_schedule_id i ss of Some s \<Rightarrow> Some (schedule_values s) | None \<Rightarrow> find_row sc_schedule_id i (db_schedules d))"
proof (induction ss arbitrary: d)
  case (Cons s ss)
  have "find_row sc_schedule_id (sc_schedule_id s) ss = None" using Cons.prems by (simp add: find_row_None_iff)
  then show ?case using Cons
    by (auto simp: stored_schedule find_row_Cons split: option.splits)
qed (simp add: find_row_Nil)

lemma distinct_dirty:
  assumes "dict_ok (bs_schedule_cache b)" and ids: "\<forall>p \<in> set (bs_schedule_cache b). sc_schedule_id (snd p) = fst p"
  shows "distinct (map sc_schedule_id (dirty_schedules b))"
proof -
  have "distinct (map sc_schedule_id (List.map_filter f xs))"
    if "distinct (map fst xs)" and "\<And>p s. p \<in> set xs \<Longrightarrow> f p = Some s \<Longrightarrow> sc_schedule_id s = fst p"
    for f :: "string \<times> schedule \<Rightarrow> schedule option" and xs
    using that
  proof (induction xs)
    case (Cons x xs)
    have "distinct (map sc_schedule_id (List.map_filter f xs))" using Cons by simp
    moreover have "sc_schedule_id s \<notin> sc_schedule_id ` set (List.map_filter f xs)" if "f x = Some s" for s
    proof
      assume "sc_schedule_id s \<in> sc_schedule_id ` set (List.map_filter f xs)"
      then obtain y t where y: "y \<in> set xs" "f y = Some t" "sc_schedule_id t = sc_schedule_id s"
        by (auto simp: in_map_filter)
      have "sc_schedule_id t = fst y" "sc_schedule_id s = fst x" using Cons.prems(2) y(1,2) that by simp_all
      then show False using y(1,3) Cons.prems(1) by (metis distinct.simps(2) image_eqI list.set_map list.simps(9))
    qed
    ultimately show ?case by (simp add: List.map_filter_simps split: option.splits)
  qed (simp add: List.map_filter_simps)
  moreover have "sc_schedule_id s = fst p" if "p \<in> set (bs_schedule_cache b)"
    and "(case p of (i, s) \<Rightarrow> case dget (bs_schedule b) i of None \<Rightarrow> None
       | Some e \<Rightarrow> (if dget (bs_run_state_cache b) i = Some (be_last_run_at e, be_total_run_count e) then None
                 else Some (s\<lparr>sc_last_run_at := Some (be_last_run_at e), sc_total_run_count := Some (be_total_run_count e)\<rparr>))) = Some s"
    for p s
    using that ids by (auto split: prod.splits option.splits if_splits)
  ultimately show ?thesis using assms(1) unfolding dirty_schedules_def dict_ok_def by simp
qed

text \<open>An edit made between two refreshes is overwritten by the first write-back of that schedule: the
  whole cached row is stored, not only its run state.\<close>

theorem writeback_overwrites_edit:
  assumes "dict_ok (bs_schedule_cache b)" and ids: "\<forall>p \<in> set (bs_schedule_cache b). sc_schedule_id (snd p) = fst p"
    and "(i, s) \<in> set (bs_schedule_cache b)" and "dget (bs_schedule b) i = Some e"
    and "dget (bs_run_state_cache b) i \<noteq> Some (be_last_run_at e, be_total_run_count e)"
  shows "find_row sc_schedule_id i (db_schedules (snd (writeback_run_state store_schedule (b, d)))) =
    Some (schedule_values (s\<lparr>sc_last_run_at := Some (be_last_run_at e), sc_total_run_count := Some (be_total_run_count e)\<rparr>))"
proof -
  let ?s = "s\<lparr>sc_last_run_at := Some (be_last_run_at e), sc_total_run_count := Some (be_total_run_count e)\<rparr>"
  have "?s \<in> set (dirty_schedules b)"
    unfolding dirty_schedules_def in_map_filter using assms(3-5) by (intro bexI [of _ "(i, s)"]) simp_all
  moreover have d: "distinct (map sc_schedule_id (dirty_schedules b))" using distinct_dirty assms(1,2) by blast
  moreover have "sc_schedule_id ?s = i" using ids assms(3) by auto
  ultimately have "find_row sc_schedule_id i (dirty_schedules b) = Some ?s"
    using find_row_unique [of sc_schedule_id "dirty_schedules b" ?s] by simp
  then show ?thesis using d by (simp add: writeback_run_state_def stored_schedules)
qed

text \<open>An interval below one second is saved into django-celery-beat as an interval of zero seconds, and
  listed again as one.\<close>

lemma fraction_of_a_second_lost:
  assumes "parse_cron_fields value = None" and "parse_interval_seconds rt value = Inr x" and "0 \<le> x" and "x < 1"
  shows "django_schedule_of rt tz value = Inr (DjangoInterval 0 ''seconds'')
    \<and> format_django_schedule show_float (DjangoInterval 0 ''seconds'') = Some ''interval:0''"
proof
  have "\<lfloor>x\<rfloor> = 0" using assms(3,4) by (simp add: floor_eq_iff)
  then show "django_schedule_of rt tz value = Inr (DjangoInterval 0 ''seconds'')"
    using assms(1-3) by (simp add: django_schedule_of_def)
  show "format_django_schedule show_float (DjangoInterval 0 ''seconds'') = Some ''interval:0''"
    by (simp add: format_django_schedule_def, code_simp)
qed

text \<open>What the add page stores is what the database scheduler will read: a row of the chosen app that was
  never run.\<close>

lemma beat_add_db:
  assumes "parse_form post None = Inr s" and "find_app rt apps (sc_app s) = Some a"
    and "detect_backend rt a = DbBackend scheduler"
  shows "beat_add rt dm apps post (w, d) = Inr (RedirectBeat, w, store_schedule s d) \<and> sc_last_run_at s = None"
proof -
  have "apps \<noteq> []" using assms(2) by (auto simp: find_app_def split: option.splits)
  moreover obtain l where "sc_app s = Some l" "sc_last_run_at s = None"
    using assms(1) by (auto simp: parse_form_def Let_def split: if_splits)
  ultimately show ?thesis using assms by (simp add: beat_add_def save_schedule_def save_db_schedule_def)
qed

text \<open>The name of a django-celery-beat task cannot be changed: the row found by its id keeps its name.\<close>

lemma django_name_kept:
  assumes "dm_all dm w = Inr rows" and "rt_int rt (sc_schedule_id s) = Some n"
    and "List.find (\<lambda>t. pt_id t = Some n) rows = Some t"
    and "save_django_schedule rt dm a s w = r"
  shows "(\<exists>e. r = Inl e) \<or> (\<exists>t'. pt_name t' = pt_name t \<and> pt_id t' = pt_id t \<and> r = dm_save dm t' w)"
proof (cases "django_schedule_of rt (or_str (Some (conf_text rt a ''timezone'')) ''UTC'') (sc_schedule s)")
  case (Inl e)
  have "r = Inl e" using assms Inl by (simp add: save_django_schedule_def)
  then show ?thesis by simp
next
  case (Inr sched)
  show ?thesis using assms Inr
    by (intro disjI2 exI [of _ "t\<lparr>pt_task := sc_task s, pt_enabled := sc_enabled s,
       pt_args := or_str (sc_args s) ''[]'', pt_kwargs := or_str (sc_kwargs s) ''{}'', pt_schedule := sched\<rparr>"])
       (simp add: save_django_schedule_def get_periodic_task_def)
qed

end
