(* ===== verification/Task_Pages.thy ===== *)
theory Task_Pages
  imports Task_Queries Store_Throughput Retry
begin

text \<open>
  The task list and the task detail page (celery_root/components/web/views/tasks.py): how a stored task
  is shown, filters, sorting, paging and statistics of the list, and parent and child links of the
  detail page. \<open>ast.literal_eval\<close> is a parameter; the text of a query is given as its dictionary.
\<close>

section \<open>A task as it is shown\<close>

definition STATE_BADGES :: "(string, string) pydict" where
  "STATE_BADGES = [(''SUCCESS'', ''badge-success''), (''FAILURE'', ''badge-danger''), (''STARTED'', ''badge-warning''),
     (''RETRY'', ''badge-warning''), (''PENDING'', ''badge-info''), (''RECEIVED'', ''badge-info''), (''REVOKED'', ''badge-muted'')]"

definition badge_of :: "string \<Rightarrow> string" where
  "badge_of state = dget_or STATE_BADGES state ''badge-muted''"

text \<open>The em dash shown for a missing worker, in UTF-8.\<close>

definition NO_VALUE :: string where
  "NO_VALUE = [CHR 0xE2, CHR 0x80, CHR 0x94]"

definition FINAL_STATES :: "string list" where
  "FINAL_STATES = [''SUCCESS'', ''FAILURE'', ''REVOKED'']"

record task_view =
  tv_task_id :: string
  tv_name :: string
  tv_state :: string
  tv_badge_class :: string
  tv_worker :: string
  tv_child_count :: nat
  tv_runtime :: "rat option"
  tv_received :: "pydt option"
  tv_started :: "pydt option"
  tv_finished :: "pydt option"
  tv_done :: bool
  tv_timestamp :: "pydt option"
  tv_args :: string
  tv_kwargs :: string
  tv_retries :: "int option"
  tv_result :: "string option"
  tv_traceback :: "string option"
  tv_parent_id :: "string option"
  tv_root_id :: "string option"
  tv_group_id :: "string option"
  tv_chord_id :: "string option"
  tv_eta :: "string option"

definition task_to_view :: "task \<Rightarrow> task_view" where
  "task_to_view t = \<lparr>tv_task_id = tk_task_id t, tv_name = or_str (tk_name t) (tk_task_id t), tv_state = tk_state t,
     tv_badge_class = badge_of (tk_state t), tv_worker = or_str (tk_worker t) NO_VALUE, tv_child_count = 0,
     tv_runtime = tk_runtime t, tv_received = tk_received t, tv_started = tk_started t, tv_finished = tk_finished t,
     tv_done = (tk_state t \<in> set FINAL_STATES), tv_timestamp = task_timestamp t, tv_args = or_str (tk_args t) [],
     tv_kwargs = or_str (tk_kwargs t) [], tv_retries = tk_retries t, tv_result = tk_result t,
     tv_traceback = tk_traceback t, tv_parent_id = tk_parent_id t, tv_root_id = tk_root_id t,
     tv_group_id = tk_group_id t, tv_chord_id = tk_chord_id t, tv_eta = None\<rparr>"

section \<open>Sorting\<close>

definition SORTABLE_FIELDS :: "string list" where
  "SORTABLE_FIELDS = [''state'', ''worker'', ''received'', ''started'', ''runtime'']"

definition SORT_DIRECTIONS :: "string list" where
  "SORT_DIRECTIONS = [''asc'', ''desc'']"

definition normalize_sort :: "string option \<Rightarrow> string option \<Rightarrow> string \<times> string" where
  "normalize_sort skey sdir =
     (let key = py_strip (or_str skey []); direction = py_lower (py_strip (or_str sdir []))
      in if key \<notin> set SORTABLE_FIELDS then ([], ''desc'')
         else (key, if direction \<in> set SORT_DIRECTIONS then direction else ''desc''))"

datatype sort_value = SortText string | SortNum rat | SortTime pydt

definition sort_value_of :: "string \<Rightarrow> task_view \<Rightarrow> sort_value option" where
  "sort_value_of field t =
     (if field = ''state'' then Some (SortText (py_lower (tv_state t)))
      else if field = ''worker'' then Some (SortText (py_lower (tv_worker t)))
      else if field = ''received'' then map_option SortTime (tv_received t)
      else if field = ''started'' then map_option SortTime (tv_started t)
      else if field = ''runtime'' then map_option SortNum (tv_runtime t)
      else None)"

text \<open>\<open>_compare\<close>: a missing value goes last in both directions.\<close>

definition directed :: "bool \<Rightarrow> 'a::linorder \<Rightarrow> 'a \<Rightarrow> int" where
  "directed reverse x y = (if x = y then 0 else if reverse then (if y < x then - 1 else 1) else if x < y then - 1 else 1)"

definition compare_values :: "bool \<Rightarrow> sort_value option \<Rightarrow> sort_value option \<Rightarrow> int" where
  "compare_values reverse left right = (case (left, right) of
       (None, None) \<Rightarrow> 0
     | (None, Some _) \<Rightarrow> 1
     | (Some _, None) \<Rightarrow> - 1
     | (Some (SortText x), Some (SortText y)) \<Rightarrow> directed reverse x y
     | (Some (SortTime x), Some (SortTime y)) \<Rightarrow> directed reverse (dt_instant x) (dt_instant y)
     | (Some (SortNum x), Some (SortNum y)) \<Rightarrow> directed reverse x y
     | _ \<Rightarrow> 0)"

text \<open>\<open>sorted(items, key=cmp_to_key(compare))\<close>, a stable sort.\<close>

fun cmp_insert :: "('a \<Rightarrow> 'a \<Rightarrow> int) \<Rightarrow> 'a \<Rightarrow> 'a list \<Rightarrow> 'a list" where
  "cmp_insert compare x [] = [x]"
| "cmp_insert compare x (y # ys) = (if compare y x < 0 then y # cmp_insert compare x ys else x # y # ys)"

definition cmp_sort :: "('a \<Rightarrow> 'a \<Rightarrow> int) \<Rightarrow> 'a list \<Rightarrow> 'a list" where
  "cmp_sort compare xs = foldr (cmp_insert compare) xs []"

definition sort_tasks :: "task_view list \<Rightarrow> string \<Rightarrow> string \<Rightarrow> task_view list" where
  "sort_tasks tasks field direction =
     cmp_sort (\<lambda>x y. compare_values (direction = ''desc'') (sort_value_of field x) (sort_value_of field y)) tasks"

text \<open>\<open>_filter_tasks\<close>: the search in memory.\<close>

definition haystack_of :: "task_view \<Rightarrow> string" where
  "haystack_of t = py_lower (tv_name t @ '' '' @ tv_task_id t @ '' '' @ tv_worker t @ '' '' @ tv_args t @ '' '' @ tv_kwargs t)"

definition filter_views :: "task_view list \<Rightarrow> string \<Rightarrow> task_view list" where
  "filter_views tasks search_term =
     (if search_term = [] then tasks else filter (\<lambda>t. str_in (py_lower search_term) (haystack_of t)) tasks)"

section \<open>Filters of the list\<close>

definition parse_date :: "pyrt \<Rightarrow> string option \<Rightarrow> pydt option" where
  "parse_date rt v = (if truthy_str v then coerce_dt (rt_iso rt (the v)) else None)"

definition is_date_only :: "string option \<Rightarrow> bool" where
  "is_date_only v = (truthy_str v \<and> CHR ''T'' \<notin> set (the v) \<and> CHR '' '' \<notin> set (the v))"

text \<open>Adding a duration in microseconds; the years 1 to 9999 are kept.\<close>

definition shift_dt :: "int \<Rightarrow> pydt \<Rightarrow> pyexc + pydt" where
  "shift_dt us d = (let t = dt_local d + us in
     if min_local \<le> t \<and> t \<le> max_local then Inr (DT t (dt_off d)) else Inl (OtherError ''OverflowError''))"

definition end_of_range :: "pyrt \<Rightarrow> string option \<Rightarrow> pyexc + pydt option" where
  "end_of_range rt raw = (case parse_date rt raw of
       None \<Rightarrow> Inr None
     | Some e \<Rightarrow> (if is_date_only raw
         then ebind (shift_dt us_per_day e) (\<lambda>e. ebind (shift_dt (- 1) e) (\<lambda>e. Inr (Some e)))
         else Inr (Some e)))"

definition list_time_range :: "pyrt \<Rightarrow> pydt \<Rightarrow> (string, string) pydict \<Rightarrow> pyexc + time_range option" where
  "list_time_range rt now get =
     (let start_filter = parse_date rt (dget get ''start'')
      in ebind (end_of_range rt (dget get ''end'')) (\<lambda>end_filter.
         if start_filter = None \<and> end_filter = None then Inr None
         else ebind (case start_filter of Some s \<Rightarrow> Inr s | None \<Rightarrow> shift_dt (- 365 * us_per_day) now) (\<lambda>s.
              Inr (Some \<lparr>tr_start = s, tr_end = (case end_filter of Some e \<Rightarrow> e | None \<Rightarrow> now)\<rparr>))))"

definition state_values_of :: "(string, string) pydict \<Rightarrow> string list" where
  "state_values_of get =
     map (\<lambda>v. py_upper (py_strip v)) (filter (\<lambda>v. py_strip v \<noteq> []) (split_on CHR '','' (dget_or get ''state'' [])))"

definition opt_text :: "string \<Rightarrow> string option" where
  "opt_text s = (if s = [] then None else Some s)"

definition list_filter :: "pyrt \<Rightarrow> pydt \<Rightarrow> (string, string) pydict \<Rightarrow> pyexc + task_filter" where
  "list_filter rt now get =
     ebind (list_time_range rt now get) (\<lambda>tr.
     Inr \<lparr>tf_task_name = opt_text (dget_or get ''task_name'' []),
          tf_state = (case state_values_of get of [s] \<Rightarrow> opt_text s | _ \<Rightarrow> None),
          tf_worker = opt_text (dget_or get ''worker'' []), tf_time_range = tr,
          tf_search = opt_text (py_strip (dget_or get ''search'' [])), tf_group_id = None, tf_root_id = None\<rparr>)"

definition PAGE_SIZE_OPTIONS :: "int list" where
  "PAGE_SIZE_OPTIONS = [10, 25, 50, 100, 200]"

definition DEFAULT_PAGE_SIZE :: int where
  "DEFAULT_PAGE_SIZE = 50"

definition page_size_of :: "pyrt \<Rightarrow> (string, string) pydict \<Rightarrow> int" where
  "page_size_of rt get = (case dget get ''page_size'' of
       None \<Rightarrow> DEFAULT_PAGE_SIZE
     | Some raw \<Rightarrow> (case rt_int rt raw of
           Some n \<Rightarrow> (if n \<in> set PAGE_SIZE_OPTIONS then n else DEFAULT_PAGE_SIZE) | None \<Rightarrow> DEFAULT_PAGE_SIZE))"

definition page_of :: "pyrt \<Rightarrow> (string, string) pydict \<Rightarrow> int" where
  "page_of rt get = (case dget get ''page'' of
       None \<Rightarrow> 1
     | Some raw \<Rightarrow> (case rt_int rt raw of Some n \<Rightarrow> max n 1 | None \<Rightarrow> 1))"


section \<open>The queue tab\<close>

text \<open>What is shown: the tasks, the page and the number of pages, and how many tasks there are.\<close>

record shown_page =
  sp_tasks :: "task_view list"
  sp_page :: int
  sp_total_pages :: int
  sp_total_count :: int

definition total_pages_of :: "int \<Rightarrow> int \<Rightarrow> int" where
  "total_pages_of cnt sz = max ((cnt + sz - 1) div sz) 1"

text \<open>With at most one state the database pages; past the last page it is asked again. The two queries may
  see different databases.\<close>

definition paged_query :: "task_filter \<Rightarrow> string \<Rightarrow> string \<Rightarrow> int \<Rightarrow> int \<Rightarrow> db \<Rightarrow> db \<Rightarrow> shown_page" where
  "paged_query f skey sdir sz page d d' =
     (let ask = (\<lambda>p. get_tasks_page (Some f) (opt_text skey) (if skey = [] then None else Some sdir) sz ((p - 1) * sz));
          (rows, cnt) = ask page d;
          pages = total_pages_of (int cnt) sz
      in if 0 < cnt \<and> pages < page
         then (let (rows', cnt') = ask pages d'
               in \<lparr>sp_tasks = map task_to_view rows', sp_page = pages, sp_total_pages = pages, sp_total_count = int cnt'\<rparr>)
         else \<lparr>sp_tasks = map task_to_view rows, sp_page = page, sp_total_pages = pages, sp_total_count = int cnt\<rparr>)"

text \<open>With several states all tasks are read, filtered and sorted in memory.\<close>

definition slice :: "int \<Rightarrow> int \<Rightarrow> 'a list \<Rightarrow> 'a list" where
  "slice sz page xs = take (nat sz) (drop (nat ((page - 1) * sz)) xs)"

definition memory_query :: "task_filter \<Rightarrow> string list \<Rightarrow> string \<Rightarrow> string \<Rightarrow> int \<Rightarrow> int \<Rightarrow> db \<Rightarrow> shown_page" where
  "memory_query f states skey sdir sz page d =
     (let tasks = filter (\<lambda>t. tv_state t \<in> set states) (map task_to_view (get_tasks (Some f) d));
          tasks = (if skey = [] then tasks else sort_tasks tasks skey sdir);
          cnt = int (length tasks);
          pages = total_pages_of cnt sz;
          page = min page pages
      in \<lparr>sp_tasks = slice sz page tasks, sp_page = page, sp_total_pages = pages, sp_total_count = cnt\<rparr>)"

definition visible_range :: "int \<Rightarrow> shown_page \<Rightarrow> int \<times> int" where
  "visible_range sz s =
     (if sp_total_count s = 0 then (0, 0)
      else let start = (sp_page s - 1) * sz + 1 in (start, start + max (int (length (sp_tasks s)) - 1) 0))"

definition prev_page :: "shown_page \<Rightarrow> int option" where
  "prev_page s = (if 1 < sp_page s then Some (sp_page s - 1) else None)"

definition next_page :: "shown_page \<Rightarrow> int option" where
  "next_page s = (if sp_page s < sp_total_pages s then Some (sp_page s + 1) else None)"

definition queue_page :: "pyrt \<Rightarrow> pydt \<Rightarrow> (string, string) pydict \<Rightarrow> db \<Rightarrow> db \<Rightarrow> pyexc + shown_page" where
  "queue_page rt now get d d' =
     ebind (list_filter rt now get) (\<lambda>f.
     let (skey, sdir) = normalize_sort (dget get ''sort'') (dget get ''dir'');
         states = state_values_of get
     in Inr (if length states \<le> 1 then paged_query f skey sdir (page_size_of rt get) (page_of rt get) d d'
             else memory_query f states skey sdir (page_size_of rt get) (page_of rt get) d))"

section \<open>Relations\<close>

text \<open>\<open>_expand_task_ids\<close> of a stored id: a text that is a JSON or Python list stands for its items.\<close>

definition literal_of :: "pyrt \<Rightarrow> (string \<Rightarrow> pyval option) \<Rightarrow> string \<Rightarrow> pyval option" where
  "literal_of rt literal_eval s = (case rt_loads rt s of Some v \<Rightarrow> Some v | None \<Rightarrow> literal_eval s)"

fun items_of :: "pyval \<Rightarrow> pyval list option" where
  "items_of (PList xs) = Some xs"
| "items_of (PTuple xs) = Some xs"
| "items_of (PSet xs) = Some xs"
| "items_of _ = None"

definition expand_task_ids :: "pyrt \<Rightarrow> (string \<Rightarrow> pyval option) \<Rightarrow> string \<Rightarrow> string list" where
  "expand_task_ids rt literal_eval v =
     (let text = py_strip v
      in if text = [] then []
         else if hd text = CHR ''['' \<or> hd text = CHR ''(''
         then (case Option.bind (literal_of rt literal_eval text) items_of of
                 Some xs \<Rightarrow> map (py_str rt) (filter (\<lambda>x. x \<noteq> PNone) xs) | None \<Rightarrow> [text])
         else [text])"

definition add_children :: "pyrt \<Rightarrow> (string \<Rightarrow> pyval option) \<Rightarrow> string set \<Rightarrow> task_relation \<Rightarrow>
    (string, string set) pydict \<Rightarrow> (string, string set) pydict" where
  "add_children rt literal_eval parents r sets = (case rel_parent_id r of
       None \<Rightarrow> sets
     | Some p \<Rightarrow> (if p \<notin> parents then sets
         else dset p (dget_or sets p {} \<union> {c \<in> set (expand_task_ids rt literal_eval (rel_child_id r)). c \<noteq> [] \<and> c \<noteq> p}) sets))"

definition root_groups_of :: "task_view list \<Rightarrow> (string, string set) pydict" where
  "root_groups_of tasks = fold (\<lambda>t groups. let root = or_str (tv_root_id t) (tv_task_id t)
     in dset root (insert (tv_task_id t) (dget_or groups root {})) groups) tasks []"

definition child_sets_of :: "pyrt \<Rightarrow> (string \<Rightarrow> pyval option) \<Rightarrow> db \<Rightarrow> task_view list \<Rightarrow> (string, string set) pydict" where
  "child_sets_of rt literal_eval d tasks =
     fold (\<lambda>(root, parents) sets. fold (add_children rt literal_eval parents) (get_task_relations root d) sets)
       (root_groups_of tasks) (fold (\<lambda>t. dset (tv_task_id t) {}) tasks [])"

definition attach_child_counts :: "pyrt \<Rightarrow> (string \<Rightarrow> pyval option) \<Rightarrow> db \<Rightarrow> task_view list \<Rightarrow> task_view list" where
  "attach_child_counts rt literal_eval d tasks =
     (let sets = child_sets_of rt literal_eval d tasks
      in map (\<lambda>t. t\<lparr>tv_child_count := card (dget_or sets (tv_task_id t) {})\<rparr>) tasks)"

text \<open>The detail page.\<close>

record task_link =
  tl_id :: string
  tl_label :: string
  tl_state :: "string option"
  tl_badge_class :: string
  tl_exists :: bool

definition build_task_link :: "db \<Rightarrow> string \<Rightarrow> task_link" where
  "build_task_link d i = (case get_task i d of
       None \<Rightarrow> \<lparr>tl_id = i, tl_label = i, tl_state = None, tl_badge_class = ''badge-muted'', tl_exists = False\<rparr>
     | Some t \<Rightarrow> \<lparr>tl_id = tk_task_id t, tl_label = or_str (tk_name t) (tk_task_id t), tl_state = Some (tk_state t),
         tl_badge_class = badge_of (tk_state t), tl_exists = True\<rparr>)"

definition parent_id_of :: "task \<Rightarrow> task_relation list \<Rightarrow> string option" where
  "parent_id_of t relations =
     (if truthy_str (tk_parent_id t) then tk_parent_id t
      else case List.find (\<lambda>r. rel_child_id r = tk_task_id t \<and> truthy_str (rel_parent_id r)) relations of
          Some r \<Rightarrow> rel_parent_id r
        | None \<Rightarrow> (case List.find (\<lambda>r. rel_parent_id r = Some (tk_task_id t)) relations of
              Some r \<Rightarrow> rel_parent_id r | None \<Rightarrow> None))"

definition child_ids_of :: "pyrt \<Rightarrow> (string \<Rightarrow> pyval option) \<Rightarrow> task \<Rightarrow> task_relation list \<Rightarrow> string list" where
  "child_ids_of rt literal_eval t relations =
     sort (remdups (concat (map (\<lambda>r. if rel_parent_id r \<noteq> Some (tk_task_id t) then []
       else filter (\<lambda>c. c \<noteq> [] \<and> c \<noteq> tk_task_id t) (expand_task_ids rt literal_eval (rel_child_id r))) relations)))"

text \<open>\<open>_build_relations\<close>: the steps of a task, as title and state.\<close>

definition build_relations :: "task \<Rightarrow> (string \<times> string) list" where
  "build_relations t =
     (let steps = (if tk_received t \<noteq> None then [(''Received'', ''RECEIVED'')] else []) @
        (if tk_started t \<noteq> None then [(''Started'', ''STARTED'')] else []) @
        (if tk_finished t \<noteq> None then [(''Finished'', tk_state t)] else [])
      in if steps = [] then [(''State'', tk_state t)] else steps)"

record detail_page =
  dp_task :: task_view
  dp_state_badge :: string
  dp_relations :: "(string \<times> string) list"
  dp_parent_link :: "task_link option"
  dp_child_links :: "task_link list"
  dp_show_traceback :: bool

text \<open>None is the 404 answer.\<close>

definition task_detail :: "pyrt \<Rightarrow> (string \<Rightarrow> pyval option) \<Rightarrow> string \<Rightarrow> db \<Rightarrow> detail_page option" where
  "task_detail rt literal_eval i d = (case get_task i d of
       None \<Rightarrow> None
     | Some t \<Rightarrow>
         (let relations = get_task_relations (or_str (tk_root_id t) (tk_task_id t)) d;
              parent = parent_id_of t relations
          in Some \<lparr>dp_task = task_to_view t, dp_state_badge = badge_of (tk_state t), dp_relations = build_relations t,
               dp_parent_link = (if truthy_str parent then Some (build_task_link d (the parent)) else None),
               dp_child_links = map (build_task_link d) (child_ids_of rt literal_eval t relations),
               dp_show_traceback = (truthy_str (tk_traceback t) \<or> tk_state t \<in> {''FAILURE'', ''RETRY''})\<rparr>))"

section \<open>The statistics tab\<close>

record stats_row =
  sr_name :: string
  sr_count :: nat
  sr_failure_rate :: "rat option"
  sr_retry_rate :: "rat option"
  sr_min :: "rat option"
  sr_max :: "rat option"
  sr_avg :: "rat option"
  sr_p95 :: "rat option"
  sr_p99 :: "rat option"

text \<open>\<open>_percentile\<close>, of a sorted list.\<close>

definition view_percentile :: "rat list \<Rightarrow> rat \<Rightarrow> rat option" where
  "view_percentile vs pct =
     (if vs = [] then None
      else if pct \<le> 0 then Some (vs ! 0)
      else if 1 \<le> pct then Some (last vs)
      else let index = of_nat (length vs - 1) * pct;
               lower = nat \<lfloor>index\<rfloor>;
               upper = min (lower + 1) (length vs - 1)
           in if lower = upper then Some (vs ! lower)
              else (let weight = index - of_nat lower in Some (vs ! lower + (vs ! upper - vs ! lower) * weight)))"

text \<open>The dictionaries filled by the loop over the tasks.\<close>

record stats_counts =
  sn_counts :: "(string, nat) pydict"
  sn_failures :: "(string, nat) pydict"
  sn_retries :: "(string, nat) pydict"
  sn_runtimes :: "(string, rat list) pydict"

definition bump_key :: "string \<Rightarrow> (string, nat) pydict \<Rightarrow> (string, nat) pydict" where
  "bump_key k d = dset k (dget_or d k 0 + 1) d"

definition stats_name :: "task \<Rightarrow> string" where
  "stats_name t = or_str (tk_name t) ''unknown''"

definition was_retried :: "task \<Rightarrow> bool" where
  "was_retried t = (0 < or_int (tk_retries t) 0 \<or> tk_state t = ''RETRY'')"

definition count_stats :: "task \<Rightarrow> stats_counts \<Rightarrow> stats_counts" where
  "count_stats t s = (let name = stats_name t in s\<lparr>
     sn_counts := bump_key name (sn_counts s),
     sn_failures := (if tk_state t = ''FAILURE'' then bump_key name (sn_failures s) else sn_failures s),
     sn_retries := (if was_retried t then bump_key name (sn_retries s) else sn_retries s),
     sn_runtimes := (case tk_runtime t of None \<Rightarrow> sn_runtimes s
       | Some x \<Rightarrow> dset name (dget_or (sn_runtimes s) name [] @ [x]) (sn_runtimes s))\<rparr>)"

definition rate_of :: "nat \<Rightarrow> nat \<Rightarrow> rat option" where
  "rate_of part cnt = (if cnt = 0 then None else Some (of_nat part / of_nat cnt * 100))"

definition stats_row_of :: "stats_counts \<Rightarrow> string \<times> nat \<Rightarrow> stats_row" where
  "stats_row_of s nc = (case nc of (name, cnt) \<Rightarrow>
     let vs = sort (dget_or (sn_runtimes s) name []);
         present = (\<lambda>x. if vs = [] then None else x)
     in \<lparr>sr_name = name, sr_count = cnt, sr_failure_rate = rate_of (dget_or (sn_failures s) name 0) cnt,
       sr_retry_rate = rate_of (dget_or (sn_retries s) name 0) cnt,
       sr_min = present (Some (hd vs)), sr_max = present (Some (last vs)),
       sr_avg = present (Some (sum_list vs / of_nat (length vs))),
       sr_p95 = view_percentile vs (95 / 100), sr_p99 = view_percentile vs (99 / 100)\<rparr>)"

definition build_stats_rows :: "task list \<Rightarrow> stats_row list" where
  "build_stats_rows tasks =
     (let s = fold count_stats tasks \<lparr>sn_counts = [], sn_failures = [], sn_retries = [], sn_runtimes = []\<rparr>
      in map (stats_row_of s) (sn_counts s))"

definition STATS_SORT_FIELDS :: "string list" where
  "STATS_SORT_FIELDS = [''name'', ''count'', ''failure_rate'', ''retry_rate'', ''avg'', ''p95'', ''p99'', ''min'', ''max'']"

definition normalize_stats_sort :: "string option \<Rightarrow> string option \<Rightarrow> string \<times> string" where
  "normalize_stats_sort skey sdir =
     (let key = py_strip (or_str skey []); direction = py_lower (py_strip (or_str sdir []))
      in (if key \<in> set STATS_SORT_FIELDS then key else ''avg'',
          if direction \<in> set SORT_DIRECTIONS then direction else ''desc''))"

text \<open>The sort key: whether the value is missing, then the value.\<close>

definition stats_value :: "string \<Rightarrow> stats_row \<Rightarrow> sql_value" where
  "stats_value key r =
     (if key = ''name'' then SText (py_lower (sr_name r))
      else if key = ''count'' then SNum (of_nat (sr_count r))
      else sql_of_num (if key = ''failure_rate'' then sr_failure_rate r
        else if key = ''retry_rate'' then sr_retry_rate r
        else if key = ''avg'' then sr_avg r else if key = ''p95'' then sr_p95 r else if key = ''p99'' then sr_p99 r
        else if key = ''min'' then sr_min r else if key = ''max'' then sr_max r else None))"

definition stats_key :: "string \<Rightarrow> stats_row \<Rightarrow> sql_value list" where
  "stats_key key r = (let v = stats_value key r in [SNum (if v = SNull then 1 else 0), v])"

definition sort_stats_rows :: "stats_row list \<Rightarrow> string \<Rightarrow> string \<Rightarrow> stats_row list" where
  "sort_stats_rows rows key direction =
     (if direction = ''desc'' then sort_desc_key (stats_key key) rows else sort_asc_key (stats_key key) rows)"

definition stats_tab :: "(string, string) pydict \<Rightarrow> db \<Rightarrow> stats_row list \<times> string list" where
  "stats_tab get d =
     (let tasks = get_tasks None d;
          wanted = py_strip (dget_or get ''stats_task'' []);
          rows = build_stats_rows tasks;
          rows = (if wanted = [] then rows else filter (\<lambda>r. sr_name r = wanted) rows);
          (key, direction) = normalize_stats_sort (dget get ''stats_sort'') (dget get ''stats_dir'')
      in (sort_stats_rows rows key direction, sort (remdups (map stats_name tasks))))"

text \<open>The links in the table headers: the query they lead to, before it is encoded.\<close>

record sort_header =
  sh_key :: string
  sh_query :: "(string, string) pydict"
  sh_active :: bool
  sh_direction :: string

definition next_direction :: "string \<Rightarrow> string \<Rightarrow> string \<Rightarrow> string" where
  "next_direction key skey sdir = (if skey = key \<and> sdir = ''desc'' then ''asc'' else ''desc'')"

definition build_sort_headers :: "(string, string) pydict \<Rightarrow> string \<Rightarrow> string \<Rightarrow> sort_header list" where
  "build_sort_headers get skey sdir = map (\<lambda>key. \<lparr>sh_key = key,
     sh_query = dset ''dir'' (next_direction key skey sdir) (dset ''sort'' key (dpop ''page'' get)),
     sh_active = (skey = key), sh_direction = (if skey = key then sdir else [])\<rparr>) SORTABLE_FIELDS"

definition build_stats_sort_headers :: "(string, string) pydict \<Rightarrow> string \<Rightarrow> string \<Rightarrow> sort_header list" where
  "build_stats_sort_headers get skey sdir = map (\<lambda>key. \<lparr>sh_key = key,
     sh_query = dset ''stats_dir'' (next_direction key skey sdir) (dset ''stats_sort'' key (dset ''tab'' ''stats'' get)),
     sh_active = (skey = key), sh_direction = (if skey = key then sdir else [])\<rparr>) STATS_SORT_FIELDS"

text \<open>The list page as a whole; each query of the page may see a later database.\<close>

record list_page =
  lp_shown :: shown_page
  lp_tasks :: "task_view list"
  lp_visible :: "int \<times> int"
  lp_sort_headers :: "sort_header list"
  lp_active_tab :: string
  lp_stats :: "stats_row list \<times> string list"
  lp_task_names :: "string list"
  lp_workers :: "string list"

definition task_list :: "pyrt \<Rightarrow> (string \<Rightarrow> pyval option) \<Rightarrow> pydt \<Rightarrow> (string, string) pydict \<Rightarrow> db \<Rightarrow> db \<Rightarrow> db \<Rightarrow> db \<Rightarrow>
    pyexc + list_page" where
  "task_list rt literal_eval now get d1 d2 d3 d4 =
     ebind (queue_page rt now get d1 d2) (\<lambda>s.
     let (skey, sdir) = normalize_sort (dget get ''sort'') (dget get ''dir'');
         tab = dget_or get ''tab'' ''queue'';
         active = (if tab = ''queue'' \<or> tab = ''stats'' then tab else ''queue'')
     in Inr \<lparr>lp_shown = s, lp_tasks = attach_child_counts rt literal_eval d3 (sp_tasks s),
          lp_visible = visible_range (page_size_of rt get) s, lp_sort_headers = build_sort_headers get skey sdir,
          lp_active_tab = active, lp_stats = (if active = ''stats'' then stats_tab get d4 else ([], [])),
          lp_task_names = list_task_names d4, lp_workers = sort (remdups (map wk_hostname (get_workers rt d4)))\<rparr>)"

end
