(* ===== verification/Task_Page_Facts.thy ===== *)
theory Task_Page_Facts
  imports Task_Pages
begin

text \<open>
  What the task pages show: a page is the right slice of one list and says so, the child count of the
  list is the number of child links of the detail page, the two ways the list is sorted agree where every
  task has the value, and the statistics rows count every task once with ordered runtimes.
\<close>

section \<open>Child counts\<close>

definition kids :: "pyrt \<Rightarrow> (string \<Rightarrow> pyval option) \<Rightarrow> string \<Rightarrow> task_relation list \<Rightarrow> string set" where
  "kids rt le p rels = {c. \<exists>r \<in> set rels. rel_parent_id r = Some p \<and> c \<in> set (expand_task_ids rt le (rel_child_id r)) \<and>
     c \<noteq> [] \<and> c \<noteq> p}"

lemma kids_Cons: "kids rt le p (r # rels) = (if rel_parent_id r = Some p
    then {c \<in> set (expand_task_ids rt le (rel_child_id r)). c \<noteq> [] \<and> c \<noteq> p} else {}) \<union> kids rt le p rels"
  by (auto simp: kids_def)

lemma add_children_step: "dget_or (add_children rt le parents r sets) p {} = dget_or sets p {} \<union>
    (if p \<in> parents \<and> rel_parent_id r = Some p
     then {c \<in> set (expand_task_ids rt le (rel_child_id r)). c \<noteq> [] \<and> c \<noteq> p} else {})"
  by (auto simp: add_children_def dget_or_dset split: option.splits)

lemma add_children_fold: "dget_or (fold (add_children rt le parents) rels sets) p {} =
    dget_or sets p {} \<union> (if p \<in> parents then kids rt le p rels else {})"
proof (induction rels arbitrary: sets)
  case Nil
  then show ?case by (simp add: kids_def)
next
  case (Cons r rels)
  then show ?case by (auto simp: add_children_step kids_Cons)
qed

lemma groups_fold: "dget_or (fold (\<lambda>(rid', parents) sets. fold (add_children rt le parents) (rels rid') sets) groups sets) p {} =
    dget_or sets p {} \<union> (\<Union>(rid', parents) \<in> set groups. if p \<in> parents then kids rt le p (rels rid') else {})"
proof (induction groups arbitrary: sets)
  case (Cons g groups)
  obtain rid' parents where g: "g = (rid', parents)" by (cases g)
  show ?case by (simp add: Cons g add_children_fold Un_assoc)
qed simp

lemma empty_sets:
  fixes sets :: "(string, string set) pydict"
  shows "dget_or (fold (\<lambda>t. dset (tv_task_id t) {}) tasks sets) p {} \<subseteq> dget_or sets p {}"
proof (induction tasks arbitrary: sets)
  case (Cons t tasks)
  have "dget_or (dset (tv_task_id t) {} sets) p {} \<subseteq> dget_or sets p {}" by (simp add: dget_or_dset)
  then show ?case using Cons[of "dset (tv_task_id t) {} sets"] by (simp del: dget_or_dset)
qed simp

definition view_root :: "task_view \<Rightarrow> string" where
  "view_root t = or_str (tv_root_id t) (tv_task_id t)"

definition add_to_root :: "task_view \<Rightarrow> (string, string set) pydict \<Rightarrow> (string, string set) pydict" where
  "add_to_root t groups = dset (view_root t) (insert (tv_task_id t) (dget_or groups (view_root t) {})) groups"

lemma root_groups_of_fold: "root_groups_of tasks = fold add_to_root tasks []"
  by (simp add: root_groups_of_def add_to_root_def[abs_def] view_root_def Let_def)

lemma root_groups_get: "dget_or (fold add_to_root tasks groups) rid' {} =
    dget_or groups rid' {} \<union> tv_task_id ` {t \<in> set tasks. view_root t = rid'}"
proof (induction tasks arbitrary: groups)
  case (Cons t tasks)
  then show ?case by (auto simp: add_to_root_def dget_or_dset)
qed simp

lemma root_groups_dict: "dict_ok groups \<Longrightarrow> dict_ok (fold add_to_root tasks groups)"
  by (induction tasks arbitrary: groups) (simp_all add: add_to_root_def)

lemma dict_member: "dict_ok G \<Longrightarrow> (\<exists>ps. (k, ps) \<in> set G \<and> p \<in> ps) \<longleftrightarrow> p \<in> dget_or G k {}"
proof -
  assume "dict_ok G"
  then have iff: "(k, ps) \<in> set G \<longleftrightarrow> dget G k = Some ps" for ps by (simp add: dict_ok_def)
  show ?thesis unfolding iff dget_or_def by (cases "dget G k") simp_all
qed

lemma root_groups_member: "(\<exists>parents. (rid', parents) \<in> set (root_groups_of tasks) \<and> p \<in> parents) \<longleftrightarrow>
    (\<exists>t \<in> set tasks. tv_task_id t = p \<and> view_root t = rid')"
proof -
  have ok: "dict_ok (root_groups_of tasks)" by (simp add: root_groups_of_fold root_groups_dict)
  have get: "dget_or (root_groups_of tasks) rid' {} = tv_task_id ` {t \<in> set tasks. view_root t = rid'}"
    by (simp add: root_groups_of_fold root_groups_get) (simp add: dget_or_def)
  show ?thesis unfolding dict_member[OF ok] get by auto
qed

lemma Union_if: "(\<Union>(r, ps) \<in> S. if p \<in> ps then f r else {}) = (\<Union>r \<in> {r. \<exists>ps. (r, ps) \<in> S \<and> p \<in> ps}. f r)"
  by (force split: if_splits)

lemma child_sets_get:
  assumes "distinct (map tv_task_id tasks)" and "t \<in> set tasks"
  shows "dget_or (child_sets_of rt le d tasks) (tv_task_id t) {} = kids rt le (tv_task_id t) (get_task_relations (view_root t) d)"
proof -
  let ?p = "tv_task_id t"
  have "dget_or [] ?p {} = ({} :: string set)" by (simp add: dget_or_def)
  with empty_sets[of tasks "[]" ?p] have "dget_or (fold (\<lambda>t. dset (tv_task_id t) {}) tasks []) ?p {} = ({} :: string set)"
    by auto
  then have "dget_or (child_sets_of rt le d tasks) ?p {} = (\<Union>(rid', parents) \<in> set (root_groups_of tasks).
      if ?p \<in> parents then kids rt le ?p (get_task_relations rid' d) else {})"
    unfolding child_sets_of_def groups_fold by simp
  also have "\<dots> = (\<Union>rid' \<in> {rid'. \<exists>parents. (rid', parents) \<in> set (root_groups_of tasks) \<and> ?p \<in> parents}.
      kids rt le ?p (get_task_relations rid' d))"
    by (rule Union_if)
  also have "{rid'. \<exists>parents. (rid', parents) \<in> set (root_groups_of tasks) \<and> ?p \<in> parents} = {view_root t}"
    unfolding root_groups_member using assms by (auto simp: distinct_map inj_on_def)
  finally show ?thesis by simp
qed

lemma child_ids_kids: "set (child_ids_of rt le t rels) = kids rt le (tk_task_id t) rels"
  "distinct (child_ids_of rt le t rels)"
  by (auto simp: child_ids_of_def kids_def split: if_splits)

lemma view_of_task [simp]: "tv_task_id (task_to_view t) = tk_task_id t"
  "view_root (task_to_view t) = or_str (tk_root_id t) (tk_task_id t)"
  by (simp_all add: task_to_view_def view_root_def)

text \<open>C31: The number of children the task list shows for a task is the number of child links on the page
  of the task: grouping the tasks of a page by their root, one query per rid', finds the same children as
  the page of a single task.\<close>

theorem child_count_agrees:
  assumes "distinct (map tk_task_id ts)" and "t \<in> set ts" and "get_task (tk_task_id t) d = Some t"
  shows "\<exists>v p. v \<in> set (attach_child_counts rt literal_eval d (map task_to_view ts)) \<and> tv_task_id v = tk_task_id t \<and>
    task_detail rt literal_eval (tk_task_id t) d = Some p \<and> tv_child_count v = length (dp_child_links p)"
proof -
  let ?vs = "map task_to_view ts"
  let ?rels = "get_task_relations (or_str (tk_root_id t) (tk_task_id t)) d"
  have v: "task_to_view t \<in> set ?vs" "distinct (map tv_task_id ?vs)" using assms(1,2) by (simp_all add: comp_def)
  have "card (dget_or (child_sets_of rt literal_eval d ?vs) (tk_task_id t) {}) = card (set (child_ids_of rt literal_eval t ?rels))"
    using child_sets_get[OF v(2,1), of rt literal_eval d] by (simp add: child_ids_kids)
  also have "\<dots> = length (child_ids_of rt literal_eval t ?rels)" by (rule distinct_card[OF child_ids_kids(2)])
  finally have n: "card (dget_or (child_sets_of rt literal_eval d ?vs) (tk_task_id t) {}) = length (child_ids_of rt literal_eval t ?rels)" .
  let ?v = "(task_to_view t)\<lparr>tv_child_count := card (dget_or (child_sets_of rt literal_eval d ?vs) (tk_task_id t) {})\<rparr>"
  have "?v \<in> set (attach_child_counts rt literal_eval d ?vs)"
    unfolding attach_child_counts_def Let_def set_map using v(1) by (intro image_eqI[of _ _ "task_to_view t"]) simp_all
  moreover have "tv_task_id ?v = tk_task_id t" by simp
  moreover have "tv_child_count ?v = length (child_ids_of rt literal_eval t ?rels)" using n by simp
  moreover obtain p where p: "task_detail rt literal_eval (tk_task_id t) d = Some p"
    and "length (dp_child_links p) = length (child_ids_of rt literal_eval t ?rels)"
    using assms(3) by (simp add: task_detail_def Let_def)
  ultimately show ?thesis by metis
qed

section \<open>Pages\<close>

lemma mset_cmp_insert [simp]: "mset (cmp_insert c x xs) = add_mset x (mset xs)"
  by (induction xs) auto

lemma mset_cmp_sort [simp]: "mset (cmp_sort c xs) = mset xs"
  by (induction xs) (simp_all add: cmp_sort_def)

lemma set_cmp_sort [simp]: "set (cmp_sort c xs) = set xs"
  using mset_cmp_sort by (rule mset_eq_setD)

lemma length_cmp_sort [simp]: "length (cmp_sort c xs) = length xs"
  using mset_cmp_sort by (rule mset_eq_length)

text \<open>The whole list a page is cut from: every matching task in the order of the page.\<close>

definition shown_all :: "task_filter \<Rightarrow> string list \<Rightarrow> string \<Rightarrow> string \<Rightarrow> db \<Rightarrow> task_view list" where
  "shown_all f states skey sdir d =
     (if length states \<le> 1
      then map task_to_view (map row_to_task (ordered_tasks (Some f) (opt_text skey) (if skey = [] then None else Some sdir) d))
      else let tasks = filter (\<lambda>t. tv_state t \<in> set states) (map task_to_view (get_tasks (Some f) d))
           in if skey = [] then tasks else sort_tasks tasks skey sdir)"

lemma tv_state_view [simp]: "tv_state (task_to_view (row_to_task r)) = tk_state r"
  by (simp add: task_to_view_def row_to_task_def)

lemma mset_views: "mset (map task_to_view (get_tasks (Some f) d)) =
    image_mset (\<lambda>r. task_to_view (row_to_task r)) (mset (matching_rows (Some f) d))"
  by (simp add: get_tasks_def image_mset.compositionality comp_def)

lemma mset_shown_all: "mset (shown_all f states skey sdir d) = image_mset (\<lambda>r. task_to_view (row_to_task r))
    (mset (filter (\<lambda>r. length states \<le> 1 \<or> tk_state r \<in> set states) (matching_rows (Some f) d)))"
proof -
  note mset_views[of f d]
  then have "mset (filter (\<lambda>t. tv_state t \<in> set states) (map task_to_view (get_tasks (Some f) d))) =
      image_mset (\<lambda>r. task_to_view (row_to_task r)) (mset (filter (\<lambda>r. tk_state r \<in> set states) (matching_rows (Some f) d)))"
    by (simp add: filter_mset_image_mset comp_def)
  then show ?thesis
    by (simp add: shown_all_def sort_tasks_def Let_def mset_ordered_tasks image_mset.compositionality comp_def)
qed

lemma length_shown_all: "length states \<le> 1 \<Longrightarrow> length (shown_all f states skey sdir d) = length (matching_rows (Some f) d)"
  by (simp add: shown_all_def) (metis mset_ordered_tasks mset_eq_length)

lemma total_pages_pos: "1 \<le> total_pages_of cnt sz"
  by (simp add: total_pages_of_def)

lemma le_div_iff: "0 < b \<Longrightarrow> k \<le> a div b \<longleftrightarrow> k * b \<le> a" for k :: int
proof
  assume "0 < b" "k \<le> a div b"
  then have "k * b \<le> a div b * b" by simp
  then show "k * b \<le> a" using div_mult_mod_eq[of a b] pos_mod_sign[OF \<open>0 < b\<close>, of a] by linarith
next
  assume "0 < b" "k * b \<le> a"
  then show "k \<le> a div b" using zdiv_mono1[of "k * b" a b] by simp
qed

text \<open>A page between the first and the last shows something, and it shows all up to its end.\<close>

lemma slice_length:
  assumes "0 < sz" and "1 \<le> p" and "p \<le> total_pages_of (int (length xs)) sz" and "xs \<noteq> []"
  shows "int (length (slice sz p xs)) = min sz (int (length xs) - (p - 1) * sz)" and "slice sz p xs \<noteq> []"
proof -
  let ?n = "int (length xs)"
  have n: "1 \<le> ?n" using assms(4) by (simp add: Suc_le_eq)
  then have "1 \<le> (?n + sz - 1) div sz" using assms(1) by (simp add: pos_imp_zdiv_pos_iff int_one_le_iff_zero_less)
  then have "p \<le> (?n + sz - 1) div sz" using assms(3) by (simp add: total_pages_of_def)
  then have "p * sz \<le> ?n + sz - 1" by (simp only: le_div_iff[OF assms(1)])
  then have lt: "(p - 1) * sz < ?n" by (simp add: algebra_simps)
  have ge: "0 \<le> (p - 1) * sz" using assms(1,2) by simp
  have "length (slice sz p xs) = min (nat sz) (length xs - nat ((p - 1) * sz))" by (simp add: slice_def)
  then show l: "int (length (slice sz p xs)) = min sz (?n - (p - 1) * sz)" using lt ge assms(1) by simp
  have "0 < min sz (?n - (p - 1) * sz)" using lt assms(1) by simp
  with l show "slice sz p xs \<noteq> []" by auto
qed

lemma sql_page_slice: "0 < sz \<Longrightarrow> 1 \<le> p \<Longrightarrow> sql_page sz ((p - 1) * sz) xs = slice sz p xs"
  by (simp add: sql_page_def slice_def Let_def)

lemma map_slice: "map f (slice sz p xs) = slice sz p (map f xs)"
  by (simp add: slice_def take_map drop_map)

lemma page_size_pos: "0 < page_size_of rt get"
  by (auto simp: page_size_of_def PAGE_SIZE_OPTIONS_def DEFAULT_PAGE_SIZE_def split: option.splits)

lemma page_of_pos: "1 \<le> page_of rt get"
  by (simp add: page_of_def split: option.splits)

text \<open>The page a query shows of a list, and where it stands in it.\<close>

definition shows_page :: "int \<Rightarrow> int \<Rightarrow> task_view list \<Rightarrow> shown_page \<Rightarrow> bool" where
  "shows_page sz page xs s \<longleftrightarrow> sp_total_count s = int (length xs) \<and> sp_total_pages s = total_pages_of (int (length xs)) sz \<and>
     sp_tasks s = slice sz (sp_page s) xs \<and> 1 \<le> sp_page s \<and> (xs \<noteq> [] \<longrightarrow> sp_page s = min page (sp_total_pages s))"

lemma paged_shows:
  assumes "0 < sz" and "1 \<le> page" and "length states \<le> 1"
  shows "shows_page sz page (shown_all f states skey sdir d) (paged_query f skey sdir sz page d d)"
proof -
  define sd where "sd = (if skey = [] then None else Some sdir)"
  define rows where "rows = ordered_tasks (Some f) (opt_text skey) sd d"
  define xs where "xs = shown_all f states skey sdir d"
  have xs: "xs = map task_to_view (map row_to_task rows)"
    using assms(3) by (simp add: shown_all_def xs_def rows_def sd_def)
  have n: "length (matching_rows (Some f) d) = length xs" by (simp add: xs_def length_shown_all[OF assms(3)])
  have ask: "get_tasks_page (Some f) (opt_text skey) sd sz ((p - 1) * sz) d = (map row_to_task (slice sz p rows), length xs)"
    if "1 \<le> p" for p
    using assms(1) that by (simp add: get_tasks_page_def sql_page_slice n rows_def)
  have tasks: "map task_to_view (map row_to_task (slice sz p rows)) = slice sz p xs" for p
    unfolding xs map_slice ..
  have "paged_query f skey sdir sz page d d =
      (let p = (if 0 < length xs \<and> total_pages_of (int (length xs)) sz < page then total_pages_of (int (length xs)) sz else page)
       in \<lparr>sp_tasks = slice sz p xs, sp_page = p, sp_total_pages = total_pages_of (int (length xs)) sz,
            sp_total_count = int (length xs)\<rparr>)"
    unfolding paged_query_def Let_def sd_def[symmetric] ask[OF assms(2)] ask[OF total_pages_pos] prod.case tasks[symmetric]
    by (simp only: if_distrib prod.case split: if_split) simp
  then show ?thesis using assms(2) total_pages_pos[of "int (length xs)" sz]
    unfolding xs_def[symmetric] by (auto simp: shows_page_def Let_def)
qed

lemma memory_shows:
  assumes "0 < sz" and "1 \<le> page" and "\<not> length states \<le> 1"
  shows "shows_page sz page (shown_all f states skey sdir d) (memory_query f states skey sdir sz page d)"
  using assms total_pages_pos[of _ sz]
  by (simp add: memory_query_def shows_page_def shown_all_def Let_def)

lemma shows_page_visible:
  assumes "shows_page sz page xs s" and "0 < sz" and "xs \<noteq> []"
  shows "sp_tasks s \<noteq> [] \<and> visible_range sz s = ((sp_page s - 1) * sz + 1, min (sp_page s * sz) (int (length xs))) \<and>
    (next_page s = None \<longleftrightarrow> snd (visible_range sz s) = int (length xs))"
proof -
  let ?p = "sp_page s" and ?n = "int (length xs)"
  have p1: "1 \<le> ?p" using assms(1) unfolding shows_page_def by (elim conjE)
  have "?p \<le> total_pages_of ?n sz" "sp_tasks s = slice sz ?p xs" "sp_total_count s = ?n"
      "sp_total_pages s = total_pages_of ?n sz"
    using assms(1,3) by (simp_all add: shows_page_def)
  note p = p1 this
  note l = slice_length[OF assms(2) p(1,2) assms(3)]
  have pos: "0 < int (length (sp_tasks s))" using l(2) p(3) by simp
  have v: "visible_range sz s = ((?p - 1) * sz + 1, min (?p * sz) ?n)"
    using l(1) pos assms(3) p(3,4) by (simp add: visible_range_def Let_def algebra_simps)
  have n: "1 \<le> ?n" using assms(3) by (simp add: Suc_le_eq)
  have "?p < total_pages_of ?n sz \<longleftrightarrow> ?p < (?n + sz - 1) div sz" using p(1) by (auto simp: total_pages_of_def)
  also have "\<dots> \<longleftrightarrow> (?p + 1) * sz \<le> ?n + sz - 1" by (simp only: le_div_iff[OF assms(2), symmetric]) linarith
  also have "\<dots> \<longleftrightarrow> ?p * sz < ?n" by (simp add: algebra_simps) linarith
  finally have "next_page s = None \<longleftrightarrow> ?n \<le> ?p * sz" using p(5) by (auto simp: next_page_def)
  then show ?thesis using v l(2) p(3) by auto
qed

text \<open>C32: For a database that does not change while the page is built, the task list shows the right page: the
  tasks shown are the slice of one list, in which every matching task occurs once, that its page number
  says; the number of pages and of tasks are those of that list; a page past the end is replaced by the
  last one; the visible range is that of the slice, and there is a next page exactly when the list goes
  on after it.\<close>

theorem queue_page_slice:
  assumes "list_filter rt now get = Inr f" and "normalize_sort (dget get ''sort'') (dget get ''dir'') = (skey, sdir)"
    and "queue_page rt now get d d = Inr s"
  defines "states \<equiv> state_values_of get" and "sz \<equiv> page_size_of rt get"
  defines "xs \<equiv> shown_all f states skey sdir d"
  shows "mset xs = image_mset (\<lambda>r. task_to_view (row_to_task r))
      (mset (filter (\<lambda>r. length states \<le> 1 \<or> tk_state r \<in> set states) (matching_rows (Some f) d))) \<and>
    sp_tasks s = slice sz (sp_page s) xs \<and> sp_total_count s = int (length xs) \<and>
    sp_total_pages s = total_pages_of (int (length xs)) sz \<and>
    (if xs = [] then visible_range sz s = (0, 0) \<and> next_page s = None
     else sp_page s = min (page_of rt get) (sp_total_pages s) \<and> sp_tasks s \<noteq> [] \<and>
       visible_range sz s = ((sp_page s - 1) * sz + 1, min (sp_page s * sz) (int (length xs))) \<and>
       (next_page s = None \<longleftrightarrow> snd (visible_range sz s) = int (length xs)))"
proof -
  have s: "s = (if length states \<le> 1 then paged_query f skey sdir sz (page_of rt get) d d
      else memory_query f states skey sdir sz (page_of rt get) d)"
    using assms(1-3) by (auto simp: queue_page_def states_def sz_def Let_def)
  have pos: "0 < sz" "1 \<le> page_of rt get" by (simp_all add: sz_def page_size_pos page_of_pos)
  have sp: "shows_page sz (page_of rt get) xs s"
    unfolding s xs_def using paged_shows[OF pos] memory_shows[OF pos] by simp
  show ?thesis
  proof (cases "xs = []")
    case True
    have "(sz - 1) div sz = 0" using pos(1) by simp
    with True show ?thesis using sp mset_shown_all[of f states skey sdir d]
      by (simp add: shows_page_def visible_range_def next_page_def xs_def total_pages_of_def)
  next
    case False
    then show ?thesis using sp mset_shown_all[of f states skey sdir d] shows_page_visible[OF sp pos(1)]
      by (simp add: shows_page_def xs_def)
  qed
qed

definition eleven_db :: db where
  "eleven_db = empty_db\<lparr>db_tasks := map (\<lambda>c. blank_task [c] ''SUCCESS'') ''abcdefghijk''\<rparr>"

definition number_rt :: pyrt where
  "number_rt = toy_rt\<lparr>rt_int := (\<lambda>s. if s = ''3'' then Some 3 else if s = ''10'' then Some 10 else None)\<rparr>"

definition third_page :: "(string, string) pydict" where
  "third_page = [(''page_size'', ''10''), (''page'', ''3'')]"

theorem queue_page_slice_witness:
  "\<exists>s. queue_page number_rt (utc_dt 0) third_page eleven_db eleven_db = Inr s \<and> sp_page s = 2 \<and>
     map tv_task_id (sp_tasks s) = [''k''] \<and> visible_range 10 s = (11, 11)"
proof -
  define s where "s = projr (queue_page number_rt (utc_dt 0) third_page eleven_db eleven_db)"
  have f: "list_filter number_rt (utc_dt 0) third_page = Inr no_filter" by code_simp
  have n: "normalize_sort (dget third_page ''sort'') (dget third_page ''dir'') = ([], ''desc'')" by code_simp
  have run: "queue_page number_rt (utc_dt 0) third_page eleven_db eleven_db = Inr s" unfolding s_def by code_simp
  have c: "page_size_of number_rt third_page = 10" "page_of number_rt third_page = 3" "state_values_of third_page = []"
    by code_simp+
  note q = queue_page_slice[OF f n run, unfolded c, THEN conjunct2, THEN conjunct2, THEN conjunct2]
  have l: "shown_all no_filter [] [] ''desc'' eleven_db = [] \<longleftrightarrow> False" "length (shown_all no_filter [] [] ''desc'' eleven_db) = 11"
    "total_pages_of (int 11) 10 = 2" by code_simp+
  have "sp_total_pages s = 2" using q[THEN conjunct1] unfolding l .
  with q[THEN conjunct2] have "sp_page s = 2" "visible_range 10 s = (11, 11)" unfolding l by simp_all
  moreover have "map tv_task_id (sp_tasks s) = [''k'']" unfolding s_def by code_simp
  ultimately show ?thesis using run by (intro exI[of _ s] conjI)
qed

section \<open>The two orders\<close>

text \<open>The column the database sorts by, read off the task as shown.\<close>

definition order_of :: "sort_value option \<Rightarrow> sql_value" where
  "order_of v = (case v of None \<Rightarrow> SNull | Some (SortText s) \<Rightarrow> SText s | Some (SortNum x) \<Rightarrow> SNum x
     | Some (SortTime t) \<Rightarrow> SNum (of_int (dt_instant t)))"

definition same_kind :: "sort_value option \<Rightarrow> sort_value option \<Rightarrow> bool" where
  "same_kind v w = (case (v, w) of
       (Some (SortText _), Some (SortText _)) \<Rightarrow> True | (Some (SortNum _), Some (SortNum _)) \<Rightarrow> True
     | (Some (SortTime _), Some (SortTime _)) \<Rightarrow> True | (None, _) \<Rightarrow> True | (_, None) \<Rightarrow> True | _ \<Rightarrow> False)"

text \<open>On values of one kind the comparator is the order of the column, with missing values last in both
  directions.\<close>

lemma directed_less [simp]: "directed True x y < 0 \<longleftrightarrow> y < x" "directed False x y < 0 \<longleftrightarrow> x < y"
  by (auto simp: directed_def)

lemma compare_desc: "same_kind v w \<Longrightarrow> compare_values True v w < 0 \<longleftrightarrow> \<not> order_of v \<le> order_of w"
proof (cases v; cases w)
  fix x y assume "same_kind v w" "v = Some x" "w = Some y"
  then show ?thesis by (cases x; cases y) (simp_all add: same_kind_def compare_values_def order_of_def not_le)
qed (auto simp: compare_values_def order_of_def split: sort_value.splits)

lemma compare_asc: "same_kind v w \<Longrightarrow> v \<noteq> None \<Longrightarrow> w \<noteq> None \<Longrightarrow> compare_values False v w < 0 \<longleftrightarrow> \<not> order_of w \<le> order_of v"
proof -
  assume "same_kind v w" "v \<noteq> None" "w \<noteq> None"
  then obtain x y where "v = Some x" "w = Some y" "same_kind (Some x) (Some y)" by auto
  then show ?thesis by (cases x; cases y) (simp_all add: same_kind_def compare_values_def order_of_def not_le)
qed

text \<open>Sorting with a comparator that is an order of a key sorts by the key.\<close>

lemma cmp_insert_sorted:
  assumes "\<forall>y \<in> set ys. c y x < 0 \<longleftrightarrow> \<not> le (k x) (k y)" and "sorted_wrt le (map k ys)"
    and trans: "\<And>a b c. le a b \<Longrightarrow> le b c \<Longrightarrow> le a c" and linear: "\<And>a b. le a b \<or> le b a"
  shows "sorted_wrt le (map k (cmp_insert c x ys))"
  using assms(1,2)
proof (induction ys)
  case (Cons y ys)
  show ?case
  proof (cases "c y x < 0")
    case True
    have "set (cmp_insert c x ys) = insert x (set ys)" for ys
      using mset_cmp_insert[of c x ys] by (metis set_mset_add_mset_insert set_mset_mset)
    then show ?thesis using True Cons linear by auto
  next
    case False
    then have "le (k x) (k y)" using Cons.prems by simp
    then show ?thesis using False Cons.prems by (auto intro: trans)
  qed
qed simp

lemma cmp_sort_sorted:
  assumes "\<forall>x \<in> set xs. \<forall>y \<in> set xs. c y x < 0 \<longleftrightarrow> \<not> le (k x) (k y)"
    and trans: "\<And>a b c. le a b \<Longrightarrow> le b c \<Longrightarrow> le a c" and linear: "\<And>a b. le a b \<or> le b a"
  shows "sorted_wrt le (map k (cmp_sort c xs))"
  using assms(1)
proof (induction xs)
  case (Cons x xs)
  then have "sorted_wrt le (map k (cmp_sort c xs))" by simp
  moreover have "\<forall>y \<in> set (cmp_sort c xs). c y x < 0 \<longleftrightarrow> \<not> le (k x) (k y)" using Cons.prems by simp
  ultimately have "sorted_wrt le (map k (cmp_insert c x (cmp_sort c xs)))"
    by (intro cmp_insert_sorted) (use trans linear in blast)+
  then show ?case by (simp add: cmp_sort_def)
qed (simp add: cmp_sort_def)

lemma sorted_rev_unique: "mset xs = mset ys \<Longrightarrow> sorted (rev xs) \<Longrightarrow> sorted (rev ys) \<Longrightarrow> xs = ys" for xs :: "'a::linorder list"
  by (metis mset_rev properties_for_sort rev_rev_ident)

lemma sorted_unique: "mset xs = mset ys \<Longrightarrow> sorted xs \<Longrightarrow> sorted ys \<Longrightarrow> xs = ys" for xs :: "'a::linorder list"
  by (metis properties_for_sort)

definition common_fields :: "string list" where
  "common_fields = [''received'', ''started'', ''runtime'']"

lemma common_fieldE:
  assumes "skey \<in> set common_fields"
  obtains "skey = ''received''" | "skey = ''started''" | "skey = ''runtime''"
  using assms unfolding common_fields_def by (simp only: list.set insert_iff empty_iff) blast

lemma same_kind_field: "skey \<in> set common_fields \<Longrightarrow> same_kind (sort_value_of skey a) (sort_value_of skey b)"
  by (erule common_fieldE) (simp_all add: sort_value_of_def same_kind_def split: option.splits)

lemma order_of_view:
  assumes "skey \<in> set common_fields" and "naive (tk_received r)" and "naive (tk_started r)"
  shows "order_of (sort_value_of skey (task_to_view (row_to_task r))) = task_sort_column (Some skey) r"
  using assms(1)
proof (rule common_fieldE)
  assume "skey = ''received''"
  then show ?thesis using assms(2)
    by (cases "tk_received r") (simp_all add: sort_value_of_def order_of_def task_to_view_def row_to_task_def
        coerce_dt_def task_sort_column_def sql_of_dt_def dt_instant_def with_utc_def naive_def)
next
  assume "skey = ''started''"
  then show ?thesis using assms(3)
    by (cases "tk_started r") (simp_all add: sort_value_of_def order_of_def task_to_view_def row_to_task_def
        coerce_dt_def task_sort_column_def sql_of_dt_def dt_instant_def with_utc_def naive_def)
next
  assume "skey = ''runtime''"
  then show ?thesis
    by (cases "tk_runtime r") (simp_all add: sort_value_of_def order_of_def task_to_view_def row_to_task_def
        task_sort_column_def sql_of_num_def)
qed


definition timed_row :: "string \<Rightarrow> int option \<Rightarrow> task" where
  "timed_row i t = (blank_task i ''STARTED'')\<lparr>tk_started := map_option (\<lambda>t. DT t None) t\<rparr>"

definition started_db :: db where
  "started_db = (projr (open_store empty_db))\<lparr>db_tasks :=
     [timed_row ''a'' (Some 3), timed_row ''b'' None, timed_row ''c'' (Some 7)]\<rparr>"

lemma started_db_ok: "store_ok started_db"
proof -
  have "open_store empty_db = Inr (projr (open_store empty_db))" by code_simp
  then have "store_ok (projr (open_store empty_db))" using reachable_ok reach_open by blast
  then show ?thesis by (simp add: store_ok_def started_db_def timed_row_def blank_task_def naive_row_def naive_def)
qed


text \<open>Ascending, a task without the value comes first from the database and last in memory.\<close>

lemma missing_value_moves:
  "map tk_task_id (ordered_tasks (Some no_filter) (Some ''started'') (Some ''asc'') started_db) = [''b'', ''a'', ''c'']"
  "map tv_task_id (sort_tasks (map task_to_view (get_tasks (Some no_filter) started_db)) ''started'' ''asc'') = [''a'', ''c'', ''b'']"
  by code_simp+

section \<open>Parents\<close>

text \<open>A task at the top of its graph is shown as its own parent as soon as it has a child: the last loop of
  \<open>_parent_id\<close> returns the parent of a relation whose parent is the task.\<close>

lemma top_task_is_own_parent:
  assumes "\<not> truthy_str (tk_parent_id t)" and "r \<in> set relations" and "rel_parent_id r = Some (tk_task_id t)"
    and "\<forall>r \<in> set relations. rel_child_id r = tk_task_id t \<longrightarrow> \<not> truthy_str (rel_parent_id r)"
  shows "parent_id_of t relations = Some (tk_task_id t)"
proof -
  have "List.find (\<lambda>r. rel_child_id r = tk_task_id t \<and> truthy_str (rel_parent_id r)) relations = None"
    using assms(4) by (auto simp: find_None_iff)
  moreover obtain r' where r': "List.find (\<lambda>r. rel_parent_id r = Some (tk_task_id t)) relations = Some r'"
    using assms(2,3) by (cases "List.find (\<lambda>r. rel_parent_id r = Some (tk_task_id t)) relations") (auto simp: find_None_iff)
  moreover have "rel_parent_id r' = Some (tk_task_id t)" using r' by (auto simp: find_Some_iff)
  ultimately show ?thesis using assms(1) by (simp add: parent_id_of_def)
qed

definition family_db :: db where
  "family_db = empty_db\<lparr>db_tasks := [(blank_task ''p'' ''SUCCESS''), (blank_task ''c'' ''SUCCESS'')\<lparr>tk_root_id := Some ''p''\<rparr>],
     db_task_relations := [(1, \<lparr>rel_root_id = ''p'', rel_parent_id = Some ''p'', rel_child_id = ''c'', rel_relation = ''chain''\<rparr>),
       (2, \<lparr>rel_root_id = ''p'', rel_parent_id = Some ''p'', rel_child_id = ''p'', rel_relation = ''chain''\<rparr>)]\<rparr>"

theorem child_count_agrees_witness:
  "\<exists>v p. v \<in> set (attach_child_counts toy_rt (\<lambda>s. None) family_db (map task_to_view (get_tasks None family_db))) \<and>
     tv_task_id v = ''p'' \<and> task_detail toy_rt (\<lambda>s. None) ''p'' family_db = Some p \<and> tv_child_count v = length (dp_child_links p) \<and>
     tv_child_count v = 1"
proof -
  define t where "t = blank_task ''p'' ''SUCCESS''"
  have t: "tk_task_id t = ''p''" unfolding t_def by code_simp
  have d: "distinct (map tk_task_id (get_tasks None family_db))" by code_simp
  have m: "t \<in> set (get_tasks None family_db)" unfolding t_def by code_simp
  have g: "get_task (tk_task_id t) family_db = Some t" unfolding t_def by code_simp
  obtain v p where v: "v \<in> set (attach_child_counts toy_rt (\<lambda>s. None) family_db (map task_to_view (get_tasks None family_db)))"
      "tv_task_id v = ''p''" "task_detail toy_rt (\<lambda>s. None) ''p'' family_db = Some p" "tv_child_count v = length (dp_child_links p)"
    using child_count_agrees[OF d m g, of toy_rt "\<lambda>s. None"] unfolding t by blast
  moreover have "map_option (\<lambda>p. length (dp_child_links p)) (task_detail toy_rt (\<lambda>s. None) ''p'' family_db) = Some 1" by code_simp
  ultimately show ?thesis by (intro exI[of _ v] exI[of _ p]) simp
qed

section \<open>Statistics\<close>

lemma view_percentile_eq: "view_percentile vs pct = percentile vs pct"
  by (cases vs) (simp_all add: view_percentile_def percentile_def Let_def)

lemma bump_key_get: "dget_or (bump_key k d) k' 0 = dget_or d k' 0 + (if k' = k then 1 else 0)"
  by (simp add: bump_key_def dget_or_dset)

lemma count_stats_fields:
  "sn_counts (count_stats t s) = bump_key (stats_name t) (sn_counts s)"
  "dget_or (sn_failures (count_stats t s)) n 0 = dget_or (sn_failures s) n 0 + (if stats_name t = n \<and> tk_state t = ''FAILURE'' then 1 else 0)"
  "dget_or (sn_retries (count_stats t s)) n 0 = dget_or (sn_retries s) n 0 + (if stats_name t = n \<and> was_retried t then 1 else 0)"
  "dget_or (sn_runtimes (count_stats t s)) n [] = dget_or (sn_runtimes s) n [] @
     (if stats_name t = n then List.map_filter tk_runtime [t] else [])"
  by (auto simp: count_stats_def Let_def bump_key_get dget_or_dset List.map_filter_simps split: option.splits)

lemma count_stats_fold:
  "dget_or (sn_counts (fold count_stats ts s)) n 0 = dget_or (sn_counts s) n 0 + length (filter (\<lambda>t. stats_name t = n) ts)"
  "dget_or (sn_failures (fold count_stats ts s)) n 0 =
     dget_or (sn_failures s) n 0 + length (filter (\<lambda>t. stats_name t = n \<and> tk_state t = ''FAILURE'') ts)"
  "dget_or (sn_retries (fold count_stats ts s)) n 0 =
     dget_or (sn_retries s) n 0 + length (filter (\<lambda>t. stats_name t = n \<and> was_retried t) ts)"
  "dget_or (sn_runtimes (fold count_stats ts s)) n [] =
     dget_or (sn_runtimes s) n [] @ List.map_filter tk_runtime (filter (\<lambda>t. stats_name t = n) ts)"
  by (induction ts arbitrary: s) (simp_all add: count_stats_fields bump_key_get List.map_filter_simps split: option.splits)

lemma counts_keys: "fst ` set (sn_counts (fold count_stats ts s)) = fst ` set (sn_counts s) \<union> stats_name ` set ts"
  by (induction ts arbitrary: s) (auto simp: count_stats_fields bump_key_def)

lemma counts_dict: "dict_ok (sn_counts s) \<Longrightarrow> dict_ok (sn_counts (fold count_stats ts s))"
  by (induction ts arbitrary: s) (simp_all add: count_stats_fields bump_key_def)

definition named :: "string \<Rightarrow> task list \<Rightarrow> task list" where
  "named n ts = filter (\<lambda>t. stats_name t = n) ts"

text \<open>One row per name, from the tasks of that name.\<close>

definition row_for :: "task list \<Rightarrow> string \<Rightarrow> stats_row" where
  "row_for ts n = stats_row_of \<lparr>sn_counts = [], sn_failures = [(n, length (filter (\<lambda>t. tk_state t = ''FAILURE'') (named n ts)))],
     sn_retries = [(n, length (filter was_retried (named n ts)))],
     sn_runtimes = [(n, List.map_filter tk_runtime (named n ts))]\<rparr> (n, length (named n ts))"

lemma stats_rows_named:
  "set (build_stats_rows ts) = row_for ts ` stats_name ` set ts \<and> distinct (map sr_name (build_stats_rows ts))"
proof
  let ?s0 = "\<lparr>sn_counts = [], sn_failures = [], sn_retries = [], sn_runtimes = []\<rparr>"
  let ?s = "fold count_stats ts ?s0"
  have ok: "dict_ok (sn_counts ?s)" by (rule counts_dict) simp
  have keys: "fst ` set (sn_counts ?s) = stats_name ` set ts" by (simp add: counts_keys)
  have nil: "dget_or [] n x = x" for n :: string and x by (simp add: dget_or_def)
  have one: "dget_or [(n, y)] n x = y" for n :: string and x y by (simp add: dget_or_def)
  have row: "stats_row_of ?s (n, c) = row_for ts n \<and> n \<in> stats_name ` set ts" if m: "(n, c) \<in> set (sn_counts ?s)" for n c
  proof -
    have "dget (sn_counts ?s) n = Some c" using ok m by (simp add: dict_ok_def)
    then have "dget_or (sn_counts ?s) n 0 = c" by (simp add: dget_or_def)
    then have "c = length (named n ts)" by (simp add: count_stats_fold nil named_def)
    moreover have "n \<in> stats_name ` set ts" using keys m by force
    ultimately show ?thesis
      unfolding row_for_def stats_row_of_def prod.case count_stats_fold stats_counts.select_convs nil one named_def filter_filter
      by (simp add: conj_commute)
  qed
  show "set (build_stats_rows ts) = row_for ts ` stats_name ` set ts"
  proof
    show "set (build_stats_rows ts) \<subseteq> row_for ts ` stats_name ` set ts"
      unfolding build_stats_rows_def Let_def set_map using row by (intro subsetI) (force simp del: set_map)
    show "row_for ts ` stats_name ` set ts \<subseteq> set (build_stats_rows ts)"
    proof
      fix x assume "x \<in> row_for ts ` stats_name ` set ts"
      then obtain n where n: "n \<in> stats_name ` set ts" "x = row_for ts n" by blast
      then have "n \<in> fst ` set (sn_counts ?s)" by (simp only: keys)
      then obtain c where "(n, c) \<in> set (sn_counts ?s)" by force
      with row n(2) have "x = stats_row_of ?s (n, c)" by simp
      with \<open>(n, c) \<in> set (sn_counts ?s)\<close> show "x \<in> set (build_stats_rows ts)"
        unfolding build_stats_rows_def Let_def set_map by (intro image_eqI)
    qed
  qed
  have "map sr_name (build_stats_rows ts) = map fst (sn_counts ?s)"
    by (simp add: build_stats_rows_def Let_def stats_row_of_def split: prod.splits)
  then show "distinct (map sr_name (build_stats_rows ts))" using ok by (simp add: dict_ok_def)
qed

lemma sum_length_groups:
  "finite S \<Longrightarrow> f ` set ts \<subseteq> S \<Longrightarrow> (\<Sum>n \<in> S. length (filter (\<lambda>t. f t = n) ts)) = length ts"
proof (induction ts)
  case (Cons t ts)
  have "(\<Sum>n \<in> S. length (filter (\<lambda>t. f t = n) (t # ts))) =
      (\<Sum>n \<in> S. (if f t = n then 1 else 0) + length (filter (\<lambda>t. f t = n) ts))"
    by (intro sum.cong) auto
  also have "\<dots> = (\<Sum>n \<in> S. if f t = n then 1 else 0) + length ts"
    using Cons by (simp add: sum.distrib)
  also have "(\<Sum>n \<in> S. if f t = n then 1 else 0) = (1 :: nat)" using Cons.prems by simp
  finally show ?case by simp
qed simp

lemma rate_bounds: "part \<le> cnt \<Longrightarrow> 0 < cnt \<Longrightarrow> \<exists>x. rate_of part cnt = Some x \<and> 0 \<le> x \<and> x \<le> 100"
proof -
  assume "part \<le> cnt" "0 < cnt"
  then have "(of_nat part :: rat) / of_nat cnt * 100 \<le> 1 * 100" by (intro mult_right_mono) simp_all
  moreover have "0 \<le> (of_nat part :: rat) / of_nat cnt * 100" by simp
  moreover have "rate_of part cnt = Some (of_nat part / of_nat cnt * 100)" using \<open>0 < cnt\<close> by (simp add: rate_of_def)
  ultimately show ?thesis by (simp only: mult_1 option.inject ex_simps) metis
qed

definition runtime_columns_ok :: "rat list \<Rightarrow> stats_row \<Rightarrow> bool" where
  "runtime_columns_ok vs r \<longleftrightarrow>
     (if vs = [] then sr_min r = None \<and> sr_max r = None \<and> sr_avg r = None \<and> sr_p95 r = None \<and> sr_p99 r = None
      else \<exists>lo p95 p99 hi avg. sr_min r = Some lo \<and> sr_p95 r = Some p95 \<and> sr_p99 r = Some p99 \<and> sr_max r = Some hi \<and>
        sr_avg r = Some avg \<and> lo \<le> p95 \<and> p95 \<le> p99 \<and> p99 \<le> hi \<and> lo \<le> avg \<and> avg \<le> hi \<and> (\<forall>x \<in> set vs. lo \<le> x \<and> x \<le> hi))"

lemma row_for_columns: "runtime_columns_ok (List.map_filter tk_runtime (named n ts)) (row_for ts n)"
proof -
  define vs where "vs = sort (List.map_filter tk_runtime (named n ts))"
  have row: "sr_min (row_for ts n) = (if vs = [] then None else Some (hd vs))"
    "sr_max (row_for ts n) = (if vs = [] then None else Some (last vs))"
    "sr_avg (row_for ts n) = (if vs = [] then None else Some (sum_list vs / of_nat (length vs)))"
    "sr_p95 (row_for ts n) = percentile vs (95 / 100)" "sr_p99 (row_for ts n) = percentile vs (99 / 100)"
    by (simp_all add: row_for_def stats_row_of_def dget_or_def vs_def view_percentile_eq Let_def)
  have emp: "vs = [] \<longleftrightarrow> List.map_filter tk_runtime (named n ts) = []" unfolding vs_def by (metis length_0_conv length_sort)
  show ?thesis
  proof (cases "vs = []")
    case True
    then show ?thesis using row emp by (simp add: runtime_columns_ok_def percentile_def)
  next
    case False
    have so: "sorted vs" by (simp add: vs_def)
    obtain p95 p99 where p: "percentile vs (95 / 100) = Some p95" "percentile vs (99 / 100) = Some p99"
        "hd vs \<le> p95" "p95 \<le> p99" "p99 \<le> last vs"
      using percentiles_ordered[OF so False, of "95 / 100" "99 / 100"] by auto
    have avg: "hd vs \<le> sum_list vs / of_nat (length vs)" "sum_list vs / of_nat (length vs) \<le> last vs"
      using mean_between[OF False sorted_between_ends[OF so]] by simp_all
    have set: "\<forall>x \<in> set (List.map_filter tk_runtime (named n ts)). hd vs \<le> x \<and> x \<le> last vs"
      using sorted_between_ends[OF so] by (simp add: vs_def)
    show ?thesis unfolding runtime_columns_ok_def row using False emp p avg set by simp
  qed
qed

text \<open>C34: The statistics tab has one row per task name, the rows count every task exactly once, the rates are
  percentages, and the runtimes of a row are ordered and bound every runtime of the name; without one the
  columns are empty.\<close>

theorem stats_rows_exact:
  "distinct (map sr_name (build_stats_rows ts)) \<and> sr_name ` set (build_stats_rows ts) = stats_name ` set ts \<and>
   sum_list (map sr_count (build_stats_rows ts)) = length ts \<and>
   (\<forall>r \<in> set (build_stats_rows ts). sr_count r = length (named (sr_name r) ts) \<and>
     (\<exists>x. sr_failure_rate r = Some x \<and> 0 \<le> x \<and> x \<le> 100) \<and> (\<exists>x. sr_retry_rate r = Some x \<and> 0 \<le> x \<and> x \<le> 100) \<and>
     runtime_columns_ok (List.map_filter tk_runtime (named (sr_name r) ts)) r)"
proof -
  have rows: "set (build_stats_rows ts) = row_for ts ` stats_name ` set ts" and d: "distinct (map sr_name (build_stats_rows ts))"
    using stats_rows_named by blast+
  have name: "sr_name (row_for ts n) = n" "sr_count (row_for ts n) = length (named n ts)" for n
    by (simp_all add: row_for_def stats_row_of_def Let_def)
  have names: "sr_name ` set (build_stats_rows ts) = stats_name ` set ts" unfolding rows image_image name by simp
  have "sum_list (map sr_count (build_stats_rows ts)) = (\<Sum>r \<in> set (build_stats_rows ts). sr_count r)"
    using d by (intro sum_list_distinct_conv_sum_set) (simp add: distinct_map)
  also have "\<dots> = (\<Sum>n \<in> stats_name ` set ts. length (named n ts))"
    unfolding rows by (subst sum.reindex) (auto simp: name intro!: inj_on_inverseI[where g = sr_name])
  also have "\<dots> = length ts" unfolding named_def by (rule sum_length_groups) simp_all
  finally have sum: "sum_list (map sr_count (build_stats_rows ts)) = length ts" .
  have each: "(\<exists>x. sr_failure_rate (row_for ts n) = Some x \<and> 0 \<le> x \<and> x \<le> 100) \<and>
      (\<exists>x. sr_retry_rate (row_for ts n) = Some x \<and> 0 \<le> x \<and> x \<le> 100)" if "n \<in> stats_name ` set ts" for n
  proof -
    have "0 < length (named n ts)" using that by (auto simp: named_def filter_empty_conv)
    then have "\<exists>x. rate_of (length (filter P (named n ts))) (length (named n ts)) = Some x \<and> 0 \<le> x \<and> x \<le> 100" for P
      by (rule rate_bounds[OF length_filter_le])
    then show ?thesis by (simp add: row_for_def stats_row_of_def dget_or_def Let_def)
  qed
  show ?thesis using d names sum each name row_for_columns[of _ ts] unfolding rows by auto
qed

definition stats_tasks :: "task list" where
  "stats_tasks = [(blank_task ''a'' ''SUCCESS'')\<lparr>tk_name := Some ''app.add'', tk_runtime := Some 3\<rparr>,
     blank_task ''b'' ''FAILURE'', (blank_task ''c'' ''RETRY'')\<lparr>tk_name := Some ''app.add'', tk_runtime := Some 1\<rparr>]"

theorem stats_rows_exact_witness:
  "map sr_name (build_stats_rows stats_tasks) = [''app.add'', ''unknown''] \<and>
   sum_list (map sr_count (build_stats_rows stats_tasks)) = 3 \<and>
   (\<exists>x. sr_failure_rate (hd (build_stats_rows stats_tasks)) = Some x \<and> 0 \<le> x \<and> x \<le> 100)"
proof -
  note e = stats_rows_exact[of stats_tasks]
  have n: "map sr_name (build_stats_rows stats_tasks) = [''app.add'', ''unknown'']" by code_simp
  then have "build_stats_rows stats_tasks \<noteq> []" by auto
  then have h: "hd (build_stats_rows stats_tasks) \<in> set (build_stats_rows stats_tasks)" by (rule hd_in_set)
  have "length stats_tasks = 3" by code_simp
  then have "sum_list (map sr_count (build_stats_rows stats_tasks)) = 3" using e by metis
  moreover have "\<exists>x. sr_failure_rate (hd (build_stats_rows stats_tasks)) = Some x \<and> 0 \<le> x \<and> x \<le> 100"
    using e h by metis
  ultimately show ?thesis using n by (intro conjI)
qed

text \<open>Reversing the sort also reverses where missing values go: descending, the default, the names without a
  runtime come first.\<close>

lemma missing_runtime_first:
  assumes "sr_avg a = None" and "sr_avg b = Some x"
  shows "sort_stats_rows [b, a] ''avg'' ''desc'' = [a, b]" and "sort_stats_rows [a, b] ''avg'' ''asc'' = [b, a]"
proof -
  have "stats_key ''avg'' a = [SNum 1, SNull]" "stats_key ''avg'' b = [SNum 0, SNum x]"
    using assms by (simp_all add: stats_key_def stats_value_def sql_of_num_def Let_def)
  moreover have "\<not> SNum 1 \<le> SNum 0" by simp
  ultimately show "sort_stats_rows [b, a] ''avg'' ''desc'' = [a, b]" "sort_stats_rows [a, b] ''avg'' ''asc'' = [b, a]"
    by (simp_all add: sort_stats_rows_def sort_desc_key_def sort_asc_key_def less_le)
qed

end
