(* ===== verification/Base64_Keys.thy ===== *)
theory Base64_Keys
  imports Prelude
begin

text \<open>
  The URL-safe base64 of Python's standard library, on bytes given as characters: the encoder, and the
  decoder as the lenient automaton of \<open>binascii\<close> that skips characters outside the alphabet and stops at
  complete padding. The keys of the broker pages are encodings without their padding.
\<close>

section \<open>The codec\<close>

definition BASE64_DIGITS :: string where
  "BASE64_DIGITS = ''ABCDEFGHIJKLMNOPQRSTUVWXYZabcdefghijklmnopqrstuvwxyz0123456789-_''"

definition b64_digit :: "nat \<Rightarrow> char" where
  "b64_digit n = BASE64_DIGITS ! n"

definition first_digit :: "char \<Rightarrow> char" where
  "first_digit a = b64_digit (of_char a div 4)"

definition second_digit :: "char \<Rightarrow> nat \<Rightarrow> char" where
  "second_digit a high = b64_digit (of_char a mod 4 * 16 + high)"

definition third_digit :: "char \<Rightarrow> nat \<Rightarrow> char" where
  "third_digit b high = b64_digit (of_char b mod 16 * 4 + high)"

definition fourth_digit :: "char \<Rightarrow> char" where
  "fourth_digit c = b64_digit (of_char c mod 64)"

fun urlsafe_b64encode :: "string \<Rightarrow> string" where
  "urlsafe_b64encode [] = []"
| "urlsafe_b64encode [a] = [first_digit a, second_digit a 0, CHR ''='', CHR ''='']"
| "urlsafe_b64encode [a, b] = [first_digit a, second_digit a (of_char b div 16), third_digit b 0, CHR ''='']"
| "urlsafe_b64encode (a # b # c # t) = [first_digit a, second_digit a (of_char b div 16),
     third_digit b (of_char c div 64), fourth_digit c] @ urlsafe_b64encode t"

text \<open>The value of a character; the standard and the URL-safe alphabet are both read.\<close>

definition b64_value :: "char \<Rightarrow> nat option" where
  "b64_value ch = (let n = (of_char ch :: nat) in
     if 65 \<le> n \<and> n \<le> 90 then Some (n - 65)
     else if 97 \<le> n \<and> n \<le> 122 then Some (n - 71)
     else if 48 \<le> n \<and> n \<le> 57 then Some (n + 4)
     else if n = 43 \<or> n = 45 then Some 62
     else if n = 47 \<or> n = 95 then Some 63
     else None)"

text \<open>The automaton: the position in the group of four, the bits left over, the padding seen, and the
  text to read. None when the text ends inside a group (\<open>binascii.Error\<close>, a ValueError).\<close>

fun a2b_base64 :: "nat \<Rightarrow> nat \<Rightarrow> nat \<Rightarrow> string \<Rightarrow> string option" where
  "a2b_base64 quad_pos leftchar pads [] = (if quad_pos = 0 then Some [] else None)"
| "a2b_base64 quad_pos leftchar pads (ch # text) =
     (if ch = CHR ''='' then
        (if 2 \<le> quad_pos
         then (if 4 \<le> quad_pos + (pads + 1) then Some [] else a2b_base64 quad_pos leftchar (pads + 1) text)
         else a2b_base64 quad_pos leftchar pads text)
      else case b64_value ch of
          None \<Rightarrow> a2b_base64 quad_pos leftchar pads text
        | Some v \<Rightarrow>
            (if quad_pos = 0 then a2b_base64 1 v 0 text
             else if quad_pos = 1 then map_option (Cons (char_of (leftchar * 4 + v div 16))) (a2b_base64 2 (v mod 16) 0 text)
             else if quad_pos = 2 then map_option (Cons (char_of (leftchar * 16 + v div 4))) (a2b_base64 3 (v mod 4) 0 text)
             else map_option (Cons (char_of (leftchar * 64 + v))) (a2b_base64 0 0 0 text)))"

definition urlsafe_b64decode :: "string \<Rightarrow> string option" where
  "urlsafe_b64decode text = a2b_base64 0 0 0 text"

section \<open>The round trip\<close>

lemma digits_values: "map b64_value BASE64_DIGITS = map Some [0..<64]"
  by (simp add: BASE64_DIGITS_def b64_value_def Let_def upt_rec)

lemma digit_value:
  assumes "n < 64"
  shows "b64_value (b64_digit n) = Some n"
proof -
  have n: "length BASE64_DIGITS = 64" by (simp add: BASE64_DIGITS_def)
  have "map b64_value BASE64_DIGITS ! n = map Some [0..<64] ! n" by (simp only: digits_values)
  then show ?thesis using assms n by (simp add: b64_digit_def)
qed

lemma byte_bounds: "(of_char a :: nat) div 4 < 64" "(of_char a :: nat) div 16 < 16" "(of_char a :: nat) div 64 < 4"
  by (intro less_mult_imp_div_less; simp)+

lemma digit_values:
  "b64_value (first_digit a) = Some (of_char a div 4)"
  "h < 16 \<Longrightarrow> b64_value (second_digit a h) = Some (of_char a mod 4 * 16 + h)"
  "k < 4 \<Longrightarrow> b64_value (third_digit b k) = Some (of_char b mod 16 * 4 + k)"
  "b64_value (fourth_digit c) = Some (of_char c mod 64)"
proof -
  have "(of_char a :: nat) mod 4 < 4" "(of_char b :: nat) mod 16 < 16" "(of_char c :: nat) mod 64 < 64" by simp_all
  then show "b64_value (first_digit a) = Some (of_char a div 4)"
    "h < 16 \<Longrightarrow> b64_value (second_digit a h) = Some (of_char a mod 4 * 16 + h)"
    "k < 4 \<Longrightarrow> b64_value (third_digit b k) = Some (of_char b mod 16 * 4 + k)"
    "b64_value (fourth_digit c) = Some (of_char c mod 64)"
    using byte_bounds[of a] digit_value
    by (simp_all add: first_digit_def second_digit_def third_digit_def fourth_digit_def)
qed

lemma value_not_pad: "b64_value ch = Some v \<Longrightarrow> ch \<noteq> CHR ''=''"
  by (auto simp: b64_value_def)

lemma first_byte:
  fixes a h :: nat
  assumes "h < 16"
  shows "a div 4 * 4 + (a mod 4 * 16 + h) div 16 = a" and "(a mod 4 * 16 + h) mod 16 = h"
  using assms div_mult_mod_eq[of a 4] by simp_all

lemma second_byte:
  fixes b k :: nat
  assumes "k < 4"
  shows "b div 16 * 16 + (b mod 16 * 4 + k) div 4 = b" and "(b mod 16 * 4 + k) mod 4 = k"
  using assms div_mult_mod_eq[of b 16] by simp_all

lemma third_byte:
  fixes c :: nat
  shows "c div 64 * 64 + c mod 64 = c"
  by (rule div_mult_mod_eq)

lemma decode_first:
  "h < 16 \<Longrightarrow> a2b_base64 0 l p (first_digit a # second_digit a h # t) = map_option (Cons a) (a2b_base64 2 h 0 t)"
  using digit_values(1)[of a] digit_values(2)[of h a] value_not_pad[of "first_digit a"] value_not_pad[of "second_digit a h"]
  by (simp add: first_byte)

lemma decode_second:
  "k < 4 \<Longrightarrow> a2b_base64 2 (of_char b div 16) p (third_digit b k # t) = map_option (Cons b) (a2b_base64 3 k 0 t)"
  using digit_values(3)[of k b] value_not_pad[of "third_digit b k"] by (simp add: second_byte)

lemma decode_third:
  "a2b_base64 3 (of_char c div 64) p (fourth_digit c # t) = map_option (Cons c) (a2b_base64 0 0 0 t)"
  using digit_values(4)[of c] value_not_pad[of "fourth_digit c"] by (simp add: third_byte)

lemma decode_encode_from:
  "a2b_base64 0 0 0 (urlsafe_b64encode s) = Some s"
proof (induction s rule: urlsafe_b64encode.induct)
  case (2 a)
  show ?case using decode_first[of 0 0 0 a "''==''"] by simp
next
  case (3 a b)
  show ?case
    using decode_first[of "of_char b div 16" 0 0 a "[third_digit b 0, CHR ''='']"] byte_bounds(2)[of b]
      decode_second[of 0 b 0 "''=''"] by simp
next
  case (4 a b c t)
  then show ?case
    using decode_first[of "of_char b div 16" 0 0 a] byte_bounds(2)[of b]
      decode_second[of "of_char c div 64" b 0] byte_bounds(3)[of c] decode_third[of c 0]
    by (simp del: a2b_base64.simps)
qed simp

theorem urlsafe_decode_encode: "urlsafe_b64decode (urlsafe_b64encode s) = Some s"
  by (simp add: urlsafe_b64decode_def decode_encode_from)

section \<open>Without the padding\<close>

text \<open>\<open>rstrip('=')\<close>, and the padding put back: \<open>'=' * (-len(key) % 4)\<close>.\<close>

definition strip_padding :: "string \<Rightarrow> string" where
  "strip_padding s = rstrip_by (\<lambda>c. c = CHR ''='') s"

definition pad_key :: "string \<Rightarrow> string" where
  "pad_key key = key @ replicate (nat ((- int (length key)) mod 4)) CHR ''=''"

definition digit_body :: "string \<Rightarrow> nat \<Rightarrow> string \<Rightarrow> bool" where
  "digit_body s n body \<longleftrightarrow> urlsafe_b64encode s = body @ replicate n CHR ''='' \<and> CHR ''='' \<notin> set body \<and>
     n < 4 \<and> (length body + n) mod 4 = 0"

lemma digits_no_pad:
  "first_digit a \<noteq> CHR ''=''" "h < 16 \<Longrightarrow> second_digit a h \<noteq> CHR ''=''"
  "k < 4 \<Longrightarrow> third_digit b k \<noteq> CHR ''=''" "fourth_digit c \<noteq> CHR ''=''"
  using digit_values value_not_pad by blast+

lemma encode_body: "\<exists>n body. digit_body s n body"
proof (induction s rule: urlsafe_b64encode.induct)
  case 1
  have "digit_body [] 0 []" by (simp add: digit_body_def)
  then show ?case by blast
next
  case (2 a)
  have "digit_body [a] 2 [first_digit a, second_digit a 0]"
    using digits_no_pad(1)[of a] digits_no_pad(2)[of 0 a] by (simp add: digit_body_def numeral_2_eq_2 eq_commute[of "CHR ''=''"])
  then show ?case by blast
next
  case (3 a b)
  have "digit_body [a, b] 1 [first_digit a, second_digit a (of_char b div 16), third_digit b 0]"
    using digits_no_pad(1)[of a] digits_no_pad(2)[OF byte_bounds(2)] digits_no_pad(3)[of 0 b]
    by (simp add: digit_body_def eq_commute[of "CHR ''=''"])
  then show ?case by blast
next
  case (4 a b c t)
  then obtain n body where "digit_body t n body" by blast
  then have "digit_body (a # b # c # t) n (first_digit a # second_digit a (of_char b div 16) #
      third_digit b (of_char c div 64) # fourth_digit c # body)"
    using digits_no_pad(1,4) digits_no_pad(2)[OF byte_bounds(2)] digits_no_pad(3)[OF byte_bounds(3)]
    by (simp add: digit_body_def eq_commute[of "CHR ''=''"])
  then show ?case by blast
qed

lemma pad_strip: "pad_key (strip_padding (urlsafe_b64encode s)) = urlsafe_b64encode s"
proof -
  obtain n body where b: "digit_body s n body" using encode_body by blast
  have "CHR ''='' \<notin> set body" using b by (simp add: digit_body_def)
  then have "dropWhile (\<lambda>c. c = CHR ''='') (rev body) = rev body" by (cases body rule: rev_cases) auto
  then have strip: "strip_padding (urlsafe_b64encode s) = body"
    using b dropWhile_append2[of "replicate n CHR ''=''" "\<lambda>c. c = CHR ''=''" "rev body"]
    by (simp add: strip_padding_def rstrip_by_def digit_body_def)
  have "nat ((- int (length body)) mod 4) = n"
  proof -
    have "n < 4" "(length body + n) mod 4 = 0" using b by (simp_all add: digit_body_def)
    then obtain q where "length body + n = 4 * q" by (auto elim!: dvdE simp: mod_eq_0_iff_dvd)
    then have "- int (length body) = int n + 4 * (- int q)" by simp
    then show ?thesis using \<open>n < 4\<close> by (simp only: mod_mult_self2) simp
  qed
  then show ?thesis using b strip by (simp add: pad_key_def digit_body_def)
qed

end
