(* ===== verification/Redaction_Facts.thy ===== *)
theory Redaction_Facts
  imports Redaction
begin

text \<open>
  Redacting twice is redacting once: a redacted text carries the marker or is taken apart and put
  together the same way again. The lemmas on the way are the round trips of the parts of
  \<open>urllib.parse\<close> used: quoting, query strings and URLs.
\<close>

section \<open>Quoting\<close>

lemma hex_value_digit: "n < 16 \<Longrightarrow> hex_value (hex_digit n) = Some n"
  by (simp add: hex_value_def hex_digit_def is_digit_def Let_def)

lemma plain_unquote: "p \<noteq> CHR ''%'' \<Longrightarrow> p \<noteq> CHR ''+'' \<Longrightarrow> unquote_plus (p # t) = p # unquote_plus t"
  by (cases "p # t" rule: unquote_plus.cases) auto

lemma unquote_quote: "unquote_plus (quote_char c @ t) = c # unquote_plus t"
proof (cases "is_alpha c \<or> is_digit c \<or> c \<in> {CHR ''_'', CHR ''.'', CHR ''-'', CHR ''~''}")
  case True
  then have "quote_char c = [c]" unfolding quote_char_def by simp
  moreover have "c \<noteq> CHR ''%''" "c \<noteq> CHR ''+''"
    using True by (auto simp: is_alpha_def is_upper_def is_lower_def is_digit_def)
  ultimately show ?thesis by (simp add: plain_unquote)
next
  case plain: False
  show ?thesis
  proof (cases "c = CHR '' ''")
    case True
    then have "quote_char c = ''+''" using plain unfolding quote_char_def by simp
    then show ?thesis using True by (cases "CHR ''+'' # t" rule: unquote_plus.cases) auto
  next
    case False
    then have q: "quote_char c = [CHR ''%'', hex_digit (of_char c div 16), hex_digit (of_char c mod 16)]"
      using plain unfolding quote_char_def by simp
    have "(of_char c :: nat) div 16 < 16" by (intro less_mult_imp_div_less) simp
    then have "hex_value (hex_digit (of_char c div 16)) = Some (of_char c div 16)"
      "hex_value (hex_digit (of_char c mod 16)) = Some (of_char c mod 16)"
      by (auto intro!: hex_value_digit)
    then show ?thesis using q by simp
  qed
qed

lemma unquote_quote_plus: "unquote_plus (quote_plus s) = s"
  by (induction s) (simp_all add: quote_plus_def unquote_quote)

definition query_char :: "char \<Rightarrow> bool" where
  "query_char c = (is_alpha c \<or> is_digit c \<or> c \<in> set ''_.-~+%'')"

lemma hex_digit_query: "n < 16 \<Longrightarrow> query_char (hex_digit n)"
  by (cases "n < 10") (simp_all add: query_char_def hex_digit_def is_digit_def is_alpha_def is_upper_def)

lemma quote_plus_chars: "list_all query_char (quote_plus s)"
proof -
  have "list_all query_char (quote_char c)" for c
  proof -
    have "(of_char c :: nat) div 16 < 16" by (intro less_mult_imp_div_less) simp
    moreover have "query_char CHR ''+''" "query_char CHR ''%''" by code_simp+
    ultimately show ?thesis
      by (auto simp: quote_char_def hex_digit_query) (auto simp: query_char_def)
  qed
  then show ?thesis by (induction s) (simp_all add: quote_plus_def)
qed

lemma not_query_char: "\<not> query_char CHR ''=''" "\<not> query_char CHR ''&''" "\<not> query_char CHR ''#''" "\<not> query_char CHR ''?''"
  "\<not> query_char CHR 0x09" "\<not> query_char CHR 0x0A" "\<not> query_char CHR 0x0D"
  by code_simp+

lemma quote_plus_without: "\<not> query_char c \<Longrightarrow> c \<notin> set (quote_plus s)"
  using quote_plus_chars[of s] by (auto simp: list_all_iff)

section \<open>Query strings\<close>

lemma split_on_append: "c \<notin> set x \<Longrightarrow> split_on c (x @ c # y) = x # split_on c y"
  by (induction x) auto

lemma split_on_join: "ps \<noteq> [] \<Longrightarrow> \<forall>p \<in> set ps. c \<notin> set p \<Longrightarrow> split_on c (join [c] ps) = ps"
proof (induction ps rule: induct_list012)
  case (2 x)
  then show ?case by (simp add: split_on_none)
next
  case (3 x y zs)
  then show ?case by (simp add: split_on_append)
qed simp

lemma parse_urlencode:
  assumes "items \<noteq> []"
  shows "parse_qsl (urlencode items) = items"
proof -
  let ?piece = "\<lambda>(k, v). quote_plus k @ ''='' @ quote_plus v"
  have "\<forall>p \<in> set (map ?piece items). CHR ''&'' \<notin> set p"
    using quote_plus_without not_query_char by (auto split: prod.splits)
  then have "split_on CHR ''&'' (urlencode items) = map ?piece items"
    unfolding urlencode_def using assms by (intro split_on_join) simp_all
  moreover have "filter (\<lambda>p. p \<noteq> []) (map ?piece items) = map ?piece items" by (auto simp: filter_id_conv)
  ultimately have "parse_qsl (urlencode items) = map ((\<lambda>p. (unquote_plus (before CHR ''='' p), unquote_plus (after CHR ''='' p))) \<circ> ?piece) items"
    unfolding parse_qsl_def by (simp only: map_map)
  also have "\<dots> = map id items"
    by (intro map_cong) (auto simp: quote_plus_without not_query_char unquote_quote_plus split: prod.splits)
  finally show ?thesis by simp
qed

lemma urlencode_chars: "c \<in> set (urlencode items) \<Longrightarrow> query_char c \<or> c = CHR ''='' \<or> c = CHR ''&''"
proof -
  have "set (join sep ps) \<subseteq> set sep \<union> \<Union> (set ` set ps)" for sep ps
    by (induction sep ps rule: join.induct) auto
  then have "set (urlencode items) \<subseteq> {CHR ''&''} \<union> \<Union> (set ` set (map (\<lambda>(k, v). quote_plus k @ ''='' @ quote_plus v) items))"
    unfolding urlencode_def by (metis list.set(1) list.simps(15))
  moreover assume "c \<in> set (urlencode items)"
  ultimately show ?thesis using quote_plus_chars by (fastforce simp: list_all_iff)
qed

lemma urlencode_nonempty: "items \<noteq> [] \<Longrightarrow> urlencode items \<noteq> []"
  by (cases items; cases "tl items") (auto simp: urlencode_def split: prod.splits)

text \<open>Redacting a query again does not change it.\<close>

lemma redact_query_again:
  assumes "redact_query q = (q', True)"
  shows "redact_query q' = (q', True)" "q' \<noteq> []" "\<forall>c \<in> set q'. query_char c \<or> c = CHR ''='' \<or> c = CHR ''&''"
proof -
  let ?mark = "\<lambda>(k, v). (k, if is_password_key k then REDACTED_VALUE else v)"
  define items where "items = parse_qsl q"
  define items' where "items' = map ?mark items"
  have r: "redact_query q = (if items = [] then (q, False)
      else (urlencode items', \<exists>(k, v) \<in> set items. is_password_key k))"
    by (simp only: redact_query_def Let_def items_def[symmetric] items'_def)
  then have ne: "items \<noteq> []" using assms by (cases "items = []") simp_all
  then have q': "q' = urlencode items'" and some: "\<exists>(k, v) \<in> set items. is_password_key k"
    using assms r by simp_all
  have ne': "items' \<noteq> []" using ne by (simp add: items'_def)
  have p: "parse_qsl q' = items'" unfolding q' by (rule parse_urlencode[OF ne'])
  have same: "map ?mark items' = items'" by (simp add: items'_def case_prod_unfold)
  have "\<exists>(k, v) \<in> set items'. is_password_key k" using some by (simp add: items'_def case_prod_unfold)
  then show "redact_query q' = (q', True)"
    unfolding redact_query_def Let_def p using ne' same by (simp only: if_False q')
  show "q' \<noteq> []" unfolding q' by (rule urlencode_nonempty[OF ne'])
  show "\<forall>c \<in> set q'. query_char c \<or> c = CHR ''='' \<or> c = CHR ''&''"
    unfolding q' by (intro ballI urlencode_chars)
qed

section \<open>URLs\<close>

text \<open>The parts that splitting a URL with a scheme and a network location gives.\<close>

definition tab_or_end :: "char \<Rightarrow> bool" where
  "tab_or_end c = (c \<in> {CHR 0x09, CHR 0x0A, CHR 0x0D})"

definition split_shape :: "url_parts \<Rightarrow> bool" where
  "split_shape u \<longleftrightarrow>
     url_scheme (up_scheme u) \<and> py_lower (up_scheme u) = up_scheme u \<and>
     up_netloc u \<noteq> [] \<and> set (up_netloc u) \<inter> {CHR ''/'', CHR ''?'', CHR ''#''} = {} \<and>
     ((CHR ''['' \<in> set (up_netloc u)) = (CHR '']'' \<in> set (up_netloc u))) \<and>
     set (up_path u) \<inter> {CHR ''?'', CHR ''#''} = {} \<and> (up_path u = [] \<or> hd (up_path u) = CHR ''/'') \<and>
     CHR ''#'' \<notin> set (up_query u) \<and>
     (\<forall>c \<in> set (up_netloc u) \<union> set (up_path u) \<union> set (up_query u) \<union> set (up_fragment u). \<not> tab_or_end c)"

definition url_tail :: "url_parts \<Rightarrow> string" where
  "url_tail u = up_path u @ (if up_query u \<noteq> [] then ''?'' @ up_query u else []) @
     (if up_fragment u \<noteq> [] then ''#'' @ up_fragment u else [])"

lemma set_before: "set (before c s) \<subseteq> set s - {c}"
  by (auto simp: before_def dest: set_takeWhileD)

lemma set_after: "set (after c s) \<subseteq> set s"
  unfolding after_def by (meson in_set_dropD set_dropWhileD subsetI)

lemma lower_char_scheme: "is_scheme_char c \<Longrightarrow> is_scheme_char (lower_char c)"
  by (auto simp: lower_char_def is_scheme_char_def is_alpha_def is_upper_def is_lower_def)

lemma lower_char_alpha: "is_alpha c \<Longrightarrow> is_alpha (lower_char c)"
  by (auto simp: lower_char_def is_alpha_def is_upper_def is_lower_def)

lemma lower_char_lower: "lower_char (lower_char c) = lower_char c"
  by (auto simp: lower_char_def is_upper_def)

lemma url_scheme_lower: "url_scheme s \<Longrightarrow> url_scheme (py_lower s)"
  by (cases s) (auto simp: url_scheme_def py_lower_def list_all_iff lower_char_scheme lower_char_alpha)

lemma split_scheme_parts:
  assumes "split_scheme url = (s, r)" and "s \<noteq> []"
  shows "url_scheme s \<and> py_lower s = s \<and> r = after CHR '':'' url"
proof -
  define b where "b = before CHR '':'' url"
  have "CHR '':'' \<in> set url \<and> b \<noteq> [] \<and> is_alpha (hd b) \<and> list_all is_scheme_char b"
    using assms unfolding split_scheme_def Let_def b_def[symmetric] by (simp split: if_splits)
  moreover from this have "s = py_lower b" "r = after CHR '':'' url"
    using assms(1) unfolding split_scheme_def Let_def b_def[symmetric] by simp_all
  moreover have "py_lower (py_lower b) = py_lower b" by (simp add: py_lower_def lower_char_lower)
  ultimately show ?thesis using url_scheme_lower[of b] by (simp add: url_scheme_def)
qed

lemma tail_before:
  "dropWhile (\<lambda>c. c \<notin> {CHR ''/'', CHR ''?'', CHR ''#''}) body = tail \<Longrightarrow>
   before CHR ''?'' (before CHR ''#'' tail) = [] \<or> hd (before CHR ''?'' (before CHR ''#'' tail)) = CHR ''/''"
proof -
  assume t: "dropWhile (\<lambda>c. c \<notin> {CHR ''/'', CHR ''?'', CHR ''#''}) body = tail"
  show ?thesis
  proof (cases tail)
    case Nil
    then show ?thesis by (simp add: before_def)
  next
    case (Cons c r)
    then have "c \<in> {CHR ''/'', CHR ''?'', CHR ''#''}"
      using t hd_dropWhile[of "\<lambda>c. c \<notin> {CHR ''/'', CHR ''?'', CHR ''#''}" body] by simp
    then show ?thesis using Cons by (auto simp: before_def)
  qed
qed

lemma urlsplit_shape:
  assumes "urlsplit text = Some u" and "up_scheme u \<noteq> []" and "up_netloc u \<noteq> []"
  shows "split_shape u"
proof -
  let ?in = "\<lambda>c. c \<notin> {CHR ''/'', CHR ''?'', CHR ''#''}"
  obtain scheme rest where sp: "split_scheme (clean_url text) = (scheme, rest)" by fastforce
  define body where "body = (if starts_with ''//'' rest then drop 2 rest else rest)"
  define netloc where "netloc = (if starts_with ''//'' rest then takeWhile ?in body else [])"
  define tail where "tail = (if starts_with ''//'' rest then dropWhile ?in body else body)"
  define query where "query = (if CHR ''?'' \<in> set (before CHR ''#'' tail) then after CHR ''?'' (before CHR ''#'' tail) else [])"
  define fragment where "fragment = (if CHR ''#'' \<in> set tail then after CHR ''#'' tail else [])"
  define path where "path = before CHR ''?'' (before CHR ''#'' tail)"
  have u: "u = \<lparr>up_scheme = scheme, up_netloc = netloc, up_path = path,
      up_query = query, up_fragment = fragment\<rparr>" "(CHR ''['' \<in> set netloc) = (CHR '']'' \<in> set netloc)"
    using assms(1) unfolding urlsplit_def sp Let_def prod.case
      body_def[symmetric] netloc_def[symmetric] tail_def[symmetric] query_def[symmetric] fragment_def[symmetric] path_def[symmetric]
    by (simp_all split: if_splits)
  have slashes: "starts_with ''//'' rest" using assms(3) u by (auto simp: netloc_def)
  have shape: "up_path u = [] \<or> hd (up_path u) = CHR ''/''"
    using u slashes tail_before[of body tail] by (simp add: tail_def path_def)
  have clean: "\<not> tab_or_end c" if "c \<in> set (clean_url text)" for c
    using that by (auto simp: clean_url_def tab_or_end_def)
  have "scheme \<noteq> []" using assms(2) u(1) by simp
  from split_scheme_parts[OF sp this] have scheme: "url_scheme scheme" "py_lower scheme = scheme"
    and rest: "rest = after CHR '':'' (clean_url text)" by simp_all
  have body: "set body \<subseteq> set (clean_url text)"
    using set_after[of "CHR '':''" "clean_url text"] set_drop_subset[of 2 rest] rest
    unfolding body_def by (cases "starts_with ''//'' rest"; simp)
  have netloc: "set netloc \<subseteq> set body" "set netloc \<inter> {CHR ''/'', CHR ''?'', CHR ''#''} = {}"
    using slashes by (auto simp: netloc_def dest: set_takeWhileD)
  have tail: "set tail \<subseteq> set body" using slashes by (auto simp: tail_def dest: set_dropWhileD)
  have parts: "set path \<subseteq> set tail - {CHR ''?'', CHR ''#''}"
    "set query \<subseteq> set tail - {CHR ''#''}" "set fragment \<subseteq> set tail"
    using set_before[of "CHR ''#''" tail] set_before[of "CHR ''?''" "before CHR ''#'' tail"]
      set_after[of "CHR ''?''" "before CHR ''#'' tail"] set_after[of "CHR ''#''" tail]
    by (auto simp only: query_def fragment_def path_def list.set(1) empty_iff split: if_splits)
  have "set netloc \<union> set path \<union> set query \<union> set fragment \<subseteq> set (clean_url text)"
    using body netloc(1) tail parts by blast
  then have tabs: "\<forall>c \<in> set netloc \<union> set path \<union> set query \<union> set fragment. \<not> tab_or_end c"
    using clean by (meson subsetD)
  have "set path \<inter> {CHR ''?'', CHR ''#''} = {}" "CHR ''#'' \<notin> set query"
    using parts(1,2) by blast+
  then show ?thesis
    unfolding split_shape_def using u(1) scheme assms(3) netloc(2) u(2) shape tabs
    by (simp only: url_parts.select_convs) simp
qed

lemma before_none: "c \<notin> set s \<Longrightarrow> before c s = s"
  by (auto simp: before_def takeWhile_eq_all_conv)

lemma while_append_stop:
  assumes "\<And>x. x \<in> set s \<Longrightarrow> P x" and "t = [] \<or> \<not> P (hd t)"
  shows "takeWhile P (s @ t) = s" and "dropWhile P (s @ t) = t"
  using assms by (cases t; simp add: takeWhile_append2 dropWhile_append2)+

lemma urlunsplit_url:
  assumes "up_scheme u \<noteq> []" and "up_netloc u \<noteq> []" and "up_path u = [] \<or> hd (up_path u) = CHR ''/''"
  shows "urlunsplit u = (up_scheme u @ ''://'') @ up_netloc u @ url_tail u"
  unfolding urlunsplit_def url_tail_def Let_def using assms by auto

lemma urlsplit_urlunsplit:
  assumes "split_shape u"
  shows "urlsplit (urlunsplit u) = Some u" and "str_in ''://'' (urlunsplit u)" and "urlunsplit u \<noteq> []"
proof -
  let ?in = "\<lambda>c. c \<notin> {CHR ''/'', CHR ''?'', CHR ''#''}"
  note shape = assms[unfolded split_shape_def]
  have scheme: "up_scheme u \<noteq> []" "list_all is_scheme_char (up_scheme u)" "is_alpha (hd (up_scheme u))"
    using shape by (simp_all add: url_scheme_def)
  have path: "up_path u = [] \<or> hd (up_path u) = CHR ''/''" using shape by blast
  have url: "urlunsplit u = up_scheme u @ CHR '':'' # ''//'' @ up_netloc u @ url_tail u"
    using urlunsplit_url[of u] shape scheme(1) by simp
  obtain c s where cs: "up_scheme u = c # s" using scheme(1) by (cases "up_scheme u") simp_all
  have "\<not> tab_or_end x" if "x \<in> set (urlunsplit u)" for x
  proof -
    have "url_char y" if "y \<in> set (up_scheme u)" for y
      using scheme(2) that by (auto simp: list_all_iff intro: scheme_char_url)
    moreover have "set (url_tail u) \<subseteq> set (up_path u) \<union> set (up_query u) \<union> set (up_fragment u) \<union> {CHR ''?'', CHR ''#''}"
      by (auto simp: url_tail_def)
    moreover have "x \<in> set (up_scheme u) \<or> x \<in> {CHR '':'', CHR ''/''} \<or> x \<in> set (up_netloc u) \<or> x \<in> set (url_tail u)"
      using that unfolding url by auto
    ultimately show ?thesis using shape by (auto simp: tab_or_end_def url_char_def)
  qed
  then have "filter (\<lambda>x. x \<notin> {CHR 0x09, CHR 0x0A, CHR 0x0D}) (urlunsplit u) = urlunsplit u"
    by (intro filter_True) (auto simp: tab_or_end_def)
  moreover have "dropWhile (\<lambda>c. (of_char c :: nat) \<le> 32) (urlunsplit u) = urlunsplit u"
    using scheme(3) cs alpha_not_blank[of c] unfolding url by simp
  ultimately have clean: "clean_url (urlunsplit u) = up_scheme u @ CHR '':'' # ''//'' @ up_netloc u @ url_tail u"
    using url by (simp add: clean_url_def)
  have "CHR '':'' \<notin> set (up_scheme u)"
    using scheme(2) scheme_char_no_colon by (auto simp: list_all_iff)
  then have split: "split_scheme (up_scheme u @ CHR '':'' # ''//'' @ up_netloc u @ url_tail u) =
      (up_scheme u, ''//'' @ up_netloc u @ url_tail u)"
    using scheme shape by (simp add: split_scheme_def Let_def)
  have stop: "url_tail u = [] \<or> \<not> ?in (hd (url_tail u))" using path by (cases "up_path u") (auto simp: url_tail_def)
  have "?in x" if "x \<in> set (up_netloc u)" for x using shape that by blast
  note take = while_append_stop[of "up_netloc u" ?in, OF this stop]
  define mid where "mid = up_path u @ (if up_query u \<noteq> [] then ''?'' @ up_query u else [])"
  have mid: "CHR ''#'' \<notin> set mid" "url_tail u = mid @ (if up_fragment u \<noteq> [] then ''#'' @ up_fragment u else [])"
    using shape by (auto simp: mid_def url_tail_def)
  then have hash: "before CHR ''#'' (url_tail u) = mid"
    "(if CHR ''#'' \<in> set (url_tail u) then after CHR ''#'' (url_tail u) else []) = up_fragment u"
    by (cases "up_fragment u = []"; simp add: before_none)+
  have "CHR ''?'' \<notin> set (up_path u)" using shape by blast
  then have mark: "before CHR ''?'' mid = up_path u"
    "(if CHR ''?'' \<in> set mid then after CHR ''?'' mid else []) = up_query u"
    by (cases "up_query u = []"; simp add: before_none mid_def)+
  have "starts_with ''//'' (''//'' @ r)" "drop 2 (''//'' @ r) = r" for r by simp_all
  then show "urlsplit (urlunsplit u) = Some u"
    unfolding urlsplit_def clean split Let_def prod.case
    using shape by (simp only: if_True take hash mark simp_thms if_False) simp
  show "str_in ''://'' (urlunsplit u)"
    unfolding url using str_in_append[of "''://''" "up_scheme u"] by simp
  show "urlunsplit u \<noteq> []" unfolding url by simp
qed

section \<open>The marker\<close>

lemma str_in_within: "str_in w s \<Longrightarrow> str_in w (x @ s @ y)"
proof -
  assume "str_in w s"
  then obtain u v where "s = u @ w @ v" using str_in_iff by blast
  then have "x @ s @ y = (x @ u) @ w @ (v @ y)" by simp
  then show ?thesis using str_in_append by metis
qed

lemma sub_matches_marks:
  assumes "\<And>t out rest. m t = Some (out, rest) \<Longrightarrow> str_in w out"
  shows "sub_matches m t = t \<or> str_in w (sub_matches m t)"
  using assms
proof (induction m t rule: sub_matches.induct)
  case (2 m c t)
  show ?case
  proof (cases "m (c # t)")
    case None
    then show ?thesis using 2 by auto
  next
    case (Some p)
    obtain out rest where p: "p = (out, rest)" by fastforce
    then have "str_in w out" using 2(4) Some by blast
    then have "str_in w (out @ sub_matches m rest)" using str_in_within[of w out "[]"] by simp
    then show ?thesis using 2(3,4) Some p by (cases "length rest \<le> length t") auto
  qed
qed simp

lemma params_mark: "redact_password_params t = t \<or> str_in REDACTED_VALUE (redact_password_params t)"
  unfolding redact_password_params_def
  by (rule sub_matches_marks) (auto intro: str_in_append[of _ "_ @ ''=''" "[]", simplified])

lemma credentials_mark:
  "redact_url_credentials_in_text t = t \<or> str_in REDACTED_VALUE (redact_url_credentials_in_text t)"
proof -
  have "str_in REDACTED_VALUE out" if "match_credential x = Some (out, rest)" for x out rest
  proof -
    define user where "user = takeWhile (\<lambda>c. in_password c \<and> c \<noteq> CHR '':'') (drop 3 (dropWhile is_scheme_char x))"
    have "out = (takeWhile is_scheme_char x @ ''://'' @ user @ '':'') @ REDACTED_VALUE @ ''@''"
      using that unfolding match_credential_def Let_def user_def[symmetric]
      by (simp split: if_splits)
    then show ?thesis by (simp only: str_in_append)
  qed
  then show ?thesis unfolding redact_url_credentials_in_text_def by (rule sub_matches_marks)
qed

text \<open>A query that is redacted and a host that is not: taking the result apart gives the same parts.\<close>

lemma redact_rejoined:
  assumes "split_shape u" and "redact_netloc (up_netloc u) = (up_netloc u, False)"
    and "up_query u \<noteq> []" and "redact_query (up_query u) = (q, True)"
  shows "urlunsplit (u\<lparr>up_query := q\<rparr>) \<noteq> [] \<and>
    redact_text (urlunsplit (u\<lparr>up_query := q\<rparr>)) = urlunsplit (u\<lparr>up_query := q\<rparr>)"
proof -
  let ?u = "u\<lparr>up_query := q\<rparr>"
  note again = redact_query_again[OF assms(4)]
  have plain: "c \<noteq> CHR ''#'' \<and> \<not> tab_or_end c" if "c \<in> set q" for c
  proof -
    have "query_char c \<or> c = CHR ''='' \<or> c = CHR ''&''" using again(3) that by blast
    then show ?thesis using not_query_char by (auto simp: tab_or_end_def)
  qed
  have shape: "split_shape ?u"
    using assms(1) plain unfolding split_shape_def by auto
  have "up_scheme ?u \<noteq> []" "up_netloc ?u \<noteq> []"
    using shape by (simp_all add: split_shape_def url_scheme_def)
  moreover have "redact_netloc (up_netloc ?u) = (up_netloc ?u, False)" using assms(2) by simp
  ultimately have "redact_url_text (urlunsplit ?u) = urlunsplit ?u"
    unfolding redact_url_text_def urlsplit_urlunsplit(1)[OF shape] option.case
    using again(1,2) by simp
  then show ?thesis unfolding redact_text_def using urlsplit_urlunsplit(2,3)[OF shape] by simp
qed

lemma netloc_mark: "redact_netloc n = (n', True) \<Longrightarrow> str_in REDACTED_VALUE n'"
proof -
  assume a: "redact_netloc n = (n', True)"
  let ?u = "rbefore CHR ''@'' n"
  have "n' = (before CHR '':'' ?u @ '':'') @ REDACTED_VALUE @ (''@'' @ rafter CHR ''@'' n)"
    using a unfolding redact_netloc_def Let_def by (simp split: if_splits)
  then show ?thesis by (simp only: str_in_append)
qed

lemma netloc_kept: "redact_netloc n = (n', False) \<Longrightarrow> n' = n"
  unfolding redact_netloc_def Let_def by (simp split: if_splits)

lemma url_text_again:
  "redact_url_text t = t \<or> str_in REDACTED_VALUE (redact_url_text t) \<or>
   redact_url_text t \<noteq> [] \<and> redact_text (redact_url_text t) = redact_url_text t"
proof (cases "urlsplit t")
  case None
  then show ?thesis
    using params_mark[of "redact_url_credentials_in_text t"] credentials_mark[of t]
    unfolding redact_url_text_def by (simp only: option.case) metis
next
  case (Some u)
  show ?thesis
  proof (cases "up_scheme u = [] \<or> up_netloc u = []")
    case True
    then show ?thesis
      using params_mark[of "redact_url_credentials_in_text t"] credentials_mark[of t]
      unfolding redact_url_text_def Some option.case Let_def if_P[OF True] by (metis (full_types))
  next
    case False
    then have shape: "split_shape u" using urlsplit_shape[OF Some] by simp
    obtain n nr where n: "redact_netloc (up_netloc u) = (n, nr)" by fastforce
    obtain q qr where q: "(if up_query u \<noteq> [] then redact_query (up_query u) else (up_query u, False)) = (q, qr)"
      by fastforce
    have r: "redact_url_text t = (if \<not> (nr \<or> qr) then t else urlunsplit (u\<lparr>up_netloc := n, up_query := q\<rparr>))"
      unfolding redact_url_text_def Some option.case if_not_P[OF False] Let_def n q prod.case by (rule refl)
    consider "nr" | "\<not> nr" "qr" | "\<not> nr" "\<not> qr" by blast
    then show ?thesis
    proof cases
      case 1
      then have "str_in REDACTED_VALUE n" using n netloc_mark by simp
      moreover from this have "n \<noteq> []" by (auto simp: REDACTED_VALUE_def)
      then have "redact_url_text t = (up_scheme u @ ''://'') @ n @ url_tail (u\<lparr>up_netloc := n, up_query := q\<rparr>)"
        using r 1 shape urlunsplit_url[of "u\<lparr>up_netloc := n, up_query := q\<rparr>"]
        by (simp add: split_shape_def url_scheme_def)
      ultimately show ?thesis using str_in_within by metis
    next
      case 2
      then have "up_query u \<noteq> []" "redact_query (up_query u) = (q, True)"
        using q by (cases "up_query u = []"; simp)+
      moreover have "n = up_netloc u" using n 2 netloc_kept by simp
      ultimately show ?thesis using redact_rejoined[OF shape, of q] n 2 r by simp
    next
      case 3
      then show ?thesis using r by simp
    qed
  qed
qed

lemma redact_text_fixed:
  "redact_text (redact_text t) = redact_text t \<and> (redact_text t = [] \<longrightarrow> t = [])"
proof (cases "t = [] \<or> str_in REDACTED_VALUE t")
  case True
  then show ?thesis unfolding redact_text_def by simp
next
  case False
  have mark: "redact_text x = x \<and> x \<noteq> []" if "str_in REDACTED_VALUE x" for x
    using that unfolding redact_text_def by (auto simp: REDACTED_VALUE_def)
  show ?thesis
  proof (cases "str_in ''://'' t")
    case True
    then have "redact_text t = redact_url_text t" using False unfolding redact_text_def by simp
    then show ?thesis using url_text_again[of t] mark by metis
  next
    case no_url: False
    then have "redact_text t = (if contains_password_param t then redact_password_params t else t)"
      using False unfolding redact_text_def by simp
    then show ?thesis using params_mark[of t] mark by metis
  qed
qed

text \<open>C26: Redaction is idempotent: a text that has been redacted once is not changed by being redacted again,
  whatever the text is. So a redacted broker URL that is stored, shown or used as a key and redacted
  once more still names the same broker.\<close>

theorem redaction_idempotent:
  "redact_text (redact_text t) = redact_text t"
  using redact_text_fixed[of t] by blast

end
