(* ===== verification/Web_Services.thy ===== *)
theory Web_Services
  imports Registry Store_Workers
begin

text \<open>
  The services the web pages share (celery_root/components/web/services.py): the registry built from the
  configured import paths, the name of an app, the options for new workers, and the database session of
  a request, which cleans up old records at most once a minute.
\<close>

section \<open>Apps\<close>

definition web_split_path :: "string \<Rightarrow> pyexc + (string \<times> string)" where
  "web_split_path path =
     (if CHR '':'' \<in> set path then Inr (before CHR '':'' path, after CHR '':'' path)
      else if CHR ''.'' \<notin> set path
      then Inl (ValueError ''Worker import path must be module:attr or module.attr'')
      else Inr (rbefore CHR ''.'' path, rafter CHR ''.'' path))"

definition web_load_app :: "(string \<Rightarrow> pyexc + (string, loaded) pydict) \<Rightarrow> string \<Rightarrow> pyexc + app" where
  "web_load_app import_module path =
     ebind (web_split_path path) (\<lambda>(module_path, attr).
     ebind (import_module module_path) (\<lambda>module.
     case dget module attr of
       None \<Rightarrow> Inl (ImportError (path @ '' does not define '' @ attr))
     | Some OtherObj \<Rightarrow> Inl (TypeError (path @ '' did not resolve to a Celery app''))
     | Some (AppObj a) \<Rightarrow> Inr a))"

definition app_name :: "pyrt \<Rightarrow> app \<Rightarrow> string" where
  "app_name rt a =
     (let name = or_str (app_main a) [];
          name = (if name = [] then conf_text rt a ''main'' else name)
      in if name = [] then ''celery_app_'' @ show_nat (app_id a) else name)"

text \<open>\<open>get_registry\<close>: empty paths are skipped, the first failure is raised.\<close>

definition add_path :: "pyrt \<Rightarrow> beat_config option \<Rightarrow> (string \<Rightarrow> pyexc + (string, loaded) pydict) \<Rightarrow> string \<Rightarrow>
    (string, app) pydict \<Rightarrow> pyexc + (string, app) pydict" where
  "add_path rt beat import_module path apps =
     (if path = [] then Inr apps
      else ebind (web_load_app import_module path) (\<lambda>a. register rt beat import_module (Instance a) apps))"

definition get_registry :: "pyrt \<Rightarrow> beat_config option \<Rightarrow> (string \<Rightarrow> pyexc + (string, loaded) pydict) \<Rightarrow> string list \<Rightarrow>
    pyexc + (string, app) pydict" where
  "get_registry rt beat import_module paths = efold (add_path rt beat import_module) paths []"

definition get_default_app :: "pyrt \<Rightarrow> (string, app) pydict \<Rightarrow> (app \<times> string) option" where
  "get_default_app rt registry = (case get_apps registry of [] \<Rightarrow> None | a # _ \<Rightarrow> Some (a, app_name rt a))"

record worker_option =
  wo_label :: string
  wo_module :: string
  wo_app_name :: string
  wo_queue :: "string option"

definition option_of :: "pyrt \<Rightarrow> (string \<Rightarrow> pyexc + (string, loaded) pydict) \<Rightarrow> string \<Rightarrow> worker_option list \<Rightarrow>
    pyexc + worker_option list" where
  "option_of rt import_module path options =
     (if path = [] then Inr options
      else ebind (web_split_path path) (\<lambda>(module_path, _).
           ebind (web_load_app import_module path) (\<lambda>a.
           let queue = conf_get a ''task_default_queue''
           in Inr (options @ [\<lparr>wo_label = app_name rt a, wo_module = module_path, wo_app_name = app_name rt a,
                wo_queue = (if truthy queue then Some (py_str rt queue) else None)\<rparr>]))))"

definition list_worker_options :: "pyrt \<Rightarrow> (string \<Rightarrow> pyexc + (string, loaded) pydict) \<Rightarrow> string list \<Rightarrow> pyexc + worker_option list" where
  "list_worker_options rt import_module paths = efold (option_of rt import_module) paths []"

text \<open>\<open>web_task_names\<close>: the tasks registered with an app are a parameter.\<close>

definition web_task_names :: "(app \<Rightarrow> string list) \<Rightarrow> app list \<Rightarrow> string list" where
  "web_task_names tasks_of apps =
     sort (remdups (filter (\<lambda>n. \<not> starts_with ''celery.'' n) (concat (map tasks_of apps))))"

section \<open>The session of a request\<close>

definition CLEANUP_INTERVAL_SECONDS :: rat where "CLEANUP_INTERVAL_SECONDS = 60"

definition should_cleanup :: "rat \<Rightarrow> rat option \<Rightarrow> bool \<times> rat option" where
  "should_cleanup now since = (case since of
       None \<Rightarrow> (True, Some now)
     | Some t \<Rightarrow> (if CLEANUP_INTERVAL_SECONDS \<le> now - t then (True, Some now) else (False, since)))"

text \<open>\<open>open_db\<close>: with a retention of no days nothing is cleaned and the clock is not read.\<close>

definition open_db :: "int \<Rightarrow> rat \<Rightarrow> pydt \<Rightarrow> rat option \<times> db \<Rightarrow> rat option \<times> db" where
  "open_db days monotonic now = (\<lambda>(since, d).
     if 0 < days
     then let (due, since') = should_cleanup monotonic since
          in (since', if due then snd (cleanup now days d) else d)
     else (since, d))"

lemma app_name_registered: "app_name rt a = resolve_name rt a"
  by (simp add: app_name_def resolve_name_def)

text \<open>The times at which a run of requests cleans up.\<close>

fun cleanup_times :: "int \<Rightarrow> rat list \<Rightarrow> rat option \<Rightarrow> rat list" where
  "cleanup_times days [] since = []"
| "cleanup_times days (t # ts) since =
     (if 0 < days then (let (due, since') = should_cleanup t since
        in (if due then [t] else []) @ cleanup_times days ts since') else cleanup_times days ts since)"

fun spaced :: "rat \<Rightarrow> rat list \<Rightarrow> bool" where
  "spaced gap (a # b # ts) = (gap \<le> b - a \<and> spaced gap (b # ts))"
| "spaced gap ts = True"

text \<open>Clean-ups are at least a minute apart, whatever the requests.\<close>

lemma cleanups_spaced: "spaced CLEANUP_INTERVAL_SECONDS (cleanup_times days ts since)"
proof -
  have first: "spaced CLEANUP_INTERVAL_SECONDS (t # cleanup_times days ts (Some t))" for t ts
    by (induction ts arbitrary: t) (auto simp: should_cleanup_def)
  show ?thesis
    by (induction ts arbitrary: since) (simp_all add: should_cleanup_def first split: option.split)
qed

end
