(* ===== verification/Engine.thy ===== *)
theory Engine
  imports Reconciler Retry
begin

text \<open>
  The engine (celery_root/core/engine): queues of a broker and their purging (brokers/base.py), remote
  control of workers (workers.py, tasks.py), stored results (backend.py) and health checks (health.py).
  What Celery, kombu and the broker answer is a parameter; the commands sent are part of the result.
\<close>

section \<open>Broker queues\<close>

text \<open>The answer to \<open>queue_declare\<close>: attributes of the object, and its items when it is a tuple.\<close>

record declared =
  dc_attributes :: "(string, pyval) pydict"
  dc_items :: "pyval list option"

text \<open>A connection: its driver (None without a transport), whether the channel has a Redis client, and
  what the client and the channel answer.\<close>

record queue_conn =
  qc_driver :: "string option"
  qc_redis_client :: bool
  qc_llen :: "string \<Rightarrow> pyexc + int"
  qc_delete :: "string \<Rightarrow> pyexc + int"
  qc_declare :: "string \<Rightarrow> pyexc + declared"
  qc_purge :: "string \<Rightarrow> pyexc + pyval"

definition uses_redis :: "queue_conn \<Rightarrow> bool" where
  "uses_redis c = (qc_driver c = Some ''redis'' \<and> qc_redis_client c)"

definition extract_field :: "pyrt \<Rightarrow> declared \<Rightarrow> string \<Rightarrow> int option" where
  "extract_field rt result name = (case dget (dc_attributes result) name of
       Some v \<Rightarrow> to_int rt v
     | None \<Rightarrow> (case dc_items result of
           None \<Rightarrow> None
         | Some items \<Rightarrow>
             (let index = (if name = ''message_count'' then Some 1 else if name = ''consumer_count'' then Some 2 else None)
              in case index of
                   None \<Rightarrow> None
                 | Some i \<Rightarrow> (if i < length items then to_int rt (items ! i) else None))))"

definition broker_counts :: "pyrt \<Rightarrow> queue_conn \<Rightarrow> string \<Rightarrow> pyexc + queue_info" where
  "broker_counts rt c queue =
     (if uses_redis c
      then ebind (qc_llen c queue) (\<lambda>n. Inr \<lparr>qi_name = queue, qi_messages = Some n, qi_consumers = None\<rparr>)
      else ebind (qc_declare c queue) (\<lambda>result. Inr \<lparr>qi_name = queue,
             qi_messages = extract_field rt result ''message_count'',
             qi_consumers = extract_field rt result ''consumer_count''\<rparr>))"

text \<open>The exceptions that mean no counts; a validation error is a ValueError.\<close>

definition no_counts :: "pyexc \<Rightarrow> bool" where
  "no_counts e = (case e of
       ValueError _ \<Rightarrow> True | TypeError _ \<Rightarrow> True | RuntimeError _ \<Rightarrow> True | OSError _ \<Rightarrow> True
     | ValidationError \<Rightarrow> True | OtherError kind \<Rightarrow> kind = ''AttributeError'' | _ \<Rightarrow> False)"

definition queue_info_of :: "pyrt \<Rightarrow> queue_conn \<Rightarrow> string \<Rightarrow> pyexc + queue_info" where
  "queue_info_of rt c queue = (case broker_counts rt c queue of
       Inl e \<Rightarrow> (if no_counts e then Inr \<lparr>qi_name = queue, qi_messages = None, qi_consumers = None\<rparr> else Inl e)
     | Inr info \<Rightarrow> Inr info)"

text \<open>Iterating over a value; a string gives its characters, a dictionary its keys.\<close>

fun iterate :: "pyval \<Rightarrow> pyexc + pyval list" where
  "iterate (PList xs) = Inr xs"
| "iterate (PTuple xs) = Inr xs"
| "iterate (PSet xs) = Inr xs"
| "iterate (PDict d) = Inr (map fst d)"
| "iterate (PStr s) = Inr (map (\<lambda>c. PStr [c]) s)"
| "iterate _ = Inl (TypeError ''object is not iterable'')"

definition active_name :: "pyrt \<Rightarrow> pyval \<Rightarrow> pyexc + string list" where
  "active_name rt queue = (case queue of
       PDict d \<Rightarrow> (let name = pget d ''name'' in Inr (if truthy name then [py_str rt name] else []))
     | _ \<Rightarrow> Inl (OtherError ''AttributeError''))"

definition active_names :: "pyrt \<Rightarrow> pyval \<Rightarrow> string list \<Rightarrow> pyexc + string list" where
  "active_names rt queue_list names =
     ebind (iterate queue_list) (\<lambda>queues. efold (\<lambda>q ns. ebind (active_name rt q) (\<lambda>n. Inr (ns @ n))) queues names)"

text \<open>\<open>_discover_queue_names\<close>: what the inspector reports (None when it fails), otherwise the configured
  queues, otherwise the default queue. A configured queue is an object named by its \<open>name\<close>.\<close>

definition configured_names :: "pyval \<Rightarrow> pyexc + string list" where
  "configured_names queues =
     (if truthy queues
      then ebind (iterate queues) (\<lambda>qs. Inr (concat (map (\<lambda>q. case q of PModel n \<Rightarrow> (if n \<noteq> [] then [n] else []) | _ \<Rightarrow> []) qs)))
      else Inr [])"

definition discover_queue_names :: "pyrt \<Rightarrow> (app \<Rightarrow> pyval option) \<Rightarrow> app \<Rightarrow> pyexc + string list" where
  "discover_queue_names rt active_queues a =
     ebind (case active_queues a of Some (PDict d) \<Rightarrow> efold (active_names rt) (map snd d) [] | _ \<Rightarrow> Inr []) (\<lambda>names.
     ebind (if names = [] then configured_names (conf_get a ''task_queues'') else Inr names) (\<lambda>names.
     Inr (sort (remdups (if names = [] then [py_str rt (por (conf_get a ''task_default_queue'') (PStr ''celery''))]
                         else names)))))"

fun emap :: "('a \<Rightarrow> 'e + 'b) \<Rightarrow> 'a list \<Rightarrow> 'e + 'b list" where
  "emap f [] = Inr []"
| "emap f (x # xs) = ebind (f x) (\<lambda>y. ebind (emap f xs) (\<lambda>ys. Inr (y # ys)))"

text \<open>\<open>list_queues\<close>; \<open>fnmatch\<close> is a parameter, and None stands for no pattern.\<close>

definition list_queues :: "pyrt \<Rightarrow> (app \<Rightarrow> pyval option) \<Rightarrow> (string \<Rightarrow> string \<Rightarrow> bool) \<Rightarrow> (app \<Rightarrow> pyexc + queue_conn) \<Rightarrow>
    (string, app) pydict \<Rightarrow> string \<Rightarrow> string option \<Rightarrow> bool \<Rightarrow> pyexc + queue_info list" where
  "list_queues rt active_queues fnmatch connect registry worker pattern include_counts =
     ebind (get_app registry worker) (\<lambda>a.
     ebind (discover_queue_names rt active_queues a) (\<lambda>names.
     let names = (case pattern of None \<Rightarrow> names | Some p \<Rightarrow> filter (\<lambda>n. fnmatch n p) names)
     in if \<not> include_counts then Inr (map (\<lambda>n. \<lparr>qi_name = n, qi_messages = None, qi_consumers = None\<rparr>) names)
        else ebind (connect a) (\<lambda>c. emap (queue_info_of rt c) names)))"

definition purge_queue :: "pyrt \<Rightarrow> queue_conn \<Rightarrow> string \<Rightarrow> pyexc + int option" where
  "purge_queue rt c queue =
     (if uses_redis c
      then ebind (qc_llen c queue) (\<lambda>pending. ebind (qc_delete c queue) (\<lambda>_. Inr (Some pending)))
      else ebind (qc_purge c queue) (\<lambda>result. Inr (case result of
             PInt n \<Rightarrow> Some n
           | PBool b \<Rightarrow> Some (if b then 1 else 0)
           | PFloat x \<Rightarrow> to_int rt (PFloat x)
           | PStr s \<Rightarrow> to_int rt (PStr s)
           | _ \<Rightarrow> None)))"

text \<open>The targets one after the other: the queues a purge was tried on, and the counts.\<close>

fun purge_each :: "pyrt \<Rightarrow> queue_conn \<Rightarrow> string list \<Rightarrow> (string, int option) pydict \<Rightarrow>
    string list \<times> (pyexc + (string, int option) pydict)" where
  "purge_each rt c [] purged = ([], Inr purged)"
| "purge_each rt c (q # qs) purged = (case purge_queue rt c q of
       Inl e \<Rightarrow> ([q], Inl e)
     | Inr n \<Rightarrow> (let (tried, r) = purge_each rt c qs (dset q n purged) in (q # tried, r)))"

definition purge_queues :: "pyrt \<Rightarrow> (app \<Rightarrow> pyval option) \<Rightarrow> (string \<Rightarrow> string \<Rightarrow> bool) \<Rightarrow> (app \<Rightarrow> pyexc + queue_conn) \<Rightarrow>
    (string, app) pydict \<Rightarrow> string \<Rightarrow> string option \<Rightarrow> string option \<Rightarrow>
    string list \<times> (pyexc + (string, int option) pydict)" where
  "purge_queues rt active_queues fnmatch connect registry worker queue pattern =
     (case (case queue of
         Some q \<Rightarrow> Inr [q]
       | None \<Rightarrow> ebind (list_queues rt active_queues fnmatch connect registry worker pattern False)
           (\<lambda>infos. Inr (map qi_name infos))) of
        Inl e \<Rightarrow> ([], Inl e)
      | Inr targets \<Rightarrow>
          (case ebind (get_app registry worker) connect of
             Inl e \<Rightarrow> ([], Inl e)
           | Inr c \<Rightarrow> purge_each rt c targets []))"

section \<open>Remote control\<close>

text \<open>The methods of \<open>app.control\<close> the engine calls, with their arguments; the last one is always the
  destination.\<close>

datatype control_call =
    Revoke string bool "string option" "string list option"
  | RateLimit string string "string list option"
  | TimeLimit string "int option" "int option" "string list option"
  | PoolGrow int "string list option"
  | PoolShrink int "string list option"
  | Autoscale int int "string list option"
  | Broadcast string "(string \<times> pyval) list" "string list option"
  | PoolRestart bool "string list option"
  | AddConsumer string "string option" "string option" "string list option"
  | CancelConsumer string "string list option"
  | InspectStats "string list option"

text \<open>A run: the call that was made, if any, and what came back.\<close>

type_synonym 'r control_run = "(app \<times> control_call) option \<times> (pyexc + 'r)"

definition on_app :: "(string, app) pydict \<Rightarrow> string \<Rightarrow> (app \<Rightarrow> control_call \<Rightarrow> pyexc + pyval) \<Rightarrow> control_call \<Rightarrow> pyval control_run" where
  "on_app registry worker control call = (case get_app registry worker of
       Inl e \<Rightarrow> (None, Inl e)
     | Inr a \<Rightarrow> (Some (a, call), control a call))"

definition revoke :: "(string, app) pydict \<Rightarrow> string \<Rightarrow> (app \<Rightarrow> control_call \<Rightarrow> pyexc + pyval) \<Rightarrow>
    string \<Rightarrow> bool \<Rightarrow> string option \<Rightarrow> string list option \<Rightarrow> pyval control_run" where
  "revoke registry worker control task_id terminate signal destination =
     on_app registry worker control (Revoke task_id terminate signal destination)"

definition rate_limit :: "(string, app) pydict \<Rightarrow> string \<Rightarrow> (app \<Rightarrow> control_call \<Rightarrow> pyexc + pyval) \<Rightarrow>
    string \<Rightarrow> string \<Rightarrow> string list option \<Rightarrow> pyval control_run" where
  "rate_limit registry worker control task_name rate destination =
     on_app registry worker control (RateLimit task_name rate destination)"

definition time_limit :: "(string, app) pydict \<Rightarrow> string \<Rightarrow> (app \<Rightarrow> control_call \<Rightarrow> pyexc + pyval) \<Rightarrow>
    string \<Rightarrow> int option \<Rightarrow> int option \<Rightarrow> string list option \<Rightarrow> pyval control_run" where
  "time_limit registry worker control task_name soft hard destination =
     on_app registry worker control (TimeLimit task_name soft hard destination)"

definition pool_grow :: "(string, app) pydict \<Rightarrow> string \<Rightarrow> (app \<Rightarrow> control_call \<Rightarrow> pyexc + pyval) \<Rightarrow>
    int \<Rightarrow> string list option \<Rightarrow> pyval control_run" where
  "pool_grow registry worker control amount destination =
     on_app registry worker control (PoolGrow amount destination)"

definition pool_shrink :: "(string, app) pydict \<Rightarrow> string \<Rightarrow> (app \<Rightarrow> control_call \<Rightarrow> pyexc + pyval) \<Rightarrow>
    int \<Rightarrow> string list option \<Rightarrow> pyval control_run" where
  "pool_shrink registry worker control amount destination =
     on_app registry worker control (PoolShrink amount destination)"

definition autoscale :: "(string, app) pydict \<Rightarrow> string \<Rightarrow> (app \<Rightarrow> control_call \<Rightarrow> pyexc + pyval) \<Rightarrow>
    int \<Rightarrow> int \<Rightarrow> string list option \<Rightarrow> pyval control_run" where
  "autoscale registry worker control max_concurrency min_concurrency destination =
     on_app registry worker control (Autoscale max_concurrency min_concurrency destination)"

definition shutdown :: "(string, app) pydict \<Rightarrow> string \<Rightarrow> (app \<Rightarrow> control_call \<Rightarrow> pyexc + pyval) \<Rightarrow>
    string list option \<Rightarrow> pyval control_run" where
  "shutdown registry worker control destination =
     on_app registry worker control (Broadcast ''shutdown'' [] destination)"

text \<open>\<open>_pool_restart_enabled\<close>: None reads the attribute again, which is the same setting.\<close>

definition pool_restart_enabled :: "app \<Rightarrow> bool" where
  "pool_restart_enabled a = truthy (conf_get a ''worker_pool_restarts'')"

definition safe_pool_restart :: "pyexc + pyval \<Rightarrow> pyexc + pyval" where
  "safe_pool_restart r = (case r of
       Inl (ValueError m) \<Rightarrow> Inr PNone | Inl ValidationError \<Rightarrow> Inr PNone | r \<Rightarrow> r)"

text \<open>\<open>restart\<close>: whether the control has \<open>pool_restart\<close> depends on the Celery version.\<close>

definition restart :: "bool \<Rightarrow> (string, app) pydict \<Rightarrow> string \<Rightarrow> (app \<Rightarrow> control_call \<Rightarrow> pyexc + pyval) \<Rightarrow>
    bool \<Rightarrow> string list option \<Rightarrow> pyval control_run" where
  "restart has_pool_restart registry worker control reload destination = (case get_app registry worker of
       Inl e \<Rightarrow> (None, Inl e)
     | Inr a \<Rightarrow>
         (if has_pool_restart
          then if \<not> pool_restart_enabled a then (None, Inr PNone)
               else (Some (a, PoolRestart reload destination),
                     safe_pool_restart (control a (PoolRestart reload destination)))
          else (Some (a, Broadcast ''restart'' [(''reload'', PBool reload)] destination),
                control a (Broadcast ''restart'' [(''reload'', PBool reload)] destination))))"

definition add_consumer :: "(string, app) pydict \<Rightarrow> string \<Rightarrow> (app \<Rightarrow> control_call \<Rightarrow> pyexc + pyval) \<Rightarrow>
    string \<Rightarrow> string option \<Rightarrow> string option \<Rightarrow> string list option \<Rightarrow> pyval control_run" where
  "add_consumer registry worker control queue exchange routing_key destination =
     on_app registry worker control (AddConsumer queue exchange routing_key destination)"

definition remove_consumer :: "(string, app) pydict \<Rightarrow> string \<Rightarrow> (app \<Rightarrow> control_call \<Rightarrow> pyexc + pyval) \<Rightarrow>
    string \<Rightarrow> string list option \<Rightarrow> pyval control_run" where
  "remove_consumer registry worker control queue destination =
     on_app registry worker control (CancelConsumer queue destination)"

text \<open>\<open>get_stats\<close>: an empty destination asks every worker.\<close>

definition get_stats :: "(string, app) pydict \<Rightarrow> string \<Rightarrow> (app \<Rightarrow> control_call \<Rightarrow> pyexc + pyval) \<Rightarrow>
    string list option \<Rightarrow> pyval control_run" where
  "get_stats registry worker control destination =
     on_app registry worker control (InspectStats (case destination of Some (h # hs) \<Rightarrow> Some (h # hs) | _ \<Rightarrow> None))"

section \<open>Stored results\<close>

text \<open>A result backend: \<open>get_task_meta\<close> and \<open>get_key_for_task\<close> when it has them, its key prefix, and the
  client's scan and delete (None without a client).\<close>

record result_backend =
  rb_task_meta :: "(string \<Rightarrow> pyexc + pyval) option"
  rb_key_for_task :: "(string \<Rightarrow> pyval) option"
  rb_prefix :: "string option"
  rb_scan :: "(string \<Rightarrow> string list) option"
  rb_delete :: "(string list \<Rightarrow> pyval) option"

record stored_result =
  sr_task_id :: string
  sr_status :: "string option"
  sr_result :: pyval
  sr_traceback :: pyval
  sr_name :: "string option"
  sr_date_done :: pyval

definition iter_keys :: "result_backend \<Rightarrow> string \<Rightarrow> string list" where
  "iter_keys b pattern = (case rb_scan b of None \<Rightarrow> [] | Some scan \<Rightarrow> scan pattern)"

definition delete_keys :: "pyrt \<Rightarrow> result_backend \<Rightarrow> string list \<Rightarrow> int" where
  "delete_keys rt b keys = (if keys = [] then 0 else case rb_delete b of
       None \<Rightarrow> 0
     | Some delete \<Rightarrow> (case to_int rt (delete keys) of None \<Rightarrow> 0 | Some n \<Rightarrow> n))"

definition task_id_from_key :: "result_backend \<Rightarrow> string \<Rightarrow> string" where
  "task_id_from_key b key =
     (let prefix = ''celery-task-meta-''
      in if starts_with prefix key then drop (length prefix) key
         else case rb_prefix b of
             Some p \<Rightarrow> (if starts_with p key then drop (length p) key else key)
           | None \<Rightarrow> key)"

definition extract_name :: "pyrt \<Rightarrow> pyval \<Rightarrow> string option" where
  "extract_name rt meta = (case meta of
       PDict d \<Rightarrow> (let name = por (por (pget d ''name'') (pget d ''task'')) (pget d ''task_name'')
                  in if name = PNone then None else Some (py_str rt name))
     | _ \<Rightarrow> None)"

definition stored_of :: "pyrt \<Rightarrow> string \<Rightarrow> pyval \<Rightarrow> stored_result" where
  "stored_of rt task_id meta =
     (let d = (case meta of PDict d \<Rightarrow> Some d | _ \<Rightarrow> None);
          field = (\<lambda>k. case d of None \<Rightarrow> PNone | Some d \<Rightarrow> pget d k)
      in \<lparr>sr_task_id = task_id, sr_status = map_option (\<lambda>d. py_str rt (pget d ''status'')) d,
          sr_result = field ''result'', sr_traceback = field ''traceback'',
          sr_name = extract_name rt meta, sr_date_done = field ''date_done''\<rparr>)"

text \<open>\<open>list_results\<close>: the first \<open>limit\<close> keys (all of them without a limit).\<close>

definition list_results :: "pyrt \<Rightarrow> (app \<Rightarrow> result_backend) \<Rightarrow> (string, app) pydict \<Rightarrow> string \<Rightarrow> string \<Rightarrow> int option \<Rightarrow>
    pyexc + stored_result list" where
  "list_results rt backend registry worker key_pattern limit =
     ebind (get_app registry worker) (\<lambda>a. let b = backend a in case rb_task_meta b of
         None \<Rightarrow> Inr []
       | Some get_task_meta \<Rightarrow>
           (let keys = iter_keys b key_pattern;
                keys = (case limit of None \<Rightarrow> keys | Some n \<Rightarrow> take (nat n) keys)
            in emap (\<lambda>key. ebind (get_task_meta (task_id_from_key b key))
                 (\<lambda>meta. Inr (stored_of rt (task_id_from_key b key) meta))) keys))"

text \<open>\<open>clear_results\<close>: the keys deleted, the task forgotten, and the count.\<close>

definition clear_results :: "pyrt \<Rightarrow> (string \<Rightarrow> string \<Rightarrow> bool) \<Rightarrow> (app \<Rightarrow> result_backend) \<Rightarrow> (string, app) pydict \<Rightarrow>
    string \<Rightarrow> string option \<Rightarrow> string option \<Rightarrow> string \<Rightarrow> pyexc + (string list \<times> string option \<times> int)" where
  "clear_results rt fnmatch backend registry worker task_id name_pattern key_pattern =
     ebind (get_app registry worker) (\<lambda>a. let b = backend a in case task_id of
         Some i \<Rightarrow>
           (let key = (case rb_key_for_task b of
                  Some f \<Rightarrow> py_str rt (f i)
                | None \<Rightarrow> (case rb_prefix b of None \<Rightarrow> ''celery-task-meta-'' | Some p \<Rightarrow> p) @ i)
            in Inr ([key], Some i, delete_keys rt b [key]))
       | None \<Rightarrow>
           ebind (emap (\<lambda>key. case name_pattern of
                None \<Rightarrow> Inr [key]
              | Some p \<Rightarrow>
                  ebind (case rb_task_meta b of None \<Rightarrow> Inr (PDict []) | Some get \<Rightarrow> get (task_id_from_key b key)) (\<lambda>meta.
                  Inr (case extract_name rt meta of
                         None \<Rightarrow> []
                       | Some name \<Rightarrow> (if fnmatch name p then [key] else []))))
              (iter_keys b key_pattern)) (\<lambda>kept.
           Inr (concat kept, None, delete_keys rt b (concat kept))))"

section \<open>Health checks\<close>

record health =
  hl_ok :: bool
  hl_responding :: "pyval list"
  hl_error :: "string option"

text \<open>\<open>redact_url_password(str(exc)) or str(exc)\<close>\<close>

definition shown_error :: "(pyexc \<Rightarrow> string) \<Rightarrow> pyexc \<Rightarrow> string" where
  "shown_error exc_text e = or_str (redact_url_password (Some (exc_text e))) (exc_text e)"

text \<open>A failed check is reported when its exception is of the kinds of \<^theory_text>\<open>no_counts\<close>; others are raised.\<close>

definition checked :: "(pyexc \<Rightarrow> string) \<Rightarrow> pyexc + pyval list \<Rightarrow> (pyval list \<Rightarrow> bool) \<Rightarrow> pyexc + health" where
  "checked exc_text r ok = (case r of
       Inl e \<Rightarrow> (if no_counts e then Inr \<lparr>hl_ok = False, hl_responding = [], hl_error = Some (shown_error exc_text e)\<rparr>
                else Inl e)
     | Inr xs \<Rightarrow> Inr \<lparr>hl_ok = ok xs, hl_responding = xs, hl_error = None\<rparr>)"

definition check_broker :: "(pyexc \<Rightarrow> string) \<Rightarrow> pyexc + unit \<Rightarrow> pyexc + health" where
  "check_broker exc_text reached = checked exc_text (ebind reached (\<lambda>_. Inr [])) (\<lambda>_. True)"

definition check_backend :: "(pyexc \<Rightarrow> string) \<Rightarrow> result_backend \<Rightarrow> pyexc + health" where
  "check_backend exc_text b = (case rb_task_meta b of
       None \<Rightarrow> Inr \<lparr>hl_ok = False, hl_responding = [], hl_error = Some ''Backend does not support get_task_meta''\<rparr>
     | Some get \<Rightarrow> checked exc_text (ebind (get ''celery_root_healthcheck'') (\<lambda>_. Inr [])) (\<lambda>_. True))"

text \<open>\<open>next(iter(item))\<close> of each answer that is a non-empty dictionary: its first key.\<close>

definition responders :: "pyval \<Rightarrow> pyexc + pyval list" where
  "responders answer = ebind (iterate (por answer (PList []))) (\<lambda>items.
     Inr (concat (map (\<lambda>item. case item of PDict ((k, v) # d) \<Rightarrow> [k] | _ \<Rightarrow> []) items)))"

definition check_workers :: "(pyexc \<Rightarrow> string) \<Rightarrow> pyexc + pyval \<Rightarrow> pyexc + health" where
  "check_workers exc_text answer = checked exc_text (ebind answer responders) (\<lambda>xs. xs \<noteq> [])"

definition health_check :: "(pyexc \<Rightarrow> string) \<Rightarrow> (app \<Rightarrow> pyexc + unit) \<Rightarrow> (app \<Rightarrow> result_backend) \<Rightarrow> (app \<Rightarrow> pyexc + pyval) \<Rightarrow>
    (string, app) pydict \<Rightarrow> string \<Rightarrow> pyexc + (health \<times> health \<times> health)" where
  "health_check exc_text reached backend ping registry worker =
     ebind (get_app registry worker) (\<lambda>a.
     ebind (check_broker exc_text (reached a)) (\<lambda>broker.
     ebind (check_backend exc_text (backend a)) (\<lambda>backend_status.
     ebind (check_workers exc_text (ping a)) (\<lambda>workers.
     Inr (broker, backend_status, workers)))))"

end
