(* ===== verification/Broker_Pages.thy ===== *)
theory Broker_Pages
  imports Base64_Keys Redaction_Facts Web_Services Engine
begin

text \<open>
  The broker pages (celery_root/components/web/views/broker.py): the key of a broker in a URL, the brokers
  grouped by their redacted URLs with their queues and workers, and the purging of queues. A text outside
  ASCII is outside the model, so bytes that are not ASCII do not decode to a text here; no broker has
  such a URL, and the page of such a key is not found either way. The reads of one request see one
  state of the database.
\<close>

section \<open>Keys\<close>

definition is_ascii :: "char \<Rightarrow> bool" where
  "is_ascii c = ((of_char c :: nat) < 128)"

definition DEFAULT_BROKER_KEY :: string where "DEFAULT_BROKER_KEY = ''default''"

definition shown_broker_url :: "string \<Rightarrow> string" where
  "shown_broker_url url = or_str (redact_url_password (Some url)) url"

definition encode_broker_key :: "string \<Rightarrow> string" where
  "encode_broker_key broker_url =
     (let url = shown_broker_url broker_url
      in if url = [] then DEFAULT_BROKER_KEY else strip_padding (urlsafe_b64encode url))"

definition decode_broker_key :: "string \<Rightarrow> string option" where
  "decode_broker_key key =
     (if key = DEFAULT_BROKER_KEY then Some []
      else if \<not> list_all is_ascii (pad_key key) then None
      else case urlsafe_b64decode (pad_key key) of
          None \<Rightarrow> None
        | Some bytes \<Rightarrow> (if list_all is_ascii bytes then Some bytes else None))"

section \<open>Groups\<close>

definition BROKER_TYPE_LABELS :: "(string, string) pydict" where
  "BROKER_TYPE_LABELS = [(''amqp'', ''RabbitMQ''), (''amqps'', ''RabbitMQ''), (''pyamqp'', ''RabbitMQ''),
     (''librabbitmq'', ''RabbitMQ''), (''redis'', ''Redis''), (''rediss'', ''Redis''), (''sqs'', ''Amazon SQS''),
     (''kafka'', ''Kafka''), (''memory'', ''In-memory''), (''sqla'', ''SQLAlchemy''), (''default'', ''Default''),
     (''custom'', ''Custom'')]"

text \<open>\<open>urlparse\<close> raises ValueError where \<open>urlsplit\<close> does.\<close>

definition broker_type :: "string \<Rightarrow> pyexc + string" where
  "broker_type broker_url =
     (if broker_url = [] then Inr ''default''
      else case urlsplit broker_url of
          None \<Rightarrow> Inl (ValueError ''Invalid IPv6 URL'')
        | Some u \<Rightarrow> (let base = before CHR ''+'' (py_lower (up_scheme u))
                     in Inr (if base = [] then ''custom'' else base)))"

definition broker_type_label :: "string \<Rightarrow> pyexc + string" where
  "broker_type_label broker_url =
     ebind (broker_type broker_url) (\<lambda>t. Inr (dget_or BROKER_TYPE_LABELS t (py_upper t)))"

definition extend_group :: "string \<times> broker_group \<Rightarrow> (string, app list) pydict \<Rightarrow> (string, app list) pydict" where
  "extend_group = (\<lambda>(raw_url, g) groups.
     let url = shown_broker_url raw_url in dset url (dget_or groups url [] @ bg_apps g) groups)"

definition redacted_broker_groups :: "pyrt \<Rightarrow> (string, app) pydict \<Rightarrow> (string, app list) pydict" where
  "redacted_broker_groups rt registry = fold extend_group (get_brokers rt registry) []"

section \<open>Queues and workers of a broker\<close>

record queue_row =
  qr_name :: string
  qr_pending :: "int option"
  qr_unacked :: "int option"
  qr_total :: "int option"
  qr_consumers :: "int option"
  qr_rate :: "string option"

definition queue_row_of :: "broker_queue_event \<Rightarrow> queue_row" where
  "queue_row_of e = \<lparr>qr_name = bq_queue e, qr_pending = bq_messages e, qr_unacked = None,
     qr_total = bq_messages e, qr_consumers = bq_consumers e, qr_rate = None\<rparr>"

definition later :: "broker_queue_event \<Rightarrow> pydt option \<Rightarrow> pydt option" where
  "later e latest = (case latest of
       None \<Rightarrow> Some (bq_timestamp e)
     | Some t \<Rightarrow> (if dt_instant t < dt_instant (bq_timestamp e) then Some (bq_timestamp e) else latest))"

definition queue_rows_from_db :: "db \<Rightarrow> string \<Rightarrow> queue_row list \<times> pydt option" where
  "queue_rows_from_db d broker_url =
     (let events = get_broker_queue_snapshot broker_url d
      in (sort_asc_key qr_name (map queue_row_of events), fold later events None))"

definition broker_summary :: "queue_row list \<Rightarrow> (string \<times> string) list" where
  "broker_summary rows =
     [(''Queues'', show_nat (length rows)),
      (''Pending tasks'', show_int (sum_list (map (\<lambda>r. or_int (qr_pending r) 0) rows))),
      (''Consumers online'', show_int (sum_list (map (\<lambda>r. or_int (qr_consumers r) 0) rows))),
      (''Queues without consumers'', show_nat (length (filter (\<lambda>r. or_int (qr_consumers r) 0 = 0) rows)))]"

definition label_of_backend :: "pyrt \<Rightarrow> app \<Rightarrow> string" where
  "label_of_backend rt a =
     (let backend = conf_get a ''result_backend'';
          label = (if truthy backend then py_str rt backend else ''disabled'')
      in if label \<noteq> [] \<and> label \<noteq> ''disabled'' then or_str (redact_url_password (Some label)) label else label)"

definition add_label :: "string \<Rightarrow> string list \<Rightarrow> string list" where
  "add_label label labels = (if label \<in> set labels then labels else labels @ [label])"

definition backend_labels :: "pyrt \<Rightarrow> app list \<Rightarrow> string list" where
  "backend_labels rt apps =
     (let labels = fold (\<lambda>a. add_label (label_of_backend rt a)) apps []
      in if labels = [] then [''disabled''] else labels)"

definition ALL_WORKERS :: string where "ALL_WORKERS = ''__all__''"

definition add_queue :: "string \<Rightarrow> string \<Rightarrow> (string, string set) pydict \<Rightarrow> (string, string set) pydict" where
  "add_queue hostname queue m = dset queue (insert hostname (dget_or m queue {})) m"

definition worker_queues :: "worker \<Rightarrow> string list" where
  "worker_queues w = (case wk_queues w of None \<Rightarrow> [] | Some qs \<Rightarrow> qs)"

definition worker_queue_map :: "worker list \<Rightarrow> (string, string set) pydict" where
  "worker_queue_map workers =
     dset ALL_WORKERS (set (map wk_hostname workers))
       (fold (\<lambda>w. fold (add_queue (wk_hostname w)) (worker_queues w)) workers [])"

definition attached_workers :: "queue_row list \<Rightarrow> (string, string set) pydict \<Rightarrow> bool \<Rightarrow> string set" where
  "attached_workers rows worker_map fallback_to_all =
     (let attached = \<Union> (set (map (\<lambda>q. dget_or worker_map (qr_name q) {}) rows))
      in if attached = {} \<and> fallback_to_all then dget_or worker_map ALL_WORKERS {} else attached)"

definition add_worker :: "worker \<Rightarrow> (string, string set) pydict \<times> worker list \<Rightarrow> (string, string set) pydict \<times> worker list" where
  "add_worker w = (\<lambda>(m, unknown).
     if truthy_str (wk_broker_url w)
     then (dset (the (wk_broker_url w)) (insert (wk_hostname w) (dget_or m (the (wk_broker_url w)) {})) m, unknown)
     else (m, unknown @ [w]))"

definition worker_broker_map :: "worker list \<Rightarrow> (string, string set) pydict \<times> worker list" where
  "worker_broker_map workers = fold add_worker workers ([], [])"

definition resolve_broker_workers :: "string \<Rightarrow> queue_row list \<Rightarrow> worker list \<Rightarrow> string list" where
  "resolve_broker_workers broker_url rows workers =
     (let (broker_map, unknown) = worker_broker_map workers;
          attached = dget_or broker_map broker_url {}
      in sorted_list_of_set (if unknown \<noteq> []
           then attached \<union> attached_workers rows (worker_queue_map unknown) False else attached))"

section \<open>Pages\<close>

record broker_row =
  br_broker_url :: string
  br_broker_label :: string
  br_broker_key :: string
  br_broker_type :: string
  br_broker_type_label :: string
  br_backend_labels :: "string list"
  br_app_names :: "string list"
  br_primary_app :: string
  br_queues :: "queue_row list"
  br_summary :: "(string \<times> string) list"
  br_workers :: "string list"

definition broker_row_of :: "pyrt \<Rightarrow> db \<Rightarrow> string \<Rightarrow> app list \<Rightarrow> pyexc + broker_row" where
  "broker_row_of rt d broker_url apps =
     (let app_names = map (app_name rt) apps; queues = fst (queue_rows_from_db d broker_url)
      in ebind (broker_type broker_url) (\<lambda>kind. ebind (broker_type_label broker_url) (\<lambda>label.
         Inr \<lparr>br_broker_url = broker_url, br_broker_label = (if broker_url = [] then ''default'' else broker_url),
           br_broker_key = encode_broker_key broker_url, br_broker_type = kind, br_broker_type_label = label,
           br_backend_labels = backend_labels rt apps, br_app_names = app_names,
           br_primary_app = (if app_names = [] then [] else hd app_names), br_queues = queues,
           br_summary = broker_summary queues,
           br_workers = resolve_broker_workers broker_url queues (get_workers rt d)\<rparr>)))"

definition list_broker_groups :: "pyrt \<Rightarrow> (string, app) pydict \<Rightarrow> db \<Rightarrow> pyexc + broker_row list" where
  "list_broker_groups rt registry d =
     emap (\<lambda>(url, apps). broker_row_of rt d url apps)
       (filter (\<lambda>(url, apps). apps \<noteq> []) (sort_asc_key fst (redacted_broker_groups rt registry)))"

record broker_page =
  bp_template :: string
  bp_title :: string
  bp_broker :: broker_row
  bp_last_updated :: "pydt option"

definition BROKER_TEMPLATES :: "(string, string) pydict" where
  "BROKER_TEMPLATES = [(''amqp'', ''brokers/detail_rabbit.html''), (''amqps'', ''brokers/detail_rabbit.html''),
     (''pyamqp'', ''brokers/detail_rabbit.html''), (''librabbitmq'', ''brokers/detail_rabbit.html''),
     (''redis'', ''brokers/detail_redis.html''), (''rediss'', ''brokers/detail_redis.html''),
     (''kafka'', ''brokers/detail_kafka.html''), (''sqs'', ''brokers/detail_sqs.html'')]"

text \<open>\<open>broker_detail\<close>: None is the 404 page.\<close>

definition broker_detail :: "pyrt \<Rightarrow> (string, app) pydict \<Rightarrow> db \<Rightarrow> string \<Rightarrow> pyexc + broker_page option" where
  "broker_detail rt registry d broker_key = (case decode_broker_key broker_key of
       None \<Rightarrow> Inr None
     | Some broker_url \<Rightarrow> (case dget (redacted_broker_groups rt registry) broker_url of
           None \<Rightarrow> Inr None
         | Some apps \<Rightarrow> ebind (broker_row_of rt d broker_url apps) (\<lambda>row.
             let (queues, latest) = queue_rows_from_db d broker_url
             in Inr (Some \<lparr>bp_template = dget_or BROKER_TEMPLATES (br_broker_type row) ''brokers/detail_generic.html'',
                  bp_title = br_broker_type_label row @ '' broker'', bp_broker = row,
                  bp_last_updated = (if queues = [] then None else latest)\<rparr>))))"

section \<open>Purging\<close>

datatype web_reply = BadRequest string | GoTo string

definition resolve_app_name :: "pyrt \<Rightarrow> (string, app) pydict \<Rightarrow> string option \<Rightarrow> string option" where
  "resolve_app_name rt registry requested =
     (if truthy_str requested
      then (case get_app registry (the requested) of Inl e \<Rightarrow> None | Inr a \<Rightarrow> requested)
      else case get_apps registry of [] \<Rightarrow> None | a # _ \<Rightarrow> Some (app_name rt a))"

text \<open>A handler gives the queues a purge was tried on, and its reply or the exception.\<close>

type_synonym purge_run = "string list \<times> (pyexc + web_reply)"

definition broker_purge :: "pyrt \<Rightarrow> (app \<Rightarrow> pyval option) \<Rightarrow> (string \<Rightarrow> string \<Rightarrow> bool) \<Rightarrow> (app \<Rightarrow> pyexc + queue_conn) \<Rightarrow>
    (string, app) pydict \<Rightarrow> (string, string) pydict \<Rightarrow> purge_run" where
  "broker_purge rt active_queues fnmatch connect registry post =
     (let queue_name = py_strip (dget_or post ''queue'' [])
      in if queue_name = [] then ([], Inr (BadRequest ''Queue name required''))
         else case resolve_app_name rt registry (dget post ''app'') of
             None \<Rightarrow> ([], Inr (BadRequest ''Unknown Celery app''))
           | Some worker \<Rightarrow>
               (let (tried, r) = purge_queues rt active_queues fnmatch connect registry worker (Some queue_name) None
                in (tried, ebind r (\<lambda>_. Inr (GoTo ''broker'')))))"

fun purge_in_turn :: "(string \<Rightarrow> string list \<times> (pyexc + 'a)) \<Rightarrow> string list \<Rightarrow> purge_run" where
  "purge_in_turn purge [] = ([], Inr (GoTo ''broker''))"
| "purge_in_turn purge (q # qs) = (let (tried, r) = purge q in case r of
       Inl e \<Rightarrow> (tried, Inl e)
     | Inr _ \<Rightarrow> (let (more, reply) = purge_in_turn purge qs in (tried @ more, reply)))"

definition is_idle :: "broker_queue_event \<Rightarrow> bool" where
  "is_idle e = (or_int (bq_consumers e) 0 = 0)"

definition broker_purge_idle :: "pyrt \<Rightarrow> (app \<Rightarrow> pyval option) \<Rightarrow> (string \<Rightarrow> string \<Rightarrow> bool) \<Rightarrow> (app \<Rightarrow> pyexc + queue_conn) \<Rightarrow>
    (string, app) pydict \<Rightarrow> (string, string) pydict \<Rightarrow> db \<Rightarrow> purge_run" where
  "broker_purge_idle rt active_queues fnmatch connect registry post d =
     (case resolve_app_name rt registry (dget post ''app'') of
        None \<Rightarrow> ([], Inr (BadRequest ''Unknown Celery app''))
      | Some worker \<Rightarrow> (case get_app registry worker of
            Inl e \<Rightarrow> ([], Inr (BadRequest ''Unknown Celery app''))
          | Inr a \<Rightarrow>
              (let snapshots = get_broker_queue_snapshot (shown_broker_url (conf_text rt a ''broker_url'')) d
               in if snapshots = [] then ([], Inr (BadRequest ''No broker snapshots available''))
                  else purge_in_turn
                    (\<lambda>q. purge_queues rt active_queues fnmatch connect registry worker (Some q) None)
                    (map bq_queue (filter is_idle snapshots)))))"

end
