(* ===== verification/Task_Forms.thy ===== *)
theory Task_Forms
  imports Task_Pages Broker_Pages
begin

text \<open>
  The form that submits tasks, and retry and revoke of a task (celery_root/components/web/views/tasks.py):
  the fields of the form, the description of a task's parameters from their annotations, the queue a task
  goes to, and what is sent. What Python's introspection says of a task is given as a record; \<open>ast.literal_eval\<close>
  and the JSON library are parameters.
\<close>

section \<open>Arguments\<close>

text \<open>The literal \<open>...\<close> is the object Ellipsis.\<close>

definition ELLIPSIS :: pyval where "ELLIPSIS = PModel ''Ellipsis''"

definition form_args :: "pyrt \<Rightarrow> (string \<Rightarrow> pyval option) \<Rightarrow> string \<Rightarrow> pyval list" where
  "form_args rt literal text =
     (if text = [] then []
      else case literal_of rt literal text of Some (PList xs) \<Rightarrow> xs | Some (PTuple xs) \<Rightarrow> xs | _ \<Rightarrow> [])"

definition form_kwargs :: "pyrt \<Rightarrow> (string \<Rightarrow> pyval option) \<Rightarrow> string \<Rightarrow> (pyval \<times> pyval) list" where
  "form_kwargs rt literal text =
     (if text = [] then [] else case literal_of rt literal text of Some (PDict d) \<Rightarrow> d | _ \<Rightarrow> [])"

fun strip_ellipsis :: "pyval \<Rightarrow> pyval" where
  "strip_ellipsis (PModel m) = (if PModel m = ELLIPSIS then PNone else PModel m)"
| "strip_ellipsis (PList xs) = PList (map strip_ellipsis xs)"
| "strip_ellipsis (PTuple xs) = PList (map strip_ellipsis xs)"
| "strip_ellipsis (PDict d) = PDict (map (\<lambda>(k, v). (k, strip_ellipsis v)) d)"
| "strip_ellipsis v = v"

section \<open>Annotations as text\<close>

text \<open>\<open>_split_annotation_args\<close>: the parts at the commas outside brackets; \<open>part\<close> is what was read since the
  last one, backwards.\<close>

definition kept_part :: "string \<Rightarrow> string list" where
  "kept_part part = (let p = py_strip (rev part) in if p = [] then [] else [p])"

fun split_args_from :: "nat \<Rightarrow> string \<Rightarrow> string \<Rightarrow> string list" where
  "split_args_from depth part [] = kept_part part"
| "split_args_from depth part (c # t) =
     (if c = CHR ''['' then split_args_from (depth + 1) (c # part) t
      else if c = CHR '']'' then split_args_from (depth - 1) (c # part) t
      else if c = CHR '','' \<and> depth = 0 then kept_part part @ split_args_from depth [] t
      else split_args_from depth (c # part) t)"

definition split_annotation_args :: "string \<Rightarrow> string list" where
  "split_annotation_args text = split_args_from 0 [] text"

definition strip_annotation_prefix :: "string \<Rightarrow> string" where
  "strip_annotation_prefix text =
     (let normalized = py_strip text
      in case filter (\<lambda>p. starts_with p normalized) [''typing.'', ''collections.abc.'', ''collections.''] of
           [] \<Rightarrow> normalized
         | p # _ \<Rightarrow> drop (length p) normalized)"

text \<open>The text between \<open>name[\<close> and a closing bracket at the end.\<close>

definition bracketed :: "string \<Rightarrow> string \<Rightarrow> string option" where
  "bracketed name text =
     (if starts_with (name @ ''['') text \<and> ends_with '']'' text then Some (drop (length name + 1) (butlast text)) else None)"

definition not_none :: "string list \<Rightarrow> string list" where
  "not_none parts = filter (\<lambda>p. p \<noteq> ''None'' \<and> p \<noteq> ''NoneType'') parts"

definition drop_annotated :: "string \<Rightarrow> string" where
  "drop_annotated text = (case bracketed ''Annotated'' text of
       None \<Rightarrow> text
     | Some inner \<Rightarrow> (case split_annotation_args inner of [] \<Rightarrow> text | p # _ \<Rightarrow> p))"

definition drop_optional :: "string \<Rightarrow> string" where
  "drop_optional text = (case bracketed ''Optional'' text of None \<Rightarrow> text | Some inner \<Rightarrow> inner)"

definition drop_union :: "string \<Rightarrow> string" where
  "drop_union text = (case bracketed ''Union'' text of
       None \<Rightarrow> text
     | Some inner \<Rightarrow> (case not_none (split_annotation_args inner) of [p] \<Rightarrow> p | _ \<Rightarrow> text))"

definition drop_bar_none :: "string \<Rightarrow> string" where
  "drop_bar_none text =
     (if CHR ''|'' \<in> set text \<and> str_in ''None'' text
      then case not_none (map py_strip (split_on CHR ''|'' text)) of [p] \<Rightarrow> p | _ \<Rightarrow> text
      else text)"

definition prefix_step :: "(string \<Rightarrow> string) \<Rightarrow> string \<Rightarrow> string" where
  "prefix_step step text = strip_annotation_prefix (step text)"

definition normalize_annotation_text :: "string \<Rightarrow> string" where
  "normalize_annotation_text text = fold prefix_step [drop_annotated, drop_optional, drop_union, drop_bar_none]
     (strip_annotation_prefix text)"

definition scalar_option :: "pyrt \<Rightarrow> pyval \<Rightarrow> pyval" where
  "scalar_option rt v = (case v of
       PStr _ \<Rightarrow> v | PInt _ \<Rightarrow> v | PFloat _ \<Rightarrow> v | PBool _ \<Rightarrow> v | PNone \<Rightarrow> v | _ \<Rightarrow> PStr (py_str rt v))"

definition parse_literal_options :: "pyrt \<Rightarrow> (string \<Rightarrow> pyval option) \<Rightarrow> string \<Rightarrow> pyval list" where
  "parse_literal_options rt literal text =
     (let inner = py_strip (drop (length ''Literal['') (butlast text))
      in if inner = [] then []
         else case literal (''('' @ inner @ '')'') of
             None \<Rightarrow> []
           | Some (PTuple xs) \<Rightarrow> map (scalar_option rt) xs
           | Some v \<Rightarrow> [scalar_option rt v])"

record annotation_info =
  an_label :: string
  an_input :: string
  an_options :: "pyval list"

definition SCALAR_INPUTS :: "string list" where
  "SCALAR_INPUTS = [''bool'', ''int'', ''float'', ''str'']"

definition LIST_INPUTS :: "string list" where
  "LIST_INPUTS = [''collection'', ''iterable'', ''list'', ''mutablesequence'', ''sequence'', ''set'', ''tuple'', ''frozenset'']"

definition DICT_INPUTS :: "string list" where
  "DICT_INPUTS = [''dict'', ''mapping'', ''mutablemapping'']"

text \<open>The label of a text is the text itself.\<close>

definition annotation_info_from_text :: "pyrt \<Rightarrow> (string \<Rightarrow> pyval option) \<Rightarrow> string \<Rightarrow> annotation_info" where
  "annotation_info_from_text rt literal text =
     (let normalized = normalize_annotation_text text;
          base = py_lower (py_strip (before CHR ''['' normalized));
          options = (if base = ''literal'' \<and> ends_with '']'' normalized then parse_literal_options rt literal normalized else [])
      in if base \<in> set SCALAR_INPUTS then \<lparr>an_label = text, an_input = base, an_options = []\<rparr>
         else if base \<in> set LIST_INPUTS then \<lparr>an_label = text, an_input = ''json-list'', an_options = []\<rparr>
         else if base \<in> set DICT_INPUTS then \<lparr>an_label = text, an_input = ''json-dict'', an_options = []\<rparr>
         else if options \<noteq> [] then \<lparr>an_label = text, an_input = ''select'', an_options = options\<rparr>
         else \<lparr>an_label = text, an_input = ''text'', an_options = []\<rparr>)"

section \<open>Annotations as objects\<close>

text \<open>What \<open>typing\<close> says of an annotation: its origin with its arguments, and the text of the others. A class is
  known by its name and what \<open>_is_sequence_type\<close> and \<open>_is_mapping_type\<close> say of it.\<close>

datatype class_kind = SequenceClass | MappingClass | PlainClass

datatype annotation =
    NoAnnotation
  | AnyType
  | NoneType
  | AText string
  | AClass string class_kind
  | AGeneric string class_kind "annotation list" string
  | ALiteral "pyval list"
  | AUnion "annotation list"
  | AAnnotated annotation string
  | AOther string

definition unwrap_annotated :: "annotation \<Rightarrow> annotation" where
  "unwrap_annotated a = (case a of AAnnotated b t \<Rightarrow> b | _ \<Rightarrow> a)"

definition strip_optional :: "annotation \<Rightarrow> annotation \<times> bool" where
  "strip_optional a = (case a of
       AUnion args \<Rightarrow> (case filter (\<lambda>x. x \<noteq> NoneType) args of [b] \<Rightarrow> (b, True) | _ \<Rightarrow> (a, False))
     | _ \<Rightarrow> (a, False))"

lemma strip_optional_size: "size (fst (strip_optional a)) \<le> size a"
proof (cases a)
  case (AUnion args)
  then show ?thesis
  proof (cases "filter (\<lambda>x. x \<noteq> NoneType) args")
    case (Cons b bs)
    then have "b \<in> set args" by (metis filter_eq_ConsD in_set_conv_decomp)
    then have "size b \<le> size_list size args" by (rule size_list_estimation') simp
    then show ?thesis using AUnion Cons by (cases bs) (simp_all add: strip_optional_def)
  qed (simp add: strip_optional_def)
qed (simp_all add: strip_optional_def)

lemma unwrap_size: "size (unwrap_annotated a) \<le> size a"
  by (cases a) (simp_all add: unwrap_annotated_def)

lemma stripped_size: "size (fst (strip_optional (unwrap_annotated a))) \<le> size a"
  using strip_optional_size unwrap_size le_trans by blast

lemma stripped_args:
  assumes "x \<in> set args"
    and "fst (strip_optional (unwrap_annotated a)) = AGeneric n k args t \<or> fst (strip_optional (unwrap_annotated a)) = AUnion args"
  shows "size x < size a"
proof -
  have "size x \<le> size_list size args" using assms(1) by (rule size_list_estimation') simp
  then show ?thesis using assms(2) stripped_size[of a] by (auto dest: arg_cong[of _ _ size])
qed

text \<open>\<open>_annotation_label\<close>. A generic class other than list, tuple, set and dict is shown by its text.\<close>

function annotation_label :: "pyrt \<Rightarrow> annotation \<Rightarrow> string" where
  "annotation_label rt a =
     (if a = NoAnnotation then ''unknown''
      else case fst (strip_optional (unwrap_annotated a)) of
          NoAnnotation \<Rightarrow> ''_empty''
        | AnyType \<Rightarrow> ''any''
        | NoneType \<Rightarrow> ''NoneType''
        | AText t \<Rightarrow> t
        | AClass n k \<Rightarrow> n
        | AGeneric n k args t \<Rightarrow>
            (if n \<in> set [''list'', ''tuple'', ''set'']
             then n @ ''['' @ (case map (annotation_label rt) args of [] \<Rightarrow> ''object'' | l # _ \<Rightarrow> l) @ '']''
             else if n = ''dict''
             then (case map (annotation_label rt) args of
                     [] \<Rightarrow> ''dict[object, object]''
                   | [k] \<Rightarrow> ''dict['' @ k @ '', object]''
                   | k # v # _ \<Rightarrow> ''dict['' @ k @ '', '' @ v @ '']'')
             else t)
        | ALiteral items \<Rightarrow> ''Literal['' @ join '', '' (map (py_str rt) items) @ '']''
        | AUnion args \<Rightarrow> ''Union['' @ join '', '' (map (annotation_label rt) args) @ '']''
        | AAnnotated b t \<Rightarrow> t
        | AOther t \<Rightarrow> t)"
  by pat_completeness auto
termination
  by (relation "measure (\<lambda>(rt, a). size a)") (auto intro: stripped_args)

declare annotation_label.simps [simp del]

definition SIMPLE_CLASSES :: "string list" where "SIMPLE_CLASSES = [''bool'', ''int'', ''float'', ''str'']"

definition simple_annotation :: "annotation \<Rightarrow> (string \<times> string) option" where
  "simple_annotation a = (case a of
       AnyType \<Rightarrow> Some (''any'', ''text'')
     | AClass n k \<Rightarrow> (if n \<in> set SIMPLE_CLASSES then Some (n, n) else None)
     | _ \<Rightarrow> None)"

definition class_of :: "annotation \<Rightarrow> class_kind" where
  "class_of a = (case a of AClass n k \<Rightarrow> k | AGeneric n k args t \<Rightarrow> k | _ \<Rightarrow> PlainClass)"

definition annotation_info_from_object :: "pyrt \<Rightarrow> annotation \<Rightarrow> annotation_info" where
  "annotation_info_from_object rt a = (case simple_annotation a of
       Some (label, inp) \<Rightarrow> \<lparr>an_label = label, an_input = inp, an_options = []\<rparr>
     | None \<Rightarrow> (let label = annotation_label rt a in case class_of a of
           SequenceClass \<Rightarrow> \<lparr>an_label = label, an_input = ''json-list'', an_options = []\<rparr>
         | MappingClass \<Rightarrow> \<lparr>an_label = label, an_input = ''json-dict'', an_options = []\<rparr>
         | PlainClass \<Rightarrow> (case a of
               ALiteral items \<Rightarrow> \<lparr>an_label = label, an_input = ''select'', an_options = map (scalar_option rt) items\<rparr>
             | _ \<Rightarrow> \<lparr>an_label = label, an_input = ''text'', an_options = []\<rparr>)))"

definition annotation_info_of :: "pyrt \<Rightarrow> (string \<Rightarrow> pyval option) \<Rightarrow> annotation \<Rightarrow> annotation_info" where
  "annotation_info_of rt literal a =
     (if a = NoAnnotation then \<lparr>an_label = ''unknown'', an_input = ''text'', an_options = []\<rparr>
      else case fst (strip_optional (unwrap_annotated a)) of
          AText t \<Rightarrow> annotation_info_from_text rt literal t
        | b \<Rightarrow> annotation_info_from_object rt b)"

section \<open>Tasks\<close>

datatype param_kind = PositionalOnly | PositionalOrKeyword | KeywordOnly | VarPositional | VarKeyword

fun kind_label :: "param_kind \<Rightarrow> string" where
  "kind_label PositionalOnly = ''positional_only''"
| "kind_label PositionalOrKeyword = ''positional_or_keyword''"
| "kind_label KeywordOnly = ''keyword_only''"
| "kind_label VarPositional = ''var_positional''"
| "kind_label VarKeyword = ''var_keyword''"

text \<open>A parameter of a signature; the default is the text of the value.\<close>

record parameter =
  par_name :: string
  par_kind :: param_kind
  par_annotation :: annotation
  par_default :: "string option"

text \<open>What is read of a registered task: the truth of its attribute \<open>bind\<close>, the signature of what it runs (None
  without one), its documentation, and the values a queue is looked for in (\<open>_get_exec_options\<close> is None
  where it is missing or raises).\<close>

record task_def =
  td_bind :: bool
  td_signature :: "parameter list option"
  td_doc :: "string option"
  td_queue :: pyval
  td_options :: pyval
  td_exec_options :: pyval

record task_param =
  tp_name :: string
  tp_kind :: string
  tp_required :: bool
  tp_annotation :: string
  tp_input :: string
  tp_default :: "string option"
  tp_options :: "pyval list"

definition own_params :: "task_def \<Rightarrow> parameter list \<Rightarrow> parameter list" where
  "own_params t params = (case params of
       [] \<Rightarrow> []
     | p # ps \<Rightarrow> (if par_name p \<in> set [''self'', ''task''] \<and> (par_kind p = PositionalOnly \<or> par_kind p = PositionalOrKeyword) \<and> td_bind t
                   then ps else params))"

definition task_param_of :: "pyrt \<Rightarrow> (string \<Rightarrow> pyval option) \<Rightarrow> parameter \<Rightarrow> task_param" where
  "task_param_of rt literal p =
     (let info = annotation_info_of rt literal (par_annotation p)
      in \<lparr>tp_name = par_name p, tp_kind = kind_label (par_kind p),
           tp_required = (par_default p = None \<and> par_kind p \<noteq> VarPositional \<and> par_kind p \<noteq> VarKeyword),
           tp_annotation = an_label info, tp_input = an_input info, tp_default = par_default p, tp_options = an_options info\<rparr>)"

definition task_params :: "pyrt \<Rightarrow> (string \<Rightarrow> pyval option) \<Rightarrow> task_def \<Rightarrow> parameter list \<Rightarrow> task_param list" where
  "task_params rt literal t signature = map (task_param_of rt literal) (own_params t signature)"

section \<open>Queues\<close>

definition coerce_queue_value :: "pyrt \<Rightarrow> pyval \<Rightarrow> string option" where
  "coerce_queue_value rt v = (if v = PNone then None else opt_text (py_strip (py_str rt v)))"

definition queue_from_mapping :: "pyrt \<Rightarrow> pyval \<Rightarrow> string option" where
  "queue_from_mapping rt options = (case options of PDict d \<Rightarrow> coerce_queue_value rt (pget d ''queue'') | _ \<Rightarrow> None)"

definition app_default_queue :: "pyrt \<Rightarrow> app option \<Rightarrow> string option" where
  "app_default_queue rt a = (case a of None \<Rightarrow> None | Some a \<Rightarrow> coerce_queue_value rt (conf_get a ''task_default_queue''))"

fun first_some :: "'a option list \<Rightarrow> 'a option" where
  "first_some [] = None"
| "first_some (Some x # xs) = Some x"
| "first_some (None # xs) = first_some xs"

definition task_default_queue :: "pyrt \<Rightarrow> task_def option \<Rightarrow> app option \<Rightarrow> string option" where
  "task_default_queue rt t a = (case t of
       None \<Rightarrow> app_default_queue rt a
     | Some t \<Rightarrow> first_some [coerce_queue_value rt (td_queue t), queue_from_mapping rt (td_options t),
         queue_from_mapping rt (td_exec_options t), app_default_queue rt a])"

text \<open>The tasks registered with an app are a dictionary, a parameter of the model.\<close>

type_synonym task_maps = "app \<Rightarrow> (string, task_def) pydict"

fun resolve_task_entry :: "task_maps \<Rightarrow> string \<Rightarrow> app list \<Rightarrow> (task_def \<times> app) option" where
  "resolve_task_entry tasks name [] = None"
| "resolve_task_entry tasks name (a # apps) = (case dget (tasks a) name of
       Some t \<Rightarrow> Some (t, a)
     | None \<Rightarrow> resolve_task_entry tasks name apps)"

text \<open>An unknown task goes to the first app.\<close>

definition task_entry :: "task_maps \<Rightarrow> app list \<Rightarrow> string \<Rightarrow> task_def option \<times> app option" where
  "task_entry tasks apps name = (case resolve_task_entry tasks name apps of
       Some (t, a) \<Rightarrow> (Some t, Some a)
     | None \<Rightarrow> (None, case apps of [] \<Rightarrow> None | a # _ \<Rightarrow> Some a))"

record task_schema =
  ts_params :: "task_param list"
  ts_doc :: "string option"
  ts_queue :: "string option"

definition add_entries :: "task_maps \<Rightarrow> app \<Rightarrow> (string, task_def \<times> app) pydict \<Rightarrow> (string, task_def \<times> app) pydict" where
  "add_entries tasks a lookup =
     fold (\<lambda>(n, t) m. if starts_with ''celery.'' n \<or> dget m n \<noteq> None then m else dset n (t, a) m) (tasks a) lookup"

definition task_lookup :: "task_maps \<Rightarrow> app list \<Rightarrow> (string, task_def \<times> app) pydict" where
  "task_lookup tasks apps = fold (add_entries tasks) apps []"

definition schema_of :: "pyrt \<Rightarrow> (string \<Rightarrow> pyval option) \<Rightarrow> (task_def \<times> app) option \<Rightarrow> task_schema" where
  "schema_of rt literal entry = (case entry of
       None \<Rightarrow> \<lparr>ts_params = [], ts_doc = None, ts_queue = None\<rparr>
     | Some (t, a) \<Rightarrow> \<lparr>ts_params = (case td_signature t of None \<Rightarrow> [] | Some s \<Rightarrow> task_params rt literal t s),
         ts_doc = td_doc t, ts_queue = task_default_queue rt (Some t) (Some a)\<rparr>)"

definition build_task_schemas :: "pyrt \<Rightarrow> (string \<Rightarrow> pyval option) \<Rightarrow> task_maps \<Rightarrow> app list \<Rightarrow> string list \<Rightarrow> (string, task_schema) pydict" where
  "build_task_schemas rt literal tasks apps names =
     fold (\<lambda>n. dset n (schema_of rt literal (dget (task_lookup tasks apps) n))) names []"

section \<open>Submit, retry and revoke\<close>

text \<open>\<open>submit_task\<close> is \<open>send_task\<close> of celery_root/core/engine/tasks.py with a queue.\<close>

record submission = send_call +
  call_queue :: "string option"

definition submit_task :: "(app \<Rightarrow> submission \<Rightarrow> pyexc + 'r) \<Rightarrow> (string, app) pydict \<Rightarrow> submission \<Rightarrow> pyexc + 'r" where
  "submit_task app_send registry c = ebind (get_app registry (call_worker c)) (\<lambda>a. app_send a c)"

text \<open>\<open>n\<close> times the same; the first exception ends it. A run is the calls made and how they ended.\<close>

fun submit_times :: "(submission \<Rightarrow> pyexc + 'r) \<Rightarrow> submission \<Rightarrow> nat \<Rightarrow> submission list \<times> (pyexc + unit)" where
  "submit_times send c 0 = ([], Inr ())"
| "submit_times send c (Suc n) = (case send c of
       Inl e \<Rightarrow> ([c], Inl e)
     | Inr _ \<Rightarrow> (let (calls, r) = submit_times send c n in (c # calls, r)))"

datatype task_reply = SubmitPage "string list" "(string, task_schema) pydict" | Refused string | NoSuchTask | TasksPage | TaskPage string

type_synonym submit_run = "submission list \<times> (pyexc + task_reply)"

definition repeat_of :: "pyrt \<Rightarrow> (string, string) pydict \<Rightarrow> int" where
  "repeat_of rt post = (case rt_int rt (dget_or post ''repeat'' ''1'') of None \<Rightarrow> 1 | Some n \<Rightarrow> max 1 (min n 100))"

definition post_submit :: "pyrt \<Rightarrow> (string \<Rightarrow> pyval option) \<Rightarrow> task_maps \<Rightarrow> (app \<Rightarrow> submission \<Rightarrow> pyexc + 'r) \<Rightarrow>
    (string, app) pydict \<Rightarrow> (string, string) pydict \<Rightarrow> submit_run" where
  "post_submit rt literal tasks app_send registry post =
     (let name = py_strip (dget_or post ''task_name'' [])
      in if name = [] then ([], Inr (Refused ''Task name is required''))
         else case task_entry tasks (get_apps registry) name of
             (_, None) \<Rightarrow> ([], Inr (Refused ''No Celery workers configured''))
           | (t, Some a) \<Rightarrow>
               (let queue = opt_text (py_strip (dget_or post ''queue'' []));
                    c = \<lparr>call_worker = app_name rt a, call_name = name,
                         call_args = form_args rt literal (dget_or post ''args'' []),
                         call_kwargs = form_kwargs rt literal (dget_or post ''kwargs'' []),
                         call_queue = (if queue = None then task_default_queue rt t (Some a) else queue)\<rparr>;
                    (calls, r) = submit_times (submit_task app_send registry) c (nat (repeat_of rt post))
                in (calls, ebind r (\<lambda>_. Inr TasksPage))))"

definition submit_form :: "pyrt \<Rightarrow> (string \<Rightarrow> pyval option) \<Rightarrow> task_maps \<Rightarrow> (string, app) pydict \<Rightarrow> task_reply" where
  "submit_form rt literal tasks registry =
     (let apps = get_apps registry; names = web_task_names (\<lambda>a. map fst (tasks a)) apps
      in SubmitPage names (build_task_schemas rt literal tasks apps names))"

text \<open>\<open>task_submit\<close>: None is a request that is not a POST.\<close>

definition task_submit :: "pyrt \<Rightarrow> (string \<Rightarrow> pyval option) \<Rightarrow> task_maps \<Rightarrow> (app \<Rightarrow> submission \<Rightarrow> pyexc + 'r) \<Rightarrow>
    (string, app) pydict \<Rightarrow> (string, string) pydict option \<Rightarrow> submit_run" where
  "task_submit rt literal tasks app_send registry posted = (case posted of
       Some post \<Rightarrow> post_submit rt literal tasks app_send registry post
     | None \<Rightarrow> ([], Inr (submit_form rt literal tasks registry)))"

definition stripped_args_of :: "pyrt \<Rightarrow> (string \<Rightarrow> pyval option) \<Rightarrow> task \<Rightarrow> pyval list" where
  "stripped_args_of rt literal t = map strip_ellipsis (form_args rt literal (or_str (tk_args t) []))"

definition stripped_kwargs_of :: "pyrt \<Rightarrow> (string \<Rightarrow> pyval option) \<Rightarrow> task \<Rightarrow> (pyval \<times> pyval) list" where
  "stripped_kwargs_of rt literal t =
     map (\<lambda>(k, v). (k, strip_ellipsis v)) (form_kwargs rt literal (or_str (tk_kwargs t) []))"

definition task_retry :: "pyrt \<Rightarrow> (string \<Rightarrow> pyval option) \<Rightarrow> (app \<Rightarrow> submission \<Rightarrow> pyexc + 'r) \<Rightarrow>
    (string, app) pydict \<Rightarrow> string \<Rightarrow> db \<Rightarrow> submit_run" where
  "task_retry rt literal app_send registry task_id d = (case get_task task_id d of
       None \<Rightarrow> ([], Inr NoSuchTask)
     | Some t \<Rightarrow>
         (if \<not> truthy_str (tk_name t) then ([], Inr (Refused ''Task name unavailable''))
          else case get_apps registry of
              [] \<Rightarrow> ([], Inr (Refused ''No Celery workers configured''))
            | a # _ \<Rightarrow>
                (let c = \<lparr>call_worker = app_name rt a, call_name = the (tk_name t), call_args = stripped_args_of rt literal t,
                          call_kwargs = stripped_kwargs_of rt literal t, call_queue = None\<rparr>
                 in ([c], ebind (submit_task app_send registry c) (\<lambda>_. Inr (TaskPage task_id))))))"

definition task_revoke :: "pyrt \<Rightarrow> (app \<Rightarrow> control_call \<Rightarrow> pyexc + pyval) \<Rightarrow> (string, app) pydict \<Rightarrow> string \<Rightarrow>
    task_reply control_run" where
  "task_revoke rt control registry task_id = (case get_apps registry of
       [] \<Rightarrow> (None, Inr (Refused ''No Celery workers configured''))
     | a # _ \<Rightarrow>
         (let (call, r) = revoke registry (app_name rt a) control task_id False None None
          in (call, ebind r (\<lambda>_. Inr (TaskPage task_id)))))"

end
