(* ===== verification/Task_Form_Facts.thy ===== *)
theory Task_Form_Facts
  imports Task_Forms Toy_Runtime
begin

text \<open>
  Facts on the forms of the task pages: the parts of an annotation, the queue and the app a submitted task goes
  to, how often it is sent, and what a retry makes of the stored arguments.
\<close>

section \<open>Annotations\<close>

text \<open>A part of an annotation: its brackets match, and it has no comma outside them.\<close>

fun annotation_part :: "nat \<Rightarrow> string \<Rightarrow> bool" where
  "annotation_part d [] = (d = 0)"
| "annotation_part d (c # t) =
     (if c = CHR ''['' then annotation_part (d + 1) t
      else if c = CHR '']'' then 0 < d \<and> annotation_part (d - 1) t
      else (c = CHR '','' \<longrightarrow> 0 < d) \<and> annotation_part d t)"

lemma split_args_last: "annotation_part d s \<Longrightarrow> split_args_from d acc s = kept_part (rev s @ acc)"
  by (induction d s arbitrary: acc rule: annotation_part.induct) (auto split: if_splits)

lemma split_args_next:
  "annotation_part d s \<Longrightarrow> split_args_from d acc (s @ CHR '','' # rest) = kept_part (rev s @ acc) @ split_args_from 0 [] rest"
  by (induction d s arbitrary: acc rule: annotation_part.induct) (auto split: if_splits)

lemma kept_strip: "py_strip s = s \<Longrightarrow> s \<noteq> [] \<Longrightarrow> kept_part (rev s) = [s]"
  by (simp add: kept_part_def)

lemma strip_blank: "py_strip (CHR '' '' # s) = py_strip s"
  by (simp add: py_strip_def lstrip_by_def is_space_def)

text \<open>A blank before the first part does not matter.\<close>

lemma split_args_join:
  assumes "ps \<noteq> []" and "\<forall>p \<in> set ps. annotation_part 0 p \<and> py_strip p = p \<and> p \<noteq> []"
    and "b = [] \<or> b = '' ''"
  shows "split_args_from 0 [] (b @ join '', '' ps) = ps"
  using assms
proof (induction ps arbitrary: b rule: induct_list012)
  case (2 p)
  have "annotation_part 0 (b @ p)" using 2 by auto
  then have "split_args_from 0 [] (b @ p) = kept_part (rev (b @ p))" by (simp add: split_args_last)
  also have "\<dots> = [p]" using 2 by (auto simp: kept_part_def strip_blank)
  finally show ?case by simp
next
  case (3 p q ps)
  have p: "annotation_part 0 (b @ p)" using 3 by auto
  have "split_args_from 0 [] (b @ join '', '' (p # q # ps)) = split_args_from 0 [] ((b @ p) @ CHR '','' # ('' '' @ join '', '' (q # ps)))" by simp
  also have "\<dots> = kept_part (rev (b @ p)) @ split_args_from 0 [] ('' '' @ join '', '' (q # ps))"
    using split_args_next[OF p, of "[]"] by simp
  also have "kept_part (rev (b @ p)) = [p]" using 3 by (auto simp: kept_part_def strip_blank)
  also have "split_args_from 0 [] ('' '' @ join '', '' (q # ps)) = q # ps" by (rule 3(2)) (use 3(4) in auto)
  finally show ?case by simp
qed simp

section \<open>Entries\<close>

definition set_default :: "'k \<Rightarrow> 'v \<Rightarrow> ('k, 'v) pydict \<Rightarrow> ('k, 'v) pydict" where
  "set_default k v m = (if dget m k = None then dset k v m else m)"

lemma set_default_get: "dget (set_default k v m) k' = (if k' = k \<and> dget m k = None then Some v else dget m k')"
  by (simp add: set_default_def)

lemma add_each_get:
  "dget (fold (\<lambda>(n, t) m. if starts_with ''celery.'' n \<or> dget m n \<noteq> None then m else dset n (t, a) m) ts m) n =
     (case dget m n of Some e \<Rightarrow> Some e
      | None \<Rightarrow> if starts_with ''celery.'' n then None else map_option (\<lambda>t. (t, a)) (dget ts n))"
proof (induction ts arbitrary: m)
  case (Cons p ts)
  obtain n' t where p: "p = (n', t)" by fastforce
  have step: "(if starts_with ''celery.'' n' \<or> dget m n' \<noteq> None then m else dset n' (t, a) m) =
      (if starts_with ''celery.'' n' then m else set_default n' (t, a) m)" by (simp add: set_default_def)
  show ?case unfolding p fold_simps comp_apply prod.case step Cons.IH
    by (cases "n' = n") (simp_all add: set_default_get split: option.split)
qed (simp split: option.split)

lemma add_entries_get:
  "dget (add_entries tasks a m) n = (case dget m n of Some e \<Rightarrow> Some e
     | None \<Rightarrow> if starts_with ''celery.'' n then None else map_option (\<lambda>t. (t, a)) (dget (tasks a) n))"
  unfolding add_entries_def by (rule add_each_get)

lemma lookup_from:
  assumes "\<not> starts_with ''celery.'' n"
  shows "dget (fold (add_entries tasks) apps m) n = (case dget m n of Some e \<Rightarrow> Some e | None \<Rightarrow> resolve_task_entry tasks n apps)"
  using assms by (induction apps arbitrary: m) (auto simp: add_entries_get split: option.split)

lemma lookup_resolves: "\<not> starts_with ''celery.'' n \<Longrightarrow> dget (task_lookup tasks apps) n = resolve_task_entry tasks n apps"
  by (simp add: task_lookup_def lookup_from)

lemma schemas_get:
  "dget (fold (\<lambda>n. dset n (f n)) names m) n = (if n \<in> set names then Some (f n) else dget m n)"
  by (induction names arbitrary: m) auto

lemma resolved_entry: "resolve_task_entry tasks n apps = Some (t, a) \<Longrightarrow> a \<in> set apps \<and> dget (tasks a) n = Some t"
  by (induction apps) (auto split: option.splits)

lemma resolves: "a \<in> set apps \<Longrightarrow> dget (tasks a) n \<noteq> None \<Longrightarrow> resolve_task_entry tasks n apps \<noteq> None"
  by (induction apps) (auto split: option.splits)

lemma listed_name:
  "n \<in> set (web_task_names (\<lambda>a. map fst (tasks a)) apps) \<longleftrightarrow>
     \<not> starts_with ''celery.'' n \<and> (\<exists>a \<in> set apps. dget (tasks a) n \<noteq> None)"
  by (auto simp: web_task_names_def map_of_eq_None_iff image_iff)

section \<open>The registry\<close>

text \<open>Every app is registered under its name.\<close>

lemma beat_keeps_name: "resolve_name rt (apply_beat_scheduler rt beat a) = resolve_name rt a"
  by (auto simp: apply_beat_scheduler_def resolve_name_def conf_text_def conf_get_def Let_def split: option.split)

definition named_apps :: "pyrt \<Rightarrow> (string, app) pydict \<Rightarrow> bool" where
  "named_apps rt registry = (\<forall>n a. dget registry n = Some a \<longrightarrow> resolve_name rt a = n)"

lemma named_register: "register rt beat im w apps = Inr apps' \<Longrightarrow> named_apps rt apps \<Longrightarrow> named_apps rt apps'"
  by (auto simp: named_apps_def register_def register_app_def ebind_Inr_iff Let_def split: worker_ref.splits option.splits if_splits)

lemma registry_ok:
  "efold (add_path rt beat im) paths apps = Inr registry \<Longrightarrow> named_apps rt apps \<and> dict_ok apps \<Longrightarrow> named_apps rt registry \<and> dict_ok registry"
proof (induction paths arbitrary: apps)
  case (Cons p paths)
  obtain apps' where a: "add_path rt beat im p apps = Inr apps'" "efold (add_path rt beat im) paths apps' = Inr registry"
    using Cons.prems(1) by (auto simp: ebind_Inr_iff)
  have "named_apps rt apps' \<and> dict_ok apps'"
    using a(1) Cons.prems(2) by (auto simp: add_path_def ebind_Inr_iff split: if_splits dest: named_register register_dict_ok)
  with a(2) show ?case by (rule Cons.IH)
qed simp

lemma get_registry_ok: "get_registry rt beat im paths = Inr registry \<Longrightarrow> named_apps rt registry \<and> dict_ok registry"
  unfolding get_registry_def by (erule registry_ok) (simp add: named_apps_def dict_ok_def)

lemma registered_app:
  assumes "named_apps rt registry" and "dict_ok registry" and "a \<in> set (get_apps registry)"
  shows "get_app registry (app_name rt a) = Inr a"
proof -
  obtain n where "(n, a) \<in> set registry" using assms(3) by (auto simp: get_apps_def dvalues_def)
  then have n: "dget registry n = Some a" using assms(2) by (simp add: dict_ok_def)
  then have "resolve_name rt a = n" using assms(1) by (simp add: named_apps_def)
  then show ?thesis using n by (simp add: get_app_def app_name_registered)
qed

section \<open>Sending\<close>

lemma submit_times_run:
  "\<exists>k \<le> n. fst (submit_times send c n) = replicate k c \<and> (snd (submit_times send c n) = Inr () \<longrightarrow> k = n) \<and> (0 < n \<longrightarrow> 0 < k)"
proof (induction n)
  case (Suc n)
  show ?case
  proof (cases "send c")
    case (Inl e) then show ?thesis by (intro exI[of _ 1]) simp
  next
    case (Inr r)
    obtain k where "k \<le> n" "fst (submit_times send c n) = replicate k c" "snd (submit_times send c n) = Inr () \<longrightarrow> k = n"
      using Suc.IH by blast
    then show ?thesis using Inr by (intro exI[of _ "Suc k"]) (auto split: prod.split)
  qed
qed simp

lemma repeat_range: "1 \<le> repeat_of rt post \<and> repeat_of rt post \<le> 100"
  by (simp add: repeat_of_def split: option.split)

text \<open>The call a POST makes, when it is not refused.\<close>

definition posted_call :: "pyrt \<Rightarrow> (string \<Rightarrow> pyval option) \<Rightarrow> task_def option \<Rightarrow> app \<Rightarrow> (string, string) pydict \<Rightarrow> submission" where
  "posted_call rt literal t a post =
     (let queue = opt_text (py_strip (dget_or post ''queue'' []))
      in \<lparr>call_worker = app_name rt a, call_name = py_strip (dget_or post ''task_name'' []),
           call_args = form_args rt literal (dget_or post ''args'' []),
           call_kwargs = form_kwargs rt literal (dget_or post ''kwargs'' []),
           call_queue = (if queue = None then task_default_queue rt t (Some a) else queue)\<rparr>)"

lemma post_submit_cases:
  obtains (refused) m where "post_submit rt literal tasks app_send registry post = ([], Inr (Refused m))"
  | (sent) t a where "task_entry tasks (get_apps registry) (py_strip (dget_or post ''task_name'' [])) = (t, Some a)"
      "fst (post_submit rt literal tasks app_send registry post) =
         fst (submit_times (submit_task app_send registry) (posted_call rt literal t a post) (nat (repeat_of rt post)))"
      "snd (post_submit rt literal tasks app_send registry post) =
         ebind (snd (submit_times (submit_task app_send registry) (posted_call rt literal t a post) (nat (repeat_of rt post)))) (\<lambda>_. Inr TasksPage)"
proof (cases "py_strip (dget_or post ''task_name'' []) = []")
  case True
  then show ?thesis by (intro refused) (simp add: post_submit_def)
next
  case False
  obtain t a' where e: "task_entry tasks (get_apps registry) (py_strip (dget_or post ''task_name'' [])) = (t, a')" by fastforce
  show ?thesis
  proof (cases a')
    case None
    then show ?thesis using False e by (intro refused) (simp add: post_submit_def Let_def)
  next
    case (Some a)
    have "post_submit rt literal tasks app_send registry post =
        (let (calls, r) = submit_times (submit_task app_send registry) (posted_call rt literal t a post) (nat (repeat_of rt post))
         in (calls, ebind r (\<lambda>_. Inr TasksPage)))"
      using False e Some by (simp add: post_submit_def Let_def posted_call_def)
    then show ?thesis using e Some by (intro sent) (simp_all add: case_prod_beta)
  qed
qed

section \<open>Retrying\<close>

fun no_ellipsis :: "pyval \<Rightarrow> bool" where
  "no_ellipsis (PModel m) = (PModel m \<noteq> ELLIPSIS)"
| "no_ellipsis (PList xs) = list_all no_ellipsis xs"
| "no_ellipsis (PTuple xs) = list_all no_ellipsis xs"
| "no_ellipsis (PDict d) = list_all (\<lambda>(k, v). no_ellipsis v) d"
| "no_ellipsis v = True"

lemma strip_no_ellipsis: "no_ellipsis (strip_ellipsis v)"
  by (induction v rule: strip_ellipsis.induct) (auto simp: list_all_iff)

lemma strip_ellipsis_fixed: "no_ellipsis (strip_ellipsis v) \<and> strip_ellipsis (strip_ellipsis v) = strip_ellipsis v"
  by (induction v rule: strip_ellipsis.induct) (auto simp: list_all_iff)

section \<open>The properties\<close>

text \<open>The parts of an annotation are found again, whatever brackets they contain.\<close>

theorem annotation_args_roundtrip:
  assumes "\<forall>p \<in> set ps. annotation_part 0 p \<and> py_strip p = p \<and> p \<noteq> []"
  shows "split_annotation_args (join '', '' ps) = ps"
proof (cases "ps = []")
  case True
  then show ?thesis by (simp add: split_annotation_args_def kept_part_def py_strip_def lstrip_by_def rstrip_by_def)
next
  case False
  then show ?thesis using split_args_join[OF _ assms, of "[]"] by (simp add: split_annotation_args_def)
qed

lemma annotation_args_roundtrip_witness:
  "split_annotation_args ''int, dict[str, list[int]], None'' = [''int'', ''dict[str, list[int]]'', ''None'']"
proof -
  have "\<forall>p \<in> set [''int'', ''dict[str, list[int]]'', ''None'']. annotation_part 0 p \<and> py_strip p = p \<and> p \<noteq> []"
    by code_simp
  from annotation_args_roundtrip[OF this] show ?thesis by simp
qed

text \<open>C35: A task sent with a blank queue field goes to the queue the form shows for it, at an app of the registry that
  has the task.\<close>

theorem blank_queue_as_shown:
  assumes "get_registry rt beat im paths = Inr registry"
    and "submit_form rt literal tasks registry = SubmitPage names schemas"
    and "py_strip (dget_or post ''task_name'' []) \<in> set names" and "py_strip (dget_or post ''queue'' []) = []"
    and "c \<in> set (fst (post_submit rt literal tasks app_send registry post))"
  shows "\<exists>s a. dget schemas (call_name c) = Some s \<and> call_queue c = ts_queue s \<and>
     get_app registry (call_worker c) = Inr a \<and> dget (tasks a) (call_name c) \<noteq> None"
proof -
  let ?n = "py_strip (dget_or post ''task_name'' [])"
  have names: "names = web_task_names (\<lambda>a. map fst (tasks a)) (get_apps registry)"
    and schemas: "schemas = build_task_schemas rt literal tasks (get_apps registry) names"
    using assms(2) by (auto simp: submit_form_def Let_def)
  have n: "\<not> starts_with ''celery.'' ?n" "resolve_task_entry tasks ?n (get_apps registry) \<noteq> None"
    using assms(3) resolves unfolding names listed_name by blast+
  then obtain t a where e: "resolve_task_entry tasks ?n (get_apps registry) = Some (t, a)" by fastforce
  then have a: "a \<in> set (get_apps registry)" "dget (tasks a) ?n = Some t" using resolved_entry by fast+
  have schema: "dget schemas ?n = Some (schema_of rt literal (Some (t, a)))"
    using assms(3) n(1) e by (simp add: schemas build_task_schemas_def schemas_get lookup_resolves)
  have c: "c = posted_call rt literal (Some t) a post"
  proof (cases rule: post_submit_cases[of rt literal tasks app_send registry post])
    case (refused m)
    then show ?thesis using assms(5) by simp
  next
    case (sent t' a')
    have "t' = Some t" "a' = a" using sent(1) e by (simp_all add: task_entry_def)
    moreover obtain k where "fst (post_submit rt literal tasks app_send registry post) = replicate k (posted_call rt literal t' a' post)"
      using submit_times_run sent(2) by metis
    ultimately show ?thesis using assms(5) by simp
  qed
  have "call_name c = ?n" "call_worker c = app_name rt a" "call_queue c = ts_queue (schema_of rt literal (Some (t, a)))"
    using assms(4) by (simp_all add: c posted_call_def Let_def schema_of_def opt_text_def)
  moreover have "get_app registry (app_name rt a) = Inr a"
    using get_registry_ok[OF assms(1)] a(1) by (intro registered_app) simp_all
  ultimately show ?thesis using schema a(2) by auto
qed

text \<open>C36: A form sends one task, over and over: at most a hundred times, exactly as often as asked (clamped to 1..100)
  when no sending fails, and not at all only when it is refused.\<close>

theorem submissions_bounded:
  "let run = post_submit rt literal tasks app_send registry post in
     \<exists>c k. fst run = replicate k c \<and> int k \<le> repeat_of rt post \<and> repeat_of rt post \<le> 100 \<and>
     (snd run = Inr TasksPage \<longrightarrow> int k = repeat_of rt post) \<and> (k = 0 \<longrightarrow> (\<exists>m. snd run = Inr (Refused m)))"
proof (cases rule: post_submit_cases[of rt literal tasks app_send registry post])
  case (refused m)
  then show ?thesis using repeat_range[of rt post] unfolding Let_def by (intro exI[of _ undefined] exI[of _ 0]) simp
next
  case (sent t a)
  let ?s = "submit_times (submit_task app_send registry) (posted_call rt literal t a post) (nat (repeat_of rt post))"
  obtain k where k: "k \<le> nat (repeat_of rt post)" "fst ?s = replicate k (posted_call rt literal t a post)"
      "snd ?s = Inr () \<longrightarrow> k = nat (repeat_of rt post)" "0 < nat (repeat_of rt post) \<longrightarrow> 0 < k"
    using submit_times_run by blast
  have "snd (post_submit rt literal tasks app_send registry post) = Inr TasksPage \<Longrightarrow> snd ?s = Inr ()"
    using sent(3) by (simp add: ebind_Inr_iff)
  then show ?thesis using k sent(2) repeat_range[of rt post]
    unfolding Let_def by (intro exI[of _ "posted_call rt literal t a post"] exI[of _ k]) auto
qed

text \<open>C37: Arguments that cannot be read are sent again as none by the retry of the task page, and as one text by
  the retry of the task graph.\<close>

theorem unreadable_args_dropped:
  assumes "get_task i d = Some t" and "tk_name t = Some n" and "n \<noteq> []" and "tk_worker t = Some w" and "tk_args t = Some s" and "s \<noteq> []"
    and "rt_loads rt s = None" and "literal s = None" and "get_apps registry \<noteq> []"
  shows "(\<exists>c. fst (task_retry rt literal app_send registry i d) = [c] \<and> call_name c = n \<and> call_args c = []) \<and>
     (\<exists>c. resend rt d i = Some c \<and> call_name c = n \<and> call_args c = [PStr s])"
proof (cases "get_apps registry")
  case (Cons a as)
  have "form_args rt literal s = []" using assms by (simp add: form_args_def literal_of_def)
  then show ?thesis using assms Cons
    by (simp add: task_retry_def Let_def truthy_str_def stripped_args_of_def or_str_def resend_def parse_args_def)
qed (use assms in simp)

section \<open>Two apps\<close>

definition shop :: app where
  "shop = \<lparr>app_id = 1, app_main = Some ''shop'', app_conf = []\<rparr>"

definition mail :: app where
  "mail = \<lparr>app_id = 2, app_main = Some ''mail'', app_conf = [(''task_default_queue'', PStr ''letters'')]\<rparr>"

definition two_apps :: "(string, app) pydict" where
  "two_apps = [(''shop'', shop), (''mail'', mail)]"

definition two_modules :: "string \<Rightarrow> pyexc + (string, loaded) pydict" where
  "two_modules m = Inr [(''shop'', AppObj shop), (''mail'', AppObj mail)]"

definition send_letter :: task_def where
  "send_letter = \<lparr>td_bind = False,
     td_signature = Some [\<lparr>par_name = ''address'', par_kind = PositionalOrKeyword, par_annotation = AText ''Optional[str]'', par_default = None\<rparr>],
     td_doc = None, td_queue = PNone, td_options = PNone, td_exec_options = PNone\<rparr>"

definition mail_tasks :: task_maps where
  "mail_tasks a = (if app_id a = 2 then [(''send_letter'', send_letter)] else [])"

definition letter_post :: "(string, string) pydict" where
  "letter_post = [(''task_name'', ''send_letter''), (''args'', ''['')]"

lemma two_registered: "get_registry toy_rt None two_modules [''app:shop'', ''app:mail''] = Inr two_apps"
  by code_simp

lemma letter_run: "fst (post_submit toy_rt (\<lambda>s. None) mail_tasks (\<lambda>a c. Inr ()) two_apps letter_post) =
    [\<lparr>call_worker = ''mail'', call_name = ''send_letter'', call_args = [], call_kwargs = [], call_queue = Some ''letters''\<rparr>]"
  by code_simp

lemma letter_listed: "web_task_names (\<lambda>a. map fst (mail_tasks a)) (get_apps two_apps) = [''send_letter'']"
  by code_simp

lemma letter_fields: "py_strip (dget_or letter_post ''task_name'' []) = ''send_letter''" "py_strip (dget_or letter_post ''queue'' []) = []"
  by code_simp+

lemma blank_queue_as_shown_witness:
  "\<exists>s. dget (build_task_schemas toy_rt (\<lambda>s. None) mail_tasks (get_apps two_apps) [''send_letter'']) ''send_letter'' = Some s \<and>
     ts_queue s = Some ''letters''"
proof -
  have form: "submit_form toy_rt (\<lambda>s. None) mail_tasks two_apps =
      SubmitPage [''send_letter''] (build_task_schemas toy_rt (\<lambda>s. None) mail_tasks (get_apps two_apps) [''send_letter''])"
    unfolding submit_form_def Let_def letter_listed ..
  let ?c = "\<lparr>call_worker = ''mail'', call_name = ''send_letter'', call_args = [], call_kwargs = [], call_queue = Some ''letters''\<rparr>"
  have "?c \<in> set (fst (post_submit toy_rt (\<lambda>s. None) mail_tasks (\<lambda>a c. Inr ()) two_apps letter_post))"
    unfolding letter_run by (rule list.set_intros(1))
  moreover have "py_strip (dget_or letter_post ''task_name'' []) \<in> set [''send_letter'']" by (simp add: letter_fields(1))
  ultimately obtain s where
    "dget (build_task_schemas toy_rt (\<lambda>s. None) mail_tasks (get_apps two_apps) [''send_letter'']) (call_name ?c) = Some s"
    "call_queue ?c = ts_queue s"
    using blank_queue_as_shown[OF two_registered form _ letter_fields(2)] by blast
  then show ?thesis by (intro exI[of _ s]) simp
qed

lemma submissions_bounded_witness:
  "length (fst (post_submit toy_rt (\<lambda>s. None) mail_tasks (\<lambda>a c. Inr ()) two_apps letter_post)) = 1 \<and>
   repeat_of toy_rt letter_post \<le> 100"
proof -
  have "snd (post_submit toy_rt (\<lambda>s. None) mail_tasks (\<lambda>a c. Inr ()) two_apps letter_post) = Inr TasksPage" by code_simp
  moreover have "repeat_of toy_rt letter_post = 1" by code_simp
  ultimately show ?thesis
    using submissions_bounded[of toy_rt "\<lambda>s. None" mail_tasks "\<lambda>a c. Inr ()" two_apps letter_post]
    unfolding Let_def by (elim exE conjE) simp
qed

text \<open>The retry of a task page goes to the first app, which need not have the task.\<close>

lemma retry_first_app:
  "get_task i d = Some t \<Longrightarrow> tk_name t = Some n \<Longrightarrow> n \<noteq> [] \<Longrightarrow>
   map call_worker (fst (task_retry rt literal app_send two_apps i d)) = [''shop''] \<and> dget (mail_tasks shop) ''send_letter'' = None"
  by (simp add: task_retry_def truthy_str_def two_apps_def get_apps_def dvalues_def Let_def app_name_def shop_def or_str_def
      mail_tasks_def)

definition cut_event :: task_event where
  "cut_event = (new_task_event ''t'' (Some ''send_letter'') ''FAILURE'' (utc_dt 0))\<lparr>te_worker := Some ''w'', te_args := Some ''(a,''\<rparr>"

definition cut_db :: db where "cut_db = store_task_event cut_event empty_db"

lemma cut_task: "map_option (\<lambda>t. (tk_name t, tk_worker t, tk_args t)) (get_task ''t'' cut_db) =
    Some (Some ''send_letter'', Some ''w'', Some ''(a,'')"
  by code_simp

lemma unreadable_args_dropped_witness:
  "\<exists>c c'. fst (task_retry toy_rt (\<lambda>s. None) (\<lambda>a c. Inr ()) two_apps ''t'' cut_db) = [c] \<and> call_args c = [] \<and>
     resend toy_rt cut_db ''t'' = Some c' \<and> call_args c' = [PStr ''(a,'']"
proof -
  obtain t where t: "get_task ''t'' cut_db = Some t" "tk_name t = Some ''send_letter''" "tk_worker t = Some ''w''"
      "tk_args t = Some ''(a,''"
    using cut_task by (auto simp only: map_option_eq_Some prod.inject)
  have nonempty: "''send_letter'' \<noteq> []" "''(a,'' \<noteq> []" by simp_all
  have "rt_loads toy_rt ''(a,'' = None" "get_apps two_apps \<noteq> []" by code_simp+
  from unreadable_args_dropped[OF t(1,2) nonempty(1) t(3,4) nonempty(2) this(1) refl this(2), where app_send = "\<lambda>a c. Inr ()"]
  show ?thesis by (elim conjE exE) (intro exI conjI; assumption)
qed

end
