(* ===== verification/Worker_Pages.thy ===== *)
theory Worker_Pages
  imports Broker_Pages Task_Pages
begin

text \<open>
  The worker pages (celery_root/components/web/views/workers.py): the overview with the workers under their
  brokers, the detail page built from the stored row and the last inspector snapshot, and the control
  actions. The reads of one request see one state of the database.
\<close>

section \<open>Rows\<close>

definition OFFLINE_THRESHOLD :: int where "OFFLINE_THRESHOLD = 120 * us_per_second"

definition WORKER_BADGES :: "(string, string) pydict" where
  "WORKER_BADGES = [(''online'', ''badge-success''), (''busy'', ''badge-warning''), (''offline'', ''badge-muted'')]"

definition TASK_BADGES :: "(string, string) pydict" where
  "TASK_BADGES = [(''SUCCESS'', ''badge-success''), (''FAILURE'', ''badge-danger''), (''STARTED'', ''badge-warning''),
     (''PENDING'', ''badge-info''), (''RETRY'', ''badge-warning''), (''REVOKED'', ''badge-muted'')]"

text \<open>\<open>_resolve_status\<close>; the time since the last heartbeat is in microseconds.\<close>

definition resolve_status :: "string \<Rightarrow> int \<Rightarrow> int option \<Rightarrow> string" where
  "resolve_status status active_tasks last_seen =
     (if py_upper status = ''OFFLINE'' then ''offline''
      else if (case last_seen of None \<Rightarrow> False | Some t \<Rightarrow> OFFLINE_THRESHOLD < t) then ''offline''
      else if 0 < active_tasks then ''busy'' else ''online'')"

record page_worker =
  pw_hostname :: string
  pw_status :: string
  pw_pool_size :: int
  pw_active :: int
  pw_registered :: nat
  pw_queues :: "string list"
  pw_last_seen :: "int option"
  pw_concurrency :: int

definition worker_badge :: "page_worker \<Rightarrow> string" where
  "worker_badge w = dget_or WORKER_BADGES (pw_status w) ''badge-muted''"

definition seen_ago :: "pydt \<Rightarrow> worker \<Rightarrow> int option" where
  "seen_ago now w = map_option (\<lambda>t. dt_instant now - dt_instant t) (wk_last_heartbeat w)"

definition page_worker_of :: "pydt \<Rightarrow> worker \<Rightarrow> page_worker" where
  "page_worker_of now w =
     (let active = or_int (wk_active_tasks w) 0; pool_size = or_int (wk_pool_size w) 0
      in \<lparr>pw_hostname = wk_hostname w, pw_status = resolve_status (wk_status w) active (seen_ago now w),
          pw_pool_size = pool_size, pw_active = active,
          pw_registered = length (case wk_registered_tasks w of None \<Rightarrow> [] | Some ts \<Rightarrow> ts),
          pw_queues = worker_queues w, pw_last_seen = seen_ago now w, pw_concurrency = pool_size\<rparr>)"

definition build_workers :: "pyrt \<Rightarrow> pydt \<Rightarrow> db \<Rightarrow> page_worker list" where
  "build_workers rt now d = map (page_worker_of now) (get_workers rt d)"

definition find_worker :: "string \<Rightarrow> page_worker list \<Rightarrow> page_worker option" where
  "find_worker hostname workers = find (\<lambda>w. pw_hostname w = hostname) workers"

section \<open>The overview\<close>

text \<open>The workers by name: of two rows with one name the dictionary keeps the later.\<close>

definition worker_lookup :: "page_worker list \<Rightarrow> (string, page_worker) pydict" where
  "worker_lookup workers = fold (\<lambda>w. dset (pw_hostname w) w) workers []"

definition broker_workers :: "(string, page_worker) pydict \<Rightarrow> broker_row \<Rightarrow> page_worker list" where
  "broker_workers lookup row = List.map_filter (dget lookup) (br_workers row)"

record worker_overview =
  ov_broker_tree :: "(broker_row \<times> page_worker list) list"
  ov_unassigned :: "page_worker list"

definition worker_list_fragment :: "pyrt \<Rightarrow> pydt \<Rightarrow> (string, app) pydict \<Rightarrow> db \<Rightarrow> pyexc + worker_overview" where
  "worker_list_fragment rt now registry d =
     (let workers = build_workers rt now d; lookup = worker_lookup workers
      in ebind (list_broker_groups rt registry d) (\<lambda>groups.
         let tree = map (\<lambda>row. (row, broker_workers lookup row)) groups;
             attached = set (map pw_hostname (concat (map snd tree)))
         in Inr \<lparr>ov_broker_tree = tree, ov_unassigned = filter (\<lambda>w. pw_hostname w \<notin> attached) workers\<rparr>))"

section \<open>Registered tasks\<close>

text \<open>\<open>text.split(sep, 1)\<close> when the separator occurs.\<close>

fun split_at_first :: "string \<Rightarrow> string \<Rightarrow> string \<times> string" where
  "split_at_first sep [] = ([], [])"
| "split_at_first sep (c # s) =
     (if starts_with sep (c # s) then ([], drop (length sep) (c # s))
      else let (l, r) = split_at_first sep s in (c # l, r))"

definition add_detail :: "string \<Rightarrow> (string, string) pydict \<Rightarrow> (string, string) pydict" where
  "add_detail token details =
     (if CHR ''='' \<in> set token then dset (before CHR ''='' token) (after CHR ''='' token) details else details)"

definition parse_task_info :: "string \<Rightarrow> string \<times> (string, string) pydict" where
  "parse_task_info entry =
     (if \<not> str_in '' ['' entry \<or> \<not> ends_with '']'' entry then (entry, [])
      else let (name, raw) = split_at_first '' ['' entry
           in (name, fold add_detail (split_ws (butlast raw)) []))"

definition normalize_info :: "string option \<Rightarrow> string option" where
  "normalize_info value = (case value of
       None \<Rightarrow> None
     | Some v \<Rightarrow> (let normalized = py_strip v
                 in if py_lower normalized \<in> set [''none'', ''null'', ''n/a'', []] then None else Some normalized))"

record rate_row =
  ra_name :: string
  ra_rate_limit :: "string option"
  ra_time_limit :: "string option"
  ra_soft_time_limit :: "string option"

definition rate_row_of :: "pyval \<Rightarrow> rate_row list" where
  "rate_row_of entry = (case entry of
       PStr s \<Rightarrow> (let (name, details) = parse_task_info s
                 in [\<lparr>ra_name = name, ra_rate_limit = normalize_info (dget details ''rate_limit''),
                      ra_time_limit = normalize_info (dget details ''time_limit''),
                      ra_soft_time_limit = normalize_info (dget details ''soft_time_limit'')\<rparr>])
     | _ \<Rightarrow> [])"

definition parse_task_rows :: "pyval list \<Rightarrow> rate_row list" where
  "parse_task_rows entries = sort_asc_key ra_name (concat (map rate_row_of entries))"

section \<open>Metadata\<close>

fun get_nested :: "pyval \<Rightarrow> string list \<Rightarrow> pyval" where
  "get_nested current [] = current"
| "get_nested current (k # ks) = (case current of PDict d \<Rightarrow> get_nested (pget d k) ks | _ \<Rightarrow> PNone)"

definition format_seconds :: "pyval \<Rightarrow> string option" where
  "format_seconds v = (case as_number v of
       None \<Rightarrow> None
     | Some x \<Rightarrow>
         (let seconds = truncate_rat x; sec = seconds mod 60; minutes = seconds div 60;
              hours = minutes div 60; minutes = minutes mod 60
          in Some (if hours \<noteq> 0 then show_int hours @ ''h '' @ show_int minutes @ ''m''
                   else if minutes \<noteq> 0 then show_int minutes @ ''m '' @ show_int sec @ ''s''
                   else show_int sec @ ''s'')))"

definition stringify_value :: "pyrt \<Rightarrow> pyval \<Rightarrow> string" where
  "stringify_value rt v = (case v of
       PList xs \<Rightarrow> join '', '' (map (py_str rt) xs)
     | PTuple xs \<Rightarrow> join '', '' (map (py_str rt) xs)
     | PSet xs \<Rightarrow> join '', '' (map (py_str rt) xs)
     | PDict d \<Rightarrow> join '', '' (map (\<lambda>(k, x). py_str rt k @ ''='' @ py_str rt x) d)
     | _ \<Rightarrow> py_str rt v)"

type_synonym meta_row = "string \<times> string"

definition meta :: "pyrt \<Rightarrow> string \<Rightarrow> pyval \<Rightarrow> meta_row list" where
  "meta rt label v = (if v = PNone then [] else [(label, stringify_value rt v)])"

definition redacted_map :: "(pyval \<times> pyval) list \<Rightarrow> (pyval \<times> pyval) list" where
  "redacted_map m = (case redact_access_data (PDict m) of PDict r \<Rightarrow> r | _ \<Rightarrow> m)"

definition total_count :: "pyval \<Rightarrow> pyval" where
  "total_count totals = (case totals of
       PDict d \<Rightarrow> PInt (sum_list (map (\<lambda>v. case as_number v of None \<Rightarrow> 0 | Some x \<Rightarrow> truncate_rat x) (map snd d)))
     | _ \<Rightarrow> PNone)"

definition stats_meta :: "pyrt \<Rightarrow> (pyval \<times> pyval) list \<Rightarrow> meta_row list" where
  "stats_meta rt stats =
     (let nested = get_nested (PDict stats)
      in meta rt ''PID'' (pget stats ''pid'') @
         meta rt ''Uptime'' (case format_seconds (pget stats ''uptime'') of None \<Rightarrow> PNone | Some t \<Rightarrow> PStr t) @
         meta rt ''Clock'' (pget stats ''clock'') @
         meta rt ''Prefetch count'' (pget stats ''prefetch_count'') @
         meta rt ''Pool max concurrency'' (nested [''pool'', ''max-concurrency'']) @
         meta rt ''Pool processes'' (nested [''pool'', ''processes'']) @
         meta rt ''Max tasks per child'' (nested [''pool'', ''max-tasks-per-child'']) @
         meta rt ''Broker transport'' (nested [''broker'', ''transport'']) @
         meta rt ''Broker hostname'' (nested [''broker'', ''hostname'']) @
         meta rt ''Broker port'' (nested [''broker'', ''port'']) @
         meta rt ''CPU user time'' (nested [''rusage'', ''utime'']) @
         meta rt ''CPU system time'' (nested [''rusage'', ''stime'']) @
         meta rt ''Max RSS'' (nested [''rusage'', ''maxrss'']) @
         meta rt ''Tasks accepted'' (total_count (nested [''total''])))"

definition conf_meta :: "pyrt \<Rightarrow> (pyval \<times> pyval) list \<Rightarrow> meta_row list" where
  "conf_meta rt conf = concat (map (\<lambda>(label, key). meta rt label (pget conf key))
     [(''Default queue'', ''task_default_queue''), (''Timezone'', ''timezone''), (''Worker concurrency'', ''worker_concurrency''),
      (''Worker pool'', ''worker_pool''), (''Prefetch multiplier'', ''worker_prefetch_multiplier''),
      (''Task serializer'', ''task_serializer''), (''Result backend'', ''result_backend''),
      (''Result backend transport'', ''result_backend_transport''), (''Result serializer'', ''result_serializer''),
      (''Accept content'', ''accept_content''), (''Task time limit'', ''task_time_limit''),
      (''Task soft limit'', ''task_soft_time_limit''), (''Acks late'', ''task_acks_late'')])"

text \<open>An empty mapping gives no rows.\<close>

definition build_metadata_rows :: "pyrt \<Rightarrow> (pyval \<times> pyval) list option \<Rightarrow> (pyval \<times> pyval) list option \<Rightarrow> meta_row list" where
  "build_metadata_rows rt stats conf =
     (case map_option redacted_map stats of None \<Rightarrow> [] | Some [] \<Rightarrow> [] | Some s \<Rightarrow> stats_meta rt s) @
     (case map_option redacted_map conf of None \<Rightarrow> [] | Some [] \<Rightarrow> [] | Some c \<Rightarrow> conf_meta rt c)"

definition POOL_META_LABELS :: "string list" where
  "POOL_META_LABELS = [''PID'', ''Uptime'', ''Clock'', ''Prefetch count'', ''Pool max concurrency'', ''Pool processes'',
     ''Max tasks per child'']"

definition BROKER_META_LABELS :: "string list" where
  "BROKER_META_LABELS = [''Broker transport'', ''Broker hostname'', ''Broker port'']"

definition BACKEND_META_LABELS :: "string list" where
  "BACKEND_META_LABELS = [''Result backend'', ''Result backend transport'']"

definition SYSTEM_META_LABELS :: "string list" where
  "SYSTEM_META_LABELS = [''CPU user time'', ''CPU system time'', ''Max RSS'']"

definition CONFIG_META_LABELS :: "string list" where
  "CONFIG_META_LABELS = [''Default queue'', ''Timezone'', ''Worker concurrency'', ''Worker pool'', ''Prefetch multiplier'',
     ''Task serializer'', ''Result serializer'', ''Accept content'', ''Task time limit'', ''Task soft limit'', ''Acks late'']"

definition TASK_META_LABELS :: "string list" where
  "TASK_META_LABELS = [''Tasks accepted'']"

record meta_groups =
  mg_pool :: "meta_row list"
  mg_broker :: "meta_row list"
  mg_backend :: "meta_row list"
  mg_system :: "meta_row list"
  mg_config :: "meta_row list"
  mg_task :: "meta_row list"
  mg_other :: "meta_row list"

definition add_meta :: "meta_row \<Rightarrow> meta_groups \<Rightarrow> meta_groups" where
  "add_meta row g =
     (let label = fst row
      in if label \<in> set POOL_META_LABELS then g\<lparr>mg_pool := mg_pool g @ [row]\<rparr>
         else if label \<in> set BROKER_META_LABELS then g\<lparr>mg_broker := mg_broker g @ [row]\<rparr>
         else if label \<in> set BACKEND_META_LABELS then g\<lparr>mg_backend := mg_backend g @ [row]\<rparr>
         else if label \<in> set SYSTEM_META_LABELS then g\<lparr>mg_system := mg_system g @ [row]\<rparr>
         else if label \<in> set CONFIG_META_LABELS then g\<lparr>mg_config := mg_config g @ [row]\<rparr>
         else if label \<in> set TASK_META_LABELS then g\<lparr>mg_task := mg_task g @ [row]\<rparr>
         else g\<lparr>mg_other := mg_other g @ [row]\<rparr>)"

definition split_metadata_rows :: "meta_row list \<Rightarrow> meta_groups" where
  "split_metadata_rows rows = fold add_meta rows
     \<lparr>mg_pool = [], mg_broker = [], mg_backend = [], mg_system = [], mg_config = [], mg_task = [], mg_other = []\<rparr>"

section \<open>The snapshot\<close>

record worker_queue_row =
  wq_name :: string
  wq_exchange :: "string option"
  wq_routing_key :: "string option"

definition worker_queue_row_of :: "pyrt \<Rightarrow> pyval \<Rightarrow> worker_queue_row list" where
  "worker_queue_row_of rt entry = (case entry of
       PDict d \<Rightarrow>
         (let name = pget d ''name'';
              exchange = (case pget d ''exchange'' of PDict e \<Rightarrow> pget e ''name'' | _ \<Rightarrow> PNone);
              routing_key = pget d ''routing_key''
          in [\<lparr>wq_name = (if name = PNone then NO_VALUE else py_str rt name),
               wq_exchange = (if truthy exchange then Some (py_str rt exchange) else None),
               wq_routing_key = (if routing_key = PNone then None else Some (py_str rt routing_key))\<rparr>])
     | _ \<Rightarrow> [])"

definition parse_queue_rows :: "pyrt \<Rightarrow> pyval list \<Rightarrow> worker_queue_row list" where
  "parse_queue_rows rt entries = sort_asc_key wq_name (concat (map (worker_queue_row_of rt) entries))"

definition parse_active_count :: "pyval \<Rightarrow> int option" where
  "parse_active_count v = (case v of PList xs \<Rightarrow> Some (int (length xs)) | _ \<Rightarrow> as_int v)"

text \<open>A list or a tuple: a sequence that is not text.\<close>

fun as_sequence :: "pyval \<Rightarrow> pyval list option" where
  "as_sequence (PList xs) = Some xs"
| "as_sequence (PTuple xs) = Some xs"
| "as_sequence _ = None"

record snapshot_view =
  sv_task_rows :: "rate_row list"
  sv_queue_rows :: "worker_queue_row list"
  sv_metadata_rows :: "meta_row list"
  sv_stats_map :: "(pyval \<times> pyval) list option"
  sv_active_count :: "int option"
  sv_inspect_error :: "string option"
  sv_app_name :: "string option"

definition no_view :: "string \<Rightarrow> snapshot_view" where
  "no_view error = \<lparr>sv_task_rows = [], sv_queue_rows = [], sv_metadata_rows = [], sv_stats_map = None,
     sv_active_count = None, sv_inspect_error = Some error, sv_app_name = None\<rparr>"

definition view_of_info :: "pyrt \<Rightarrow> (pyval \<times> pyval) list \<Rightarrow> snapshot_view" where
  "view_of_info rt info =
     (let stats_map = (case pget info ''stats'' of PDict s \<Rightarrow> s | _ \<Rightarrow> info);
          conf_map = (case pget info ''conf'' of PDict c \<Rightarrow> Some c | _ \<Rightarrow> None)
      in \<lparr>sv_task_rows = (case as_sequence (pget info ''registered'') of None \<Rightarrow> [] | Some xs \<Rightarrow> parse_task_rows xs),
          sv_queue_rows = (case as_sequence (pget info ''queues'') of None \<Rightarrow> [] | Some xs \<Rightarrow> parse_queue_rows rt xs),
          sv_metadata_rows = build_metadata_rows rt (Some stats_map) conf_map, sv_stats_map = Some stats_map,
          sv_active_count = parse_active_count (pget info ''active''), sv_inspect_error = None,
          sv_app_name = (case pget info ''app'' of PStr s \<Rightarrow> Some s | _ \<Rightarrow> None)\<rparr>)"

definition snapshot_worker :: "pyrt \<Rightarrow> string \<Rightarrow> db \<Rightarrow> snapshot_view" where
  "snapshot_worker rt hostname d = (case get_worker_event_snapshot rt hostname d of
       None \<Rightarrow> no_view ''No worker snapshot available.''
     | Some e \<Rightarrow> (case we_info e of
           None \<Rightarrow> no_view ''Worker snapshot payload missing.''
         | Some info \<Rightarrow> view_of_info rt info))"

section \<open>The detail page\<close>

definition fetch_active_rows :: "string \<Rightarrow> db \<Rightarrow> (string \<times> string \<times> string) list" where
  "fetch_active_rows hostname d =
     map (\<lambda>t. (or_str (tk_name t) (tk_task_id t), tk_state t, dget_or TASK_BADGES (tk_state t) ''badge-muted''))
       (get_tasks (Some (no_filter\<lparr>tf_worker := Some hostname, tf_state := Some ''STARTED''\<rparr>)) d)"

definition resolve_pool_size :: "int option \<Rightarrow> (pyval \<times> pyval) list option \<Rightarrow> int option" where
  "resolve_pool_size pool_size stats_map =
     (if pool_size \<noteq> None then pool_size
      else let stats = PDict (case stats_map of None \<Rightarrow> [] | Some m \<Rightarrow> m)
           in case as_int (get_nested stats [''pool'', ''max-concurrency'']) of
                Some n \<Rightarrow> Some n
              | None \<Rightarrow> as_int (get_nested stats [''pool'', ''max_concurrency'']))"

definition resolve_registered_count :: "page_worker \<Rightarrow> (pyval \<times> pyval) list option \<Rightarrow> int" where
  "resolve_registered_count w stats_map =
     (case (if pw_registered w = 0 then stats_map else None) of
        None \<Rightarrow> int (pw_registered w)
      | Some stats \<Rightarrow> (case get_nested (PDict stats) [''total''] of
            PDict totals \<Rightarrow> int (length (filter (\<lambda>v. as_int v \<noteq> None) (map snd totals)))
          | _ \<Rightarrow> int (pw_registered w)))"

definition format_overview_value :: "int option \<Rightarrow> string" where
  "format_overview_value v = (case v of None \<Rightarrow> NO_VALUE | Some n \<Rightarrow> show_int n)"

definition build_overview :: "int option \<Rightarrow> int option \<Rightarrow> int option \<Rightarrow> int option \<Rightarrow> (string \<times> string) list" where
  "build_overview pool_size active_tasks registered concurrency =
     [(''Pool size'', format_overview_value pool_size), (''Active tasks'', format_overview_value active_tasks),
      (''Registered'', format_overview_value registered), (''Concurrency'', format_overview_value concurrency)]"

record broker_detail_view =
  bd_queue_rows :: "queue_row list"
  bd_key :: "string option"
  bd_label :: "string option"
  bd_type_label :: "string option"

definition no_broker_detail :: broker_detail_view where
  "no_broker_detail = \<lparr>bd_queue_rows = [], bd_key = None, bd_label = None, bd_type_label = None\<rparr>"

definition resolve_broker_detail :: "pyrt \<Rightarrow> (string, app) pydict \<Rightarrow> db \<Rightarrow> string option \<Rightarrow> pyexc + broker_detail_view" where
  "resolve_broker_detail rt registry d inspected_app_name =
     (if \<not> truthy_str inspected_app_name then Inr no_broker_detail
      else case get_app registry (the inspected_app_name) of
          Inl e \<Rightarrow> Inr no_broker_detail
        | Inr a \<Rightarrow>
            (let url = shown_broker_url (conf_text rt a ''broker_url'')
             in ebind (broker_type_label url) (\<lambda>label.
                Inr \<lparr>bd_queue_rows = fst (queue_rows_from_db d url), bd_key = Some (encode_broker_key url),
                  bd_label = Some (if url = [] then ''default'' else url), bd_type_label = Some label\<rparr>)))"

record worker_page =
  wg_worker :: page_worker
  wg_overview :: "(string \<times> string) list"
  wg_active_tasks :: "(string \<times> string \<times> string) list"
  wg_task_rows :: "rate_row list"
  wg_queue_rows :: "worker_queue_row list"
  wg_meta :: meta_groups
  wg_broker :: broker_detail_view
  wg_inspect_error :: "string option"

text \<open>\<open>a or b\<close> for a number and an optional one.\<close>

definition int_or :: "int \<Rightarrow> int option \<Rightarrow> int option" where
  "int_or n m = (if n = 0 then m else Some n)"

text \<open>\<open>worker_detail_fragment\<close>: None is the 404 page.\<close>

definition worker_detail_fragment :: "pyrt \<Rightarrow> pydt \<Rightarrow> (string, app) pydict \<Rightarrow> string \<Rightarrow> db \<Rightarrow> pyexc + worker_page option" where
  "worker_detail_fragment rt now registry hostname d = (case find_worker hostname (build_workers rt now d) of
       None \<Rightarrow> Inr None
     | Some w \<Rightarrow>
         (let view = (if pw_status w = ''offline'' then no_view ''Worker is offline; snapshot unavailable.''
                      else snapshot_worker rt hostname d);
              pool_size = resolve_pool_size (Some (pw_pool_size w)) (sv_stats_map view)
          in ebind (resolve_broker_detail rt registry d (sv_app_name view)) (\<lambda>broker.
             Inr (Some \<lparr>wg_worker = w,
               wg_overview = build_overview pool_size (int_or (pw_active w) (sv_active_count view))
                 (Some (resolve_registered_count w (sv_stats_map view))) (int_or (pw_concurrency w) pool_size),
               wg_active_tasks = fetch_active_rows hostname d, wg_task_rows = sv_task_rows view,
               wg_queue_rows = sv_queue_rows view, wg_meta = split_metadata_rows (sv_metadata_rows view),
               wg_broker = broker, wg_inspect_error = sv_inspect_error view\<rparr>))))"

section \<open>Actions\<close>

definition default_worker_name :: "pyrt \<Rightarrow> (string, app) pydict \<Rightarrow> string option" where
  "default_worker_name rt registry = (case get_apps registry of [] \<Rightarrow> None | a # _ \<Rightarrow> Some (app_name rt a))"

text \<open>An action through the first app: the call that was made, and the reply or the exception.\<close>

definition control_action :: "pyrt \<Rightarrow> (string, app) pydict \<Rightarrow> (string \<Rightarrow> pyval control_run) \<Rightarrow> string \<Rightarrow> web_reply control_run" where
  "control_action rt registry run target = (case default_worker_name rt registry of
       None \<Rightarrow> (None, Inr (BadRequest ''No Celery workers configured''))
     | Some worker \<Rightarrow> (let (call, r) = run worker in (call, ebind r (\<lambda>_. Inr (GoTo target)))))"

definition workers_restart :: "pyrt \<Rightarrow> bool \<Rightarrow> (string, app) pydict \<Rightarrow> (app \<Rightarrow> control_call \<Rightarrow> pyexc + pyval) \<Rightarrow> web_reply control_run" where
  "workers_restart rt has_pool_restart registry control =
     control_action rt registry (\<lambda>worker. restart has_pool_restart registry worker control False None) ''workers''"

definition worker_grow :: "pyrt \<Rightarrow> (string, app) pydict \<Rightarrow> (app \<Rightarrow> control_call \<Rightarrow> pyexc + pyval) \<Rightarrow> string \<Rightarrow> web_reply control_run" where
  "worker_grow rt registry control hostname =
     control_action rt registry (\<lambda>worker. pool_grow registry worker control 1 (Some [hostname])) ''worker-detail''"

definition worker_shrink :: "pyrt \<Rightarrow> (string, app) pydict \<Rightarrow> (app \<Rightarrow> control_call \<Rightarrow> pyexc + pyval) \<Rightarrow> string \<Rightarrow> web_reply control_run" where
  "worker_shrink rt registry control hostname =
     control_action rt registry (\<lambda>worker. pool_shrink registry worker control 1 (Some [hostname])) ''worker-detail''"

definition worker_autoscale :: "pyrt \<Rightarrow> (string, app) pydict \<Rightarrow> (app \<Rightarrow> control_call \<Rightarrow> pyexc + pyval) \<Rightarrow> db \<Rightarrow> string \<Rightarrow> web_reply control_run" where
  "worker_autoscale rt registry control d hostname =
     control_action rt registry (\<lambda>worker.
       let max_concurrency = (case get_worker rt hostname d of None \<Rightarrow> 1 | Some w \<Rightarrow> or_int (wk_pool_size w) 1)
       in autoscale registry worker control max_concurrency 0 (Some [hostname])) ''worker-detail''"

text \<open>\<open>worker_add\<close> on a POST: the command that is started, if any. A number that cannot be read is dropped.\<close>

definition worker_add :: "pyrt \<Rightarrow> worker_option list \<Rightarrow> (string, string) pydict \<Rightarrow> string list option \<times> web_reply" where
  "worker_add rt options post =
     (let field = (\<lambda>k. py_strip (dget_or post k [])); module = field ''module''; queue = field ''queue'';
          name = field ''name''; raw = field ''concurrency'';
          concurrency = (if raw = [] then None else rt_int rt raw)
      in if module = [] then (None, BadRequest ''Worker module is required'')
         else if module \<notin> wo_module ` set options then (None, BadRequest ''Unknown worker module'')
         else (Some ([''uv'', ''run'', ''celery'', ''-A'', module, ''worker''] @
                 (if queue = [] then [] else [''-Q'', queue]) @
                 (if name = [] then [] else [''-n'', name]) @
                 (case concurrency of None \<Rightarrow> [] | Some n \<Rightarrow> [''-c'', show_int n]) @
                 [''-l'', ''INFO'']), GoTo ''workers''))"

end
