(* ===== verification/Dashboard.thy ===== *)
theory Dashboard
  imports Worker_Pages
begin

text \<open>
  The dashboard (celery_root/components/web/views/dashboard.py): summary cards, state cards, throughput,
  recent activity and the table of workers, each computed from what the database answers. Numbers with
  one decimal are those of Python's formatting, rounded half to even.
\<close>

section \<open>Formatting\<close>

definition fixed1 :: "rat \<Rightarrow> string" where
  "fixed1 x = (let n = round_half_even (\<bar>x\<bar> * 10)
     in (if x < 0 then ''-'' else []) @ show_int (n div 10) @ ''.'' @ show_int (n mod 10))"

text \<open>The arrows up right and down right, and the middle dot, in UTF-8.\<close>

definition UP_ARROW :: string where "UP_ARROW = [CHR 0xE2, CHR 0x86, CHR 0x97]"
definition DOWN_ARROW :: string where "DOWN_ARROW = [CHR 0xE2, CHR 0x86, CHR 0x98]"
definition MIDDLE_DOT :: string where "MIDDLE_DOT = [CHR 0xC2, CHR 0xB7]"

definition format_delta :: "int option \<Rightarrow> string \<Rightarrow> string" where
  "format_delta delta suffix = (case delta of
       None \<Rightarrow> ''no data yet''
     | Some n \<Rightarrow> (if n = 0 then ''no change '' @ suffix
                 else (if 0 < n then ''+'' else []) @ show_int n @ '' '' @ suffix))"

definition format_percent :: "rat option \<Rightarrow> string" where
  "format_percent delta_pct = (case delta_pct of
       None \<Rightarrow> ''no data yet''
     | Some x \<Rightarrow> (if x = 0 then ''no change''
                 else (if 0 < x then UP_ARROW else DOWN_ARROW) @ '' '' @ fixed1 \<bar>x\<bar> @ ''% throughput''))"

definition format_runtime :: "task_stats \<Rightarrow> string \<times> string" where
  "format_runtime s = (case st_avg_runtime s of
       None \<Rightarrow> (NO_VALUE, ''no runtime data'')
     | Some avg \<Rightarrow>
         (let shown = (\<lambda>v. case v of None \<Rightarrow> NO_VALUE | Some x \<Rightarrow> fixed1 x @ ''s'')
          in (fixed1 avg @ ''s'', ''p95 '' @ shown (st_p95 s) @ '' '' @ MIDDLE_DOT @ '' p99 '' @ shown (st_p99 s))))"

definition ago :: "int \<Rightarrow> pydt \<Rightarrow> pydt" where
  "ago us t = DT (dt_local t - us) (dt_off t)"

definition collapse_received :: "(string, nat) pydict \<Rightarrow> (string, nat) pydict" where
  "collapse_received counts =
     (if dget counts ''RECEIVED'' = None then counts
      else dpop ''RECEIVED'' (dset ''PENDING'' (dget_or counts ''PENDING'' 0 + dget_or counts ''RECEIVED'' 0) counts))"

section \<open>Summary cards\<close>

record online_counts =
  oc_online :: nat
  oc_last_hour :: int
  oc_prev_hour :: int
  oc_under_load :: nat

definition count_worker :: "pydt \<Rightarrow> worker \<Rightarrow> online_counts \<Rightarrow> online_counts" where
  "count_worker now w c = (case wk_last_heartbeat w of
       None \<Rightarrow> c
     | Some seen \<Rightarrow>
         (let t = dt_instant seen; n = dt_instant now;
              c = (if n - t \<le> 120 * us_per_second then c\<lparr>oc_online := oc_online c + 1\<rparr> else c);
              c = (if n - us_per_hour \<le> t \<and> t \<le> n then c\<lparr>oc_last_hour := oc_last_hour c + 1\<rparr> else c);
              c = (if n - 2 * us_per_hour \<le> t \<and> t < n - us_per_hour then c\<lparr>oc_prev_hour := oc_prev_hour c + 1\<rparr> else c)
          in if 0 < or_int (wk_active_tasks w) 0 then c\<lparr>oc_under_load := oc_under_load c + 1\<rparr> else c))"

definition worker_online_counts :: "worker list \<Rightarrow> pydt \<Rightarrow> nat \<times> int option \<times> nat" where
  "worker_online_counts workers now =
     (let c = fold (count_worker now) workers \<lparr>oc_online = 0, oc_last_hour = 0, oc_prev_hour = 0, oc_under_load = 0\<rparr>
      in (oc_online c,
          if list_ex (\<lambda>w. wk_last_heartbeat w \<noteq> None) workers then Some (oc_last_hour c - oc_prev_hour c) else None,
          oc_under_load c))"

definition in_last_hour :: "pydt \<Rightarrow> task \<Rightarrow> bool" where
  "in_last_hour now t = (case task_timestamp t of None \<Rightarrow> False | Some ts \<Rightarrow>
     dt_instant now - us_per_hour \<le> dt_instant ts \<and> dt_instant ts \<le> dt_instant now)"

definition in_prev_hour :: "pydt \<Rightarrow> task \<Rightarrow> bool" where
  "in_prev_hour now t = (case task_timestamp t of None \<Rightarrow> False | Some ts \<Rightarrow>
     dt_instant now - 2 * us_per_hour \<le> dt_instant ts \<and> dt_instant ts < dt_instant now - us_per_hour)"

definition count_hour :: "pydt \<Rightarrow> task \<Rightarrow> nat \<times> nat \<Rightarrow> nat \<times> nat" where
  "count_hour now t = (\<lambda>(recent, prev).
     if in_last_hour now t then (recent + 1, prev) else if in_prev_hour now t then (recent, prev + 1) else (recent, prev))"

definition task_delta_percentage :: "task list \<Rightarrow> pydt \<Rightarrow> rat option" where
  "task_delta_percentage tasks now =
     (let (recent, prev) = fold (count_hour now) tasks (0, 0)
      in if recent = 0 \<and> prev = 0 then None
         else if prev = 0 then None
         else Some ((of_nat recent - of_nat prev) / of_nat prev * 100))"

record summary_metrics =
  sm_workers_online :: nat
  sm_workers_delta :: "int option"
  sm_tasks_today :: nat
  sm_tasks_delta_pct :: "rat option"
  sm_runtime_stats :: task_stats
  sm_pending_tasks :: int
  sm_workers_under_load :: nat

definition day_start :: "pydt \<Rightarrow> pydt" where
  "day_start now = DT (dt_local now - dt_local now mod us_per_day) (dt_off now)"

definition pending_of :: "db \<Rightarrow> string \<Rightarrow> int" where
  "pending_of d broker_url =
     sum_list (map (\<lambda>e. or_int (bq_messages e) 0) (get_broker_queue_snapshot (shown_broker_url broker_url) d))"

definition compute_metrics :: "pyrt \<Rightarrow> (string, app) pydict \<Rightarrow> pydt \<Rightarrow> db \<Rightarrow> summary_metrics" where
  "compute_metrics rt registry now d =
     (let (online, delta, under_load) = worker_online_counts (get_workers rt d) now;
          time_range = \<lparr>tr_start = day_start now, tr_end = now\<rparr>;
          tasks_today = get_tasks (Some (no_filter\<lparr>tf_time_range := Some time_range\<rparr>)) d
      in \<lparr>sm_workers_online = online, sm_workers_delta = delta, sm_tasks_today = length tasks_today,
          sm_tasks_delta_pct = task_delta_percentage tasks_today now,
          sm_runtime_stats = get_task_stats None (Some time_range) d,
          sm_pending_tasks = sum_list (map (pending_of d) (dkeys (get_brokers rt registry))),
          sm_workers_under_load = under_load\<rparr>)"

definition summary_cards :: "summary_metrics \<Rightarrow> (string \<times> string \<times> string) list" where
  "summary_cards m =
     (let (avg, hint) = format_runtime (sm_runtime_stats m)
      in [(''Workers online'', show_nat (sm_workers_online m), format_delta (sm_workers_delta m) ''vs. last hour''),
          (''Tasks today'', show_nat (sm_tasks_today m), format_percent (sm_tasks_delta_pct m)),
          (''Avg. runtime'', avg, hint),
          (''Pending queue'', show_int (sm_pending_tasks m), show_nat (sm_workers_under_load m) @ '' workers under load'')])"

section \<open>State cards\<close>

record state_card =
  ca_label :: string
  ca_count :: nat
  ca_state :: string
  ca_change :: string

definition count_by_state :: "task list \<Rightarrow> (string, nat) pydict" where
  "count_by_state tasks = fold (\<lambda>t counts. dset (tk_state t) (dget_or counts (tk_state t) 0 + 1) counts) tasks []"

definition state_change :: "(string, nat) pydict \<Rightarrow> (string, nat) pydict \<Rightarrow> string \<Rightarrow> string" where
  "state_change recent prev state =
     (let diff = int (dget_or recent state 0) - int (dget_or prev state 0)
      in if diff = 0 then ''0'' else (if 0 < diff then UP_ARROW else DOWN_ARROW) @ '' '' @ show_int \<bar>diff\<bar>)"

definition CARD_LABELS :: "(string, string) pydict" where
  "CARD_LABELS = [(''SUCCESS'', ''Succeeded''), (''FAILURE'', ''Failed''), (''STARTED'', ''Running''), (''PENDING'', ''Pending'')]"

definition tasks_between :: "pydt \<Rightarrow> pydt \<Rightarrow> db \<Rightarrow> task list" where
  "tasks_between start fin d = get_tasks (Some (no_filter\<lparr>tf_time_range := Some \<lparr>tr_start = start, tr_end = fin\<rparr>\<rparr>)) d"

definition state_cards :: "pydt \<Rightarrow> db \<Rightarrow> state_card list" where
  "state_cards now d =
     (let recent = collapse_received (count_by_state (tasks_between (ago us_per_hour now) now d));
          prev = collapse_received (count_by_state (tasks_between (ago (2 * us_per_hour) now) (ago us_per_hour now) d));
          current = collapse_received (get_state_distribution d)
      in map (\<lambda>(state, label). \<lparr>ca_label = label, ca_count = dget_or current state 0, ca_state = state,
           ca_change = state_change recent prev state\<rparr>) CARD_LABELS)"

definition state_series :: "state_card list \<Rightarrow> (string \<times> nat) list" where
  "state_series cards = map (\<lambda>c. (ca_label c, ca_count c)) cards"

section \<open>Throughput and activity\<close>

definition two_digits :: "nat \<Rightarrow> string" where
  "two_digits n = (if n < 10 then ''0'' else []) @ show_nat n"

definition clock_label :: "pydt \<Rightarrow> string" where
  "clock_label t = two_digits (dt_hour t) @ '':'' @ two_digits (nat (dt_local t div (60 * us_per_second) mod 60))"

definition throughput_series :: "pydt \<Rightarrow> db \<Rightarrow> (pyexc + (string \<times> nat) list) option" where
  "throughput_series now d = map_option
     (\<lambda>r. ebind r (\<lambda>buckets. Inr (map (\<lambda>b. (clock_label (tb_bucket_start b), tb_count b)) buckets)))
     (get_throughput \<lparr>tr_start = ago us_per_hour now, tr_end = now\<rparr> 600 d)"

record activity_item =
  ai_task :: string
  ai_state :: string
  ai_badge :: string
  ai_worker :: string
  ai_timestamp :: pydt

definition activity_of :: "task \<Rightarrow> activity_item option" where
  "activity_of t = (case task_timestamp t of
       None \<Rightarrow> None
     | Some ts \<Rightarrow> Some \<lparr>ai_task = or_str (tk_name t) (tk_task_id t), ai_state = tk_state t,
         ai_badge = dget_or TASK_BADGES (tk_state t) ''badge-muted'', ai_worker = or_str (tk_worker t) NO_VALUE,
         ai_timestamp = ts\<rparr>)"

definition activity_feed :: "pydt \<Rightarrow> db \<Rightarrow> activity_item list" where
  "activity_feed now d = List.map_filter activity_of (take 5 (tasks_between (ago (24 * us_per_hour) now) now d))"

section \<open>Workers\<close>

definition WORKER_STATE_COLUMNS :: "string list" where
  "WORKER_STATE_COLUMNS = [''PENDING'', ''STARTED'', ''SUCCESS'', ''FAILURE'', ''RETRY'', ''REVOKED'']"

definition zero_states :: "(string, nat) pydict" where
  "zero_states = map (\<lambda>s. (s, 0)) WORKER_STATE_COLUMNS"

definition count_task_state :: "task \<Rightarrow> (string, (string, nat) pydict) pydict \<Rightarrow> (string, (string, nat) pydict) pydict" where
  "count_task_state t counts = (case tk_worker t of
       None \<Rightarrow> counts
     | Some w \<Rightarrow> (case dget counts w of
           None \<Rightarrow> counts
         | Some cells \<Rightarrow>
             (let state = (if tk_state t = ''RECEIVED'' then ''PENDING'' else tk_state t)
              in case dget cells state of
                   None \<Rightarrow> counts
                 | Some n \<Rightarrow> dset w (dset state (n + 1) cells) counts)))"

record worker_summary_row =
  ws_hostname :: string
  ws_status :: string
  ws_badge :: string
  ws_active :: int
  ws_pool_size :: "int option"
  ws_processed :: nat
  ws_state_cells :: "(string \<times> nat) list"
  ws_last_seen_seconds :: "int option"
  ws_queues :: "string list option"
  ws_registered :: "nat option"
  ws_concurrency :: "int option"

text \<open>\<open>int(delta.total_seconds())\<close> cuts towards zero.\<close>

definition seconds_ago :: "int \<Rightarrow> int" where
  "seconds_ago us = (if 0 \<le> us then us div us_per_second else - (- us div us_per_second))"

definition worker_summary_of :: "pydt \<Rightarrow> (string, (string, nat) pydict) pydict \<Rightarrow> worker \<Rightarrow> worker_summary_row" where
  "worker_summary_of now counts w =
     (let stats = dget_or counts (wk_hostname w) zero_states;
          active = (case wk_active_tasks w of None \<Rightarrow> 0 | Some n \<Rightarrow> n);
          registered = length (case wk_registered_tasks w of None \<Rightarrow> [] | Some ts \<Rightarrow> ts);
          status = resolve_status (wk_status w) active (seen_ago now w)
      in \<lparr>ws_hostname = wk_hostname w, ws_status = status, ws_badge = dget_or WORKER_BADGES status ''badge-muted'',
          ws_active = active, ws_pool_size = wk_pool_size w,
          ws_processed = sum_list (map (\<lambda>s. dget_or stats s 0) [''SUCCESS'', ''FAILURE'', ''REVOKED'']),
          ws_state_cells = map (\<lambda>s. (s, dget_or stats s 0)) WORKER_STATE_COLUMNS,
          ws_last_seen_seconds = map_option seconds_ago (seen_ago now w), ws_queues = wk_queues w,
          ws_registered = (if registered = 0 then None else Some registered), ws_concurrency = wk_pool_size w\<rparr>)"

definition worker_rows :: "pyrt \<Rightarrow> pydt \<Rightarrow> db \<Rightarrow> worker_summary_row list" where
  "worker_rows rt now d =
     (let workers = get_workers rt d;
          counts = fold (\<lambda>w. dset (wk_hostname w) zero_states) workers [];
          counts = fold count_task_state (get_tasks None d) counts
      in sort_asc_key ws_hostname (map (worker_summary_of now counts) workers))"

section \<open>The whole dashboard\<close>

record dashboard =
  db_summary_cards :: "(string \<times> string \<times> string) list"
  db_state_cards :: "state_card list"
  db_state_series :: "(string \<times> nat) list"
  db_throughput_series :: "(string \<times> nat) list"
  db_heatmap :: "nat list list"
  db_worker_rows :: "worker_summary_row list"
  db_activity_feed :: "activity_item list"
  db_runtime_stats :: task_stats

definition dashboard_stats :: "pyrt \<Rightarrow> (string, app) pydict \<Rightarrow> pydt \<Rightarrow> db \<Rightarrow> (pyexc + dashboard) option" where
  "dashboard_stats rt registry now d =
     (let metrics = compute_metrics rt registry now d; cards = state_cards now d
      in map_option (\<lambda>r. ebind r (\<lambda>series. Inr \<lparr>db_summary_cards = summary_cards metrics, db_state_cards = cards,
           db_state_series = state_series cards, db_throughput_series = series,
           db_heatmap = get_heatmap (Some \<lparr>tr_start = ago (7 * us_per_day) now, tr_end = now\<rparr>) d,
           db_worker_rows = worker_rows rt now d, db_activity_feed = activity_feed now d,
           db_runtime_stats = sm_runtime_stats metrics\<rparr>)) (throughput_series now d))"

end
