(* ===== verification/Broker_Page_Facts.thy ===== *)
theory Broker_Page_Facts
  imports Broker_Pages Worker_Facts Toy_Runtime
begin

text \<open>
  What the broker pages promise: every broker of the overview has a key that leads to its page, and what
  purging the idle queues does on a broker that does not report consumers.
\<close>

section \<open>Keys\<close>

lemma shown_broker_url_text: "shown_broker_url url = redact_text url"
  using redact_text_fixed[of url]
  by (cases "redact_text url = []") (auto simp: shown_broker_url_def redact_url_password_def)

lemma shown_broker_url_again: "shown_broker_url (shown_broker_url url) = shown_broker_url url"
  using redact_text_fixed[of url] by (simp add: shown_broker_url_text)

lemma ascii_digit: "n < 64 \<Longrightarrow> is_ascii (b64_digit n)"
proof -
  assume "n < 64"
  moreover have "list_all is_ascii BASE64_DIGITS" "length BASE64_DIGITS = 64"
    by (simp_all add: BASE64_DIGITS_def is_ascii_def)
  ultimately show ?thesis by (simp add: b64_digit_def list_all_length)
qed

lemma second_third_bounds:
  "h < 16 \<Longrightarrow> (of_char a :: nat) mod 4 * 16 + h < 64" "k < 4 \<Longrightarrow> (of_char b :: nat) mod 16 * 4 + k < 64"
proof -
  have "(of_char a :: nat) mod 4 < 4" "(of_char b :: nat) mod 16 < 16" by simp_all
  then show "h < 16 \<Longrightarrow> (of_char a :: nat) mod 4 * 16 + h < 64" "k < 4 \<Longrightarrow> (of_char b :: nat) mod 16 * 4 + k < 64"
    by linarith+
qed

lemma encode_ascii: "list_all is_ascii (urlsafe_b64encode s)"
proof -
  have "is_ascii CHR ''=''" by (simp add: is_ascii_def)
  then show ?thesis
    by (induction s rule: urlsafe_b64encode.induct)
      (simp_all add: first_digit_def second_digit_def third_digit_def fourth_digit_def ascii_digit
        byte_bounds second_third_bounds)
qed

lemma default_key_no_url: "urlsafe_b64decode (pad_key DEFAULT_BROKER_KEY) \<noteq> None \<and>
   \<not> list_all is_ascii (the (urlsafe_b64decode (pad_key DEFAULT_BROKER_KEY)))"
  by (simp add: DEFAULT_BROKER_KEY_def pad_key_def urlsafe_b64decode_def b64_value_def is_ascii_def)

lemma decode_encode_key:
  assumes "list_all is_ascii (shown_broker_url url)"
  shows "decode_broker_key (encode_broker_key url) = Some (shown_broker_url url)"
proof (cases "shown_broker_url url = []")
  case True
  then show ?thesis by (simp add: encode_broker_key_def decode_broker_key_def)
next
  case False
  let ?key = "strip_padding (urlsafe_b64encode (shown_broker_url url))"
  have key: "encode_broker_key url = ?key" using False by (simp add: encode_broker_key_def Let_def)
  have undone: "urlsafe_b64decode (pad_key ?key) = Some (shown_broker_url url)"
    by (simp add: pad_strip urlsafe_decode_encode)
  moreover have "?key \<noteq> DEFAULT_BROKER_KEY" using default_key_no_url undone assms by auto
  moreover have "list_all is_ascii (pad_key ?key)" by (simp add: pad_strip encode_ascii)
  ultimately show ?thesis using assms unfolding key decode_broker_key_def by simp
qed

section \<open>Groups\<close>

lemma groups_redacted:
  "\<lbrakk>dict_ok gs; \<forall>u \<in> fst ` set gs. shown_broker_url u = u\<rbrakk> \<Longrightarrow>
   dict_ok (fold extend_group bs gs) \<and> (\<forall>u \<in> fst ` set (fold extend_group bs gs). shown_broker_url u = u)"
proof (induction bs arbitrary: gs)
  case (Cons b bs)
  have "dict_ok (extend_group b gs)" "\<forall>u \<in> fst ` set (extend_group b gs). shown_broker_url u = u"
    using Cons.prems shown_broker_url_again by (cases b; simp add: extend_group_def Let_def)+
  from Cons.IH[OF this] show ?case by simp
qed simp

lemma redacted_groups_ok:
  "dict_ok (redacted_broker_groups rt registry)"
  "(url, apps) \<in> set (redacted_broker_groups rt registry) \<Longrightarrow> shown_broker_url url = url"
  using groups_redacted[of "[]" "get_brokers rt registry"] unfolding redacted_broker_groups_def
  by (simp, force)

lemma emap_Inr: "emap f xs = Inr ys \<Longrightarrow> list_all2 (\<lambda>x y. f x = Inr y) xs ys"
  by (induction xs arbitrary: ys) (auto simp: ebind_Inr_iff)

lemma list_all2_right: "list_all2 P xs ys \<Longrightarrow> y \<in> set ys \<Longrightarrow> \<exists>x \<in> set xs. P x y"
  by (induction rule: list_all2_induct) auto

lemma broker_row_fields:
  "broker_row_of rt d url apps = Inr r \<Longrightarrow> br_broker_url r = url \<and> br_broker_key r = encode_broker_key url"
  by (auto simp: broker_row_of_def ebind_Inr_iff Let_def)

text \<open>C25: Every broker of the overview can be opened: the key in its row leads to the page that shows this
  very row, with the same queues, workers and apps, although the URL is redacted once more on the way and
  the key \<open>default\<close> is reserved for the broker without a URL.\<close>

theorem broker_key_opens_page:
  assumes "list_broker_groups rt registry d = Inr rows" and "r \<in> set rows" and "list_all is_ascii (br_broker_url r)"
  shows "\<exists>p. broker_detail rt registry d (br_broker_key r) = Inr (Some p) \<and> bp_broker p = r"
proof -
  let ?groups = "redacted_broker_groups rt registry"
  have "list_all2 (\<lambda>(url, apps) y. broker_row_of rt d url apps = Inr y)
      (filter (\<lambda>(url, apps). apps \<noteq> []) (sort_asc_key fst ?groups)) rows"
    using emap_Inr[OF assms(1)[unfolded list_broker_groups_def]] by (simp add: case_prod_unfold)
  then obtain g where "g \<in> set ?groups"
    and "(case g of (url, apps) \<Rightarrow> broker_row_of rt d url apps = Inr r)"
    using list_all2_right[OF _ assms(2)] by (fastforce simp only: set_filter set_sort_asc_key)
  then obtain url apps where g: "(url, apps) \<in> set ?groups" and row: "broker_row_of rt d url apps = Inr r"
    by (cases g) auto
  have u: "shown_broker_url url = url" using redacted_groups_ok(2)[OF g] .
  have "decode_broker_key (br_broker_key r) = Some url"
    using decode_encode_key[of url] broker_row_fields[OF row] u assms(3) by simp
  moreover have "dget ?groups url = Some apps"
    using redacted_groups_ok(1) g by (simp add: dict_ok_def)
  ultimately show ?thesis using row by (simp add: broker_detail_def split: prod.split)
qed

definition shop_app :: app where
  "shop_app = \<lparr>app_id = 1, app_main = Some ''shop'', app_conf = [(''broker_url'', PStr ''redis://:pw@h/0'')]\<rparr>"

definition shop_registry :: "(string, app) pydict" where
  "shop_registry = [(''shop'', shop_app)]"

definition shop_row :: broker_row where
  "shop_row = hd (projr (list_broker_groups toy_rt shop_registry empty_db))"

lemma broker_key_opens_page_witness:
  "\<exists>p. broker_detail toy_rt shop_registry empty_db ''cmVkaXM6Ly86KioqQGgvMA'' = Inr (Some p) \<and>
     br_broker_url (bp_broker p) = ''redis://:***@h/0''"
proof -
  have rows: "list_broker_groups toy_rt shop_registry empty_db = Inr (projr (list_broker_groups toy_rt shop_registry empty_db))"
    "projr (list_broker_groups toy_rt shop_registry empty_db) \<noteq> []"
    by code_simp+
  have row: "br_broker_url shop_row = ''redis://:***@h/0''" "br_broker_key shop_row = ''cmVkaXM6Ly86KioqQGgvMA''"
    by code_simp+
  have "list_all is_ascii ''redis://:***@h/0''" by code_simp
  then show ?thesis
    using broker_key_opens_page[OF rows(1), of shop_row] rows(2) row by (auto simp: shop_row_def)
qed

section \<open>Purging\<close>

lemma queue_info_redis:
  "uses_redis c \<Longrightarrow> queue_info_of rt c q = Inr i \<Longrightarrow> qi_name i = q \<and> qi_consumers i = None"
  unfolding queue_info_of_def broker_counts_def
  by (cases "qc_llen c q") (auto split: if_splits)

lemma emap_names:
  assumes "uses_redis c" and "emap (queue_info_of rt c) names = Inr infos"
  shows "map qi_name infos = names \<and> (\<forall>i \<in> set infos. qi_consumers i = None)"
  using assms(2)
  by (induction names arbitrary: infos) (auto simp: ebind_Inr_iff dest: queue_info_redis[OF assms(1)])

lemma discovered_names:
  "discover_queue_names rt active_queues a = Inr names \<Longrightarrow> sorted names \<and> distinct names \<and> names \<noteq> []"
proof -
  assume "discover_queue_names rt active_queues a = Inr names"
  then obtain ys where names: "names = sort (remdups ys)" and "ys \<noteq> []"
    unfolding discover_queue_names_def ebind_Inr_iff by fastforce
  then have "names \<noteq> []" by (metis set_empty set_remdups set_sort)
  then show ?thesis by (simp add: names)
qed

lemma purge_queue_redis:
  assumes "get_app registry w = Inr a" and "connect a = Inr c" and "uses_redis c"
    and "qc_llen c q = Inr n" and "qc_delete c q = Inr m"
  shows "purge_queues rt active_queues fnmatch connect registry w (Some q) None = ([q], Inr [(q, Some n)])"
  using assms by (simp add: purge_queues_def purge_queue_def)

lemma purge_in_turn_all:
  "(\<And>q. q \<in> set qs \<Longrightarrow> \<exists>r. purge q = ([q], Inr r)) \<Longrightarrow> purge_in_turn purge qs = (qs, Inr (GoTo ''broker''))"
proof (induction qs)
  case (Cons q qs)
  then obtain r where "purge q = ([q], Inr r)" by fastforce
  then show ?case using Cons by simp
qed simp

text \<open>The snapshot of a broker after observations of its queues were stored where there were none.\<close>

definition stored_observations :: "broker_queue_event list \<Rightarrow> db \<Rightarrow> db" where
  "stored_observations events d = fold store_broker_queue_event events d"

lemma stored_rows:
  "ids_ok (db_broker_queue_events d) \<Longrightarrow>
   ids_ok (db_broker_queue_events (stored_observations events d)) \<and>
   map snd (db_broker_queue_events (stored_observations events d)) =
     map snd (db_broker_queue_events d) @ map (\<lambda>e. e\<lparr>bq_timestamp := bind_dt (bq_timestamp e)\<rparr>) events"
proof (induction events arbitrary: d)
  case (Cons e events)
  have "ids_ok (db_broker_queue_events (store_broker_queue_event e d))"
    using Cons.prems by (simp add: store_broker_queue_event_def ids_ok_insert_auto)
  from Cons.IH[OF this] show ?case
    by (simp add: stored_observations_def store_broker_queue_event_def insert_auto_def)
qed (simp add: stored_observations_def)

lemma seen_queue: "queue_rows b q rows \<noteq> [] \<longleftrightarrow> (\<exists>e \<in> set (map snd rows). bq_broker_url e = b \<and> bq_queue e = q)"
  by (auto simp: queue_rows_def filter_empty_conv)

lemma snapshot_of_observed:
  assumes ids: "ids_ok (db_broker_queue_events d)"
    and fresh: "\<forall>r \<in> set (db_broker_queue_events d). bq_broker_url (snd r) \<noteq> b"
    and events: "\<forall>e \<in> set events. bq_broker_url e = b \<and> bq_consumers e = None"
    and names: "map bq_queue events = names" "sorted names" "distinct names"
  shows "map bq_queue (get_broker_queue_snapshot b (stored_observations events d)) = names"
    and "\<forall>e \<in> set (get_broker_queue_snapshot b (stored_observations events d)). bq_consumers e = None"
proof -
  define rows where "rows = db_broker_queue_events (stored_observations events d)"
  let ?kept = "filter (\<lambda>r. fst r \<in> set (latest_ids b rows)) rows"
  have ok: "ids_ok rows" and all: "map snd rows = map snd (db_broker_queue_events d) @
      map (\<lambda>e. e\<lparr>bq_timestamp := bind_dt (bq_timestamp e)\<rparr>) events"
    using stored_rows[OF ids] unfolding rows_def by blast+
  have snap: "get_broker_queue_snapshot b (stored_observations events d) =
      sort_asc_key bq_queue (map (row_to_queue_event \<circ> snd) ?kept)"
    by (simp add: get_broker_queue_snapshot_def rows_def Let_def)
  have queue: "bq_queue \<circ> (row_to_queue_event \<circ> snd) = bq_queue \<circ> snd"
    by (simp add: fun_eq_iff row_to_queue_event_def)
  have last: "last (queue_rows b q rows) \<in> set rows \<and> bq_broker_url (snd (last (queue_rows b q rows))) = b \<and>
      bq_queue (snd (last (queue_rows b q rows))) = q" if "queue_rows b q rows \<noteq> []" for q
    using last_in_set[OF that] by (auto simp: queue_rows_def)
  have names_seen: "queue_rows b q rows \<noteq> [] \<longleftrightarrow> q \<in> set names" for q
  proof -
    have "\<not> (\<exists>e \<in> set (map snd (db_broker_queue_events d)). bq_broker_url e = b \<and> bq_queue e = q)"
      using fresh by simp
    moreover have "(\<exists>e \<in> set (map (\<lambda>e. e\<lparr>bq_timestamp := bind_dt (bq_timestamp e)\<rparr>) events).
        bq_broker_url e = b \<and> bq_queue e = q) \<longleftrightarrow> q \<in> set (map bq_queue events)"
      using events by auto
    ultimately show ?thesis unfolding seen_queue all set_append bex_Un names(1) by blast
  qed
  have "set (map (bq_queue \<circ> snd) ?kept) = {q. queue_rows b q rows \<noteq> []}"
    using last unfolding set_map snapshot_rows[OF ok] by force
  then have "set (map (bq_queue \<circ> snd) ?kept) = set names" using names_seen by blast
  moreover have perm: "mset (map bq_queue (sort_asc_key bq_queue xs)) = mset (map bq_queue xs)" for xs
    by simp
  have "map bq_queue (map (row_to_queue_event \<circ> snd) ?kept) = map (bq_queue \<circ> snd) ?kept"
    by (simp only: map_map queue)
  then have "mset (map bq_queue (sort_asc_key bq_queue (map (row_to_queue_event \<circ> snd) ?kept))) =
      mset (map (bq_queue \<circ> snd) ?kept)"
    by (simp only: perm)
  note same = mset_eq_setD[OF this] mset_eq_imp_distinct_iff[OF this]
  ultimately have "set (map bq_queue (get_broker_queue_snapshot b (stored_observations events d))) = set names"
    "distinct (map bq_queue (get_broker_queue_snapshot b (stored_observations events d)))"
    unfolding snap using same snapshot_queues_distinct[OF ok, of b] by simp_all
  moreover have "sorted (map bq_queue (get_broker_queue_snapshot b (stored_observations events d)))"
    unfolding snap by (rule sorted_sort_asc_key)
  ultimately show "map bq_queue (get_broker_queue_snapshot b (stored_observations events d)) = names"
    using names(2,3) by (intro sorted_distinct_set_unique)
  have "bq_consumers (snd r) = None" if kept: "r \<in> set ?kept" for r
  proof -
    have "r \<in> {last (queue_rows b q rows) | q. queue_rows b q rows \<noteq> []}"
      using kept unfolding snapshot_rows[OF ok] .
    then obtain q where q: "queue_rows b q rows \<noteq> []" "r = last (queue_rows b q rows)"
      by (elim CollectE exE conjE) (rule that)
    have r: "r \<in> set rows" "bq_broker_url (snd r) = b"
      using last[OF q(1)] unfolding q(2) by (rule conjunct1, metis last[OF q(1)])
    then have "snd r \<in> set (map snd rows)" by simp
    then consider "snd r \<in> snd ` set (db_broker_queue_events d)"
      | e where "e \<in> set events" "snd r = e\<lparr>bq_timestamp := bind_dt (bq_timestamp e)\<rparr>"
      unfolding all by auto
    then show ?thesis
    proof cases
      case 1
      then show ?thesis using fresh r(2) by auto
    next
      case 2
      then show ?thesis using events by simp
    qed
  qed
  then show "\<forall>e \<in> set (get_broker_queue_snapshot b (stored_observations events d)). bq_consumers e = None"
    unfolding snap by (auto simp: row_to_queue_event_def)
qed

text \<open>C27: Purging the idle queues of a Redis broker purges every queue, also those that workers are
  consuming: a Redis connection reports no consumers, so what the reconciler stores of a queue is
  that the number is unknown, and the page takes an unknown number for none.\<close>

theorem redis_purge_idle_purges_all:
  assumes app: "resolve_app_name rt registry (dget post ''app'') = Some w" "get_app registry w = Inr a"
    and conn: "connect a = Inr c" "uses_redis c" "\<And>q. \<exists>n. qc_llen c q = Inr n" "\<And>q. \<exists>n. qc_delete c q = Inr n"
    and queues: "list_queues rt active_queues fnmatch connect registry w None True = Inr infos"
    and turn: "rc_app_names rc \<noteq> []" "rc_app_names rc ! (rc_broker_index rc mod length (rc_app_names rc)) = w"
    and polled: "fst (poll_broker_stats rt registry (\<lambda>_. Some infos) now rc) = events"
    and fresh: "ids_ok (db_broker_queue_events d)"
      "\<forall>r \<in> set (db_broker_queue_events d). bq_broker_url (snd r) \<noteq> redact_text (conf_text rt a ''broker_url'')"
  shows "broker_purge_idle rt active_queues fnmatch connect registry post (stored_observations events d) =
    (map qi_name infos, Inr (GoTo ''broker''))"
proof -
  let ?url = "redact_text (conf_text rt a ''broker_url'')"
  obtain names where names: "discover_queue_names rt active_queues a = Inr names" "emap (queue_info_of rt c) names = Inr infos"
    using queues app(2) conn(1) by (auto simp: list_queues_def ebind_Inr_iff)
  note found = discovered_names[OF names(1)] emap_names[OF conn(2) names(2)]
  have "events = map (\<lambda>q. \<lparr>bq_broker_url = ?url, bq_queue = qi_name q, bq_messages = qi_messages q,
      bq_consumers = qi_consumers q, bq_timestamp = now\<rparr>) infos"
    using polled turn app(2) by (auto simp: poll_broker_stats_def Let_def redact_text_def)
  then have events: "\<forall>e \<in> set events. bq_broker_url e = ?url \<and> bq_consumers e = None" "map bq_queue events = names"
    using found by (auto simp: comp_def)
  let ?snap = "get_broker_queue_snapshot ?url (stored_observations events d)"
  have snap: "map bq_queue ?snap = names" "\<forall>e \<in> set ?snap. bq_consumers e = None"
    using snapshot_of_observed[OF fresh events] found by blast+
  then have idle: "filter is_idle ?snap = ?snap" by (intro filter_True) (simp add: is_idle_def or_int_def)
  have "purge_in_turn (\<lambda>q. purge_queues rt active_queues fnmatch connect registry w (Some q) None) names =
      (names, Inr (GoTo ''broker''))"
    by (rule purge_in_turn_all) (metis purge_queue_redis[where a = a and c = c] app(2) conn)
  moreover have "?snap \<noteq> []" using snap(1) found by auto
  ultimately show ?thesis
    unfolding broker_purge_idle_def using app idle snap(1) found
    by (simp add: shown_broker_url_text Let_def)
qed

definition redis_conn :: queue_conn where
  "redis_conn = \<lparr>qc_driver = Some ''redis'', qc_redis_client = True, qc_llen = (\<lambda>q. Inr 3), qc_delete = (\<lambda>q. Inr 1),
     qc_declare = (\<lambda>q. Inl (OSError [])), qc_purge = (\<lambda>q. Inl (OSError []))\<rparr>"

definition orders_active :: "app \<Rightarrow> pyval option" where
  "orders_active a = Some (PDict [(PStr ''w1'', PList [PDict [(PStr ''name'', PStr ''orders'')]])])"

definition orders_info :: queue_info where
  "orders_info = \<lparr>qi_name = ''orders'', qi_messages = Some 3, qi_consumers = None\<rparr>"

text \<open>The queue \<open>orders\<close> is consumed by the worker \<open>w1\<close>, and purged.\<close>

lemma redis_purge_idle_purges_all_witness:
  "broker_purge_idle toy_rt orders_active (\<lambda>n p. False) (\<lambda>a. Inr redis_conn) shop_registry [(''app'', ''shop'')]
     (stored_observations (fst (poll_broker_stats toy_rt shop_registry (\<lambda>_. Some [orders_info]) (utc_dt 0)
        (new_reconciler toy_rt [shop_app]))) empty_db) = ([''orders''], Inr (GoTo ''broker''))"
proof -
  have app: "resolve_app_name toy_rt shop_registry (dget [(''app'', ''shop'')] ''app'') = Some ''shop''"
    "get_app shop_registry ''shop'' = Inr shop_app"
    by (simp_all add: resolve_app_name_def get_app_def shop_registry_def)
  have conn: "uses_redis redis_conn" "\<exists>n. qc_llen redis_conn q = Inr n" "\<exists>n. qc_delete redis_conn q = Inr n" for q
    by (simp_all add: redis_conn_def uses_redis_def)
  have queues: "list_queues toy_rt orders_active (\<lambda>n p. False) (\<lambda>a. Inr redis_conn) shop_registry ''shop'' None True =
      Inr [orders_info]"
    by code_simp
  have turn: "rc_app_names (new_reconciler toy_rt [shop_app]) \<noteq> []"
    "rc_app_names (new_reconciler toy_rt [shop_app]) !
       (rc_broker_index (new_reconciler toy_rt [shop_app]) mod length (rc_app_names (new_reconciler toy_rt [shop_app]))) = ''shop''"
    by code_simp+
  show ?thesis
    using redis_purge_idle_purges_all[where connect = "\<lambda>a. Inr redis_conn", OF app refl conn queues turn refl]
    by (simp add: empty_db_def orders_info_def)
qed

end
