(* ===== verification/Worker_Page_Facts.thy ===== *)
theory Worker_Page_Facts
  imports Worker_Pages Broker_Page_Facts
begin

text \<open>
  What the worker pages promise: the overview shows every worker, the metadata of a worker does not
  depend on passwords in its statistics and configuration and is shown completely, and a new worker is
  only started for a configured module.
\<close>

section \<open>The overview\<close>

lemma members_of_map_filter: "set (List.map_filter f xs) = {y. \<exists>x \<in> set xs. f x = Some y}"
  by (induction xs) (auto simp: map_filter_simps split: option.splits)

lemma lookup_worker:
  "distinct (map pw_hostname ws) \<Longrightarrow> dget (fold (\<lambda>w. dset (pw_hostname w) w) ws m) h =
     (case find (\<lambda>w. pw_hostname w = h) ws of None \<Rightarrow> dget m h | Some w \<Rightarrow> Some w)"
proof (induction ws arbitrary: m)
  case (Cons w ws)
  have "find (\<lambda>x. pw_hostname x = pw_hostname w) ws = None"
    using Cons.prems by (auto simp: find_None_iff) (metis image_eqI)
  then show ?case using Cons by (auto split: option.split)
qed simp

lemma lookup_some:
  assumes "distinct (map pw_hostname ws)"
  shows "dget (worker_lookup ws) h = Some w \<longleftrightarrow> w \<in> set ws \<and> pw_hostname w = h"
proof -
  have e: "dget (worker_lookup ws) h = find (\<lambda>w. pw_hostname w = h) ws"
    using lookup_worker[OF assms, of "[]" h] by (simp add: worker_lookup_def split: option.splits)
  have unique: "x \<in> set ws \<Longrightarrow> y \<in> set ws \<Longrightarrow> pw_hostname x = pw_hostname y \<Longrightarrow> x = y" for x y
    using assms by (auto simp: distinct_map inj_on_def)
  show ?thesis
  proof
    assume "dget (worker_lookup ws) h = Some w"
    then show "w \<in> set ws \<and> pw_hostname w = h" unfolding e by (auto simp: find_Some_iff)
  next
    assume w: "w \<in> set ws \<and> pw_hostname w = h"
    then have "find (\<lambda>w. pw_hostname w = h) ws \<noteq> None" by (auto simp: find_None_iff)
    then obtain x where x: "find (\<lambda>w. pw_hostname w = h) ws = Some x" by blast
    then have "x \<in> set ws" "pw_hostname x = h" by (auto simp: find_Some_iff)
    then show "dget (worker_lookup ws) h = Some w" unfolding e using x unique w by metis
  qed
qed

lemma build_workers_hosts: "map pw_hostname (build_workers rt now d) = map wr_hostname (db_workers d)"
  by (simp add: build_workers_def get_workers_def page_worker_of_def row_to_worker_def Let_def comp_def)

text \<open>C28: The overview shows every stored worker exactly on one side: under the brokers it is attached to,
  or among the unassigned workers, and it shows nothing else; under a broker stand exactly the stored
  workers the broker is listed with.\<close>

theorem overview_shows_every_worker:
  assumes "distinct (map wr_hostname (db_workers d))" and "worker_list_fragment rt now registry d = Inr ov"
  shows "set (ov_unassigned ov) \<union> (\<Union>(row, ws) \<in> set (ov_broker_tree ov). set ws) = set (build_workers rt now d) \<and>
    set (ov_unassigned ov) \<inter> (\<Union>(row, ws) \<in> set (ov_broker_tree ov). set ws) = {} \<and>
    (\<forall>(row, ws) \<in> set (ov_broker_tree ov).
       set ws = {w \<in> set (build_workers rt now d). pw_hostname w \<in> set (br_workers row)})"
proof -
  let ?ws = "build_workers rt now d"
  have dist: "distinct (map pw_hostname ?ws)" using assms(1) by (simp add: build_workers_hosts)
  note look = lookup_some[OF dist]
  obtain groups where tree: "ov_broker_tree ov = map (\<lambda>row. (row, broker_workers (worker_lookup ?ws) row)) groups"
    and rest: "ov_unassigned ov = filter (\<lambda>w. pw_hostname w \<notin> set (map pw_hostname (concat (map snd (ov_broker_tree ov))))) ?ws"
    using assms(2) by (auto simp: worker_list_fragment_def ebind_Inr_iff Let_def)
  have under: "set (broker_workers (worker_lookup ?ws) row) = {w \<in> set ?ws. pw_hostname w \<in> set (br_workers row)}" for row
    using look by (auto simp: broker_workers_def members_of_map_filter)
  let ?tree = "\<Union>(row, ws) \<in> set (ov_broker_tree ov). set ws"
  have t: "?tree = set (concat (map snd (ov_broker_tree ov)))" by (auto simp: case_prod_unfold)
  have sub: "?tree \<subseteq> set ?ws" unfolding tree using under by auto
  have unique: "x \<in> set ?ws \<Longrightarrow> y \<in> set ?ws \<Longrightarrow> pw_hostname x = pw_hostname y \<Longrightarrow> x = y" for x y
    using dist by (auto simp: distinct_map inj_on_def)
  have "set (ov_unassigned ov) = set ?ws - ?tree"
  proof (intro set_eqI iffI)
    fix w assume "w \<in> set (ov_unassigned ov)"
    then have "w \<in> set ?ws" "pw_hostname w \<notin> pw_hostname ` ?tree" unfolding rest t by auto
    then show "w \<in> set ?ws - ?tree" by blast
  next
    fix w assume w: "w \<in> set ?ws - ?tree"
    then have "pw_hostname w \<notin> pw_hostname ` ?tree" using sub unique by blast
    then show "w \<in> set (ov_unassigned ov)" using w unfolding rest t by auto
  qed
  moreover have "\<forall>(row, ws) \<in> set (ov_broker_tree ov). set ws = {w \<in> set ?ws. pw_hostname w \<in> set (br_workers row)}"
    unfolding tree using under by auto
  ultimately show ?thesis using sub by blast
qed

lemma overview_shows_every_worker_witness:
  "\<exists>ov. worker_list_fragment toy_rt (utc_dt 20) shop_registry after_online = Inr ov \<and>
     set (ov_unassigned ov) \<union> (\<Union>(row, ws) \<in> set (ov_broker_tree ov). set ws) = set (build_workers toy_rt (utc_dt 20) after_online)"
proof -
  define page where "page = worker_list_fragment toy_rt (utc_dt 20) shop_registry after_online"
  have hosts: "distinct (map wr_hostname (db_workers after_online))" by code_simp
  have "\<not> isl page" unfolding page_def by code_simp
  then obtain ov where ov: "page = Inr ov" by (cases page) simp_all
  then have "worker_list_fragment toy_rt (utc_dt 20) shop_registry after_online = Inr ov" by (simp only: page_def)
  note shown = overview_shows_every_worker[OF hosts this]
  show ?thesis by (rule exI[of _ ov], rule conjI[OF \<open>worker_list_fragment _ _ _ _ = Inr ov\<close> conjunct1[OF shown]])
qed

section \<open>Metadata\<close>

text \<open>C30: The detail page of a worker does not reveal passwords: snapshots whose statistics and configuration
  agree outside password fields, at any depth, give the same rows.\<close>

theorem worker_metadata_hides_passwords:
  assumes "same_public (PDict s1) (PDict s2)" and "same_public (PDict c1) (PDict c2)"
  shows "build_metadata_rows rt (Some s1) (Some c1) = build_metadata_rows rt (Some s2) (Some c2)"
proof -
  have "redacted_map m1 = redacted_map m2" if "same_public (PDict m1) (PDict m2)" for m1 m2
    using redact_same_public[OF that] unfolding redacted_map_def by simp
  then show ?thesis using assms unfolding build_metadata_rows_def by (simp only: option.map)
qed

lemma worker_metadata_hides_passwords_witness:
  "build_metadata_rows toy_rt (Some [(PStr ''pid'', PInt 7), (PStr ''password'', PStr ''a'')]) (Some [(PStr ''broker_pwd'', PStr ''x'')]) =
   build_metadata_rows toy_rt (Some [(PStr ''pid'', PInt 7), (PStr ''password'', PStr ''b'')]) (Some [(PStr ''broker_pwd'', PInt 1)])"
proof (rule worker_metadata_hides_passwords)
  have "password_entry (PStr ''password'')" "password_entry (PStr ''broker_pwd'')" by code_simp+
  then show "same_public (PDict [(PStr ''pid'', PInt 7), (PStr ''password'', PStr ''a'')])
      (PDict [(PStr ''pid'', PInt 7), (PStr ''password'', PStr ''b'')])"
    "same_public (PDict [(PStr ''broker_pwd'', PStr ''x'')]) (PDict [(PStr ''broker_pwd'', PInt 1)])"
    by (auto intro!: same_public.intros)
qed

text \<open>The groups the page is split into.\<close>

definition grouped :: "meta_groups \<Rightarrow> meta_row list" where
  "grouped g = mg_pool g @ mg_broker g @ mg_backend g @ mg_system g @ mg_config g @ mg_task g @ mg_other g"

lemma add_meta_grouped: "mset (grouped (add_meta row g)) = add_mset row (mset (grouped g))"
  by (simp add: add_meta_def grouped_def Let_def)

lemma fold_meta_grouped: "mset (grouped (fold add_meta rows g)) = mset rows + mset (grouped g)"
  by (induction rows arbitrary: g) (simp_all add: add_meta_grouped)

definition known_labels :: "string list" where
  "known_labels = POOL_META_LABELS @ BROKER_META_LABELS @ BACKEND_META_LABELS @ SYSTEM_META_LABELS @
     CONFIG_META_LABELS @ TASK_META_LABELS"

lemma add_meta_known: "fst row \<in> set known_labels \<Longrightarrow> mg_other (add_meta row g) = mg_other g"
  by (auto simp: add_meta_def known_labels_def Let_def)

lemma fold_meta_known:
  "(\<And>row. row \<in> set rows \<Longrightarrow> fst row \<in> set known_labels) \<Longrightarrow> mg_other (fold add_meta rows g) = mg_other g"
  by (induction rows arbitrary: g) (simp_all add: add_meta_known)

lemma meta_label: "row \<in> set (meta rt label v) \<Longrightarrow> fst row = label"
  by (auto simp: meta_def split: if_splits)

lemmas label_sets = known_labels_def POOL_META_LABELS_def BROKER_META_LABELS_def BACKEND_META_LABELS_def
  SYSTEM_META_LABELS_def CONFIG_META_LABELS_def TASK_META_LABELS_def

lemma stats_labels: "row \<in> set (stats_meta rt s) \<Longrightarrow> fst row \<in> set known_labels"
  unfolding stats_meta_def Let_def set_append
  by (elim UnE; drule meta_label; simp add: label_sets)

lemma conf_labels: "row \<in> set (conf_meta rt c) \<Longrightarrow> fst row \<in> set known_labels"
  unfolding conf_meta_def list.map prod.case concat.simps append_Nil2 set_append
  by (elim UnE; drule meta_label; simp add: label_sets)

text \<open>The detail page shows every metadata row of a worker, in exactly one of its groups, and the group for
  other rows stays empty: each label the rows can have belongs to a group.\<close>

theorem worker_metadata_complete:
  "mset (grouped (split_metadata_rows (build_metadata_rows rt s c))) = mset (build_metadata_rows rt s c) \<and>
   mg_other (split_metadata_rows (build_metadata_rows rt s c)) = []"
proof -
  have "fst row \<in> set known_labels" if "row \<in> set (build_metadata_rows rt s c)" for row
    using that stats_labels[of row rt] conf_labels[of row rt] unfolding build_metadata_rows_def
    by (auto split: option.splits list.splits)
  then have "mg_other (split_metadata_rows (build_metadata_rows rt s c)) = []"
    unfolding split_metadata_rows_def by (subst fold_meta_known) simp_all
  moreover have "mset (grouped (split_metadata_rows (build_metadata_rows rt s c))) = mset (build_metadata_rows rt s c)"
    unfolding split_metadata_rows_def fold_meta_grouped by (simp add: grouped_def)
  ultimately show ?thesis by blast
qed

section \<open>Actions and the snapshot\<close>

text \<open>A command is only started for the module of a configured app, and the input is one argument each.\<close>

lemma worker_add_configured:
  "worker_add rt options post = (Some command, reply) \<Longrightarrow>
   \<exists>o' \<in> set options. take 6 command = [''uv'', ''run'', ''celery'', ''-A'', wo_module o', ''worker''] \<and> reply = GoTo ''workers''"
  by (auto simp: worker_add_def Let_def split: if_splits)

text \<open>The pool size of the page is the stored one: a missing size is 0 and the snapshot is never asked.\<close>

lemma page_pool_size: "resolve_pool_size (Some (pw_pool_size (page_worker_of now w))) stats = Some (or_int (wk_pool_size w) 0)"
  by (simp add: resolve_pool_size_def page_worker_of_def Let_def)

text \<open>Control calls go through the first registered app, whatever broker the worker belongs to.\<close>

lemma grow_first_app:
  assumes "registry = (n, a) # rest" and "app_name rt a = n"
  shows "fst (worker_grow rt registry control hostname) = Some (a, PoolGrow 1 (Some [hostname]))"
  using assms by (simp add: worker_grow_def control_action_def default_worker_name_def get_apps_def dvalues_def
      pool_grow_def on_app_def get_app_def split: prod.split)

end
