(* ===== verification/Dashboard_Facts.thy ===== *)
theory Dashboard_Facts
  imports Dashboard Worker_Page_Facts
begin

text \<open>
  What the dashboard promises: its table of workers agrees with the worker pages and counts the tasks of
  each worker exactly, its cards count the stored tasks; and where its numbers mislead: the change of
  throughput after midnight, workers that went offline, brokers that differ only in their password.
\<close>

section \<open>Workers\<close>

text \<open>The dashboard and the worker pages agree on the workers: they list the same workers, each with the
  same status, number of active tasks and time since its last heartbeat.\<close>

theorem workers_shown_alike:
  "mset (map (\<lambda>r. (ws_hostname r, ws_status r, ws_active r, ws_last_seen_seconds r)) (worker_rows rt now d)) =
   mset (map (\<lambda>w. (pw_hostname w, pw_status w, pw_active w, map_option seconds_ago (pw_last_seen w))) (build_workers rt now d))"
proof -
  have active: "(case n of None \<Rightarrow> 0 | Some k \<Rightarrow> k) = or_int n 0" for n :: "int option"
    by (cases n) (simp_all add: or_int_def)
  show ?thesis
    by (simp add: worker_rows_def build_workers_def worker_summary_of_def page_worker_of_def Let_def active
        image_mset.compositionality comp_def)
qed

text \<open>The state a task is counted under.\<close>

definition shown_state :: "task \<Rightarrow> string" where
  "shown_state t = (if tk_state t = ''RECEIVED'' then ''PENDING'' else tk_state t)"

definition tasks_in :: "string \<Rightarrow> string \<Rightarrow> task list \<Rightarrow> nat" where
  "tasks_in w s ts = length (filter (\<lambda>t. tk_worker t = Some w \<and> shown_state t = s) ts)"

lemma counted_cells:
  "dget counts w = Some cells \<Longrightarrow>
   \<exists>cells'. dget (fold count_task_state ts counts) w = Some cells' \<and>
     (\<forall>s. dget cells' s = map_option (\<lambda>n. n + tasks_in w s ts) (dget cells s))"
proof (induction ts arbitrary: counts cells)
  case Nil
  then show ?case by (simp add: tasks_in_def option.map_ident)
next
  case (Cons t ts)
  let ?here = "\<lambda>s. tk_worker t = Some w \<and> shown_state t = s"
  obtain cells1 where one: "dget (count_task_state t counts) w = Some cells1"
    and step: "\<And>s. dget cells1 s = map_option (\<lambda>n. if ?here s then n + 1 else n) (dget cells s)"
  proof (cases "tk_worker t = Some w \<and> dget cells (shown_state t) \<noteq> None")
    case True
    then obtain n where n: "dget cells (shown_state t) = Some n" by blast
    then have "dget (count_task_state t counts) w = Some (dset (shown_state t) (n + 1) cells)"
      using True Cons.prems by (simp add: count_task_state_def shown_state_def)
    then show ?thesis
      by (rule that) (use True n in \<open>auto simp: option.map_ident\<close>)
  next
    case False
    then have "dget (count_task_state t counts) w = Some cells"
      using Cons.prems by (auto simp: count_task_state_def shown_state_def Let_def split: option.splits)
    then show ?thesis
      by (rule that) (use False in \<open>auto simp: map_option_case split: option.split\<close>)
  qed
  from Cons.IH[OF one] obtain cells' where "dget (fold count_task_state ts (count_task_state t counts)) w = Some cells'"
    and "\<And>s. dget cells' s = map_option (\<lambda>n. n + tasks_in w s ts) (dget cells1 s)" by blast
  then show ?case
    using step by (auto simp: tasks_in_def option.map_comp comp_def intro!: map_option_cong)
qed

lemma initial_cells:
  "dget (fold (\<lambda>w. dset (wk_hostname w) zero_states) ws m) h =
     (if h \<in> wk_hostname ` set ws then Some zero_states else dget m h)"
  by (induction ws arbitrary: m) auto

lemma zero_cells: "dget zero_states s = (if s \<in> set WORKER_STATE_COLUMNS then Some 0 else None)"
  by (simp add: zero_states_def WORKER_STATE_COLUMNS_def)

lemma final_sum:
  "tasks_in w ''SUCCESS'' ts + tasks_in w ''FAILURE'' ts + tasks_in w ''REVOKED'' ts =
   length (filter (\<lambda>t. tk_worker t = Some w \<and> tk_state t \<in> {''SUCCESS'', ''FAILURE'', ''REVOKED''}) ts)"
  by (induction ts) (simp_all add: tasks_in_def shown_state_def)

text \<open>C29: The state cells of a worker count its tasks exactly: each cell is the number of stored tasks of this
  worker in this state, a received task as pending, and the number of processed tasks is that of its
  tasks that succeeded, failed or were revoked.\<close>

theorem worker_cells_exact:
  assumes "r \<in> set (worker_rows rt now d)"
  shows "ws_state_cells r = map (\<lambda>s. (s, tasks_in (ws_hostname r) s (get_tasks None d))) WORKER_STATE_COLUMNS \<and>
    ws_processed r = length (filter (\<lambda>t. tk_worker t = Some (ws_hostname r) \<and>
      tk_state t \<in> {''SUCCESS'', ''FAILURE'', ''REVOKED''}) (get_tasks None d))"
proof -
  let ?ts = "get_tasks None d"
  let ?start = "fold (\<lambda>w. dset (wk_hostname w) zero_states) (get_workers rt d) []"
  obtain w where w: "w \<in> set (get_workers rt d)"
    and r: "r = worker_summary_of now (fold count_task_state ?ts ?start) w"
    using assms by (auto simp: worker_rows_def Let_def)
  have "dget ?start (wk_hostname w) = Some zero_states" using w by (simp add: initial_cells)
  from counted_cells[OF this, of ?ts] obtain cells where
    cells: "dget (fold count_task_state ?ts ?start) (wk_hostname w) = Some cells"
    and counts: "\<And>s. dget cells s = map_option (\<lambda>n. n + tasks_in (wk_hostname w) s ?ts) (dget zero_states s)" by blast
  have cell: "dget_or cells s 0 = tasks_in (wk_hostname w) s ?ts" if "s \<in> set WORKER_STATE_COLUMNS" for s
    using counts[of s] that by (simp add: dget_or_def zero_cells)
  have stats: "dget_or (fold count_task_state ?ts ?start) (wk_hostname w) zero_states = cells"
    using cells by (simp add: dget_or_def)
  have host: "ws_hostname r = wk_hostname w" and shown: "ws_state_cells r = map (\<lambda>s. (s, dget_or cells s 0)) WORKER_STATE_COLUMNS"
    and processed: "ws_processed r = sum_list (map (\<lambda>s. dget_or cells s 0) [''SUCCESS'', ''FAILURE'', ''REVOKED''])"
    unfolding r worker_summary_of_def Let_def stats by simp_all
  have final: "set [''SUCCESS'', ''FAILURE'', ''REVOKED''] \<subseteq> set WORKER_STATE_COLUMNS"
    by (simp add: WORKER_STATE_COLUMNS_def)
  have "ws_processed r = tasks_in (wk_hostname w) ''SUCCESS'' ?ts + tasks_in (wk_hostname w) ''FAILURE'' ?ts +
      tasks_in (wk_hostname w) ''REVOKED'' ?ts"
    unfolding processed using cell final by simp
  also have "\<dots> = length (filter (\<lambda>t. tk_worker t = Some (wk_hostname w) \<and>
      tk_state t \<in> {''SUCCESS'', ''FAILURE'', ''REVOKED''}) ?ts)"
    by (rule final_sum)
  finally show ?thesis using cell unfolding host shown by simp
qed

definition run_task :: "string \<Rightarrow> string \<Rightarrow> string \<Rightarrow> int \<Rightarrow> task" where
  "run_task i w s t = \<lparr>tk_task_id = i, tk_name = Some ''job'', tk_state = s, tk_worker = Some w, tk_received = None,
     tk_started = None, tk_finished = Some (DT t None), tk_runtime = None, tk_args = None, tk_kwargs = None,
     tk_result = None, tk_traceback = None, tk_stamps = None, tk_retries = None, tk_parent_id = None,
     tk_root_id = None, tk_group_id = None, tk_chord_id = None\<rparr>"

definition busy_db :: db where
  "busy_db = after_online\<lparr>db_tasks := [run_task ''a'' ''w1'' ''SUCCESS'' 1, run_task ''b'' ''w1'' ''RECEIVED'' 2,
     run_task ''c'' ''w1'' ''SUCCESS'' 3, run_task ''d'' ''w2'' ''FAILURE'' 4]\<rparr>"

lemma worker_cells_exact_witness:
  "\<exists>r \<in> set (worker_rows toy_rt (utc_dt 20) busy_db). ws_processed r = 2 \<and> (''PENDING'', 1) \<in> set (ws_state_cells r)"
proof -
  have some: "worker_rows toy_rt (utc_dt 20) busy_db \<noteq> []"
    and host: "ws_hostname (hd (worker_rows toy_rt (utc_dt 20) busy_db)) = ''w1''" by code_simp+
  have counts: "length (filter (\<lambda>t. tk_worker t = Some ''w1'' \<and> tk_state t \<in> {''SUCCESS'', ''FAILURE'', ''REVOKED''}) (get_tasks None busy_db)) = 2"
    "(''PENDING'', 1) \<in> set (map (\<lambda>s. (s, tasks_in ''w1'' s (get_tasks None busy_db))) WORKER_STATE_COLUMNS)"
    by code_simp+
  from worker_cells_exact[OF hd_in_set[OF some]] have
    "ws_processed (hd (worker_rows toy_rt (utc_dt 20) busy_db)) = 2 \<and>
     (''PENDING'', 1) \<in> set (ws_state_cells (hd (worker_rows toy_rt (utc_dt 20) busy_db)))"
    unfolding host counts(1) using counts(2) by metis
  then show ?thesis using hd_in_set[OF some] by (rule bexI)
qed

section \<open>Cards\<close>

lemma map_of_counted: "map_of (map (\<lambda>s. (s, f s)) xs) s = (if s \<in> set xs then Some (f s) else None)"
  by (induction xs) auto

lemma distribution_count:
  "dget_or (get_state_distribution d) s 0 = length (filter (\<lambda>t. tk_state t = s) (db_tasks d))"
  by (auto simp: get_state_distribution_def dget_or_def map_of_counted filter_empty_conv)

lemma length_filter_or:
  "(\<And>x. \<not> (P x \<and> Q x)) \<Longrightarrow> length (filter (\<lambda>x. P x \<or> Q x) xs) = length (filter P xs) + length (filter Q xs)"
  by (induction xs) auto

lemma collapsed_count:
  assumes "\<And>s. dget_or counts s 0 = length (filter (\<lambda>t. tk_state t = s) ts)" and "s \<noteq> ''RECEIVED''"
  shows "dget_or (collapse_received counts) s 0 = length (filter (\<lambda>t. shown_state t = s) ts)"
proof -
  have shown: "length (filter (\<lambda>t. shown_state t = s) ts) =
      length (filter (\<lambda>t. tk_state t = s) ts) + (if s = ''PENDING'' then length (filter (\<lambda>t. tk_state t = ''RECEIVED'') ts) else 0)"
  proof (cases "s = ''PENDING''")
    case True
    have e: "(shown_state t = ''PENDING'') = (tk_state t = ''PENDING'' \<or> tk_state t = ''RECEIVED'')" for t
      by (simp add: shown_state_def)
    have disjoint: "\<not> (tk_state t = ''PENDING'' \<and> tk_state t = ''RECEIVED'')" for t by simp
    show ?thesis unfolding True e length_filter_or[OF disjoint] by simp
  next
    case False
    then have e: "(shown_state t = s) = (tk_state t = s)" for t
      using assms(2) by (simp add: shown_state_def)
    show ?thesis unfolding e using False by simp
  qed
  show ?thesis
  proof (cases "dget counts ''RECEIVED''")
    case None
    then have "length (filter (\<lambda>t. tk_state t = ''RECEIVED'') ts) = 0"
      using assms(1)[of "''RECEIVED''"] by (simp add: dget_or_def)
    then show ?thesis using None assms(1)[of s] shown by (simp add: collapse_received_def)
  next
    case (Some n)
    then have "dget_or (collapse_received counts) s 0 =
        (if s = ''PENDING'' then dget_or counts ''PENDING'' 0 + dget_or counts ''RECEIVED'' 0 else dget_or counts s 0)"
      using assms(2) by (simp add: collapse_received_def dget_or_dpop dget_or_dset)
    then show ?thesis using assms(1) shown by (cases "s = ''PENDING''") simp_all
  qed
qed

lemma count_by_state_count: "dget_or (count_by_state ts) s 0 = length (filter (\<lambda>t. tk_state t = s) ts)"
proof -
  have "dget_or (fold (\<lambda>t counts. dset (tk_state t) (dget_or counts (tk_state t) 0 + 1) counts) ts m) s 0 =
      dget_or m s 0 + length (filter (\<lambda>t. tk_state t = s) ts)" for m
    by (induction ts arbitrary: m) (simp_all add: dget_or_dset)
  from this[of "[]"] show ?thesis by (simp add: count_by_state_def dget_or_def)
qed

text \<open>The number of tasks of the last hour in a state less that of the hour before it.\<close>

definition hour_change :: "pydt \<Rightarrow> db \<Rightarrow> string \<Rightarrow> int" where
  "hour_change now d s =
     int (length (filter (\<lambda>t. shown_state t = s) (tasks_between (ago us_per_hour now) now d))) -
     int (length (filter (\<lambda>t. shown_state t = s) (tasks_between (ago (2 * us_per_hour) now) (ago us_per_hour now) d)))"

text \<open>The state cards show the succeeded, failed, running and pending tasks, in this order; each counts the
  stored tasks in its state, the received ones as pending, and shows the difference between the last
  hour and the hour before it.\<close>

theorem state_cards_exact:
  "map (\<lambda>c. (ca_label c, ca_state c, ca_count c, ca_change c)) (state_cards now d) =
   map (\<lambda>(s, label). (label, s, length (filter (\<lambda>t. shown_state t = s) (db_tasks d)),
       if hour_change now d s = 0 then ''0''
       else (if 0 < hour_change now d s then UP_ARROW else DOWN_ARROW) @ '' '' @ show_int \<bar>hour_change now d s\<bar>))
     [(''SUCCESS'', ''Succeeded''), (''FAILURE'', ''Failed''), (''STARTED'', ''Running''), (''PENDING'', ''Pending'')]"
proof -
  have current: "dget_or (collapse_received (get_state_distribution d)) s 0 = length (filter (\<lambda>t. shown_state t = s) (db_tasks d))"
    and recent: "dget_or (collapse_received (count_by_state ts)) s 0 = length (filter (\<lambda>t. shown_state t = s) ts)"
    if "s \<noteq> ''RECEIVED''" for s ts
    using collapsed_count[OF distribution_count that] collapsed_count[OF count_by_state_count that] by blast+
  show ?thesis
    by (simp add: state_cards_def CARD_LABELS_def state_change_def hour_change_def Let_def current recent)
qed

section \<open>Where the numbers mislead\<close>

lemma count_hours:
  "fold (count_hour now) ts (a, b) = (a + length (filter (in_last_hour now) ts),
     b + length (filter (\<lambda>t. \<not> in_last_hour now t \<and> in_prev_hour now t) ts))"
  by (induction ts arbitrary: a b) (simp_all add: count_hour_def)

lemma row_timestamp: "task_timestamp (row_to_task r) = coerce_dt (task_timestamp r)"
  by (simp add: task_timestamp_def row_to_task_def or_else_def coerce_dt_def split: option.split)

text \<open>In the first hour after midnight the dashboard never shows a change of throughput, however many
  tasks ran: it compares the last two hours but only looks at the tasks of the current day.\<close>

theorem no_change_after_midnight:
  assumes "dt_off now = Some 0" and "dt_local now mod us_per_day < us_per_hour"
    and "\<And>r t. r \<in> set (db_tasks d) \<Longrightarrow> task_timestamp r = Some t \<Longrightarrow> dt_off t = None"
  shows "format_percent (sm_tasks_delta_pct (compute_metrics rt registry now d)) = ''no data yet''"
proof -
  let ?flt = "no_filter\<lparr>tf_time_range := Some \<lparr>tr_start = day_start now, tr_end = now\<rparr>\<rparr>"
  have "\<not> in_prev_hour now t" if t: "t \<in> set (get_tasks (Some ?flt) d)" for t
  proof -
    obtain r where r: "r \<in> set (db_tasks d)" "t = row_to_task r" "apply_task_filters ?flt r"
      using t by (auto simp: get_tasks_def matching_rows_def sort_desc_key_def)
    then have "sql_between (task_timestamp r) (day_start now) now"
      by (simp add: apply_task_filters_def no_filter_def)
    then obtain ts where ts: "task_timestamp r = Some ts" "dt_local (day_start now) \<le> dt_local ts"
      by (auto simp: sql_between_def split: option.splits)
    have "task_timestamp t = Some (with_utc ts)"
      unfolding r(2) row_timestamp using ts assms(3)[OF r(1) ts(1)] by (simp add: coerce_dt_def)
    moreover have "dt_local (with_utc ts) = dt_local ts" "dt_instant (with_utc ts) = dt_local ts"
      by (simp_all add: with_utc_def dt_instant_def)
    moreover have "dt_local now - us_per_hour < dt_local ts"
      using ts(2) assms(2) by (simp add: day_start_def)
    ultimately show ?thesis using assms(1) by (simp add: in_prev_hour_def dt_instant_def)
  qed
  then have "filter (\<lambda>t. \<not> in_last_hour now t \<and> in_prev_hour now t) (get_tasks (Some ?flt) d) = []"
    by (simp add: filter_empty_conv)
  then have "task_delta_percentage (get_tasks (Some ?flt) d) now = None"
    by (simp add: task_delta_percentage_def count_hours)
  then show ?thesis
    by (simp add: compute_metrics_def Let_def format_percent_def split: prod.split)
qed

text \<open>Five minutes past midnight on 1970-01-02, with a task at 22:30, one at 23:30 and one just now.\<close>

definition midnight_db :: db where
  "midnight_db = empty_db\<lparr>db_tasks := [run_task ''a'' ''w1'' ''SUCCESS'' 81000000000, run_task ''b'' ''w1'' ''SUCCESS'' 84600000000,
     run_task ''c'' ''w1'' ''SUCCESS'' 86600000000]\<rparr>"

lemma no_change_after_midnight_witness:
  "format_percent (sm_tasks_delta_pct (compute_metrics toy_rt [] (utc_dt 86700000000) midnight_db)) = ''no data yet''"
proof (rule no_change_after_midnight)
  show "dt_off (utc_dt 86700000000) = Some 0" by (simp add: utc_dt_def)
  show "dt_local (utc_dt 86700000000) mod us_per_day < us_per_hour" by (simp add: utc_dt_def us_defs)
  show "dt_off t = None" if "r \<in> set (db_tasks midnight_db)" "task_timestamp r = Some t" for r t
    using that unfolding midnight_db_def by (auto simp: task_timestamp_def run_task_def)
qed

text \<open>A worker whose shutdown was announced is shown offline by its status and still counted as online, for
  two minutes after its last heartbeat.\<close>

lemma offline_counted_online:
  assumes "py_upper (wk_status w) = ''OFFLINE''" and "wk_last_heartbeat w = Some t"
    and "dt_instant now - dt_instant t \<le> 120 * us_per_second"
  shows "fst (worker_online_counts [w] now) = 1 \<and> pw_status (page_worker_of now w) = ''offline''"
  using assms by (simp add: worker_online_counts_def count_worker_def page_worker_of_def resolve_status_def Let_def)

text \<open>Two brokers that differ only in their password are one broker once redacted, and its pending messages
  are counted for each of them.\<close>

definition twin_registry :: "(string, app) pydict" where
  "twin_registry = [(''a'', \<lparr>app_id = 1, app_main = Some ''a'', app_conf = [(''broker_url'', PStr ''redis://:x@h/0'')]\<rparr>),
     (''b'', \<lparr>app_id = 2, app_main = Some ''b'', app_conf = [(''broker_url'', PStr ''redis://:y@h/0'')]\<rparr>)]"

definition twin_db :: db where
  "twin_db = store_broker_queue_event \<lparr>bq_broker_url = ''redis://:***@h/0'', bq_queue = ''q'', bq_messages = Some 5,
     bq_consumers = Some 1, bq_timestamp = utc_dt 0\<rparr> empty_db"

lemma pending_counted_twice:
  "sum_list (map (pending_of twin_db) (dkeys (get_brokers toy_rt twin_registry))) = 10"
proof -
  have "dkeys (get_brokers toy_rt twin_registry) = [''redis://:x@h/0'', ''redis://:y@h/0'']" by code_simp
  moreover have "pending_of twin_db ''redis://:x@h/0'' = 5" "pending_of twin_db ''redis://:y@h/0'' = 5" by code_simp+
  ultimately show ?thesis by simp
qed

end
