(* ===== verification/Web_Components.thy ===== *)
theory Web_Components
  imports Settings Web_Services Engine
begin

text \<open>
  The components a running program shows on its pages (celery_root/components/web/components.py), the settings
  page with the commands that connect an MCP client (views/settings.py), and the system endpoints (views/system.py,
  views/metrics.py). Rendering is Django; a JSON document is the value it is made of.
\<close>

section \<open>URLs\<close>

definition ANY_HOSTS :: "string list" where "ANY_HOSTS = [''0.0.0.0'', ''::'']"

definition local_host :: "string \<Rightarrow> string" where
  "local_host host = (if host \<in> set ANY_HOSTS then ''127.0.0.1'' else host)"

definition bracket_host :: "string \<Rightarrow> string" where
  "bracket_host host = (if CHR '':'' \<in> set host \<and> \<not> starts_with ''['' host then ''['' @ host @ '']'' else host)"

definition slash_path :: "string \<Rightarrow> string" where
  "slash_path path = (if starts_with ''/'' path then path else ''/'' @ path)"

definition strip_slashes :: "string \<Rightarrow> string" where
  "strip_slashes path = rstrip_by (\<lambda>c. c = CHR ''/'') path"

definition http_url :: "string \<Rightarrow> int \<Rightarrow> string \<Rightarrow> string" where
  "http_url host port path = ''http://'' @ host @ '':'' @ show_int port @ path"

definition metrics_url :: "root_config \<Rightarrow> string" where
  "metrics_url config =
     (let host = bracket_host (local_host (case rt_frontend config of None \<Rightarrow> ''127.0.0.1'' | Some f \<Rightarrow> fc_host f));
          (port, path) = (case rt_prometheus config of None \<Rightarrow> (8001, ''/metrics'') | Some p \<Rightarrow> (pc_port p, pc_prometheus_path p))
      in http_url host port path)"

definition frontend_url :: "root_config \<Rightarrow> string" where
  "frontend_url config = (case rt_frontend config of
       None \<Rightarrow> []
     | Some f \<Rightarrow> http_url (bracket_host (local_host (fc_host f))) (fc_port f) ''/'')"

definition component_mcp_url :: "root_config \<Rightarrow> string" where
  "component_mcp_url config = (case rt_mcp config of
       None \<Rightarrow> []
     | Some m \<Rightarrow>
         (let path = slash_path (if mc_path m = [] then ''/mcp/'' else mc_path m)
          in http_url (bracket_host (local_host (mc_host m))) (mc_port m) (strip_slashes path @ ''/'')))"

section \<open>Components\<close>

record component_info =
  ci_key :: string
  ci_display_name :: string
  ci_enabled :: bool
  ci_url :: "string option"
  ci_config :: "(string, pyval) pydict option"

definition component_of :: "string \<Rightarrow> string \<Rightarrow> 'a option \<Rightarrow> string option \<Rightarrow> ('a \<Rightarrow> (string, pyval) pydict) \<Rightarrow> string \<times> component_info" where
  "component_of key name section url describe =
     (key, \<lparr>ci_key = key, ci_display_name = name, ci_enabled = (section \<noteq> None),
        ci_url = (if section = None then None else url), ci_config = map_option describe section\<rparr>)"

definition opt_float :: "rat option \<Rightarrow> pyval" where
  "opt_float x = (case x of None \<Rightarrow> PNone | Some v \<Rightarrow> PFloat v)"

definition component_snapshot :: "root_config \<Rightarrow> (string, component_info) pydict" where
  "component_snapshot config =
     [component_of ''prometheus'' ''Prometheus'' (rt_prometheus config) (Some (metrics_url config))
        (\<lambda>p. [(''port'', PInt (pc_port p)), (''path'', PStr (pc_prometheus_path p))]),
      component_of ''open_telemetry'' ''OpenTelemetry'' (rt_open_telemetry config) None
        (\<lambda>p. [(''endpoint'', PStr (oc_endpoint p)), (''service_name'', PStr (oc_service_name p))]),
      component_of ''beat'' ''Beat'' (rt_beat config) None (\<lambda>b. [(''db_refresh_seconds'', opt_float (bc_db_refresh_seconds b))]),
      component_of ''frontend'' ''Web'' (rt_frontend config) (Some (frontend_url config))
        (\<lambda>f. [(''host'', PStr (fc_host f)), (''port'', PInt (fc_port f))]),
      component_of ''mcp'' ''MCP'' (rt_mcp config) (Some (component_mcp_url config))
        (\<lambda>m. [(''host'', PStr (mc_host m)), (''port'', PInt (mc_port m)), (''path'', PStr (mc_path m)),
              (''auth_configured'', PBool (truthy_str (mc_auth_key m)))])]"

definition component_context :: "root_config \<Rightarrow> (string, component_info) pydict \<times> (string, bool) pydict" where
  "component_context config =
     (let snapshot = component_snapshot config in (snapshot, map (\<lambda>(k, info). (k, ci_enabled info)) snapshot))"

text \<open>\<open>components\<close>: what the endpoint answers.\<close>

definition components_json :: "root_config \<Rightarrow> (string, bool \<times> string option \<times> (string, pyval) pydict option) pydict" where
  "components_json config =
     map (\<lambda>(k, info). (k, ci_enabled info, ci_url info, ci_config info)) (component_snapshot config)"

text \<open>The pages of the metrics components: None is the 404 page.\<close>

definition metrics_page :: "string \<Rightarrow> root_config \<Rightarrow> component_info option" where
  "metrics_page key config = (case dget (component_snapshot config) key of
       None \<Rightarrow> None
     | Some info \<Rightarrow> (if ci_enabled info then Some info else None))"

definition prometheus_page :: "root_config \<Rightarrow> component_info option" where
  "prometheus_page config = metrics_page ''prometheus'' config"

definition opentelemetry_page :: "root_config \<Rightarrow> component_info option" where
  "opentelemetry_page config = metrics_page ''open_telemetry'' config"

section \<open>The settings page\<close>

text \<open>The settings of the web process are made once, when it starts: \<open>django_mcp\<close> is their MCP section.\<close>

definition django_mcp :: "root_config \<Rightarrow> mcp_config" where
  "django_mcp config = (case rt_mcp config of Some m \<Rightarrow> m | None \<Rightarrow> default_mcp)"

record settings_view =
  sv_prometheus_component :: "component_info option"
  sv_scrape_snippet :: string
  sv_otel_component :: "component_info option"
  sv_mcp_enabled :: bool
  sv_mcp_auth_configured :: bool
  sv_mcp_url :: string
  sv_mcp_config :: pyval
  sv_codex_command :: string
  sv_claude_config :: pyval
  sv_claude_command :: string

definition NEWLINE :: string where "NEWLINE = [CHR 0x0A]"

definition QUOTE :: string where "QUOTE = [CHR 0x27]"

definition DQUOTE :: string where "DQUOTE = [CHR 0x22]"

definition scrape_snippet :: "root_config \<Rightarrow> string" where
  "scrape_snippet config =
     (let host = local_host (case rt_frontend config of None \<Rightarrow> ''127.0.0.1'' | Some f \<Rightarrow> fc_host f);
          (port, path) = (case rt_prometheus config of None \<Rightarrow> (8001, ''/metrics'') | Some p \<Rightarrow> (pc_port p, pc_prometheus_path p))
      in join NEWLINE [''- job_name: celery_root'', ''  metrics_path: '' @ slash_path path, ''  static_configs:'',
           ''  - targets: ['' @ QUOTE @ host @ '':'' @ show_int port @ QUOTE @ '']''])"

definition shown_mcp :: "mcp_config \<Rightarrow> root_config \<Rightarrow> mcp_config" where
  "shown_mcp web config = (case rt_mcp config of Some m \<Rightarrow> m | None \<Rightarrow> web)"

definition settings_mcp_url :: "mcp_config \<Rightarrow> root_config \<Rightarrow> string" where
  "settings_mcp_url web config =
     (let m = shown_mcp web config
      in http_url (mc_host m) (mc_port m) (strip_slashes (slash_path (mc_path m)) @ ''/''))"

definition shown_auth_key :: "root_config \<Rightarrow> string" where
  "shown_auth_key config = (case rt_mcp config of
       Some m \<Rightarrow> (if truthy_str (mc_auth_key m) then the (mc_auth_key m) else ''<YOUR_MCP_AUTH_KEY>'')
     | None \<Rightarrow> ''<YOUR_MCP_AUTH_KEY>'')"

definition server_entry :: "(pyval \<times> pyval) list \<Rightarrow> string \<Rightarrow> string \<Rightarrow> pyval" where
  "server_entry extra url key = PDict [(PStr ''mcpServers'', PDict [(PStr ''celery_root'', PDict (extra @
     [(PStr ''url'', PStr url), (PStr ''headers'', PDict [(PStr ''Authorization'', PStr (''Bearer '' @ key))])]))])]"

definition settings_page :: "mcp_config \<Rightarrow> root_config \<Rightarrow> settings_view" where
  "settings_page web config =
     (let snapshot = component_snapshot config; url = settings_mcp_url web config; key = shown_auth_key config
      in \<lparr>sv_prometheus_component = dget snapshot ''prometheus'', sv_scrape_snippet = scrape_snippet config,
           sv_otel_component = dget snapshot ''open_telemetry'',
           sv_mcp_enabled = (case dget snapshot ''mcp'' of None \<Rightarrow> False | Some info \<Rightarrow> ci_enabled info),
           sv_mcp_auth_configured = truthy_str (mc_auth_key web), sv_mcp_url = url,
           sv_mcp_config = server_entry [] url key,
           sv_codex_command = ''codex mcp add celery_root --url '' @ DQUOTE @ url @ ''?token='' @ key @ DQUOTE,
           sv_claude_config = server_entry [(PStr ''type'', PStr ''http'')] url key,
           sv_claude_command = ''claude mcp add --transport http celery_root '' @ url @ '' --header '' @ DQUOTE @
             ''Authorization: Bearer '' @ key @ DQUOTE\<rparr>)"

section \<open>System endpoints\<close>

definition all_ok :: "(string, health) pydict \<Rightarrow> bool" where
  "all_ok checks = list_all (\<lambda>(k, h). hl_ok h) checks"

datatype system_reply =
    NotConfigured
  | UnknownWorker
  | Checked bool string "(string, health) pydict"

definition status_code :: "system_reply \<Rightarrow> nat" where
  "status_code r = (case r of NotConfigured \<Rightarrow> 503 | UnknownWorker \<Rightarrow> 404 | Checked ok w checks \<Rightarrow> 200)"

definition healthcheck :: "pyrt \<Rightarrow> (string \<Rightarrow> pyexc + (health \<times> health \<times> health)) \<Rightarrow> (string, app) pydict \<Rightarrow>
    (string, string) pydict \<Rightarrow> pyexc + system_reply" where
  "healthcheck rt check registry get = (case get_apps registry of
       [] \<Rightarrow> Inr NotConfigured
     | a # _ \<Rightarrow>
         (let worker = or_str (dget get ''worker'') (app_name rt a)
          in case check worker of
              Inl (KeyError m) \<Rightarrow> Inr UnknownWorker
            | Inl e \<Rightarrow> Inl e
            | Inr (broker, backend, workers) \<Rightarrow>
                (let checks = [(''broker'', broker), (''backend'', backend), (''workers'', workers)]
                 in Inr (Checked (all_ok checks) worker checks))))"

text \<open>The proxy of the metrics: status, body and content type.\<close>

definition metrics_proxy :: "(string \<Rightarrow> pyexc + (string \<times> string option)) \<Rightarrow> root_config \<Rightarrow> pyexc + (nat \<times> string \<times> string)" where
  "metrics_proxy fetch config = (case rt_prometheus config of
       None \<Rightarrow> Inr (404, ''Prometheus exporter is disabled.'', ''text/html; charset=utf-8'')
     | Some p \<Rightarrow> (case fetch (http_url ''127.0.0.1'' (pc_port p) (pc_prometheus_path p)) of
           Inl (OSError m) \<Rightarrow> Inr (503, ''Prometheus exporter unavailable.'', ''text/html; charset=utf-8'')
         | Inl e \<Rightarrow> Inl e
         | Inr (body, kind) \<Rightarrow> Inr (200, body, (case kind of None \<Rightarrow> ''text/plain; version=0.0.4'' | Some k \<Rightarrow> k))))"

end
