(* ===== verification/Mcp_Server.thy ===== *)
theory Mcp_Server
  imports Web_Components Rpc_Client Dashboard Task_Pages Broker_Pages
begin

text \<open>
  The MCP server (celery_root/components/mcp/server.py): its address, the token a request carries in its query,
  the health route, the catalog of tables, and the tools, which are calls of the database client. FastMCP itself
  (the protocol, the verification of tokens against the ones given to it) is outside.
\<close>

section \<open>The address\<close>

definition mcp_path :: "string \<Rightarrow> string" where
  "mcp_path path =
     (let cleaned = strip_slashes (slash_path (py_strip path)) in if cleaned = [] then ''/'' else cleaned)"

definition with_slash :: "string \<Rightarrow> string" where
  "with_slash path = (if path \<noteq> ''/'' then path @ ''/'' else ''/'')"

definition build_mcp_url :: "mcp_config \<Rightarrow> string" where
  "build_mcp_url m =
     (let path = mcp_path (mc_path m);
          path = (if path \<noteq> ''/'' \<and> \<not> ends_with ''/'' path then path @ ''/'' else path)
      in http_url (bracket_host (local_host (mc_host m))) (mc_port m) path)"

section \<open>Requests\<close>

text \<open>An ASGI scope: its type, the headers, the query and the path. Bytes are characters.\<close>

record asgi_scope =
  as_type :: string
  as_headers :: "(string \<times> string) list"
  as_query :: string
  as_path :: string

text \<open>The first part \<open>token=...\<close> of the query.\<close>

definition query_token :: "string \<Rightarrow> string option" where
  "query_token query =
     (case filter (starts_with ''token='') (split_on CHR ''&'' (filter is_ascii query)) of
        [] \<Rightarrow> None
      | part # _ \<Rightarrow> Some (after CHR ''='' part))"

definition inject_bearer :: "asgi_scope \<Rightarrow> asgi_scope" where
  "inject_bearer scope =
     (if as_type scope \<noteq> ''http'' \<or> list_ex (\<lambda>(k, v). py_lower k = ''authorization'') (as_headers scope) then scope
      else if truthy_str (query_token (as_query scope))
      then scope\<lparr>as_headers := as_headers scope @ [(''authorization'', ''Bearer '' @ the (query_token (as_query scope)))]\<rparr>
      else scope)"

definition normalize_scope_path :: "string \<Rightarrow> asgi_scope \<Rightarrow> asgi_scope" where
  "normalize_scope_path base_path scope =
     (let base = (if strip_slashes base_path = [] then ''/'' else strip_slashes base_path)
      in if as_type scope = ''http'' \<and> (as_path scope = base \<or> as_path scope = with_slash base)
         then scope\<lparr>as_path := with_slash base\<rparr> else scope)"

section \<open>The server\<close>

definition require_mcp_config :: "root_config \<Rightarrow> pyexc + mcp_config" where
  "require_mcp_config config = (case rt_mcp config of
       None \<Rightarrow> Inl (RuntimeError ''MCP is disabled in the current configuration.'')
     | Some m \<Rightarrow> Inr m)"

text \<open>The tokens the server accepts, with their client ids.\<close>

definition build_auth :: "mcp_config \<Rightarrow> (string, string) pydict option" where
  "build_auth m = (if truthy_str (mc_auth_key m) then Some [(the (mc_auth_key m), ''celery_root_mcp'')] else None)"

definition require_auth :: "mcp_config \<Rightarrow> pyexc + (string, string) pydict" where
  "require_auth m = (case build_auth m of
       None \<Rightarrow> Inl (RuntimeError ''CELERY_ROOT_MCP_AUTH_KEY must be set when MCP is enabled.'')
     | Some tokens \<Rightarrow> Inr tokens)"

record mcp_server =
  ms_tokens :: "(string, string) pydict"
  ms_base_path :: string
  ms_url :: string
  ms_health_path :: string

definition create_mcp_server :: "(string \<Rightarrow> bool) \<Rightarrow> root_config \<Rightarrow> pyexc + mcp_server" where
  "create_mcp_server installed config =
     ebind (require_mcp_config config) (\<lambda>m.
     ebind (require_optional_scope installed ''mcp'') (\<lambda>_.
     ebind (require_auth m) (\<lambda>tokens.
     let base = mcp_path (mc_path m)
     in Inr \<lparr>ms_tokens = tokens, ms_base_path = base, ms_url = build_mcp_url m,
          ms_health_path = (if base = ''/'' then ''/health'' else base @ ''/health'')\<rparr>)))"

text \<open>The ASGI app: the server, the path it is mounted at, and what it is given of a request.\<close>

definition create_asgi_app :: "(string \<Rightarrow> bool) \<Rightarrow> root_config \<Rightarrow> pyexc + (mcp_server \<times> string \<times> (asgi_scope \<Rightarrow> asgi_scope))" where
  "create_asgi_app installed config =
     ebind (require_mcp_config config) (\<lambda>m.
     ebind (require_optional_scope installed ''mcp'') (\<lambda>_.
     ebind (create_mcp_server installed config) (\<lambda>server.
     let base = mcp_path (mc_path m)
     in Inr (server, with_slash base, \<lambda>scope. normalize_scope_path base (inject_bearer scope)))))"

section \<open>Health\<close>

record health_payload =
  hp_status :: string
  hp_mcp_url :: string
  hp_health_url :: string
  hp_path :: string

definition mcp_health_payload :: "mcp_server \<Rightarrow> health_payload" where
  "mcp_health_payload s = \<lparr>hp_status = ''ok'', hp_mcp_url = ms_url s, hp_health_url = ms_url s @ ''health'', hp_path = ms_base_path s\<rparr>"

datatype health_reply = InvalidToken | InsufficientScope string | Healthy health_payload

text \<open>The health route: \<open>scopes\<close> of an authenticated user (None without one), and the scopes the verifier requires.\<close>

definition mcp_health_check :: "mcp_server \<Rightarrow> string list \<Rightarrow> string list option \<Rightarrow> health_reply" where
  "mcp_health_check s required scopes = (case scopes of
       None \<Rightarrow> InvalidToken
     | Some granted \<Rightarrow> (case filter (\<lambda>r. r \<notin> set granted) required of
           r # _ \<Rightarrow> InsufficientScope r
         | [] \<Rightarrow> Healthy (mcp_health_payload s)))"

definition health_status :: "health_reply \<Rightarrow> nat" where
  "health_status r = (case r of InvalidToken \<Rightarrow> 401 | InsufficientScope s \<Rightarrow> 403 | Healthy p \<Rightarrow> 200)"

section \<open>The catalog\<close>

definition DB_TABLE_CATALOG :: "(string, string) pydict" where
  "DB_TABLE_CATALOG =
     [(''tasks'', ''Latest task state (one row per task_id).''),
      (''task_events'', ''Raw task event stream (state transitions and timings).''),
      (''task_relations'', ''Edges between tasks in a workflow graph.''),
      (''workers'', ''Latest worker status, heartbeat, queues, and registered tasks.''),
      (''worker_events'', ''Raw worker event stream (online/offline/heartbeat).''),
      (''broker_queue_events'', ''Queue depth snapshots per broker/queue.''),
      (''schedules'', ''Beat schedules stored in the DB.''),
      (''schema_version'', ''Database schema version tracker.'')]"

text \<open>The examples: description, query, parameters.\<close>

definition DB_QUERY_EXAMPLES :: "(string \<times> string \<times> (string, string) pydict) list" where
  "DB_QUERY_EXAMPLES =
     [(''Recent tasks (latest 50).'',
       ''SELECT task_id, name, state, worker, started, finished, runtime '' @
       ''FROM tasks ORDER BY finished DESC LIMIT 50;'', []),
      (''Latest task events (latest 50).'',
       ''SELECT task_id, name, state, worker, timestamp FROM task_events ORDER BY timestamp DESC LIMIT 50;'', []),
      (''Workers overview.'',
       ''SELECT hostname, status, last_heartbeat, active_tasks, pool_size FROM workers ORDER BY hostname;'', []),
      (''Queue depth snapshots (latest 50).'',
       ''SELECT broker_url, queue, messages, consumers, timestamp '' @
       ''FROM broker_queue_events ORDER BY timestamp DESC LIMIT 50;'', []),
      (''Beat schedules.'',
       ''SELECT schedule_id, name, task, schedule, enabled, last_run_at, total_run_count '' @
       ''FROM schedules ORDER BY name;'', []),
      (''Task relations for a workflow root id.'',
       ''SELECT root_id, parent_id, child_id, relation FROM task_relations WHERE root_id = :root_id;'',
       [(''root_id'', ''<root-id>'')])]"

section \<open>Task statistics\<close>

definition mcp_percentile :: "rat list \<Rightarrow> rat \<Rightarrow> rat option" where
  "mcp_percentile vs pct =
     (if vs = [] then None
      else if pct \<le> 0 then Some (vs ! 0)
      else if 1 \<le> pct then Some (last vs)
      else let index = of_nat (length vs - 1) * pct;
               lower = nat \<lfloor>index\<rfloor>;
               upper = min (lower + 1) (length vs - 1)
           in if lower = upper then Some (vs ! lower)
              else (let weight = index - of_nat lower in Some (vs ! lower + (vs ! upper - vs ! lower) * weight)))"

record task_stats_row =
  mr_name :: string
  mr_count :: nat
  mr_avg :: "rat option"
  mr_p95 :: "rat option"
  mr_p99 :: "rat option"
  mr_min :: "rat option"
  mr_max :: "rat option"

definition group_task :: "task \<Rightarrow> (string, task list) pydict \<Rightarrow> (string, task list) pydict" where
  "group_task t grouped = (let name = or_str (tk_name t) ''unknown'' in dset name (dget_or grouped name [] @ [t]) grouped)"

definition stats_of_group :: "string \<times> task list \<Rightarrow> task_stats_row" where
  "stats_of_group = (\<lambda>(name, group).
     let vs = sort (List.map_filter tk_runtime group); present = (\<lambda>x. if vs = [] then None else x)
     in \<lparr>mr_name = name, mr_count = length group, mr_avg = present (Some (sum_list vs / of_nat (length vs))),
          mr_p95 = present (mcp_percentile vs (95 / 100)), mr_p99 = present (mcp_percentile vs (99 / 100)),
          mr_min = present (Some (hd vs)), mr_max = present (Some (last vs))\<rparr>)"

definition stats_order :: "task_stats_row \<Rightarrow> sql_value list" where
  "stats_order r = [SNum (- of_nat (mr_count r)), SText (mr_name r)]"

definition fetch_task_stats :: "task list \<Rightarrow> task_stats_row list" where
  "fetch_task_stats tasks = sort_asc_key stats_order (map stats_of_group (fold group_task tasks []))"

section \<open>Tools\<close>

text \<open>A client method made of a request: \<open>get_schema\<close>, \<open>get_db_info\<close> and \<open>raw_query\<close>, whose request pydantic
  validates (200 rows when no number is given, at most 1000).\<close>

definition raw_query_request :: "string \<Rightarrow> (pyval \<times> pyval) list option \<Rightarrow> int option \<Rightarrow> call_error + rpc_request" where
  "raw_query_request query params max_rows =
     (let n = (case max_rows of None \<Rightarrow> 200 | Some n \<Rightarrow> n)
      in case validate_query query of
          Inl e \<Rightarrow> Inl (Raised ValidationError)
        | Inr cleaned \<Rightarrow> (if 1 \<le> n \<and> n \<le> 1000 then Inr (RawQueryRequest cleaned params n) else Inl (Raised ValidationError)))"

type_synonym db_call = "rpc_request \<Rightarrow> link \<Rightarrow> (call_error + rpc_response) \<times> link"

definition fetch_schema :: "db_call \<Rightarrow> link \<Rightarrow> (call_error + rpc_response) \<times> link" where
  "fetch_schema call lk = call SchemaRequest lk"

definition mcp_db_info :: "db_call \<Rightarrow> link \<Rightarrow> (call_error + rpc_response) \<times> link" where
  "mcp_db_info call lk = call DbInfoRequest lk"

definition db_query :: "db_call \<Rightarrow> string \<Rightarrow> (pyval \<times> pyval) list option \<Rightarrow> int option \<Rightarrow> link \<Rightarrow> (call_error + rpc_response) \<times> link" where
  "db_query call query params max_rows lk = (case raw_query_request query params max_rows of
       Inl e \<Rightarrow> (Inl e, lk)
     | Inr req \<Rightarrow> call req lk)"

text \<open>\<open>stats\<close>: the dashboard and the task statistics, from the databases at the two reads. Django is set up first.\<close>

definition ensure_django :: "(string \<Rightarrow> bool) \<Rightarrow> string option \<Rightarrow> pyexc + string" where
  "ensure_django installed settings_module =
     ebind (require_optional_scope installed ''mcp'') (\<lambda>_.
     Inr (or_str settings_module ''celery_root.components.web.settings''))"

definition mcp_stats :: "(string \<Rightarrow> bool) \<Rightarrow> string option \<Rightarrow> pyrt \<Rightarrow> (string, app) pydict \<Rightarrow> pydt \<Rightarrow> db \<Rightarrow> db \<Rightarrow>
    (pyexc + (dashboard \<times> task_stats_row list)) option" where
  "mcp_stats installed settings_module rt registry now d d' = (case ensure_django installed settings_module of
       Inl e \<Rightarrow> Some (Inl e)
     | Inr _ \<Rightarrow> map_option (\<lambda>r. ebind r (\<lambda>payload. Inr (payload, fetch_task_stats (get_tasks None d'))))
         (dashboard_stats rt registry now d))"

end
