(* ===== verification/Web_Api.thy ===== *)
theory Web_Api
  imports Task_Pages Dashboard Beat
begin

text \<open>
  The JSON endpoints (celery_root/components/web/views/api.py). A document is the value it is made of;
  \<open>fmt\<close> is the text of a time (\<open>isoformat\<close>). None is the 404 page.
\<close>

section \<open>Values\<close>

definition json_text :: "string option \<Rightarrow> pyval" where
  "json_text v = (case v of None \<Rightarrow> PNone | Some s \<Rightarrow> PStr s)"

definition json_int :: "int option \<Rightarrow> pyval" where
  "json_int v = (case v of None \<Rightarrow> PNone | Some n \<Rightarrow> PInt n)"

definition json_num :: "rat option \<Rightarrow> pyval" where
  "json_num v = (case v of None \<Rightarrow> PNone | Some x \<Rightarrow> PFloat x)"

definition format_timestamp :: "(pydt \<Rightarrow> string) \<Rightarrow> pydt option \<Rightarrow> pyval" where
  "format_timestamp fmt v = (case v of None \<Rightarrow> PNone | Some t \<Rightarrow> PStr (fmt t))"

definition json_object :: "(string, pyval) pydict \<Rightarrow> pyval" where
  "json_object d = PDict (map (\<lambda>(k, v). (PStr k, v)) d)"

section \<open>Serialisation\<close>

definition serialize_task :: "(pydt \<Rightarrow> string) \<Rightarrow> task_view \<Rightarrow> (string, pyval) pydict" where
  "serialize_task fmt t =
     [(''task_id'', PStr (tv_task_id t)), (''name'', PStr (tv_name t)), (''state'', PStr (tv_state t)),
      (''worker'', PStr (tv_worker t)), (''runtime'', json_num (tv_runtime t)),
      (''received'', format_timestamp fmt (tv_received t)), (''started'', format_timestamp fmt (tv_started t)),
      (''finished'', format_timestamp fmt (tv_finished t)), (''done'', PBool (tv_done t)),
      (''timestamp'', format_timestamp fmt (tv_timestamp t)), (''args'', PStr (tv_args t)), (''kwargs'', PStr (tv_kwargs t)),
      (''retries'', json_int (tv_retries t)), (''result'', json_text (tv_result t)),
      (''traceback'', json_text (tv_traceback t)), (''parent_id'', json_text (tv_parent_id t)),
      (''root_id'', json_text (tv_root_id t)), (''group_id'', json_text (tv_group_id t)),
      (''chord_id'', json_text (tv_chord_id t)), (''eta'', json_text (tv_eta t))]"

definition serialize_worker :: "worker_summary_row \<Rightarrow> (string, pyval) pydict" where
  "serialize_worker w =
     [(''hostname'', PStr (ws_hostname w)), (''status'', PStr (ws_status w)), (''badge'', PStr (ws_badge w)),
      (''state_cells'', PList (map (\<lambda>(s, n). json_object [(''state'', PStr s), (''count'', PInt (int n))]) (ws_state_cells w))),
      (''last_seen_seconds'', json_int (ws_last_seen_seconds w)), (''pool_size'', json_int (ws_pool_size w)),
      (''active'', PInt (ws_active w)), (''processed'', PInt (int (ws_processed w))),
      (''registered'', json_int (map_option int (ws_registered w))),
      (''queues'', (case ws_queues w of None \<Rightarrow> PNone | Some qs \<Rightarrow> PList (map PStr qs))),
      (''concurrency'', json_int (ws_concurrency w))]"

definition serialize_schedule :: "schedule \<Rightarrow> (string, pyval) pydict" where
  "serialize_schedule s =
     [(''id'', PStr (sc_schedule_id s)), (''app'', json_text (sc_app s)), (''task'', PStr (sc_task s)),
      (''name'', PStr (sc_name s)), (''schedule'', PStr (sc_schedule s)), (''enabled'', PBool (sc_enabled s))]"

definition serialize_point :: "string \<times> nat \<Rightarrow> pyval" where
  "serialize_point = (\<lambda>(label, n). json_object [(''label'', PStr label), (''count'', PInt (int n))])"

section \<open>Endpoints\<close>

definition listing :: "string \<Rightarrow> ('a \<Rightarrow> pyval) \<Rightarrow> 'a list \<Rightarrow> pyval" where
  "listing key f xs = json_object [(key, PList (map f xs))]"

definition build_tasks :: "task_filter option \<Rightarrow> db \<Rightarrow> task_view list" where
  "build_tasks filters d = map task_to_view (get_tasks filters d)"

definition fetch_task :: "db \<Rightarrow> string \<Rightarrow> task_view option" where
  "fetch_task d task_id = map_option task_to_view (get_task task_id d)"

definition api_tasks :: "(pydt \<Rightarrow> string) \<Rightarrow> db \<Rightarrow> pyval" where
  "api_tasks fmt d = listing ''tasks'' (\<lambda>t. json_object (serialize_task fmt t)) (build_tasks None d)"

definition api_task_detail :: "(pydt \<Rightarrow> string) \<Rightarrow> db \<Rightarrow> string \<Rightarrow> pyval option" where
  "api_task_detail fmt d task_id = map_option (\<lambda>t. json_object (serialize_task fmt t)) (fetch_task d task_id)"

definition api_task_relations :: "db \<Rightarrow> string \<Rightarrow> pyval option" where
  "api_task_relations d task_id = (case get_task task_id d of
       None \<Rightarrow> None
     | Some t \<Rightarrow> Some (listing ''relations''
         (\<lambda>r. json_object [(''parent'', json_text (rel_parent_id r)), (''child'', PStr (rel_child_id r)), (''relation'', PStr (rel_relation r))])
         (get_task_relations (or_str (tk_root_id t) (tk_task_id t)) d)))"

definition api_worker_list :: "pyrt \<Rightarrow> pydt \<Rightarrow> db \<Rightarrow> pyval" where
  "api_worker_list rt now d = listing ''workers'' (\<lambda>w. json_object (serialize_worker w)) (worker_rows rt now d)"

definition api_stats_throughput :: "pydt \<Rightarrow> db \<Rightarrow> (pyexc + pyval) option" where
  "api_stats_throughput now d =
     map_option (\<lambda>r. ebind r (\<lambda>series. Inr (listing ''series'' serialize_point series))) (throughput_series now d)"

definition api_stats_state :: "pydt \<Rightarrow> db \<Rightarrow> pyval" where
  "api_stats_state now d = listing ''states'' serialize_point (state_series (state_cards now d))"

definition HEATMAP_DAYS :: nat where "HEATMAP_DAYS = 7"

text \<open>\<open>heatmap[-1:] + heatmap[:-1]\<close>\<close>

definition last_first :: "'a list \<Rightarrow> 'a list" where
  "last_first xs = (if xs = [] then [] else last xs # butlast xs)"

definition api_heatmap_rows :: "pydt \<Rightarrow> db \<Rightarrow> nat list list" where
  "api_heatmap_rows now d =
     (let heatmap = get_heatmap (Some \<lparr>tr_start = ago (7 * us_per_day) now, tr_end = now\<rparr>) d
      in if length heatmap = HEATMAP_DAYS then last_first heatmap else heatmap)"

definition api_stats_heatmap :: "pydt \<Rightarrow> db \<Rightarrow> pyval" where
  "api_stats_heatmap now d = listing ''heatmap'' (\<lambda>row. PList (map (\<lambda>n. PInt (int n)) row)) (api_heatmap_rows now d)"

definition api_events_latest :: "(pydt \<Rightarrow> string) \<Rightarrow> pydt \<Rightarrow> db \<Rightarrow> pyval" where
  "api_events_latest fmt now d = listing ''events''
     (\<lambda>a. json_object [(''task'', PStr (ai_task a)), (''state'', PStr (ai_state a)), (''worker'', PStr (ai_worker a)),
        (''timestamp'', PStr (fmt (ai_timestamp a)))]) (activity_feed now d)"

definition api_beat_schedules :: "pyrt \<Rightarrow> (rat \<Rightarrow> string) \<Rightarrow> 'w django_models \<Rightarrow> app list \<Rightarrow> 'w \<times> db \<Rightarrow> pyexc + pyval" where
  "api_beat_schedules rt show_float dm apps wd =
     ebind (list_rows rt show_float dm apps wd) (\<lambda>rows. Inr (listing ''schedules'' (\<lambda>s. json_object (serialize_schedule s)) rows))"

end
