(* ===== verification/Mcp_Facts.thy ===== *)
theory Mcp_Facts
  imports Mcp_Server Web_Api Task_Page_Facts
begin

text \<open>
  The MCP server next to the web pages: one address, the token of the settings page opens the server, the same
  task statistics, queries the database accepts; and the heat map of the API.
\<close>

section \<open>Addresses\<close>

lemma normalized_path: "starts_with ''/'' (normalize_mcp_path p)" "py_strip (normalize_mcp_path p) = normalize_mcp_path p"
proof -
  show "starts_with ''/'' (normalize_mcp_path p)" by (simp add: normalize_mcp_path_def Let_def)
  have "py_strip (CHR ''/'' # py_strip p) = CHR ''/'' # py_strip p" if "py_strip p \<noteq> []"
    using that py_strip_ends[of p] by (intro py_strip_id) (auto simp: is_space_def no_trail_def)
  moreover have "py_strip (py_strip p) = py_strip p"
    using py_strip_ends[of p] by (intro py_strip_id) auto
  moreover have "py_strip ''/mcp/'' = ''/mcp/''" by code_simp
  ultimately show "py_strip (normalize_mcp_path p) = normalize_mcp_path p" by (simp add: normalize_mcp_path_def Let_def)
qed

lemma strip_slashes_last: "strip_slashes s = [] \<or> last (strip_slashes s) \<noteq> CHR ''/''"
  by (cases "dropWhile (\<lambda>c. c = CHR ''/'') (rev s)")
    (use hd_dropWhile[of "\<lambda>c. c = CHR ''/''" "rev s"] in \<open>auto simp: strip_slashes_def rstrip_by_def last_rev\<close>)

lemma slash_last: "strip_slashes s \<noteq> ''/''"
  using strip_slashes_last[of s] by auto

lemma strip_slashes_again: "strip_slashes (strip_slashes s) = strip_slashes s"
  unfolding strip_slashes_def rstrip_by_def rev_rev_ident by (simp add: dropWhile_idem)

lemma ends_slash: "ends_with ''/'' s \<longleftrightarrow> s \<noteq> [] \<and> last s = CHR ''/''"
  by (cases s rule: rev_cases) (auto simp: ends_with_def)

text \<open>The path of a validated section, as the server and the pages write it.\<close>

lemma validated_path:
  assumes "validate_mcp c = Inr m"
  shows "mcp_path (mc_path m) = (if strip_slashes (mc_path m) = [] then ''/'' else strip_slashes (mc_path m))"
    and "slash_path (mc_path m) = mc_path m" and "mc_path m \<noteq> []"
proof -
  have m: "mc_path m = normalize_mcp_path (mc_path c)" using assms by (auto simp: validate_mcp_def split: if_splits)
  show slash: "slash_path (mc_path m) = mc_path m" using normalized_path(1) by (simp add: slash_path_def m)
  show "mc_path m \<noteq> []" using normalized_path(1)[of "mc_path c"] by (auto simp: m)
  show "mcp_path (mc_path m) = (if strip_slashes (mc_path m) = [] then ''/'' else strip_slashes (mc_path m))"
    using slash normalized_path(2)[of "mc_path c"] unfolding m[symmetric] by (simp add: mcp_path_def Let_def)
qed

lemma mount_path:
  assumes "validate_mcp c = Inr m"
  shows "with_slash (mcp_path (mc_path m)) = strip_slashes (mc_path m) @ ''/''"
  unfolding validated_path(1)[OF assms] using slash_last[of "mc_path m"] by (simp add: with_slash_def)

lemma built_url:
  assumes "validate_mcp c = Inr m"
  shows "build_mcp_url m = http_url (bracket_host (local_host (mc_host m))) (mc_port m) (with_slash (mcp_path (mc_path m)))"
  unfolding build_mcp_url_def Let_def validated_path(1)[OF assms]
  using slash_last[of "mc_path m"] strip_slashes_last[of "mc_path m"] by (auto simp: with_slash_def ends_slash)

lemma http_url_inject: "http_url h p x = http_url h' p x \<longleftrightarrow> h = h'"
  by (simp add: http_url_def)

text \<open>The components page and the server give one address of the MCP server. The settings page gives it as
  well, but only for a host that is neither a wildcard nor an IPv6 address without brackets; for these the
  commands it shows lead nowhere.\<close>

theorem mcp_urls_agree:
  assumes "validate_mcp c = Inr m" and "rt_mcp config = Some m"
  shows "component_mcp_url config = build_mcp_url m \<and>
     (settings_mcp_url web config = build_mcp_url m \<longleftrightarrow> bracket_host (local_host (mc_host m)) = mc_host m)"
proof
  note path = validated_path(2,3)[OF assms(1)]
  show "component_mcp_url config = build_mcp_url m"
    by (simp add: component_mcp_url_def assms(2) path Let_def built_url[OF assms(1)] mount_path[OF assms(1)])
  have "settings_mcp_url web config = http_url (mc_host m) (mc_port m) (with_slash (mcp_path (mc_path m)))"
    by (simp add: settings_mcp_url_def shown_mcp_def assms(2) path Let_def mount_path[OF assms(1)])
  then show "settings_mcp_url web config = build_mcp_url m \<longleftrightarrow> bracket_host (local_host (mc_host m)) = mc_host m"
    by (simp only: built_url[OF assms(1)] http_url_inject eq_commute)
qed

definition open_mcp :: mcp_config where
  "open_mcp = default_mcp\<lparr>mc_host := ''0.0.0.0'', mc_auth_key := Some ''s3cret''\<rparr>"

definition open_config :: root_config where
  "open_config = (default_config ''/tmp/s'' ''k'')\<lparr>rt_mcp := Some open_mcp\<rparr>"

lemma mcp_urls_agree_witness:
  "component_mcp_url open_config = build_mcp_url open_mcp \<and> settings_mcp_url default_mcp open_config \<noteq> build_mcp_url open_mcp"
proof -
  have "validate_mcp open_mcp = Inr open_mcp" by code_simp
  moreover have "rt_mcp open_config = Some open_mcp" by (simp add: open_config_def)
  moreover have "bracket_host (local_host (mc_host open_mcp)) \<noteq> mc_host open_mcp" by code_simp
  ultimately show ?thesis using mcp_urls_agree by blast
qed

section \<open>Tokens\<close>

lemma query_token_of:
  assumes "CHR ''&'' \<notin> set k" and "list_all is_ascii k"
  shows "query_token (''token='' @ k) = Some k" and "query_token (''token='' @ k @ CHR ''&'' # rest) = Some k"
proof -
  have a: "filter is_ascii (''token='' @ k) = ''token='' @ k"
    using assms(2) by (simp add: is_ascii_def filter_id_conv list_all_iff)
  have n: "CHR ''&'' \<notin> set (''token='' @ k)" using assms(1) by simp
  show "query_token (''token='' @ k) = Some k"
    unfolding query_token_def a split_on_none[OF n] by (simp add: after_def)
  have "filter is_ascii (''token='' @ k @ CHR ''&'' # rest) = (''token='' @ k) @ CHR ''&'' # filter is_ascii rest"
    using a by (simp add: is_ascii_def)
  then show "query_token (''token='' @ k @ CHR ''&'' # rest) = Some k"
    unfolding query_token_def by (simp only: split_on_append[OF n]) (simp add: after_def)
qed


text \<open>A key with an ampersand is cut there, so the command of the settings page does not authenticate.\<close>

lemma token_cut_at_ampersand: "query_token ''token=ab&cd'' = Some ''ab''"
  by code_simp


section \<open>Statistics\<close>

lemma grouped_by_name:
  "dict_ok g \<Longrightarrow> dict_ok (fold group_task ts g) \<and> fst ` set (fold group_task ts g) = fst ` set g \<union> stats_name ` set ts \<and>
     dget_or (fold group_task ts g) n [] = dget_or g n [] @ named n ts"
  by (induction ts arbitrary: g) (auto simp: group_task_def Let_def stats_name_def named_def dget_or_dset)

lemma groups_of_names:
  "set (fold group_task ts []) = (\<lambda>n. (n, named n ts)) ` stats_name ` set ts" "dict_ok (fold group_task ts [])"
proof -
  let ?g = "fold group_task ts []"
  note g = grouped_by_name[of "[]" ts]
  show ok: "dict_ok ?g" using g by (simp add: dict_ok_def)
  have get: "dget_or ?g n [] = named n ts" for n using g by (simp add: dict_ok_def dget_or_def)
  have keys: "fst ` set ?g = stats_name ` set ts" using g by (simp add: dict_ok_def)
  have each: "ys = named n ts" if "(n, ys) \<in> set ?g" for n ys
    using ok that get[of n] by (simp add: dict_ok_def dget_or_def)
  show "set ?g = (\<lambda>n. (n, named n ts)) ` stats_name ` set ts"
    unfolding keys[symmetric] image_image using each by (auto simp: image_iff) force
qed

text \<open>The columns both have.\<close>

definition page_columns :: "stats_row \<Rightarrow> task_stats_row" where
  "page_columns r = \<lparr>mr_name = sr_name r, mr_count = sr_count r, mr_avg = sr_avg r, mr_p95 = sr_p95 r, mr_p99 = sr_p99 r,
     mr_min = sr_min r, mr_max = sr_max r\<rparr>"

lemma same_percentile: "mcp_percentile vs pct = view_percentile vs pct"
  by (simp add: mcp_percentile_def view_percentile_def)

lemma columns_agree: "stats_of_group (n, named n ts) = page_columns (row_for ts n)"
  by (simp add: stats_of_group_def page_columns_def row_for_def stats_row_of_def same_percentile dget_or_def Let_def)
    (simp add: view_percentile_def)

lemma sorted_stats_order: "stats_order a \<le> stats_order b \<Longrightarrow> mr_count b \<le> mr_count a"
  by (auto simp: stats_order_def Cons_le_Cons less_le split: if_splits)

text \<open>C39: The task statistics of the MCP server are the rows of the statistics tab of the task page, one per name,
  the most frequent names first.\<close>

theorem mcp_stats_as_page:
  "mset (fetch_task_stats ts) = mset (map page_columns (build_stats_rows ts)) \<and> distinct (map mr_name (fetch_task_stats ts)) \<and>
   sorted_wrt (\<lambda>a b. mr_count b \<le> mr_count a) (fetch_task_stats ts)"
proof (intro conjI)
  let ?g = "fold group_task ts []"
  have names: "map mr_name (map stats_of_group ?g) = map fst ?g"
    by (simp add: stats_of_group_def Let_def split: prod.splits)
  have d: "distinct (map mr_name (map stats_of_group ?g))" unfolding names using groups_of_names(2) by (simp add: dict_ok_def)
  have page: "distinct (map mr_name (map page_columns (build_stats_rows ts)))"
    using stats_rows_named[of ts] by (simp add: comp_def page_columns_def)
  have "set (map stats_of_group ?g) = set (map page_columns (build_stats_rows ts))"
    unfolding set_map groups_of_names(1) stats_rows_named[THEN conjunct1] image_image columns_agree ..
  then have "mset (map stats_of_group ?g) = mset (map page_columns (build_stats_rows ts))"
    using d page by (simp only: set_eq_iff_mset_eq_distinct[symmetric] distinct_map)
  then show "mset (fetch_task_stats ts) = mset (map page_columns (build_stats_rows ts))"
    by (simp add: fetch_task_stats_def)
  have "mset (map mr_name (fetch_task_stats ts)) = mset (map mr_name (map stats_of_group ?g))"
    by (simp only: mset_map fetch_task_stats_def mset_sort_asc_key)
  then show "distinct (map mr_name (fetch_task_stats ts))" using d by (metis mset_eq_imp_distinct_iff)
  have "sorted_wrt (\<lambda>a b. stats_order a \<le> stats_order b) (fetch_task_stats ts)"
    using sorted_sort_asc_key unfolding fetch_task_stats_def sorted_wrt_map by blast
  then show "sorted_wrt (\<lambda>a b. mr_count b \<le> mr_count a) (fetch_task_stats ts)"
    by (rule sorted_wrt_mono_rel[rotated]) (rule sorted_stats_order)
qed

section \<open>Queries\<close>


text \<open>Every example of the catalog is accepted.\<close>

lemma catalog_accepted: "list_all (\<lambda>(d, q, ps). case raw_query_request q None None of Inl e \<Rightarrow> False | Inr r \<Rightarrow> True) DB_QUERY_EXAMPLES"
  by code_simp

section \<open>The heat map\<close>

text \<open>The API shows Sunday first: row \<open>k\<close> of the heat map is row \<open>k + 1\<close> of the answer.\<close>

lemma api_heatmap_sunday_first:
  assumes "i < 7" and "j < 24"
  shows "api_heatmap_rows now d ! (Suc i mod 7) ! j =
     length (filter (in_cell i j) (filter_tasks None (Some \<lparr>tr_start = ago (7 * us_per_day) now, tr_end = now\<rparr>) d))"
proof -
  define hm where "hm = get_heatmap (Some \<lparr>tr_start = ago (7 * us_per_day) now, tr_end = now\<rparr>) d"
  have hm: "length hm = 7" "hm ! i ! j = length (filter (in_cell i j)
      (filter_tasks None (Some \<lparr>tr_start = ago (7 * us_per_day) now, tr_end = now\<rparr>) d))"
    using heatmap_exact[OF assms] by (simp_all add: hm_def heat_shape_def)
  have "api_heatmap_rows now d = last hm # butlast hm"
    using hm(1) by (auto simp: api_heatmap_rows_def hm_def[symmetric] HEATMAP_DAYS_def last_first_def)
  moreover have "(last hm # butlast hm) ! (Suc i mod 7) = hm ! i"
  proof (cases "i = 6")
    case True
    have "hm \<noteq> []" using hm(1) by auto
    then show ?thesis using hm(1) True by (simp add: last_conv_nth)
  next
    case False then show ?thesis using hm(1) assms(1) by (simp add: nth_butlast)
  qed
  ultimately show ?thesis using hm(2) by simp
qed

end
