(* ===== verification/Spec2Isabelle.thy ===== *)
theory Spec2Isabelle
  imports Store_System Task_Queries Reconciler Retry Process_Manager Metrics_Equivalence Web_Auth Task_Graph Beat Task_Page_Facts Task_Form_Facts Dashboard_Facts Mcp_Facts
begin

text \<open>
  A model of celery_root, a monitor and management console for Celery clusters, with the theorems that
  make its parts correct. Source paths are relative to celery_root/ in the repository.

  The program. A supervisor (core/process_manager.py) runs one process per component. The database
  manager (core/db/manager.py) alone opens the SQLite file (core/db/adapters/sqlite) and answers RPC
  requests (core/db/dispatch.py, shared/schemas/rpc.py); every other process talks to it with the client
  of core/db/rpc_client.py. One event listener per broker (core/event_listener.py) turns Celery events into
  task events, worker events and relations, stores them, and copies them to the bounded queues of the
  metrics exporters (components/metrics). The reconciler (core/reconciler.py) inspects workers and queues
  and recovers lost outcomes from result backends. The web interface (components/web) authenticates
  (auth.py), shows tasks and their graphs, and edits beat schedules; the beat process reads these from
  the database (components/beat). core/engine acts on tasks.

  Theories. Prelude: strings, dictionaries and exceptions of Python. Domain: dynamic values, datetimes
  and the models of shared/schemas/domain.py. Toy_Runtime: a runtime for the witnesses.
  Store_Base, Store_Tasks, Store_Workers, Store_Stats, Store_Throughput: \<open>SQLiteController\<close>, one
  definition per statement or query, on the record \<open>db\<close> of its tables. Store_Base has the schema and
  the migrations, Store_Tasks \<open>store_task_event\<close> and the task queries, Store_Workers workers, queues,
  schedules and \<open>cleanup\<close>, the last two the aggregate queries.
  Task_Lifecycle, Task_Queries, Worker_Facts: what these promise. Store_System: all writes as the step
  relation \<open>store_step\<close>, the databases \<open>reachable\<close> with it, their invariant, and upgrades.
  Rpc_Messages, Rpc_Server, Rpc_Client: messages and raw-query validator, operation table and request
  handling, and the client's attempts, calls and methods. Redaction: shared/redaction.py. Registry:
  core/registry.py. Event_Listener and Reconciler: the processes of these names. Retry:
  core/engine/retry.py. Settings: config.py, optional.py, cli.py and the bootstrap class of __init__.py.
  Process_Manager: which processes run and how they are supervised. Metrics_Base, Prometheus_Exporter,
  OTel_Exporter, Metrics_Equivalence: the two exporters. Web_Auth, Task_Graph: components/web/auth.py and
  views/graphs.py. Beat: components/beat and views/beat.py. Task_Pages, Task_Page_Facts: list,
  detail page and statistics of views/tasks.py; Task_Forms, Task_Form_Facts: its submit form, retry and revoke. Engine: core/engine/brokers, workers.py, tasks.py,
  backend.py and health.py. Web_Services: components/web/services.py. Base64_Keys, Redaction_Facts: the
  round trips of base64 and of redaction. Broker_Pages, Worker_Pages, Dashboard: the views of these names,
  with Broker_Page_Facts, Worker_Page_Facts and Dashboard_Facts.
  Web_Components, Web_Api: the components, settings, system and JSON views. Mcp_Server, Mcp_Facts:
  components/mcp/server.py.

  State and operations. A class instance is a record of its attributes, a method a function on it with
  the name of the method (without a leading underscore, with a suffix or prefix where the name is taken),
  a table of the database a list of row records. A function that may raise returns \<open>pyexc + 'a\<close>; \<open>ebind\<close>
  and \<open>efold\<close> sequence such functions. Exporter actions that raise keep what they changed before. The
  event stream, the network (a list of fates per attempt), the clocks and which processes are alive are
  inputs of the steps, so that a property speaks about every order, duplication and loss.

  Interfaces. The locale \<open>task_tracker\<close> (Task_Lifecycle) is a store whose state column follows the law
  \<open>next_state\<close>; its lemmas on streams of events (final states are kept, the state reached is the furthest
  one delivered) are proved there once. It is interpreted on the SQLite adapter (\<open>store\<close>) and on the
  ingestion handler of the RPC server (\<open>ingest\<close>, Rpc_Server); the locale \<open>task_feed\<close> extends it by
  the parsing of a raw event and is interpreted on the listener (\<open>listener\<close>, Event_Listener).

  What the lemmas show. The task table: final states absorb, the outcome does not depend on the order of
  delivery, columns are not lost, retries are a maximum. Queries: pages, search, statistics, throughput,
  heat map, queue snapshots. The database: every reachable one is well formed, whatever bytes the RPC server
  receives; any released schema is upgraded. RPC: a client call is the direct use of the database, executed
  at most once. The listener and the reconciler feed the store correctly. The two exporters agree, by a
  simulation for every queue of events. The supervisor keeps exactly one process per configured name.
  Authentication: a protected page needs vetted credentials. Retry and task graph: exactly the stored
  relations. Beat: a schedule that never ran and has an interval of at least the refresh interval is not
  sent. Pages: what they list, count and sort is what the database holds; keys lead to their pages; passwords
  are redacted, and redacting twice changes nothing. The MCP server opens with the key the settings page shows
  and reports the statistics the task page shows. Some theorems state the code as it is where it is not what it means to do; they are listed as findings.

  Bounds and fuel. Loops over data are structural recursion. The breadth-first search of Retry has a
  measure; the pages of the GitLab API are bounded by the source's own page limit; the bucket loop of the
  throughput query is \<open>partial_function (option)\<close> with None for a loop that does not end, and the
  properties show when it ends and when it does not.

  Idealisations. Text is ASCII. Floats are exact rationals without NaN and infinities. \<open>float()\<close>, \<open>int()\<close>,
  \<open>str()\<close> of arbitrary values, JSON and ISO dates are the record \<open>pyrt\<close>; pydantic's encoding is the record
  \<open>codec\<close> with the hypothesis that decoding inverts encoding. SQLite drops the offset of a datetime bound to
  a column. SQLAlchemy's inspector and raw execution, OAuth providers, result backends, inspectors, celery's
  tick, django-celery-beat and the metrics clients are parameters or recorded calls.

  Not modelled. Sockets, threads, signals and logging; Django's rendering, routing and session storage;
  the templates, the static files and the graph front end (JavaScript and TypeScript); FastMCP; demo/ and the build files.
\<close>

end
